(* ===== verification/Prelude.thy ===== *)
theory Prelude
  imports Complex_Main "HOL-Library.Char_ord" "HOL-Library.Code_Target_Numeral"
begin

text \<open>
  Shared vocabulary of the development: operations that read and update a state and may
  fail with an error (a service method that throws), the table abstraction behind the
  Prisma models (rows in insertion order and the autoincrement counter), JavaScript
  strings and numbers as far as the services use them, and the lemmas about these that
  every component relies on.
\<close>

section \<open>Operations with state and errors\<close>

text \<open>
  A service method takes the state, returns a value or throws, and leaves a state in both
  cases: an exception does not undo writes that were committed before it.
\<close>

type_synonym ('s, 'e, 'a) op = "'s \<Rightarrow> ('e + 'a) \<times> 's"

definition ret :: "'a \<Rightarrow> ('s, 'e, 'a) op" where
  "ret a = (\<lambda>s. (Inr a, s))"

definition throw :: "'e \<Rightarrow> ('s, 'e, 'a) op" where
  "throw e = (\<lambda>s. (Inl e, s))"

definition bind :: "('s, 'e, 'a) op \<Rightarrow> ('a \<Rightarrow> ('s, 'e, 'b) op) \<Rightarrow> ('s, 'e, 'b) op" where
  "bind m f = (\<lambda>s. case m s of (Inl e, t) \<Rightarrow> (Inl e, t) | (Inr a, t) \<Rightarrow> f a t)"

definition reads :: "('s \<Rightarrow> 'a) \<Rightarrow> ('s, 'e, 'a) op" where
  "reads f = (\<lambda>s. (Inr (f s), s))"

definition modify :: "('s \<Rightarrow> 's) \<Rightarrow> ('s, 'e, unit) op" where
  "modify f = (\<lambda>s. (Inr (), f s))"

definition update_ret :: "('s \<Rightarrow> 'a \<times> 's) \<Rightarrow> ('s, 'e, 'a) op" where
  "update_ret f = (\<lambda>s. let (a, t) = f s in (Inr a, t))"

definition ensure :: "bool \<Rightarrow> 'e \<Rightarrow> ('s, 'e, unit) op" where
  "ensure c e = (if c then ret () else throw e)"

definition the_or :: "'e \<Rightarrow> 'a option \<Rightarrow> ('s, 'e, 'a) op" where
  "the_or e x = (case x of None \<Rightarrow> throw e | Some a \<Rightarrow> ret a)"

definition when_op :: "bool \<Rightarrow> ('s, 'e, unit) op \<Rightarrow> ('s, 'e, unit) op" where
  "when_op c m = (if c then m else ret ())"

primrec for_each :: "'a list \<Rightarrow> ('a \<Rightarrow> ('s, 'e, unit) op) \<Rightarrow> ('s, 'e, unit) op" where
  "for_each [] f = ret ()"
| "for_each (x # xs) f = bind (f x) (\<lambda>_. for_each xs f)"

primrec map_each :: "'a list \<Rightarrow> ('a \<Rightarrow> ('s, 'e, 'b) op) \<Rightarrow> ('s, 'e, 'b list) op" where
  "map_each [] f = ret []"
| "map_each (x # xs) f = bind (f x) (\<lambda>y. bind (map_each xs f) (\<lambda>ys. ret (y # ys)))"

lemma bind_ret [simp]: "bind (ret a) f = f a"
  by (simp add: bind_def ret_def)

lemma bind_throw [simp]: "bind (throw e) f = throw e"
  by (simp add: bind_def throw_def)

lemma bind_ret_right [simp]: "bind m ret = m"
  by (auto simp: bind_def ret_def fun_eq_iff split: prod.splits sum.splits)

lemma bind_assoc: "bind (bind m f) g = bind m (\<lambda>x. bind (f x) g)"
  by (auto simp: bind_def fun_eq_iff split: prod.splits sum.splits)

lemma ret_app [simp]: "ret a s = (Inr a, s)"
  by (simp add: ret_def)

lemma throw_app [simp]: "throw e s = (Inl e, s)"
  by (simp add: throw_def)

lemma reads_app [simp]: "reads f s = (Inr (f s), s)"
  by (simp add: reads_def)

lemma modify_app [simp]: "modify f s = (Inr (), f s)"
  by (simp add: modify_def)

lemma update_ret_app: "update_ret f s = (Inr (fst (f s)), snd (f s))"
  by (simp add: update_ret_def split: prod.splits)

lemma ensure_simps [simp]: "ensure True e = ret ()" "ensure False e = throw e"
  by (simp_all add: ensure_def)

lemma the_or_simps [simp]: "the_or e None = throw e" "the_or e (Some a) = ret a"
  by (simp_all add: the_or_def)

lemma when_op_simps [simp]: "when_op True m = m" "when_op False m = ret ()"
  by (simp_all add: when_op_def)

lemma bind_reads [simp]: "bind (reads g) f s = f (g s) s"
  by (simp add: bind_def)

lemma bind_modify [simp]: "bind (modify g) f s = f () (g s)"
  by (simp add: bind_def)

lemma bind_update_ret: "bind (update_ret g) f s = f (fst (g s)) (snd (g s))"
  by (simp add: bind_def update_ret_app)

text \<open>What it takes for a sequence to succeed, and to fail.\<close>

lemma bind_Inr: "bind m f s = (Inr b, t) \<longleftrightarrow> (\<exists>a u. m s = (Inr a, u) \<and> f a u = (Inr b, t))"
  by (auto simp: bind_def split: prod.splits sum.splits)

lemma bind_Inl: "bind m f s = (Inl e, t) \<longleftrightarrow>
    m s = (Inl e, t) \<or> (\<exists>a u. m s = (Inr a, u) \<and> f a u = (Inl e, t))"
  by (auto simp: bind_def split: prod.splits sum.splits)

lemma ensure_Inr [simp]: "ensure c e s = (Inr u, t) \<longleftrightarrow> c \<and> t = s"
  by (auto simp: ensure_def)

lemma ensure_Inl [simp]: "ensure c e s = (Inl e', t) \<longleftrightarrow> \<not> c \<and> e' = e \<and> t = s"
  by (auto simp: ensure_def)

lemma the_or_Inr [simp]: "the_or e x s = (Inr a, t) \<longleftrightarrow> x = Some a \<and> t = s"
  by (auto simp: the_or_def split: option.splits)

lemma the_or_Inl [simp]: "the_or e x s = (Inl e', t) \<longleftrightarrow> x = None \<and> e' = e \<and> t = s"
  by (auto simp: the_or_def split: option.splits)

lemma bind_ensure: "bind (ensure c e) f s = (if c then f () s else (Inl e, s))"
  by (simp add: ensure_def)

lemma bind_the_or: "bind (the_or e x) f s = (case x of None \<Rightarrow> (Inl e, s) | Some a \<Rightarrow> f a s)"
  by (simp add: the_or_def split: option.splits)

lemmas op_success = bind_Inr ensure_Inr the_or_Inr update_ret_app
lemmas op_eval = bind_ensure bind_the_or bind_update_ret bind_assoc

subsection \<open>What an operation keeps, and how it fails\<close>

text \<open>
  \<open>keeps I m\<close>: the operation \<open>m\<close> keeps the predicate \<open>I\<close> of the state, whether it returns
  or throws.  \<open>readonly m\<close>: it writes nothing.  \<open>clean_fail m\<close>: when it throws, it has
  written nothing.  \<open>never_fails m\<close>: it always returns.  Each comes with one rule per
  combinator, so that a goal about a whole service method is decomposed by \<open>intro\<close>.
\<close>

definition keeps :: "('s \<Rightarrow> bool) \<Rightarrow> ('s, 'e, 'a) op \<Rightarrow> bool" where
  "keeps I m \<longleftrightarrow> (\<forall>s. I s \<longrightarrow> I (snd (m s)))"

definition readonly :: "('s, 'e, 'a) op \<Rightarrow> bool" where
  "readonly m \<longleftrightarrow> (\<forall>s. snd (m s) = s)"

definition never_fails :: "('s, 'e, 'a) op \<Rightarrow> bool" where
  "never_fails m \<longleftrightarrow> (\<forall>s. \<exists>a t. m s = (Inr a, t))"

definition clean_fail :: "('s, 'e, 'a) op \<Rightarrow> bool" where
  "clean_fail m \<longleftrightarrow> (\<forall>s e t. m s = (Inl e, t) \<longrightarrow> t = s)"

named_theorems keeps_rules
named_theorems fail_rules

lemma keepsD: "keeps I m \<Longrightarrow> I s \<Longrightarrow> m s = (r, t) \<Longrightarrow> I t"
  by (metis keeps_def snd_conv)

lemma keepsI: "(\<And>s r t. I s \<Longrightarrow> m s = (r, t) \<Longrightarrow> I t) \<Longrightarrow> keeps I m"
  by (metis keeps_def prod.collapse)

lemma keeps_ret [keeps_rules]: "keeps I (ret a)"
  by (simp add: keeps_def)

lemma keeps_throw [keeps_rules]: "keeps I (throw e)"
  by (simp add: keeps_def)

lemma keeps_reads [keeps_rules]: "keeps I (reads f)"
  by (simp add: keeps_def)

lemma keeps_ensure [keeps_rules]: "keeps I (ensure c e)"
  by (simp add: ensure_def keeps_def)

lemma keeps_the_or [keeps_rules]: "keeps I (the_or e x)"
  by (simp add: the_or_def keeps_def split: option.splits)

lemma keeps_bind [keeps_rules]: "keeps I m \<Longrightarrow> (\<And>a. keeps I (f a)) \<Longrightarrow> keeps I (bind m f)"
  by (fastforce simp: keeps_def bind_def split: prod.splits sum.splits)

lemma keeps_modify: "(\<And>s. I s \<Longrightarrow> I (f s)) \<Longrightarrow> keeps I (modify f)"
  by (simp add: keeps_def)

lemma keeps_update_ret: "(\<And>s. I s \<Longrightarrow> I (snd (f s))) \<Longrightarrow> keeps I (update_ret f)"
  by (simp add: keeps_def update_ret_app)

lemma keeps_if [keeps_rules]: "(c \<Longrightarrow> keeps I m) \<Longrightarrow> (\<not> c \<Longrightarrow> keeps I n) \<Longrightarrow> keeps I (if c then m else n)"
  by simp

lemma keeps_when [keeps_rules]: "keeps I m \<Longrightarrow> keeps I (when_op c m)"
  by (simp add: when_op_def keeps_ret)

lemma keeps_case_option [keeps_rules]:
  "keeps I m \<Longrightarrow> (\<And>x. keeps I (f x)) \<Longrightarrow> keeps I (case x of None \<Rightarrow> m | Some y \<Rightarrow> f y)"
  by (simp split: option.splits)

lemma keeps_pair: "(\<And>a b. keeps I (f a b)) \<Longrightarrow> keeps I (case p of (a, b) \<Rightarrow> f a b)"
  by (simp split: prod.split)

lemma keeps_for_each [keeps_rules]: "(\<And>x. x \<in> set xs \<Longrightarrow> keeps I (f x)) \<Longrightarrow> keeps I (for_each xs f)"
  by (induction xs) (auto intro: keeps_rules)

lemma keeps_map_each [keeps_rules]: "(\<And>x. x \<in> set xs \<Longrightarrow> keeps I (f x)) \<Longrightarrow> keeps I (map_each xs f)"
  by (induction xs) (auto intro!: keeps_rules)

lemma keeps_readonly: "readonly m \<Longrightarrow> keeps I m"
  by (simp add: readonly_def keeps_def)

lemma readonlyD: "readonly m \<Longrightarrow> m s = (r, t) \<Longrightarrow> t = s"
  by (metis readonly_def snd_conv)

lemma readonly_ret [fail_rules]: "readonly (ret a)"
  by (simp add: readonly_def)

lemma readonly_throw [fail_rules]: "readonly (throw e)"
  by (simp add: readonly_def)

lemma readonly_reads [fail_rules]: "readonly (reads f)"
  by (simp add: readonly_def)

lemma readonly_ensure [fail_rules]: "readonly (ensure c e)"
  by (simp add: ensure_def readonly_def)

lemma readonly_the_or [fail_rules]: "readonly (the_or e x)"
  by (simp add: the_or_def readonly_def split: option.splits)

lemma readonly_bind [fail_rules]: "readonly m \<Longrightarrow> (\<And>a. readonly (f a)) \<Longrightarrow> readonly (bind m f)"
  unfolding readonly_def bind_def by (auto split: prod.splits sum.splits) (metis snd_conv)+

lemma readonly_if [fail_rules]: "readonly m \<Longrightarrow> readonly n \<Longrightarrow> readonly (if c then m else n)"
  by simp

lemma readonly_case_option [fail_rules]:
  "readonly m \<Longrightarrow> (\<And>x. readonly (f x)) \<Longrightarrow> readonly (case x of None \<Rightarrow> m | Some y \<Rightarrow> f y)"
  by (simp split: option.splits)

lemma readonly_map_each [fail_rules]: "(\<And>x. readonly (f x)) \<Longrightarrow> readonly (map_each xs f)"
  by (induction xs) (auto intro!: fail_rules)

lemma never_fails_ret [fail_rules]: "never_fails (ret a)"
  by (simp add: never_fails_def)

lemma never_fails_reads [fail_rules]: "never_fails (reads f)"
  by (simp add: never_fails_def)

lemma never_fails_modify [fail_rules]: "never_fails (modify f)"
  by (simp add: never_fails_def)

lemma never_fails_update_ret [fail_rules]: "never_fails (update_ret f)"
  by (simp add: never_fails_def update_ret_app)

lemma never_fails_bind [fail_rules]:
  "never_fails m \<Longrightarrow> (\<And>a. never_fails (f a)) \<Longrightarrow> never_fails (bind m f)"
  unfolding never_fails_def bind_def
  by (metis (mono_tags, lifting) case_prod_conv sum.simps(6))

lemma never_fails_if [fail_rules]: "never_fails m \<Longrightarrow> never_fails n \<Longrightarrow> never_fails (if c then m else n)"
  by simp

lemma never_fails_when [fail_rules]: "never_fails m \<Longrightarrow> never_fails (when_op c m)"
  by (simp add: when_op_def never_fails_ret)

lemma never_fails_case_option [fail_rules]:
  "never_fails m \<Longrightarrow> (\<And>x. never_fails (f x)) \<Longrightarrow> never_fails (case x of None \<Rightarrow> m | Some y \<Rightarrow> f y)"
  by (simp split: option.splits)

lemma never_fails_for_each [fail_rules]: "(\<And>x. never_fails (f x)) \<Longrightarrow> never_fails (for_each xs f)"
  by (induction xs) (auto intro!: fail_rules)

lemma never_fails_map_each [fail_rules]: "(\<And>x. never_fails (f x)) \<Longrightarrow> never_fails (map_each xs f)"
  by (induction xs) (auto intro!: fail_rules)

lemma clean_fail_bind: "readonly m \<Longrightarrow> (\<And>a. clean_fail (f a)) \<Longrightarrow> clean_fail (bind m f)"
  unfolding clean_fail_def by (auto simp: bind_Inl dest: readonlyD)

lemma clean_fail_then: "clean_fail m \<Longrightarrow> (\<And>a. never_fails (f a)) \<Longrightarrow> clean_fail (bind m f)"
  unfolding clean_fail_def never_fails_def by (auto simp: bind_Inl) (metis Inl_Inr_False fst_conv)

lemma clean_fail_never: "never_fails m \<Longrightarrow> clean_fail m"
  unfolding clean_fail_def never_fails_def by (metis Inl_Inr_False fst_conv)

lemma clean_fail_readonly: "readonly m \<Longrightarrow> clean_fail m"
  unfolding clean_fail_def by (auto dest: readonlyD)

lemma clean_fail_if: "clean_fail m \<Longrightarrow> clean_fail n \<Longrightarrow> clean_fail (if c then m else n)"
  by simp

lemma clean_failD: "clean_fail m \<Longrightarrow> m s = (Inl e, t) \<Longrightarrow> t = s"
  by (simp add: clean_fail_def)

subsection \<open>From a given state\<close>

text \<open>
  \<open>leads I m s\<close>: run from \<open>s\<close>, the operation \<open>m\<close> ends in a state with \<open>I\<close>.  A guard that only
  reads hands what it learned to the rest of the operation.
\<close>

definition leads :: "('s \<Rightarrow> bool) \<Rightarrow> ('s, 'e, 'a) op \<Rightarrow> 's \<Rightarrow> bool" where
  "leads I m s \<longleftrightarrow> I (snd (m s))"

lemma leadsD: "leads I m s \<Longrightarrow> m s = (r, t) \<Longrightarrow> I t"
  by (simp add: leads_def)

lemma keeps_leads: "(\<And>s. I s \<Longrightarrow> leads I m s) \<Longrightarrow> keeps I m"
  by (simp add: keeps_def leads_def)

lemma leads_keeps: "keeps I m \<Longrightarrow> I s \<Longrightarrow> leads I m s"
  by (simp add: keeps_def leads_def)

lemma leads_guard:
  assumes "readonly g" and "I s" and "\<And>a. g s = (Inr a, s) \<Longrightarrow> leads I (f a) s"
  shows "leads I (bind g f) s"
proof (cases "g s")
  case (Pair r t)
  from readonlyD [OF assms(1) Pair] have "t = s" .
  with Pair assms(2,3) show ?thesis by (cases r) (simp_all add: leads_def bind_def)
qed

lemma leads_modify: "I (g s) \<Longrightarrow> keeps I (f ()) \<Longrightarrow> leads I (bind (modify g) f) s"
  by (simp add: leads_def keeps_def)

lemma leads_then:
  assumes "\<And>r t. m s = (r, t) \<Longrightarrow> I t" and "\<And>a. keeps I (f a)"
  shows "leads I (bind m f) s"
proof (cases "m s")
  case (Pair r t)
  then have "I t" by (rule assms(1))
  with Pair assms(2) show ?thesis by (cases r) (simp_all add: leads_def bind_def keeps_def)
qed

text \<open>A property of the outcome holds when every guard's refusal has it and the rest has it.\<close>

lemma guard_cases:
  assumes "readonly g" and "\<And>e. P (Inl e, s)" and "\<And>a. g s = (Inr a, s) \<Longrightarrow> P (f a s)"
  shows "P (bind g f s)"
proof (cases "g s")
  case (Pair r t)
  from readonlyD [OF assms(1) Pair] have "t = s" .
  with Pair assms(2,3) show ?thesis by (cases r) (simp_all add: bind_def)
qed

lemma readonly_run: "readonly m \<Longrightarrow> \<exists>r. m s = (r, s)"
  by (metis readonly_def prod.collapse)

text \<open>Two states that answer the guard alike have the same result if they have the same rest.\<close>

lemma same_answer:
  assumes "readonly g" and "fst (g v) = fst (g w)" and "\<And>a. fst (f a v) = fst (f a w)"
  shows "fst (bind g f v) = fst (bind g f w)"
proof -
  have "g v = (fst (g v), v)" "g w = (fst (g v), w)"
    using assms(1,2) unfolding readonly_def by (metis prod.collapse)+
  then show ?thesis using assms(3) by (cases "fst (g v)") (simp_all add: bind_def)
qed

end
