(* ===== verification/Tables.thy ===== *)
theory Tables
  imports Prelude
begin

text \<open>
  A table of the database as the services see it through the Prisma client: its rows in
  primary-key order and the autoincrement counter.  A query is a filter over the rows, an
  update applies a function to the rows its \<open>where\<close> clause selects, \<open>create\<close> appends a row
  with the next id.  \<open>findFirst\<close> without \<open>orderBy\<close> takes the first row in this order.
\<close>

record 'r table =
  rows :: "'r list"
  next_id :: nat

definition empty_table :: "'r table" where
  "empty_table = \<lparr>rows = [], next_id = 1\<rparr>"

definition select :: "('r \<Rightarrow> bool) \<Rightarrow> 'r table \<Rightarrow> 'r list" where
  "select p t = filter p (rows t)"

definition find_row :: "('r \<Rightarrow> bool) \<Rightarrow> 'r table \<Rightarrow> 'r option" where
  "find_row p t = List.find p (rows t)"

definition insert_row :: "(nat \<Rightarrow> 'r) \<Rightarrow> 'r table \<Rightarrow> 'r table" where
  "insert_row mk t = t\<lparr>rows := rows t @ [mk (next_id t)], next_id := Suc (next_id t)\<rparr>"

definition update_rows :: "('r \<Rightarrow> bool) \<Rightarrow> ('r \<Rightarrow> 'r) \<Rightarrow> 'r table \<Rightarrow> 'r table" where
  "update_rows p f t = t\<lparr>rows := map (\<lambda>r. if p r then f r else r) (rows t)\<rparr>"

definition delete_rows :: "('r \<Rightarrow> bool) \<Rightarrow> 'r table \<Rightarrow> 'r table" where
  "delete_rows p t = t\<lparr>rows := filter (\<lambda>r. \<not> p r) (rows t)\<rparr>"

text \<open>A well-formed table: the key is unique and below the autoincrement counter.\<close>

definition table_ok :: "('r \<Rightarrow> nat) \<Rightarrow> 'r table \<Rightarrow> bool" where
  "table_ok key t \<longleftrightarrow> distinct (map key (rows t)) \<and> (\<forall>r \<in> set (rows t). key r < next_id t)"

named_theorems table_simps

lemma rows_empty [table_simps, simp]: "rows empty_table = []"
  by (simp add: empty_table_def)

lemma rows_insert [table_simps, simp]: "rows (insert_row mk t) = rows t @ [mk (next_id t)]"
  by (simp add: insert_row_def)

lemma next_id_insert [table_simps, simp]: "next_id (insert_row mk t) = Suc (next_id t)"
  by (simp add: insert_row_def)

lemma rows_update [table_simps, simp]:
  "rows (update_rows p f t) = map (\<lambda>r. if p r then f r else r) (rows t)"
  by (simp add: update_rows_def)

lemma next_id_update [table_simps, simp]: "next_id (update_rows p f t) = next_id t"
  by (simp add: update_rows_def)

lemma rows_delete [table_simps, simp]: "rows (delete_rows p t) = filter (\<lambda>r. \<not> p r) (rows t)"
  by (simp add: delete_rows_def)

lemma next_id_delete [table_simps, simp]: "next_id (delete_rows p t) = next_id t"
  by (simp add: delete_rows_def)

lemma set_select [simp]: "set (select p t) = {r \<in> set (rows t). p r}"
  by (auto simp: select_def)

lemma find_SomeD: "List.find P xs = Some x \<Longrightarrow> x \<in> set xs \<and> P x"
  by (induction xs) (auto split: if_splits)

lemma find_row_Some: "find_row p t = Some r \<Longrightarrow> r \<in> set (rows t) \<and> p r"
  by (auto simp: find_row_def find_Some_iff)

lemma find_row_None: "find_row p t = None \<longleftrightarrow> (\<forall>r \<in> set (rows t). \<not> p r)"
  by (auto simp: find_row_def find_None_iff)

lemma bex_update_rows: "x \<in> set (rows t) \<Longrightarrow> Q (if p x then f x else x) \<Longrightarrow> \<exists>y \<in> set (rows (update_rows p f t)). Q y"
  unfolding rows_update set_map by blast

lemma ex_update_rows:
  "\<exists>x \<in> set (rows t). Q x \<Longrightarrow> (\<And>x. Q (f x) = Q x) \<Longrightarrow> \<exists>x \<in> set (rows (update_rows p f t)). Q x"
  by (auto simp: bex_imageD)

lemma ball_update_rows: "(\<forall>r \<in> set (rows (update_rows p f t)). Q r) \<longleftrightarrow>
    (\<forall>r \<in> set (rows t). if p r then Q (f r) else Q r)"
  by auto

lemma select_insert [simp]: "select p (insert_row mk t) = select p t @ (if p (mk (next_id t)) then [mk (next_id t)] else [])"
  by (simp add: select_def)

lemma select_update: "(\<And>r. p (f r) = p r) \<Longrightarrow>
    select p (update_rows q f t) = map (\<lambda>r. if q r then f r else r) (select p t)"
proof -
  assume "\<And>r. p (f r) = p r"
  then have "filter p (map (\<lambda>r. if q r then f r else r) xs) = map (\<lambda>r. if q r then f r else r) (filter p xs)" for xs
    by (induction xs) auto
  then show ?thesis by (simp add: select_def)
qed

lemma select_delete: "select p (delete_rows q t) = filter p (filter (\<lambda>r. \<not> q r) (rows t))"
  by (simp add: select_def)

lemma find_row_update: "(\<And>r. p (f r) = p r) \<Longrightarrow>
    find_row p (update_rows q f t) = map_option (\<lambda>r. if q r then f r else r) (find_row p t)"
proof -
  assume "\<And>r. p (f r) = p r"
  then have "List.find p (map (\<lambda>r. if q r then f r else r) xs) = map_option (\<lambda>r. if q r then f r else r) (List.find p xs)" for xs
    by (induction xs) auto
  then show ?thesis by (simp add: find_row_def)
qed

lemma find_row_insert: "find_row p (insert_row mk t) = (case find_row p t of Some r \<Rightarrow> Some r
    | None \<Rightarrow> if p (mk (next_id t)) then Some (mk (next_id t)) else None)"
proof -
  have "List.find p (xs @ [y]) = (case List.find p xs of Some r \<Rightarrow> Some r | None \<Rightarrow> if p y then Some y else None)" for xs y
    by (induction xs) auto
  then show ?thesis by (simp add: find_row_def)
qed

lemma find_row_delete: "(\<And>r. r \<in> set (rows t) \<Longrightarrow> p r \<Longrightarrow> \<not> q r) \<Longrightarrow> find_row p (delete_rows q t) = find_row p t"
proof -
  have "(\<And>r. r \<in> set xs \<Longrightarrow> p r \<Longrightarrow> \<not> q r) \<Longrightarrow> List.find p (filter (\<lambda>r. \<not> q r) xs) = List.find p xs" for xs
    by (induction xs) auto
  then show "(\<And>r. r \<in> set (rows t) \<Longrightarrow> p r \<Longrightarrow> \<not> q r) \<Longrightarrow> ?thesis" by (simp add: find_row_def)
qed

lemma update_rows_id: "(\<And>r. r \<in> set (rows t) \<Longrightarrow> p r \<Longrightarrow> f r = r) \<Longrightarrow> update_rows p f t = t"
  unfolding update_rows_def by (simp add: map_idI)

lemma update_rows_cong: "(\<And>r. r \<in> set (rows t) \<Longrightarrow> p r = q r) \<Longrightarrow> update_rows p f t = update_rows q f t"
  unfolding update_rows_def by (simp cong: map_cong)

text \<open>Updating row after row is updating all of them.\<close>

lemma foldl_update_rows:
  assumes key: "\<And>r. key (f r) = key r"
  shows "distinct ks \<Longrightarrow> foldl (\<lambda>t k. update_rows (\<lambda>r. key r = k) f t) t ks = update_rows (\<lambda>r. key r \<in> set ks) f t"
proof (induction ks arbitrary: t)
  case Nil
  show ?case by (simp add: update_rows_id)
next
  case (Cons k ks)
  have "foldl (\<lambda>t k. update_rows (\<lambda>r. key r = k) f t) t (k # ks)
      = update_rows (\<lambda>r. key r \<in> set ks) f (update_rows (\<lambda>r. key r = k) f t)"
    using Cons.IH [of "update_rows (\<lambda>r. key r = k) f t"] Cons.prems by simp
  also have "\<dots> = update_rows (\<lambda>r. key r \<in> set (k # ks)) f t"
    using Cons.prems key by (simp add: update_rows_def)
  finally show ?case .
qed

lemma table_ok_empty [simp]: "table_ok key empty_table"
  by (simp add: table_ok_def)

lemma table_ok_insert: "table_ok key t \<Longrightarrow> key (mk (next_id t)) = next_id t \<Longrightarrow>
    table_ok key (insert_row mk t)"
  by (auto simp: table_ok_def less_Suc_eq)

lemma map_key_update: "(\<And>r. key (f r) = key r) \<Longrightarrow>
    map key (map (\<lambda>r. if p r then f r else r) xs) = map key xs"
  by (induction xs) auto

lemma table_ok_update: "table_ok key t \<Longrightarrow> (\<And>r. key (f r) = key r) \<Longrightarrow>
    table_ok key (update_rows p f t)"
  unfolding table_ok_def rows_update next_id_update by (subst map_key_update) auto

lemma table_ok_delete: "table_ok key t \<Longrightarrow> table_ok key (delete_rows p t)"
  by (auto simp: table_ok_def distinct_map_filter)

lemma table_ok_unique:
  "table_ok key t \<Longrightarrow> r \<in> set (rows t) \<Longrightarrow> r' \<in> set (rows t) \<Longrightarrow> key r = key r' \<Longrightarrow> r = r'"
  by (auto simp: table_ok_def distinct_map inj_on_def)

lemma table_ok_fresh: "table_ok key t \<Longrightarrow> r \<in> set (rows t) \<Longrightarrow> key r \<noteq> next_id t"
  by (auto simp: table_ok_def)

section \<open>Rows that must not clash\<close>

text \<open>
  A uniqueness rule of a table: two rows with different keys never stand in the relation
  \<open>clash\<close>.  An insertion and the update of one row check it against the other rows; an
  update of any number of rows that creates no clash needs no check.
\<close>

definition apart :: "('r \<Rightarrow> nat) \<Rightarrow> ('r \<Rightarrow> 'r \<Rightarrow> bool) \<Rightarrow> 'r table \<Rightarrow> bool" where
  "apart key clash t \<longleftrightarrow> table_ok key t
     \<and> (\<forall>r \<in> set (rows t). \<forall>r' \<in> set (rows t). key r \<noteq> key r' \<longrightarrow> \<not> clash r r')"

lemma apart_table: "apart key clash t \<Longrightarrow> table_ok key t"
  by (simp add: apart_def)

lemma apartD: "apart key clash t \<Longrightarrow> r \<in> set (rows t) \<Longrightarrow> r' \<in> set (rows t) \<Longrightarrow> clash r r' \<Longrightarrow> key r = key r'"
  by (auto simp: apart_def)

lemma apart_unique: "apart key clash t \<Longrightarrow> r \<in> set (rows t) \<Longrightarrow> r' \<in> set (rows t) \<Longrightarrow> clash r r' \<Longrightarrow> r = r'"
  using apartD table_ok_unique apart_table by metis

locale uniqueness_rule =
  fixes key :: "'r \<Rightarrow> nat" and clash :: "'r \<Rightarrow> 'r \<Rightarrow> bool"
  assumes clash_sym: "clash r r' \<Longrightarrow> clash r' r"
begin

lemma insert_apart:
  assumes "apart key clash t" and "key (mk (next_id t)) = next_id t" and "\<forall>r \<in> set (rows t). \<not> clash r (mk (next_id t))"
  shows "apart key clash (insert_row mk t)"
  using assms clash_sym unfolding apart_def by (auto intro: table_ok_insert)

lemma update_one_apart:
  assumes ok: "apart key clash t" and r: "r \<in> set (rows t)" and same: "\<And>x. key (f x) = key x"
    and free: "\<And>x. x \<in> set (rows t) \<Longrightarrow> key x \<noteq> key r \<Longrightarrow> \<not> clash x (f r)"
  shows "apart key clash (update_rows (\<lambda>x. key x = key r) f t)"
proof -
  have only: "x = r" if "x \<in> set (rows t)" "key x = key r" for x
    by (rule table_ok_unique [OF apart_table [OF ok] that(1) r that(2)])
  have row: "y \<in> set (rows t) \<and> key y \<noteq> key r \<or> y = f r" if "y \<in> set (rows (update_rows (\<lambda>x. key x = key r) f t))" for y
    using that only by auto
  have "\<not> clash y y'" if "y \<in> set (rows (update_rows (\<lambda>x. key x = key r) f t))"
      "y' \<in> set (rows (update_rows (\<lambda>x. key x = key r) f t))" "key y \<noteq> key y'" for y y'
    using row [OF that(1)] row [OF that(2)] that(3) free clash_sym ok same unfolding apart_def by metis
  moreover have "table_ok key (update_rows (\<lambda>x. key x = key r) f t)"
    by (rule table_ok_update [OF apart_table [OF ok] same])
  ultimately show ?thesis unfolding apart_def by blast
qed

lemma update_apart:
  assumes ok: "apart key clash t" and same: "\<And>x. key (f x) = key x" and less: "\<And>x y. clash (f x) y \<Longrightarrow> clash x y"
  shows "apart key clash (update_rows p f t)"
proof -
  have "\<not> clash y y'" if y: "y \<in> set (rows (update_rows p f t))" "y' \<in> set (rows (update_rows p f t))" "key y \<noteq> key y'" for y y'
  proof -
    obtain x x' where x: "x \<in> set (rows t)" "y = (if p x then f x else x)" "x' \<in> set (rows t)" "y' = (if p x' then f x' else x')"
      using y(1,2) unfolding rows_update set_map by blast
    then have "key x \<noteq> key x'" using y(3) same by (metis (full_types))
    with ok x have "\<not> clash x x'" unfolding apart_def by blast
    then show ?thesis unfolding x(2,4) using less clash_sym by metis
  qed
  moreover have "table_ok key (update_rows p f t)" by (rule table_ok_update [OF apart_table [OF ok] same])
  ultimately show ?thesis unfolding apart_def by blast
qed

lemma delete_apart: "apart key clash t \<Longrightarrow> apart key clash (delete_rows p t)"
  by (auto simp: apart_def table_ok_delete)

end

subsection \<open>Sums over the selected rows\<close>

text \<open>
  Money totals are sums of a column over the rows a query selects; these lemmas say how
  such a sum moves under the table operations.
\<close>

definition sum_of :: "('r \<Rightarrow> rat) \<Rightarrow> 'r list \<Rightarrow> rat" where
  "sum_of f xs = foldl (\<lambda>acc r. acc + f r) 0 xs"

lemma foldl_sum_acc: "foldl (\<lambda>acc r. acc + f r) (a::rat) xs = a + sum_list (map f xs)"
  by (induction xs arbitrary: a) auto

lemma sum_of_eq: "sum_of f xs = sum_list (map f xs)"
  by (simp add: sum_of_def foldl_sum_acc)

lemma sum_of_Nil [simp]: "sum_of f [] = 0"
  by (simp add: sum_of_def)

lemma sum_of_Cons [simp]: "sum_of f (x # xs) = f x + sum_of f xs"
  by (simp add: sum_of_eq)

lemma sum_of_append [simp]: "sum_of f (xs @ ys) = sum_of f xs + sum_of f ys"
  by (simp add: sum_of_eq)

lemma sum_of_cong: "(\<And>x. x \<in> set xs \<Longrightarrow> f x = g x) \<Longrightarrow> sum_of f xs = sum_of g xs"
  unfolding sum_of_eq by (metis map_cong)

lemma sum_of_map [simp]: "sum_of f (map g xs) = sum_of (\<lambda>x. f (g x)) xs"
  by (simp add: sum_of_eq comp_def)

lemma sum_of_nonneg: "(\<And>x. x \<in> set xs \<Longrightarrow> 0 \<le> f x) \<Longrightarrow> 0 \<le> sum_of f xs"
  by (induction xs) (auto intro: add_nonneg_nonneg)

lemma sum_of_mult_right: "sum_of (\<lambda>x. f x * c) xs = sum_of f xs * c"
  by (induction xs) (auto simp: distrib_right)

lemma sum_of_split: "sum_of f xs = sum_of f (filter p xs) + sum_of f (filter (\<lambda>x. \<not> p x) xs)"
  by (induction xs) auto

end
