(* ===== verification/JS_Lib.thy ===== *)
theory JS_Lib
  imports Prelude
begin

text \<open>
  The JavaScript standard library as far as the services use it: decimal printing and
  parsing of bigint ids, the regular expressions on identifiers, trimming and case
  folding (ASCII), \<open>Number(string)\<close> on decimal literals, \<open>toFixed(2)\<close> and
  \<open>Math.round\<close> on exact rationals, JSON values of audit rows.
\<close>

section \<open>Decimal digits and bigint ids\<close>

definition is_digit :: "char \<Rightarrow> bool" where
  "is_digit c \<longleftrightarrow> 48 \<le> (of_char c :: nat) \<and> (of_char c :: nat) \<le> 57"

definition digit_char :: "nat \<Rightarrow> char" where
  "digit_char d = char_of (48 + d)"

definition digit_val :: "char \<Rightarrow> nat" where
  "digit_val c = of_char c - 48"

text \<open>\<open>id.toString()\<close> on a bigint id.\<close>

fun show_nat :: "nat \<Rightarrow> string" where
  "show_nat n = (if n < 10 then [digit_char n] else show_nat (n div 10) @ [digit_char (n mod 10)])"

declare show_nat.simps [simp del]

text \<open>\<open>BigInt(s)\<close> on a string of digits.\<close>

definition read_nat :: "string \<Rightarrow> nat" where
  "read_nat s = foldl (\<lambda>acc c. 10 * acc + digit_val c) 0 s"

text \<open>\<open>isNumericId\<close>: the regular expression \<open>/^\d+$/\<close>.\<close>

definition isNumericId :: "string \<Rightarrow> bool" where
  "isNumericId s \<longleftrightarrow> s \<noteq> [] \<and> list_all is_digit s"

definition show_int :: "int \<Rightarrow> string" where
  "show_int i = (if i < 0 then ''-'' @ show_nat (nat (- i)) else show_nat (nat i))"

lemma of_digit_char: "d < 10 \<Longrightarrow> (of_char (digit_char d) :: nat) = 48 + d"
  by (simp add: digit_char_def)

lemma digit_val_char: "d < 10 \<Longrightarrow> digit_val (digit_char d) = d"
  by (simp add: digit_val_def of_digit_char)

lemma is_digit_char: "d < 10 \<Longrightarrow> is_digit (digit_char d)"
  by (simp add: is_digit_def of_digit_char)

lemma show_nat_digits: "list_all is_digit (show_nat n)"
proof (induction n rule: show_nat.induct)
  case (1 n)
  then show ?case
    by (subst show_nat.simps) (auto simp: is_digit_char)
qed

lemma show_nat_nonempty [simp]: "show_nat n \<noteq> []"
  by (subst show_nat.simps) simp

lemma isNumericId_show_nat [simp]: "isNumericId (show_nat n)"
  by (simp add: isNumericId_def show_nat_digits)

lemma read_nat_snoc: "read_nat (s @ [c]) = 10 * read_nat s + digit_val c"
  by (simp add: read_nat_def)

lemma read_show_nat [simp]: "read_nat (show_nat n) = n"
proof (induction n rule: show_nat.induct)
  case (1 n)
  show ?case
  proof (cases "n < 10")
    case True
    then show ?thesis
      by (subst show_nat.simps) (simp add: read_nat_def digit_val_char)
  next
    case False
    then have "read_nat (show_nat n) = 10 * (n div 10) + n mod 10"
      by (subst show_nat.simps) (simp add: read_nat_snoc digit_val_char "1.IH")
    then show ?thesis by simp
  qed
qed

lemma show_nat_inject [simp]: "show_nat m = show_nat n \<longleftrightarrow> m = n"
  by (metis read_show_nat)

section \<open>Strings\<close>

definition is_space :: "char \<Rightarrow> bool" where
  "is_space c \<longleftrightarrow> (of_char c :: nat) \<in> {9, 10, 11, 12, 13, 32, 160}"

definition js_trim :: "string \<Rightarrow> string" where
  "js_trim s = rev (dropWhile is_space (rev (dropWhile is_space s)))"

definition lower_char :: "char \<Rightarrow> char" where
  "lower_char c = (let n = (of_char c :: nat) in if 65 \<le> n \<and> n \<le> 90 then char_of (n + 32) else c)"

definition upper_char :: "char \<Rightarrow> char" where
  "upper_char c = (let n = (of_char c :: nat) in if 97 \<le> n \<and> n \<le> 122 then char_of (n - 32) else c)"

definition to_lower :: "string \<Rightarrow> string" where
  "to_lower = map lower_char"

definition to_upper :: "string \<Rightarrow> string" where
  "to_upper = map upper_char"

text \<open>\<open>s.replace(/[^a-z]/g, '')\<close>\<close>

definition is_lower_letter :: "char \<Rightarrow> bool" where
  "is_lower_letter c \<longleftrightarrow> 97 \<le> (of_char c :: nat) \<and> (of_char c :: nat) \<le> 122"

definition only_lower_letters :: "string \<Rightarrow> string" where
  "only_lower_letters = filter is_lower_letter"

text \<open>\<open>s.includes(t)\<close>, \<open>s.startsWith(t)\<close>\<close>

fun starts_with :: "string \<Rightarrow> string \<Rightarrow> bool" where
  "starts_with s [] = True"
| "starts_with [] (c # cs) = False"
| "starts_with (d # ds) (c # cs) = (d = c \<and> starts_with ds cs)"

fun str_includes :: "string \<Rightarrow> string \<Rightarrow> bool" where
  "str_includes [] t = (t = [])"
| "str_includes (c # cs) t = (starts_with (c # cs) t \<or> str_includes cs t)"

lemma starts_with_append [simp]: "starts_with (t @ s) t"
  by (induction t) auto

lemma starts_with_iff: "starts_with s t \<longleftrightarrow> (\<exists>r. s = t @ r)"
  by (induction s t rule: starts_with.induct) auto

text \<open>\<open>s.padStart(2, '0')\<close>\<close>

definition pad2 :: "string \<Rightarrow> string" where
  "pad2 s = replicate (2 - length s) CHR ''0'' @ s"

primrec join_with :: "string \<Rightarrow> string list \<Rightarrow> string" where
  "join_with sep [] = []"
| "join_with sep (x # xs) = (if xs = [] then x else x @ sep @ join_with sep xs)"

text \<open>A string option that JavaScript treats as truthy.\<close>

definition truthy :: "string option \<Rightarrow> bool" where
  "truthy x \<longleftrightarrow> (case x of None \<Rightarrow> False | Some s \<Rightarrow> s \<noteq> [])"

lemma truthy_Some [simp]: "truthy (Some s) \<longleftrightarrow> s \<noteq> []"
  by (simp add: truthy_def)

lemma truthy_None [simp]: "\<not> truthy None"
  by (simp add: truthy_def)

section \<open>Numbers\<close>

text \<open>
  \<open>Number(s)\<close> on a string: \<open>Some\<close> of a finite value, \<open>None\<close> where JavaScript gives NaN or
  an infinity.  Covered: surrounding white space, the empty string (0), a sign, decimal
  digits with a fraction and an exponent.  Hexadecimal, octal and binary literals are not.
\<close>

definition split_at :: "(char \<Rightarrow> bool) \<Rightarrow> string \<Rightarrow> string \<times> string option" where
  "split_at p s = (takeWhile (\<lambda>c. \<not> p c) s,
     case dropWhile (\<lambda>c. \<not> p c) s of [] \<Rightarrow> None | c # r \<Rightarrow> Some r)"

definition read_mantissa :: "string \<Rightarrow> rat option" where
  "read_mantissa s = (case split_at (\<lambda>c. c = CHR ''.'') s of (a, fr) \<Rightarrow>
     let b = (case fr of None \<Rightarrow> [] | Some b \<Rightarrow> b) in
     if a @ b \<noteq> [] \<and> list_all is_digit (a @ b)
     then Some (of_nat (read_nat (a @ b)) / 10 ^ length b) else None)"

definition strip_sign :: "string \<Rightarrow> bool \<times> string" where
  "strip_sign s = (case s of [] \<Rightarrow> (False, [])
     | c # r \<Rightarrow> if c = CHR ''-'' then (True, r) else if c = CHR ''+'' then (False, r) else (False, c # r))"

definition read_exponent :: "string \<Rightarrow> int option" where
  "read_exponent s = (let (neg, d) = strip_sign s in
     if isNumericId d then Some (if neg then - int (read_nat d) else int (read_nat d)) else None)"

definition js_Number :: "string \<Rightarrow> rat option" where
  "js_Number s0 = (let s = js_trim s0 in if s = [] then Some 0 else
     let (neg, u) = strip_sign s; (m, ex) = split_at (\<lambda>c. c = CHR ''e'' \<or> c = CHR ''E'') u in
     case (read_mantissa m, case ex of None \<Rightarrow> Some 0 | Some x \<Rightarrow> read_exponent x) of
       (Some v, Some k) \<Rightarrow> Some ((if neg then - v else v) * (if 0 \<le> k then 10 ^ nat k else 1 / 10 ^ nat (- k)))
     | _ \<Rightarrow> None)"

text \<open>\<open>Number(x.toFixed(2))\<close>: the nearest multiple of 1/100, ties upwards for \<open>x \<ge> 0\<close>.\<close>

definition to_fixed2 :: "rat \<Rightarrow> rat" where
  "to_fixed2 x = (if x < 0 then - (of_int \<lfloor>- x * 100 + 1/2\<rfloor> / 100) else of_int \<lfloor>x * 100 + 1/2\<rfloor> / 100)"

text \<open>\<open>Math.round(x)\<close>: the nearest integer, ties upwards.\<close>

definition math_round :: "rat \<Rightarrow> int" where
  "math_round x = \<lfloor>x + 1/2\<rfloor>"

lemma floor_half_error: "\<bar>of_int \<lfloor>y + 1/2\<rfloor> - y\<bar> \<le> (1/2 :: rat)"
proof -
  have "of_int \<lfloor>y + 1/2\<rfloor> \<le> y + 1/2"
    by (rule of_int_floor_le)
  moreover have "y + 1/2 < of_int \<lfloor>y + 1/2\<rfloor> + 1"
    by linarith
  ultimately show ?thesis unfolding abs_le_iff by linarith
qed

lemma to_fixed2_error: "\<bar>to_fixed2 x - x\<bar> \<le> 1 / 200"
proof (cases "x < 0")
  case True
  have "\<bar>of_int \<lfloor>- x * 100 + 1/2\<rfloor> - (- x * 100)\<bar> \<le> (1/2 :: rat)"
    by (rule floor_half_error)
  moreover have "to_fixed2 x = - (of_int \<lfloor>- x * 100 + 1/2\<rfloor> / 100)"
    unfolding to_fixed2_def using True by (rule if_P)
  ultimately show ?thesis unfolding abs_le_iff by linarith
next
  case False
  have "\<bar>of_int \<lfloor>x * 100 + 1/2\<rfloor> - x * 100\<bar> \<le> (1/2 :: rat)"
    by (rule floor_half_error)
  moreover have "to_fixed2 x = of_int \<lfloor>x * 100 + 1/2\<rfloor> / 100"
    unfolding to_fixed2_def using False by (rule if_not_P)
  ultimately show ?thesis unfolding abs_le_iff by linarith
qed

lemma to_fixed2_nonneg: "0 \<le> x \<Longrightarrow> 0 \<le> to_fixed2 x"
  by (simp add: to_fixed2_def)

lemma math_round_error: "\<bar>of_int (math_round x) - x\<bar> \<le> 1 / 2"
  unfolding math_round_def by (rule floor_half_error)

lemma math_round_mono: "x \<le> y \<Longrightarrow> math_round x \<le> math_round y"
  by (simp add: math_round_def floor_mono)

lemma math_round_int [simp]: "math_round (of_int k) = k"
  by (simp add: math_round_def floor_eq_iff)

section \<open>JSON\<close>

datatype json = JNull | JBool bool | JNum rat | JStr string | JArr "json list"
  | JObj "(string \<times> json) list"

definition jopt :: "('a \<Rightarrow> json) \<Rightarrow> 'a option \<Rightarrow> json" where
  "jopt f x = (case x of None \<Rightarrow> JNull | Some a \<Rightarrow> f a)"

end
