(* ===== verification/Schema.thy ===== *)
theory Schema
  imports Tables JS_Lib
begin

text \<open>
  The data model: the enumerations and the rows of \<open>backend/prisma/schema.prisma\<close> as far
  as the modelled services read or write them, the authenticated caller
  (\<open>auth/types/current-user.type.ts\<close>), the errors the services throw, and the \<open>world\<close>:
  every table, the response caches and the live notification channels.  Columns the
  services never read (\<open>updated_at\<close>, the uuid of rows that are not looked up by uuid) are
  left out.  Money is an exact rational, an id a natural number (bigint), an instant the
  number of milliseconds since 1970, a \<open>DATE\<close> column the number of days since 1970.
\<close>

section \<open>Errors and the caller\<close>

record row_error =
  re_row :: nat
  re_employee :: "string option"
  re_message :: string

datatype error =
    BadRequest string
  | NotFound string
  | Forbidden string
  | Conflict string
  | Unauthorized string
  | TooManyRequests string
  | BadRows "row_error list"
  | UniqueIndex string
  | InvalidQuery

text \<open>\<open>BadRows\<close> is the rejection of an import, with one entry per problem; \<open>UniqueIndex\<close> and
  \<open>InvalidQuery\<close> are errors of the database client, for a write that breaks a unique index
  and for a value it does not accept.  One entry of
  \<open>permission_overrides\<close> is an \<open>override\<close>.\<close>

record override =
  ov_key :: string
  ov_allowed :: bool

record current_user =
  cu_id :: nat
  cu_status :: string
  cu_roles :: "string list"
  cu_permissions :: "string list"
  cu_overrides :: "override list"
  cu_location :: "string option"
  cu_department :: "string option"

text \<open>
  What a request takes from outside: the clock, the uuid generator (applied to the table
  and the id of the created row), whether the cache client exposes \<open>store.keys\<close>, the
  database client's conversion of an instant to the value of a \<open>DATE\<close> column, the offset
  of the server's time zone from UTC, the instant \<open>new Date\<close> reads from a string (none
  for an invalid date), the random values drawn for a purpose, and the hash functions, by name.
\<close>

record env =
  now :: int
  gen_uuid :: "string \<Rightarrow> nat \<Rightarrow> string"
  store_keys :: bool
  to_date :: "int \<Rightarrow> int"
  tz_offset :: int
  parse_date :: "string \<Rightarrow> int option"
  random_text :: "string \<Rightarrow> string"
  hash_of :: "string \<Rightarrow> string \<Rightarrow> string"

section \<open>Payroll tables\<close>

datatype batch_status = DRAFT | PENDING | IN_REVIEW | MANAGER_APPROVED | APPROVED | REJECTED
  | REJECTED_BY_BRANCH_MANAGER | REJECTED_BY_SUPER_ADMIN

datatype tx_status = TX_PENDING | TX_PAID | TX_REJECTED | TX_FAILED

datatype payment_method = BANK | CASH | MOMO

datatype approval_action = ACT_APPROVED | ACT_REJECTED | ACT_RETURNED

datatype frequency = DAILY | MONTHLY | CUSTOM

record attachment =
  at_name :: string
  at_stored :: string
  at_mime :: string
  at_size :: nat
  at_by :: nat
  at_when :: int

record batch =
  b_id :: nat
  b_uuid :: string
  b_code :: string
  b_loc :: nat
  b_month :: nat
  b_year :: nat
  b_total_employees :: int
  b_total_amount :: rat
  b_total_gross :: rat
  b_total_allowances :: rat
  b_total_deductions :: rat
  b_total_tax :: rat
  b_status :: batch_status
  b_step :: nat
  b_rejected_reason :: "string option"
  b_description :: "string option"
  b_attachments :: "attachment list"
  b_submitted_by :: nat
  b_approved_by :: "nat option"
  b_submitted_at :: "int option"
  b_approved_at :: "int option"
  b_created_at :: int

record batch_item =
  i_id :: nat
  i_uuid :: string
  i_batch :: nat
  i_employee :: nat
  i_transaction :: nat
  i_status :: batch_status
  i_rejection_reason :: "string option"
  i_approved_by :: "nat option"
  i_approved_at :: "int option"
  i_created_at :: int

text \<open>Rows of the two breakdowns kept in \<open>calculation_metadata\<close>.\<close>

record tax_line =
  tl_name :: string
  tl_rate :: rat
  tl_base :: rat
  tl_full :: rat
  tl_prorated :: rat

datatype deduction_mode = FIXED | PERCENTAGE

record deduction_line =
  dl_name :: string
  dl_mode :: deduction_mode
  dl_rate :: "rat option"
  dl_base :: "rat option"
  dl_full :: rat
  dl_prorated :: rat

record calc_metadata =
  md_frequency :: frequency
  md_present_days :: nat
  md_expected_work_days :: nat
  md_contract_days :: "nat option"
  md_overtime_rate_per_hour :: rat
  md_daily_net_rate :: "rat option"
  md_gross_before_proration :: "rat option"
  md_net_before_proration :: "rat option"
  md_proration_ratio :: rat
  md_overtime_days :: nat
  md_overtime_hours :: rat
  md_overtime_amount :: rat
  md_taxable_base_amount :: rat
  md_base_after_pit :: rat
  md_additions_amount :: rat
  md_configured_deductions_amount :: rat
  md_configured_deductions :: "deduction_line list"
  md_full_base_salary :: rat
  md_absent_days :: nat
  md_absent_days_deduction :: rat
  md_allowance_eligible :: bool
  md_tax_breakdown :: "tax_line list"
  md_is_over_21_days :: bool
  md_period_calendar_days :: int
  md_allowance_titles :: "string list"

record transaction =
  t_id :: nat
  t_employee :: nat
  t_structure :: nat
  t_month :: nat
  t_year :: nat
  t_gross :: rat
  t_base :: rat
  t_allowance :: rat
  t_tax :: rat
  t_attendance_days :: nat
  t_work_days :: nat
  t_start :: int
  t_end :: int
  t_metadata :: calc_metadata
  t_deductions :: rat
  t_net :: rat
  t_payment_date :: int
  t_method :: payment_method
  t_status :: tx_status
  t_approved_by :: "nat option"
  t_loc :: nat
  t_department :: "nat option"

record batch_action =
  ba_id :: nat
  ba_batch :: nat
  ba_step :: nat
  ba_by :: nat
  ba_action :: approval_action
  ba_comment :: "string option"
  ba_at :: int

section \<open>People, pay and attendance\<close>

datatype person_status = P_ACTIVE | P_INACTIVE | P_SUSPENDED | P_PENDING | P_REJECTED | P_PAUSED

record employee =
  e_id :: nat
  e_uuid :: string
  e_first_name :: string
  e_last_name :: string
  e_phone :: "string option"
  e_contract_start :: "int option"
  e_contract_end :: "int option"
  e_department :: "nat option"
  e_loc :: "nat option"
  e_position :: "nat option"
  e_category :: "nat option"
  e_status :: person_status
  e_pause_reason :: "string option"
  e_deleted :: bool
  e_email :: "string option"
  e_national_id :: "string option"
  e_gender :: "string option"
  e_hired :: "int option"
  e_created_at :: int

record category =
  c_id :: nat
  c_name :: string
  c_frequency :: frequency
  c_uuid :: string
  c_active :: bool

record pay_structure =
  s_id :: nat
  s_employee :: nat
  s_frequency :: frequency
  s_basic_salary :: rat
  s_daily_rate :: rat
  s_from :: int
  s_to :: "int option"
  s_uuid :: string
  s_overtime :: rat
  s_tax :: rat

datatype attendance_status = PRESENT | ABSENT

record time_record =
  r_id :: nat
  r_uuid :: string
  r_employee :: nat
  r_date :: int
  r_overtime :: rat
  r_status :: attendance_status
  r_approved_by :: "nat option"
  r_loc :: "nat option"
  r_department :: "nat option"

record allowance =
  al_id :: nat
  al_employee :: nat
  al_title :: string
  al_amount :: rat
  al_active :: bool
  al_uuid :: string
  al_type :: "nat option"
  al_description :: "string option"
  al_created_at :: int

record allowance_type =
  ty_id :: nat
  ty_uuid :: string
  ty_name :: string
  ty_amount :: rat
  ty_description :: "string option"
  ty_active :: bool

record deduction_type =
  dt_id :: nat
  dt_name :: string
  dt_mode :: deduction_mode
  dt_amount :: rat
  dt_percentage :: rat
  dt_mandatory :: bool
  dt_uuid :: string
  dt_created_at :: int

record employee_deduction =
  ed_id :: nat
  ed_employee :: nat
  ed_type :: nat
  ed_start :: int
  ed_end :: "int option"
  ed_active :: bool
  ed_uuid :: string
  ed_created_at :: int

record membership =
  m_id :: nat
  m_uuid :: string
  m_employee :: nat
  m_amount :: rat
  m_active :: bool
  m_joined :: int
  m_created_by :: nat
  m_loc :: "nat option"
  m_department :: "nat option"

record contribution =
  k_id :: nat
  k_employee :: nat
  k_membership :: nat
  k_batch :: "nat option"
  k_amount :: rat
  k_date :: int

record monthly_tax =
  x_id :: nat
  x_uuid :: string
  x_name :: string
  x_rate :: rat
  x_from :: int
  x_active :: bool
  x_created_at :: int

record config =
  g_id :: nat
  g_key :: string
  g_value :: string
  g_description :: "string option"

section \<open>Organisation, users, requests\<close>

datatype location_type = HQ | BRANCH

record location =
  w_id :: nat
  w_uuid :: string
  w_name :: string
  w_type :: location_type
  w_deleted :: bool
  w_code :: string
  w_address :: string

record department =
  d_id :: nat
  d_uuid :: string
  d_loc :: nat
  d_name :: string
  d_active :: bool
  d_code :: string
  d_description :: "string option"
  d_created_at :: int

record position =
  p_id :: nat
  p_uuid :: string
  p_name :: string
  p_active :: bool
  p_description :: "string option"

text \<open>What a position offers: pay bases with defaults, deductions, allowances.\<close>

record position_variant =
  vr_id :: nat
  vr_uuid :: string
  vr_position :: nat
  vr_category :: nat
  vr_basic_salary :: "rat option"
  vr_daily_rate :: "rat option"
  vr_overtime_rate :: "rat option"
  vr_work_days :: "nat option"

record position_deduction =
  lk_id :: nat
  lk_uuid :: string
  lk_position :: nat
  lk_type :: nat

record allowance_template =
  tp_id :: nat
  tp_uuid :: string
  tp_position :: nat
  tp_type :: "nat option"
  tp_title :: string
  tp_amount :: rat
  tp_description :: "string option"

record branch_manager =
  bm_id :: nat
  bm_loc :: nat
  bm_user :: nat
  bm_active :: bool

record user =
  u_id :: nat
  u_uuid :: string
  u_loc :: "nat option"
  u_department :: "nat option"
  u_status :: person_status
  u_deleted :: bool
  u_first :: string
  u_last :: string
  u_email :: string
  u_phone :: string
  u_password :: string
  u_reset :: "(string \<times> int) option"
  u_verified :: bool
  u_code :: "(string \<times> int) option"
  u_created_at :: int

record user_session =
  se_id :: nat
  se_user :: nat
  se_revoked :: bool

record role =
  ro_id :: nat
  ro_name :: string
  ro_keys :: "string list"
  ro_uuid :: string
  ro_loc :: "nat option"
  ro_description :: "string option"
  ro_system :: bool
  ro_level :: "int option"
  ro_created_at :: int

record user_role =
  ur_id :: nat
  ur_user :: nat
  ur_role :: nat

record user_permission =
  up_id :: nat
  up_user :: nat
  up_key :: string

record user_override =
  uo_id :: nat
  uo_user :: nat
  uo_key :: string
  uo_allowed :: bool

datatype subject_type = SUBJECT_USER | SUBJECT_EMPLOYEE

datatype request_status = RQ_PENDING | RQ_APPROVED | RQ_REJECTED

record transfer_step =
  ts_level :: string
  ts_action :: string
  ts_by :: nat
  ts_at :: int
  ts_reason :: "string option"

record transfer_request =
  q_id :: nat
  q_uuid :: string
  q_subject :: subject_type
  q_employee :: "nat option"
  q_old_loc :: "nat option"
  q_new_loc :: nat
  q_old_department :: "nat option"
  q_new_department :: "nat option"
  q_status :: request_status
  q_level :: string
  q_reason :: "string option"
  q_rejection_reason :: "string option"
  q_history :: "transfer_step list"
  q_requested_by :: nat
  q_approved_by :: "nat option"
  q_approved_at :: "int option"
  q_user :: "nat option"

datatype deactivation_status = DA_PENDING | DA_COMPLETED | DA_CANCELLED

record deactivation_request =
  dr_id :: nat
  dr_department :: nat
  dr_loc :: nat
  dr_status :: deactivation_status
  dr_remaining :: nat
  dr_completed_by :: "nat option"
  dr_uuid :: string
  dr_requested_by :: nat
  dr_requested :: nat
  dr_created_at :: int

datatype history_action = H_UPDATE | H_TRANSFER | H_SUSPENDED | H_CATEGORY_CHANGE

record history =
  h_id :: nat
  h_employee :: nat
  h_action :: history_action
  h_old_department :: "nat option"
  h_new_department :: "nat option"
  h_old_loc :: "nat option"
  h_new_loc :: "nat option"
  h_old_position :: "nat option"
  h_new_position :: "nat option"
  h_active :: bool
  h_reason :: "string option"
  h_changed_by :: nat
  h_approved_by :: nat

section \<open>Audit and notifications\<close>

datatype activity_type = AT_CREATE | AT_UPDATE | AT_DELETE

datatype audit_action = AU_CREATED | AU_UPDATED | AU_DELETED | AU_APPROVED | AU_DENIED

record audit_log =
  a_id :: nat
  a_user :: nat
  a_employee :: "nat option"
  a_table :: string
  a_entity :: nat
  a_module :: string
  a_type :: activity_type
  a_description :: string
  a_action :: audit_action
  a_old :: json
  a_new :: json
  a_changed :: "string list"

record notification =
  n_id :: nat
  n_uuid :: string
  n_user :: "nat option"
  n_sender :: "nat option"
  n_target_role :: "string option"
  n_target_department :: "nat option"
  n_title :: string
  n_message :: string
  n_type :: string
  n_reference :: "string option"
  n_metadata :: json
  n_read :: bool

record dismissal =
  ds_notification :: nat
  ds_user :: nat

text \<open>
  A live event: the channel (an SSE subject of a user) and what was sent on it: a stored
  notification, by id, or a named refresh event.
\<close>

datatype live_payload = StoredNotification nat | NamedEvent string

section \<open>The world\<close>

text \<open>
  The response caches hold their keys only: what matters is which cached responses a
  service call invalidates.
\<close>

record world =
  batches :: "batch table"
  items :: "batch_item table"
  transactions :: "transaction table"
  batch_actions :: "batch_action table"
  employees :: "employee table"
  categories :: "category table"
  structures :: "pay_structure table"
  time_records :: "time_record table"
  allowances :: "allowance table"
  deduction_types :: "deduction_type table"
  employee_deductions :: "employee_deduction table"
  memberships :: "membership table"
  contributions :: "contribution table"
  monthly_taxes :: "monthly_tax table"
  configs :: "config table"
  locations :: "location table"
  departments :: "department table"
  positions :: "position table"
  position_variants :: "position_variant table"
  position_deductions :: "position_deduction table"
  allowance_templates :: "allowance_template table"
  allowance_types :: "allowance_type table"
  branch_managers :: "branch_manager table"
  users :: "user table"
  roles :: "role table"
  user_roles :: "user_role table"
  user_permissions :: "user_permission table"
  user_overrides :: "user_override table"
  sessions :: "user_session table"
  transfer_requests :: "transfer_request table"
  deactivation_requests :: "deactivation_request table"
  histories :: "history table"
  audit_logs :: "audit_log table"
  notifications :: "notification table"
  dismissals :: "dismissal list"
  cache_keys :: "string list"
  clients :: "(nat \<times> nat list) list"
  delivered :: "(nat \<times> live_payload) list"

type_synonym 'a service = "(world, error, 'a) op"

text \<open>
  \<open>prisma.$transaction\<close>: a throw inside rolls the database back; the cache and the live
  channels are outside the database and are not rolled back.
\<close>

definition atomically :: "'a service \<Rightarrow> 'a service" where
  "atomically m = (\<lambda>w. case m w of
       (Inl e, v) \<Rightarrow> (Inl e, w\<lparr>cache_keys := cache_keys v, clients := clients v, delivered := delivered v\<rparr>)
     | (Inr a, v) \<Rightarrow> (Inr a, v))"

lemma atomically_never: "never_fails m \<Longrightarrow> atomically m = m"
proof
  fix w
  assume "never_fails m"
  then obtain a v where "m w = (Inr a, v)" unfolding never_fails_def by blast
  then show "atomically m w = m w" by (simp add: atomically_def)
qed

lemma atomically_Inr [simp]: "atomically m w = (Inr a, v) \<longleftrightarrow> m w = (Inr a, v)"
  by (auto simp: atomically_def split: prod.splits sum.splits)

lemma atomically_Inl: "atomically m w = (Inl e, v) \<Longrightarrow>
    \<exists>k c d. v = w\<lparr>cache_keys := k, clients := c, delivered := d\<rparr>"
  by (auto simp: atomically_def split: prod.splits sum.splits)

lemma keeps_atomically:
  assumes "\<And>w k c d. I (w\<lparr>cache_keys := k, clients := c, delivered := d\<rparr>) = I w" and "keeps I m"
  shows "keeps I (atomically m)"
proof (rule keepsI)
  fix s r t
  assume "I s" and run: "atomically m s = (r, t)"
  show "I t"
  proof (cases r)
    case (Inl e)
    with run have "atomically m s = (Inl e, t)" by simp
    then obtain k c d where "t = s\<lparr>cache_keys := k, clients := c, delivered := d\<rparr>"
      using atomically_Inl by blast
    then show ?thesis using assms(1) \<open>I s\<close> by simp
  next
    case (Inr a)
    with run have "m s = (Inr a, t)" by simp
    with \<open>I s\<close> keepsD [OF assms(2)] show ?thesis by blast
  qed
qed

lemma leads_atomically:
  assumes chan: "\<And>w k c d. I (w\<lparr>cache_keys := k, clients := c, delivered := d\<rparr>) = I w" and "I w"
    and core: "\<And>a v. m w = (Inr a, v) \<Longrightarrow> I v" and rest: "\<And>a. keeps I (f a)"
  shows "leads I (bind (atomically m) f) w"
proof (rule leads_then [OF _ rest])
  fix r t
  assume run: "atomically m w = (r, t)"
  show "I t"
  proof (cases r)
    case (Inl e)
    with run have "atomically m w = (Inl e, t)" by simp
    then obtain k c d where "t = w\<lparr>cache_keys := k, clients := c, delivered := d\<rparr>" using atomically_Inl by blast
    then show ?thesis using chan \<open>I w\<close> by simp
  next
    case (Inr a)
    with run have "m w = (Inr a, t)" by simp
    then show ?thesis by (rule core)
  qed
qed

lemma never_fails_atomically [fail_rules]: "never_fails m \<Longrightarrow> never_fails (atomically m)"
  by (simp add: atomically_never)

lemma atomically_bind: "m w = (Inr a, v) \<Longrightarrow> bind (atomically m) f w = f a v"
  by (simp add: bind_def atomically_def)

text \<open>\<open>tx.audit_logs.create\<close>\<close>

definition audit :: "(nat \<Rightarrow> audit_log) \<Rightarrow> unit service" where
  "audit mk = modify (\<lambda>w. w\<lparr>audit_logs := insert_row mk (audit_logs w)\<rparr>)"

lemma never_fails_audit [fail_rules]: "never_fails (audit mk)"
  by (simp add: audit_def fail_rules)

lemma audit_app [simp]: "audit mk w = (Inr (), w\<lparr>audit_logs := insert_row mk (audit_logs w)\<rparr>)"
  by (simp add: audit_def)

end
