(* ===== verification/Notifications.thy ===== *)
theory Notifications
  imports Schema
begin

text \<open>
  \<open>notifications/notifications.service.ts\<close>: stored notifications, who they are routed to,
  the live channels (one per open SSE connection of a user), what a user sees, and how a
  user clears it.  The locale \<open>notifier\<close> is what the other services rely on: sending
  always succeeds and touches nothing but the notifications and the live channels.
\<close>

section \<open>Live channels\<close>

definition channels :: "world \<Rightarrow> nat \<Rightarrow> nat list" where
  "channels w uid = (case map_of (clients w) uid of None \<Rightarrow> [] | Some cs \<Rightarrow> cs)"

definition addClient :: "nat \<Rightarrow> nat \<Rightarrow> world \<Rightarrow> world" where
  "addClient uid subject w = w\<lparr>clients :=
     (case map_of (clients w) uid of
        None \<Rightarrow> clients w @ [(uid, [subject])]
      | Some cs \<Rightarrow> map (\<lambda>(k, v). if k = uid then (k, if subject \<in> set v then v else v @ [subject]) else (k, v)) (clients w))\<rparr>"

definition removeClient :: "nat \<Rightarrow> nat \<Rightarrow> world \<Rightarrow> world" where
  "removeClient uid subject w = w\<lparr>clients :=
     (case map_of (clients w) uid of
        None \<Rightarrow> clients w
      | Some cs \<Rightarrow> filter (\<lambda>(k, v). \<not> (k = uid \<and> v = []))
          (map (\<lambda>(k, v). if k = uid then (k, filter (\<lambda>s. s \<noteq> subject) v) else (k, v)) (clients w)))\<rparr>"

definition pushToUser :: "nat \<Rightarrow> live_payload \<Rightarrow> world \<Rightarrow> world" where
  "pushToUser uid payload w = w\<lparr>delivered := delivered w @ map (\<lambda>s. (s, payload)) (channels w uid)\<rparr>"

definition broadcast :: "live_payload \<Rightarrow> world \<Rightarrow> world" where
  "broadcast payload w =
     w\<lparr>delivered := delivered w @ map (\<lambda>s. (s, payload)) (concat (map snd (clients w)))\<rparr>"

definition notifyUsers :: "nat list \<Rightarrow> live_payload \<Rightarrow> world \<Rightarrow> world" where
  "notifyUsers uids payload w = foldl (\<lambda>v uid. pushToUser uid payload v) w uids"

section \<open>Sending\<close>

record notice =
  no_user :: "nat option"
  no_sender :: "nat option"
  no_title :: string
  no_message :: string
  no_type :: string
  no_reference :: "string option"
  no_metadata :: json
  no_push :: "nat list"

text \<open>
  \<open>create\<close> stores the row (never with a target role or department) and pushes it to its
  user, to the given users, or, when there is neither, to everybody.
\<close>

definition create_notification :: "env \<Rightarrow> notice \<Rightarrow> nat service" where
  "create_notification en dto = update_ret (\<lambda>w.
     let n = next_id (notifications w);
         w1 = w\<lparr>notifications := insert_row (\<lambda>n. \<lparr>n_id = n, n_uuid = gen_uuid en ''notifications'' n,
           n_user = no_user dto, n_sender = no_sender dto, n_target_role = None,
           n_target_department = None, n_title = no_title dto, n_message = no_message dto,
           n_type = no_type dto, n_reference = no_reference dto, n_metadata = no_metadata dto,
           n_read = False\<rparr>) (notifications w)\<rparr>;
         w2 = (case no_user dto of
             Some uid \<Rightarrow> pushToUser uid (StoredNotification n) w1
           | None \<Rightarrow> if no_push dto \<noteq> [] then notifyUsers (no_push dto) (StoredNotification n) w1
               else broadcast (StoredNotification n) w1)
     in (n, w2))"

definition users_with_role :: "world \<Rightarrow> string \<Rightarrow> nat list" where
  "users_with_role w name = map ur_user (select
     (\<lambda>ur. list_ex (\<lambda>r. ro_id r = ur_role ur \<and> ro_name r = name) (rows (roles w))) (user_roles w))"

definition hq_location :: "world \<Rightarrow> location option" where
  "hq_location w = find_row (\<lambda>l. w_type l = HQ \<and> \<not> w_deleted l) (locations w)"

definition active_hr_at :: "world \<Rightarrow> nat \<Rightarrow> nat list" where
  "active_hr_at w loc = filter (\<lambda>uid. list_ex (\<lambda>u. u_id u = uid \<and> u_loc u = Some loc \<and> u_status u = P_ACTIVE)
     (rows (users w))) (users_with_role w ''HR'')"

definition notifyAdmins :: "env \<Rightarrow> notice \<Rightarrow> nat service" where
  "notifyAdmins en dto = bind (reads (\<lambda>w. users_with_role w ''SUPER_ADMIN'')) (\<lambda>admins.
     create_notification en (dto\<lparr>no_user := None, no_push := admins\<rparr>))"

definition notifyBranchManager :: "env \<Rightarrow> nat \<Rightarrow> notice \<Rightarrow> nat service" where
  "notifyBranchManager en locationId dto =
     bind (reads (\<lambda>w. find_row (\<lambda>b. bm_loc b = locationId \<and> bm_active b) (branch_managers w))) (\<lambda>manager.
     case manager of
       Some b \<Rightarrow> create_notification en (dto\<lparr>no_user := Some (bm_user b)\<rparr>)
     | None \<Rightarrow> notifyAdmins en dto)"

definition notifyFinalApprovers :: "env \<Rightarrow> notice \<Rightarrow> nat service" where
  "notifyFinalApprovers en dto = bind (reads (\<lambda>w. w)) (\<lambda>w.
     case hq_location w of
       Some hq \<Rightarrow> (let hqHr = active_hr_at w (w_id hq) in
         if hqHr \<noteq> [] then create_notification en (dto\<lparr>no_user := None, no_push := hqHr\<rparr>)
         else notifyAdmins en dto)
     | None \<Rightarrow> notifyAdmins en dto)"

section \<open>What a user sees\<close>

definition user_by_uuid :: "world \<Rightarrow> string \<Rightarrow> user option" where
  "user_by_uuid w uuid = find_row (\<lambda>u. u_uuid u = uuid) (users w)"

definition role_names :: "world \<Rightarrow> nat \<Rightarrow> string list" where
  "role_names w uid = List.maps (\<lambda>ur. map ro_name (select (\<lambda>r. ro_id r = ur_role ur) (roles w)))
     (select (\<lambda>ur. ur_user ur = uid) (user_roles w))"

text \<open>
  \<open>getNotificationWhere\<close>: without a user every row matches; an authenticated user always
  has a row, a uuid without one matches nothing.
\<close>

definition notification_where :: "world \<Rightarrow> string option \<Rightarrow> notification \<Rightarrow> bool" where
  "notification_where w uuid n = (case uuid of None \<Rightarrow> True | Some uu \<Rightarrow>
     (case user_by_uuid w uu of None \<Rightarrow> False | Some u \<Rightarrow>
        (let names = role_names w (u_id u) in
          n_user n = Some (u_id u)
          \<or> (''SUPER_ADMIN'' \<in> set names \<and> n_user n = None)
          \<or> (names \<noteq> [] \<and> (case n_target_role n of None \<Rightarrow> False | Some r \<Rightarrow> r \<in> set names))
          \<or> (case u_department u of None \<Rightarrow> False | Some d \<Rightarrow> n_target_department n = Some d))))"

definition dismissed_ids :: "world \<Rightarrow> string option \<Rightarrow> nat list" where
  "dismissed_ids w uuid = (case Option.bind uuid (user_by_uuid w) of None \<Rightarrow> []
     | Some u \<Rightarrow> map ds_notification (filter (\<lambda>d. ds_user d = u_id u) (dismissals w)))"

definition findAll_notifications :: "world \<Rightarrow> string option \<Rightarrow> notification list" where
  "findAll_notifications w uuid = select (\<lambda>n. notification_where w uuid n \<and> n_id n \<notin> set (dismissed_ids w uuid))
     (notifications w)"

definition findUnreadCount :: "world \<Rightarrow> string option \<Rightarrow> nat" where
  "findUnreadCount w uuid = length (select (\<lambda>n. notification_where w uuid n \<and> \<not> n_read n
     \<and> n_id n \<notin> set (dismissed_ids w uuid)) (notifications w))"

definition markAsRead :: "string \<Rightarrow> string option \<Rightarrow> unit service" where
  "markAsRead nuuid uuid = modify (\<lambda>w. w\<lparr>notifications := update_rows
     (\<lambda>n. notification_where w uuid n \<and> n_uuid n = nuuid) (\<lambda>n. n\<lparr>n_read := True\<rparr>) (notifications w)\<rparr>)"

definition markAllAsRead :: "string option \<Rightarrow> unit service" where
  "markAllAsRead uuid = modify (\<lambda>w. w\<lparr>notifications := update_rows
     (\<lambda>n. notification_where w uuid n \<and> \<not> n_read n) (\<lambda>n. n\<lparr>n_read := True\<rparr>) (notifications w)\<rparr>)"

definition dismiss :: "nat \<Rightarrow> nat \<Rightarrow> dismissal list \<Rightarrow> dismissal list" where
  "dismiss nid uid ds = (let d = \<lparr>ds_notification = nid, ds_user = uid\<rparr> in
     if d \<in> set ds then ds else ds @ [d])"

definition clear_notification :: "string \<Rightarrow> string \<Rightarrow> unit service" where
  "clear_notification nuuid uuid = bind (reads (\<lambda>w. w)) (\<lambda>w.
     bind (the_or (NotFound ''User not found.'') (user_by_uuid w uuid)) (\<lambda>u.
     bind (the_or (NotFound ''Notification not found.'')
       (find_row (\<lambda>n. notification_where w (Some uuid) n \<and> n_uuid n = nuuid) (notifications w))) (\<lambda>n.
     modify (\<lambda>w. w\<lparr>dismissals := dismiss (n_id n) (u_id u) (dismissals w)\<rparr>))))"

definition clearAll :: "string \<Rightarrow> unit service" where
  "clearAll uuid = bind (reads (\<lambda>w. w)) (\<lambda>w.
     bind (the_or (NotFound ''User not found.'') (user_by_uuid w uuid)) (\<lambda>u.
     modify (\<lambda>w. w\<lparr>dismissals := foldl (\<lambda>ds n. dismiss (n_id n) (u_id u) ds) (dismissals w)
       (findAll_notifications w (Some uuid))\<rparr>)))"

section \<open>The interface the other services rely on\<close>

lemma notifyUsers_frame: "\<exists>d. notifyUsers uids p w = w\<lparr>delivered := d\<rparr>"
  unfolding notifyUsers_def
proof (induction uids arbitrary: w)
  case Nil
  have "w = w\<lparr>delivered := delivered w\<rparr>" by simp
  then show ?case unfolding foldl_Nil by blast
next
  case (Cons u us)
  obtain d where "foldl (\<lambda>v uid. pushToUser uid p v) (pushToUser u p w) us
      = (pushToUser u p w)\<lparr>delivered := d\<rparr>"
    using Cons.IH by blast
  also have "\<dots> = w\<lparr>delivered := d\<rparr>" by (simp add: pushToUser_def)
  finally show ?case unfolding foldl_Cons by (rule exI)
qed

lemma create_result: "\<exists>n d. create_notification en dto w
    = (Inr (next_id (notifications w)), w\<lparr>notifications := n, delivered := d\<rparr>)"
proof -
  have push: "\<exists>d. (case no_user dto of Some uid \<Rightarrow> pushToUser uid pl w1
      | None \<Rightarrow> if no_push dto \<noteq> [] then notifyUsers (no_push dto) pl w1 else broadcast pl w1)
      = w1\<lparr>delivered := d\<rparr>" for pl w1
  proof (cases "no_user dto")
    case None
    show ?thesis
    proof (cases "no_push dto = []")
      case True
      with None show ?thesis by (simp add: broadcast_def) (rule exI, rule refl)
    next
      case False
      with None show ?thesis using notifyUsers_frame by simp
    qed
  next
    case (Some uid)
    then show ?thesis by (simp add: pushToUser_def) (rule exI, rule refl)
  qed
  let ?n = "next_id (notifications w)"
  define t where "t = insert_row (\<lambda>n. \<lparr>n_id = n, n_uuid = gen_uuid en ''notifications'' n,
           n_user = no_user dto, n_sender = no_sender dto, n_target_role = None,
           n_target_department = None, n_title = no_title dto, n_message = no_message dto,
           n_type = no_type dto, n_reference = no_reference dto, n_metadata = no_metadata dto,
           n_read = False\<rparr>) (notifications w)"
  obtain d where "(case no_user dto of Some uid \<Rightarrow> pushToUser uid (StoredNotification ?n) (w\<lparr>notifications := t\<rparr>)
      | None \<Rightarrow> if no_push dto \<noteq> [] then notifyUsers (no_push dto) (StoredNotification ?n) (w\<lparr>notifications := t\<rparr>)
          else broadcast (StoredNotification ?n) (w\<lparr>notifications := t\<rparr>)) = w\<lparr>notifications := t, delivered := d\<rparr>"
    using push by blast
  then have "create_notification en dto w = (Inr ?n, w\<lparr>notifications := t, delivered := d\<rparr>)"
    unfolding create_notification_def update_ret_def Let_def t_def by (simp only: prod.case)
  then show ?thesis by blast
qed

text \<open>A predicate of the world that does not depend on notifications or live channels.\<close>

definition quiet :: "(world \<Rightarrow> bool) \<Rightarrow> bool" where
  "quiet I \<longleftrightarrow> (\<forall>w n d. I (w\<lparr>notifications := n, delivered := d\<rparr>) = I w)"

locale notifier =
  fixes send :: "env \<Rightarrow> notice \<Rightarrow> nat service"
  assumes sends: "never_fails (send en dto)"
    and frame: "\<exists>n d. snd (send en dto w) = w\<lparr>notifications := n, delivered := d\<rparr>"
begin

lemma keeps_send: "quiet I \<Longrightarrow> keeps I (send en dto)"
  unfolding keeps_def quiet_def by (metis frame)

lemma send_result: "\<exists>k n d. send en dto w = (Inr k, w\<lparr>notifications := n, delivered := d\<rparr>)"
proof -
  obtain k v where "send en dto w = (Inr k, v)" using sends unfolding never_fails_def by blast
  moreover from this frame [of en dto w] obtain n d where "v = w\<lparr>notifications := n, delivered := d\<rparr>" by auto
  ultimately show ?thesis by blast
qed

end

interpretation direct: notifier create_notification
proof unfold_locales
  fix en dto w
  show "never_fails (create_notification en dto)"
    unfolding create_notification_def by (rule fail_rules)
  show "\<exists>n d. snd (create_notification en dto w) = w\<lparr>notifications := n, delivered := d\<rparr>"
    using create_result [of en dto w] by (metis snd_conv)
qed

interpretation admins: notifier notifyAdmins
proof unfold_locales
  fix en dto w
  show "never_fails (notifyAdmins en dto)"
    unfolding notifyAdmins_def by (intro fail_rules direct.sends)
  show "\<exists>n d. snd (notifyAdmins en dto w) = w\<lparr>notifications := n, delivered := d\<rparr>"
    unfolding notifyAdmins_def by (simp add: direct.frame)
qed

interpretation branch: notifier "\<lambda>en dto. notifyBranchManager en loc dto" for loc
proof unfold_locales
  fix en dto w
  show "never_fails (notifyBranchManager en loc dto)"
    unfolding notifyBranchManager_def by (intro fail_rules direct.sends admins.sends)
  show "\<exists>n d. snd (notifyBranchManager en loc dto w) = w\<lparr>notifications := n, delivered := d\<rparr>"
    unfolding notifyBranchManager_def by (simp add: direct.frame admins.frame split: option.split)
qed

interpretation final: notifier notifyFinalApprovers
proof unfold_locales
  fix en dto w
  show "never_fails (notifyFinalApprovers en dto)"
    unfolding notifyFinalApprovers_def Let_def by (intro fail_rules direct.sends admins.sends)
  show "\<exists>n d. snd (notifyFinalApprovers en dto w) = w\<lparr>notifications := n, delivered := d\<rparr>"
    unfolding notifyFinalApprovers_def Let_def by (simp add: direct.frame admins.frame split: option.split)
qed

lemmas keeps_notify = direct.keeps_send admins.keeps_send branch.keeps_send final.keeps_send
lemmas notify_sends = direct.sends admins.sends branch.sends final.sends

end
