(* ===== verification/Calendar.thy ===== *)
theory Calendar
  imports Prelude
begin

text \<open>
  Civil dates as the services use them through \<open>Date\<close> and \<open>dayjs\<close>: the number of a day
  since 1 January 1970, the length of months, and the instants (milliseconds) at which a
  day begins and ends in Kigali, which is two hours ahead of UTC all year.
\<close>

definition day_ms :: int where
  "day_ms = 86400000"

definition leap_year :: "int \<Rightarrow> bool" where
  "leap_year y \<longleftrightarrow> y mod 4 = 0 \<and> (y mod 100 \<noteq> 0 \<or> y mod 400 = 0)"

definition month_len :: "int \<Rightarrow> nat \<Rightarrow> int" where
  "month_len y m = (if m = 2 then (if leap_year y then 29 else 28)
     else if m \<in> {4, 6, 9, 11} then 30 else 31)"

definition year_first :: "int \<Rightarrow> int" where
  "year_first y = 365 * (y - 1970) + (y - 1) div 4 - (y - 1) div 100 + (y - 1) div 400 - 477"

text \<open>Day number of the first day of month \<open>m\<close> (1 to 12) of year \<open>y\<close>.\<close>

definition month_first :: "int \<Rightarrow> nat \<Rightarrow> int" where
  "month_first y m = year_first y + sum_list (map (month_len y) [1..<m])"

definition day_number :: "int \<Rightarrow> nat \<Rightarrow> int \<Rightarrow> int" where
  "day_number y m d = month_first y m + d - 1"

text \<open>The month after, as \<open>add(1, 'month')\<close> gives it.\<close>

definition next_month :: "int \<times> nat \<Rightarrow> int \<times> nat" where
  "next_month ym = (if snd ym \<ge> 12 then (fst ym + 1, 1) else (fst ym, Suc (snd ym)))"

text \<open>Reading a day number back: the year, then the month within the year.\<close>

lemma year_first_Suc: "year_first (y + 1) = year_first y + (if leap_year y then 366 else 365)"
proof -
  have d: "(y::int) div k = (y - 1) div k + (if y mod k = 0 then 1 else 0)" if "k > 0" for k
  proof (cases "y mod k = 0")
    case True
    then obtain c where c: "y = k * c" by auto
    then have "(y - 1) div k = (k * (c - 1) + (k - 1)) div k" by (simp add: algebra_simps)
    also have "\<dots> = c - 1" using that by (subst div_mult_self4) simp_all
    finally show ?thesis using True c that by simp
  next
    case False
    with that have "0 \<le> y mod k - 1" "y mod k - 1 < k"
      using pos_mod_sign [of k y] pos_mod_bound [of k y] by linarith+
    then have zero: "(y mod k - 1) div k = 0" by (rule div_pos_pos_trivial)
    have "y - 1 = (y mod k - 1) + y div k * k"
      by (simp add: algebra_simps)
    then have "(y - 1) div k = ((y mod k - 1) + y div k * k) div k"
      by (rule arg_cong)
    also have "\<dots> = y div k + (y mod k - 1) div k"
      using that by (intro div_mult_self1) simp
    finally show ?thesis using False zero by simp
  qed
  have m: "y mod 400 = 0 \<Longrightarrow> y mod 100 = 0" "y mod 100 = 0 \<Longrightarrow> y mod 4 = 0" by presburger+
  define b4 b100 b400 where "b4 = (y mod 4 = 0)" and "b100 = (y mod 100 = 0)" and "b400 = (y mod 400 = 0)"
  have "year_first (y + 1) = 365 * (y + 1 - 1970) + y div 4 - y div 100 + y div 400 - 477"
    by (simp add: year_first_def)
  also have "\<dots> = 365 * (y + 1 - 1970) + ((y - 1) div 4 + (if b4 then 1 else 0))
      - ((y - 1) div 100 + (if b100 then 1 else 0)) + ((y - 1) div 400 + (if b400 then 1 else 0)) - 477"
    unfolding b4_def b100_def b400_def
    by (simp only: d [of 4, OF zero_less_numeral] d [of 100, OF zero_less_numeral]
        d [of 400, OF zero_less_numeral])
  also have "\<dots> = year_first y + 365 + (if b4 then 1 else 0) - (if b100 then 1 else 0) + (if b400 then 1 else 0)"
    unfolding year_first_def by simp
  also have "\<dots> = year_first y + (if leap_year y then 366 else 365)"
    using m unfolding leap_year_def b4_def [symmetric] b100_def [symmetric] b400_def [symmetric] by auto
  finally show ?thesis .
qed

lemma year_first_less: "year_first y < year_first (y + 1)"
  by (simp add: year_first_Suc)

function year_of :: "int \<Rightarrow> int \<Rightarrow> int" where
  "year_of y z = (if year_first (y + 1) \<le> z then year_of (y + 1) z else y)"
  by pat_completeness auto
termination
proof (relation "measure (\<lambda>(y, z). nat (z - year_first y))")
  fix y z :: int
  assume "year_first (y + 1) \<le> z"
  then show "((y + 1, z), (y, z)) \<in> measure (\<lambda>(y, z). nat (z - year_first y))"
    using year_first_less [of y] by simp
qed simp

declare year_of.simps [simp del]

fun month_of :: "int \<Rightarrow> nat \<Rightarrow> nat \<Rightarrow> int \<Rightarrow> nat \<times> int" where
  "month_of y 0 m k = (m, k)"
| "month_of y (Suc n) m k = (if k < month_len y m then (m, k) else month_of y n (Suc m) (k - month_len y m))"

text \<open>\<open>civil z\<close> is the year, the month and the day of the month of a day from 1970 on.\<close>

definition civil :: "int \<Rightarrow> int \<times> nat \<times> int" where
  "civil z = (let y = year_of 1970 z; (m, k) = month_of y 11 1 (z - year_first y) in (y, m, k + 1))"

section \<open>Instants\<close>

definition kigali_offset :: int where
  "kigali_offset = 2 * 3600000"

definition kigali_day :: "int \<Rightarrow> int" where
  "kigali_day t = (t + kigali_offset) div day_ms"

definition kigali_start_of_day :: "int \<Rightarrow> int" where
  "kigali_start_of_day d = d * day_ms - kigali_offset"

definition kigali_end_of_day :: "int \<Rightarrow> int" where
  "kigali_end_of_day d = kigali_start_of_day (d + 1) - 1"

text \<open>The UTC day of an instant.\<close>

definition utc_date :: "int \<Rightarrow> int" where
  "utc_date t = t div day_ms"

section \<open>Lemmas\<close>

lemma year_first_mono: "y \<le> y' \<Longrightarrow> year_first y \<le> year_first y'"
proof (induction "nat (y' - y)" arbitrary: y')
  case 0
  then show ?case by simp
next
  case (Suc n)
  then have "year_first y \<le> year_first (y' - 1)" by simp
  also have "\<dots> < year_first y'" using year_first_less [of "y' - 1"] by simp
  finally show ?case by simp
qed

lemma year_of_eq: "y0 \<le> y \<Longrightarrow> year_first y \<le> z \<Longrightarrow> z < year_first (y + 1) \<Longrightarrow> year_of y0 z = y"
proof (induction y0 z rule: year_of.induct)
  case (1 y0 z)
  show ?case
  proof (cases "year_first (y0 + 1) \<le> z")
    case True
    with "1.prems" have "y0 \<noteq> y" by auto
    with "1.prems" have "y0 + 1 \<le> y" by simp
    with "1.IH" [OF True] "1.prems" True show ?thesis by (subst year_of.simps) simp
  next
    case False
    have "y = y0"
    proof (rule ccontr)
      assume "y \<noteq> y0"
      with "1.prems" have "y0 + 1 \<le> y" by simp
      then have "year_first (y0 + 1) \<le> year_first y" by (rule year_first_mono)
      with False "1.prems" show False by simp
    qed
    with False show ?thesis by (subst year_of.simps) simp
  qed
qed

lemma year_first_diff: "year_first (y + 1) = year_first y + sum_list (map (month_len y) [1..<13])"
  by (simp add: year_first_Suc month_len_def upt_rec numeral_eq_Suc)

lemma month_len_pos: "0 < month_len y m"
  by (simp add: month_len_def)

lemma month_of_eq:
  "m0 \<le> m \<Longrightarrow> m \<le> m0 + n \<Longrightarrow> 0 \<le> k \<Longrightarrow> k < month_len y m \<Longrightarrow>
   month_of y n m0 (sum_list (map (month_len y) [m0..<m]) + k) = (m, k)"
proof (induction n arbitrary: m0)
  case 0
  then show ?case by simp
next
  case (Suc n)
  show ?case
  proof (cases "m0 = m")
    case True
    with Suc.prems show ?thesis by simp
  next
    case False
    with Suc.prems have up: "[m0..<m] = m0 # [Suc m0..<m]" by (simp add: upt_conv_Cons)
    have "0 \<le> sum_list (map (month_len y) [Suc m0..<m])"
      by (intro sum_list_nonneg) (auto intro: less_imp_le month_len_pos)
    with Suc False up show ?thesis by simp
  qed
qed

lemma day_number_bounds:
  assumes "1 \<le> m" "m \<le> 12" "1 \<le> d" "d \<le> month_len y m"
  shows "year_first y \<le> day_number y m d" and "day_number y m d < year_first (y + 1)"
proof -
  have nn: "0 \<le> sum_list (map (month_len y) [i..<j])" for i j
    by (intro sum_list_nonneg) (auto intro: less_imp_le month_len_pos)
  show "year_first y \<le> day_number y m d"
    using nn [of 1 m] assms by (simp add: day_number_def month_first_def)
  have "[1..<13] = [1..<m] @ m # [Suc m..<13]"
    using assms upt_add_eq_append [of 1 m "13 - m"] upt_conv_Cons [of m 13] by simp
  then show "day_number y m d < year_first (y + 1)"
    using nn [of "Suc m" 13] assms by (simp add: year_first_diff day_number_def month_first_def)
qed

lemma civil_day_number:
  assumes "1970 \<le> y" "1 \<le> m" "m \<le> 12" "1 \<le> d" "d \<le> month_len y m"
  shows "civil (day_number y m d) = (y, m, d)"
proof -
  have "year_of 1970 (day_number y m d) = y"
    using assms day_number_bounds [of m d y] by (intro year_of_eq) auto
  moreover have "month_of y 11 1 (day_number y m d - year_first y) = (m, d - 1)"
    using assms month_of_eq [of 1 m 11 "d - 1" y] by (simp add: day_number_def month_first_def)
  ultimately show ?thesis by (simp add: civil_def)
qed

lemma kigali_day_start [simp]: "kigali_day (kigali_start_of_day d) = d"
  by (simp add: kigali_day_def kigali_start_of_day_def day_ms_def)

lemma kigali_day_end [simp]: "kigali_day (kigali_end_of_day d) = d"
  by (simp add: kigali_day_def kigali_end_of_day_def kigali_start_of_day_def day_ms_def)

text \<open>Midnight in Kigali still belongs to the previous day in UTC; the end of the day does not.\<close>

lemma utc_date_kigali_start: "utc_date (kigali_start_of_day d) = d - 1"
  by (simp add: utc_date_def kigali_start_of_day_def day_ms_def kigali_offset_def)

lemma utc_date_kigali_end: "utc_date (kigali_end_of_day d) = d"
  by (simp add: utc_date_def kigali_end_of_day_def kigali_start_of_day_def day_ms_def kigali_offset_def)

end
