(* ===== verification/Payroll_Calc.thy ===== *)
theory Payroll_Calc
  imports Schema
begin

text \<open>
  The numeric helpers of the payroll: \<open>common/utils/payroll-calc.util.ts\<close> (overtime, daily
  rates, contract days) and \<open>common/utils/tax.util.ts\<close> (the progressive PAYE brackets),
  with the reference definition of the brackets they are compared with.
\<close>

section \<open>payroll-calc.util.ts\<close>

definition DEFAULT_OVERTIME_BONUS_PER_DAY :: rat where
  "DEFAULT_OVERTIME_BONUS_PER_DAY = 2500"

definition DEFAULT_WORK_HOURS_PER_DAY :: rat where
  "DEFAULT_WORK_HOURS_PER_DAY = 8"

definition DEFAULT_MONTHLY_WORK_DAYS :: nat where
  "DEFAULT_MONTHLY_WORK_DAYS = 22"

definition countOvertimeDays :: "rat list \<Rightarrow> rat \<Rightarrow> nat" where
  "countOvertimeDays hs limit = length (filter (\<lambda>h. h > limit) hs)"

definition countOvertimeHours :: "rat list \<Rightarrow> rat \<Rightarrow> rat" where
  "countOvertimeHours hs limit = foldl (\<lambda>acc h. acc + (if h > limit then h - limit else 0)) 0 hs"

definition calculateOvertimeBonus :: "rat \<Rightarrow> rat \<Rightarrow> rat" where
  "calculateOvertimeBonus days bonus = (if days = 0 \<or> days \<le> 0 then 0 else days * bonus)"

definition calculateOvertimePay :: "rat \<Rightarrow> rat \<Rightarrow> rat" where
  "calculateOvertimePay hours rate = (if hours = 0 \<or> hours \<le> 0 then 0 else hours * rate)"

definition calculateMonthlyDailyRate :: "rat \<Rightarrow> rat \<Rightarrow> rat" where
  "calculateMonthlyDailyRate salary workingDays =
     (if salary \<le> 0 \<or> workingDays \<le> 0 then 0 else to_fixed2 (salary / workingDays))"

text \<open>
  The contract dates are \<open>DATE\<close> columns (midnights), so the difference in milliseconds the
  code divides by the length of a day is a whole number of days.
\<close>

definition getContractDays :: "int \<Rightarrow> int \<Rightarrow> nat" where
  "getContractDays start end_day = (let diffDays = end_day - start + 1
     in if diffDays > 0 then nat diffDays else 0)"

definition calculateCustomContractTotal :: "rat \<Rightarrow> int \<Rightarrow> int \<Rightarrow> rat" where
  "calculateCustomContractTotal dailyRate start end_day = dailyRate * of_nat (getContractDays start end_day)"

section \<open>tax.util.ts\<close>

definition calculateRwandaPaye :: "rat \<Rightarrow> int" where
  "calculateRwandaPaye gross =
     (if gross \<le> 60000 then 0
      else let remaining = gross - 60000 in
        if remaining > 40000 then
          (let tax = 40000 * (1/10); remaining = remaining - 40000 in
            if remaining > 100000 then
              (let tax = tax + 100000 * (2/10); remaining = remaining - 100000;
                   tax = tax + remaining * (3/10) in math_round tax)
            else math_round (tax + remaining * (2/10)))
        else math_round (remaining * (1/10)))"

text \<open>
  The reference: each bracket taxes the part of the salary that lies inside it.
\<close>

definition bracket :: "rat \<Rightarrow> rat \<Rightarrow> rat \<Rightarrow> rat" where
  "bracket lo hi g = min (max 0 (g - lo)) (hi - lo)"

definition paye_reference :: "rat \<Rightarrow> rat" where
  "paye_reference g = bracket 60000 100000 g * (10/100) + bracket 100000 200000 g * (20/100)
     + max 0 (g - 200000) * (30/100)"

section \<open>Lemmas\<close>

lemma countOvertimeHours_sum:
  "countOvertimeHours hs limit = sum_list (map (\<lambda>h. h - limit) (filter (\<lambda>h. h > limit) hs))"
proof -
  have "foldl (\<lambda>acc h. acc + (if h > limit then h - limit else 0)) a hs
      = a + sum_list (map (\<lambda>h. h - limit) (filter (\<lambda>h. h > limit) hs))" for a
    by (induction hs arbitrary: a) auto
  then show ?thesis by (simp add: countOvertimeHours_def)
qed

lemma calculateOvertimePay_eq: "0 \<le> rate \<Longrightarrow> calculateOvertimePay hours rate = max 0 hours * rate"
  by (simp add: calculateOvertimePay_def max_def)

lemma calculateOvertimePay_nonneg: "0 \<le> rate \<Longrightarrow> 0 \<le> calculateOvertimePay hours rate"
  by (simp add: calculateOvertimePay_def)

lemma calculateMonthlyDailyRate_nonneg: "0 \<le> calculateMonthlyDailyRate salary days"
  by (simp add: calculateMonthlyDailyRate_def to_fixed2_nonneg)

lemma calculateMonthlyDailyRate_error:
  assumes "0 < salary" and "0 < days"
  shows "\<bar>calculateMonthlyDailyRate salary days * days - salary\<bar> \<le> days / 200"
proof -
  let ?r = "calculateMonthlyDailyRate salary days"
  have "?r * days - salary = (?r - salary / days) * days"
    using assms by (simp add: left_diff_distrib)
  then have "\<bar>?r * days - salary\<bar> = \<bar>?r - salary / days\<bar> * days"
    using assms by (simp add: abs_mult)
  also have "\<dots> \<le> 1 / 200 * days"
    using assms to_fixed2_error [of "salary / days"]
    by (intro mult_right_mono) (simp_all add: calculateMonthlyDailyRate_def)
  finally show ?thesis by simp
qed

lemma getContractDays_eq: "int (getContractDays a b) = max 0 (b - a + 1)"
  by (simp add: getContractDays_def Let_def max_def)

lemma paye_reference_cases:
  "g \<le> 60000 \<Longrightarrow> paye_reference g = 0"
  "60000 \<le> g \<Longrightarrow> g \<le> 100000 \<Longrightarrow> paye_reference g = (g - 60000) * (1/10)"
  "100000 \<le> g \<Longrightarrow> g \<le> 200000 \<Longrightarrow> paye_reference g = 4000 + (g - 100000) * (2/10)"
  "200000 \<le> g \<Longrightarrow> paye_reference g = 24000 + (g - 200000) * (3/10)"
  by (auto simp: paye_reference_def bracket_def min_def max_def)

lemma paye_rounds_reference: "calculateRwandaPaye g = math_round (paye_reference g)"
proof -
  consider "g \<le> 60000" | "60000 < g" "g \<le> 100000" | "100000 < g" "g \<le> 200000" | "200000 < g"
    by linarith
  then show ?thesis
  proof cases
    case 1
    then show ?thesis
      using math_round_int [of 0] by (simp add: calculateRwandaPaye_def paye_reference_cases)
  next
    case 2
    then have "\<not> g - 60000 > 40000" by linarith
    with 2 show ?thesis by (simp add: calculateRwandaPaye_def paye_reference_cases)
  next
    case 3
    then have "g - 60000 > 40000" and "\<not> g - 60000 - 40000 > 100000" by linarith+
    with 3 show ?thesis by (simp add: calculateRwandaPaye_def paye_reference_cases Let_def)
  next
    case 4
    then have "g - 60000 > 40000" and "g - 60000 - 40000 > 100000" by linarith+
    with 4 show ?thesis by (simp add: calculateRwandaPaye_def paye_reference_cases Let_def)
  qed
qed

lemma bracket_mono: "lo \<le> hi \<Longrightarrow> g \<le> h \<Longrightarrow> bracket lo hi g \<le> bracket lo hi h"
  by (auto simp: bracket_def min_def max_def)

lemma bracket_total: "bracket 60000 100000 g + bracket 100000 200000 g + max 0 (g - 200000) = max 0 (g - 60000)"
  by (auto simp: bracket_def min_def max_def)

lemma excess_mono: "g \<le> h \<Longrightarrow> max 0 (g - t) \<le> max 0 (h - (t::rat))"
  by (auto simp: max_def)

lemma excess_diff: "g \<le> h \<Longrightarrow> max 0 (h - t) - max 0 (g - t) \<le> h - (g::rat)"
  by (auto simp: max_def)

lemma paye_reference_mono: "g \<le> h \<Longrightarrow> paye_reference g \<le> paye_reference h"
  unfolding paye_reference_def
  by (intro add_mono mult_right_mono bracket_mono excess_mono) simp_all

lemma paye_reference_lipschitz:
  assumes "g \<le> h"
  shows "paye_reference h - paye_reference g \<le> (h - g) * (30/100)"
proof -
  define d1 where "d1 = bracket 60000 100000 h - bracket 60000 100000 g"
  define d2 where "d2 = bracket 100000 200000 h - bracket 100000 200000 g"
  define d3 where "d3 = max 0 (h - 200000) - max 0 (g - 200000)"
  have "0 \<le> d1" "0 \<le> d2"
    using assms by (simp_all add: d1_def d2_def bracket_mono)
  then have "d1 * (10/100) + d2 * (20/100) + d3 * (30/100) \<le> (d1 + d2 + d3) * (30/100)"
    by (simp add: field_simps)
  also have "d1 + d2 + d3 \<le> h - g"
    using excess_diff [OF assms, of 60000] bracket_total [of g] bracket_total [of h]
    unfolding d1_def d2_def d3_def by linarith
  then have "(d1 + d2 + d3) * (30/100) \<le> (h - g) * (30/100)"
    by (intro mult_right_mono) simp_all
  finally show ?thesis
    unfolding paye_reference_def d1_def d2_def d3_def by (simp only: left_diff_distrib)
qed

lemma paye_mono: "g \<le> h \<Longrightarrow> calculateRwandaPaye g \<le> calculateRwandaPaye h"
  by (simp add: paye_rounds_reference math_round_mono paye_reference_mono)

end
