(* ===== verification/System_Config.thy ===== *)
theory System_Config
  imports Schema Calendar Payroll_Calc "HOL-Library.Product_Lexorder"
begin

text \<open>
  \<open>system-config/system-config.service.ts\<close>: the key/value configuration, the versions of
  the monthly taxes and the overtime rate.  A tax change is a new row with the instant from
  which it applies; a query at an instant takes the latest version that applies.
\<close>

section \<open>Taxes\<close>

definition DEFAULT_PIT_RATE :: rat where "DEFAULT_PIT_RATE = 15"

definition PIT_DISPLAY_NAME :: string where "PIT_DISPLAY_NAME = ''Personal Income Tax (PIT)''"

record tax_view =
  tv_uuid :: string
  tv_name :: string
  tv_rate :: rat
  tv_automatic :: bool

definition isPitTaxName :: "string \<Rightarrow> bool" where
  "isPitTaxName name = (let normalized = only_lower_letters (to_lower name) in
     normalized = ''pit'' \<or> str_includes normalized ''personalincometax'' \<or> str_includes normalized ''paye'')"

definition defaultPitTax :: tax_view where
  "defaultPitTax = \<lparr>tv_uuid = ''default-pit'', tv_name = PIT_DISPLAY_NAME, tv_rate = DEFAULT_PIT_RATE,
     tv_automatic = True\<rparr>"

text \<open>\<open>orderBy: [effective_from desc, created_at desc]\<close>\<close>

definition latest_first :: "monthly_tax list \<Rightarrow> monthly_tax list" where
  "latest_first = sort_key (\<lambda>x. (- x_from x, - x_created_at x))"

definition taxes_at :: "env \<Rightarrow> int \<Rightarrow> world \<Rightarrow> monthly_tax list" where
  "taxes_at en date w = latest_first (select (\<lambda>x. x_active x \<and> x_from x \<le> to_date en date) (monthly_taxes w))"

definition findMonthlyTaxesAtDate :: "env \<Rightarrow> int \<Rightarrow> world \<Rightarrow> tax_view list" where
  "findMonthlyTaxesAtDate en date w =
     (case List.find (\<lambda>x. isPitTaxName (x_name x)) (taxes_at en date w) of
        Some x \<Rightarrow> [\<lparr>tv_uuid = x_uuid x, tv_name = PIT_DISPLAY_NAME, tv_rate = x_rate x, tv_automatic = True\<rparr>]
      | None \<Rightarrow> [defaultPitTax])"

text \<open>Adds a view under its name unless the name is already there.\<close>

definition add_unique :: "tax_view list \<Rightarrow> tax_view \<Rightarrow> tax_view list" where
  "add_unique acc t = (if tv_name t \<in> tv_name ` set acc then acc else acc @ [t])"

definition assigned_step :: "tax_view list \<Rightarrow> monthly_tax \<Rightarrow> tax_view list" where
  "assigned_step acc x = (if isPitTaxName (x_name x) then acc
     else add_unique acc \<lparr>tv_uuid = x_uuid x, tv_name = js_trim (x_name x), tv_rate = x_rate x,
       tv_automatic = False\<rparr>)"

definition findEmployeeAssignedMonthlyTaxesAtDate :: "env \<Rightarrow> int \<Rightarrow> world \<Rightarrow> tax_view list" where
  "findEmployeeAssignedMonthlyTaxesAtDate en date w =
     foldl assigned_step [] (taxes_at en date w)"

definition upsertDeductionTypeForTax :: "env \<Rightarrow> string \<Rightarrow> rat \<Rightarrow> unit service" where
  "upsertDeductionTypeForTax en name rate = modify (\<lambda>w.
     if find_row (\<lambda>d. dt_name d = name) (deduction_types w) \<noteq> None
     then w\<lparr>deduction_types := update_rows (\<lambda>d. dt_name d = name)
       (\<lambda>d. d\<lparr>dt_mode := PERCENTAGE, dt_amount := 0, dt_percentage := rate\<rparr>) (deduction_types w)\<rparr>
     else w\<lparr>deduction_types := insert_row (\<lambda>n. \<lparr>dt_id = n, dt_name = name, dt_mode = PERCENTAGE,
       dt_amount = 0, dt_percentage = rate, dt_mandatory = False,
       dt_uuid = gen_uuid en ''deduction_types'' n, dt_created_at = now en\<rparr>) (deduction_types w)\<rparr>)"

text \<open>
  The list for the settings page: one entry per name, the default PIT when no version of it
  exists; reading it also writes a deduction type for every tax that is not automatic.
\<close>

definition uniqueTaxes :: "monthly_tax list \<Rightarrow> tax_view list" where
  "uniqueTaxes taxes =
     (let us = foldl (\<lambda>acc x. let pit = isPitTaxName (x_name x) in
          add_unique acc \<lparr>tv_uuid = x_uuid x, tv_name = (if pit then PIT_DISPLAY_NAME else js_trim (x_name x)),
            tv_rate = x_rate x, tv_automatic = pit\<rparr>) [] taxes
      in if list_ex tv_automatic us then us else add_unique us defaultPitTax)"

definition getAllMonthlyTaxes :: "env \<Rightarrow> tax_view list service" where
  "getAllMonthlyTaxes en =
     bind (reads (\<lambda>w. uniqueTaxes (latest_first (select x_active (monthly_taxes w))))) (\<lambda>us.
     bind (for_each (filter (\<lambda>t. \<not> tv_automatic t) us)
       (\<lambda>t. upsertDeductionTypeForTax en (tv_name t) (tv_rate t))) (\<lambda>_.
     ret us))"

text \<open>
  The instant from which a change applies: today when it is the first of the month in
  Kigali, the first of the next month otherwise.
\<close>

definition tax_effective_from :: "env \<Rightarrow> int" where
  "tax_effective_from en = (let d = kigali_day (now en); (y, m, dom) = civil d in
     if dom = 1 then kigali_start_of_day d
     else (case next_month (y, m) of (y', m') \<Rightarrow> kigali_start_of_day (month_first y' m')))"

definition view_of_tax :: "monthly_tax \<Rightarrow> tax_view" where
  "view_of_tax x = \<lparr>tv_uuid = x_uuid x, tv_name = x_name x, tv_rate = x_rate x,
     tv_automatic = isPitTaxName (x_name x)\<rparr>"

text \<open>A \<open>rate\<close> of \<open>None\<close> stands for a value \<open>Number\<close> does not turn into a finite number.\<close>

definition updateMonthlyTax :: "env \<Rightarrow> string option \<Rightarrow> rat option \<Rightarrow> tax_view service" where
  "updateMonthlyTax en name rate =
     (let trimmedName = map_option js_trim name in
     bind (ensure (truthy trimmedName) (BadRequest ''Tax name is required.'')) (\<lambda>_.
     bind (ensure (case rate of None \<Rightarrow> False | Some r \<Rightarrow> \<not> (r < 0 \<or> r > 100))
       (BadRequest ''Tax rate must be a number between 0 and 100.'')) (\<lambda>_.
     (let nm = the trimmedName; numericRate = the rate; effectiveFrom = tax_effective_from en;
          stored = (if isPitTaxName nm then PIT_DISPLAY_NAME else nm) in
     bind (atomically (
       bind (reads (\<lambda>w. next_id (monthly_taxes w))) (\<lambda>n.
       bind (modify (\<lambda>w. w\<lparr>monthly_taxes := insert_row (\<lambda>n. \<lparr>x_id = n, x_uuid = gen_uuid en ''monthly_taxes'' n,
         x_name = stored, x_rate = numericRate, x_from = to_date en effectiveFrom, x_active = True,
         x_created_at = now en\<rparr>) (monthly_taxes w)\<rparr>)) (\<lambda>_.
       bind (when_op (\<not> isPitTaxName stored) (upsertDeductionTypeForTax en stored numericRate)) (\<lambda>_.
       ret \<lparr>tv_uuid = gen_uuid en ''monthly_taxes'' n, tv_name = stored, tv_rate = numericRate,
         tv_automatic = isPitTaxName stored\<rparr>))))) ret))))"

text \<open>An update of a row that does not exist is refused by the database client.\<close>

definition deactivateMonthlyTax :: "string \<Rightarrow> tax_view service" where
  "deactivateMonthlyTax uuid =
     bind (reads (\<lambda>w. find_row (\<lambda>x. x_uuid x = uuid) (monthly_taxes w))) (\<lambda>r.
     bind (the_or (NotFound ''Record to update not found.'') r) (\<lambda>x.
     bind (modify (\<lambda>w. w\<lparr>monthly_taxes := update_rows (\<lambda>y. x_id y = x_id x)
       (\<lambda>y. y\<lparr>x_active := False\<rparr>) (monthly_taxes w)\<rparr>)) (\<lambda>_.
     ret (view_of_tax x))))"

section \<open>Key/value configuration\<close>

definition findByKey :: "string \<Rightarrow> config service" where
  "findByKey key = bind (reads (\<lambda>w. find_row (\<lambda>g. g_key g = key) (configs w))) (\<lambda>r.
     the_or (NotFound (''Config with key '' @ key @ '' not found'')) r)"

definition update_config :: "string \<Rightarrow> string \<Rightarrow> string option \<Rightarrow> config service" where
  "update_config key value description = update_ret (\<lambda>w.
     case find_row (\<lambda>g. g_key g = key) (configs w) of
       Some g \<Rightarrow> (let g' = g\<lparr>g_value := value,
           g_description := (case description of None \<Rightarrow> g_description g | Some d \<Rightarrow> Some d)\<rparr> in
         (g', w\<lparr>configs := update_rows (\<lambda>r. g_key r = key) (\<lambda>_. g') (configs w)\<rparr>))
     | None \<Rightarrow> (let mk = (\<lambda>n. \<lparr>g_id = n, g_key = key, g_value = value, g_description = description\<rparr>) in
         (mk (next_id (configs w)), w\<lparr>configs := insert_row mk (configs w)\<rparr>)))"

definition updateBatch :: "(string \<times> string \<times> string option) list \<Rightarrow> config list service" where
  "updateBatch dtos = map_each dtos (\<lambda>(k, v, d). update_config k v d)"

definition getOvertimeBonusPerDay :: "world \<Rightarrow> rat" where
  "getOvertimeBonusPerDay w =
     (case find_row (\<lambda>g. g_key g = ''OVERTIME_RATE_PER_HOUR'') (configs w) of
        None \<Rightarrow> DEFAULT_OVERTIME_BONUS_PER_DAY
      | Some g \<Rightarrow> if g_value g = [] then DEFAULT_OVERTIME_BONUS_PER_DAY
          else (case js_Number (g_value g) of
              Some parsed \<Rightarrow> if parsed \<ge> 0 then parsed else DEFAULT_OVERTIME_BONUS_PER_DAY
            | None \<Rightarrow> DEFAULT_OVERTIME_BONUS_PER_DAY))"

definition getDefaultWorkHours :: "world \<Rightarrow> rat" where
  "getDefaultWorkHours w =
     (case find_row (\<lambda>g. g_key g = ''DEFAULT_WORK_HOURS'') (configs w) of
        None \<Rightarrow> DEFAULT_WORK_HOURS_PER_DAY
      | Some g \<Rightarrow> if g_value g = [] then DEFAULT_WORK_HOURS_PER_DAY
          else (case js_Number (g_value g) of
              Some parsed \<Rightarrow> if parsed > 0 then parsed else DEFAULT_WORK_HOURS_PER_DAY
            | None \<Rightarrow> DEFAULT_WORK_HOURS_PER_DAY))"

section \<open>Lemmas\<close>

definition rate_ok :: "monthly_tax \<Rightarrow> bool" where
  "rate_ok x \<longleftrightarrow> 0 \<le> x_rate x \<and> x_rate x \<le> 100"

definition taxes_ok :: "world \<Rightarrow> bool" where
  "taxes_ok w \<longleftrightarrow> (\<forall>x \<in> set (rows (monthly_taxes w)). rate_ok x)"

lemma find_sorted_least:
  "sorted (map k xs) \<Longrightarrow> List.find P xs = Some x \<Longrightarrow> y \<in> set xs \<Longrightarrow> P y \<Longrightarrow> k x \<le> k y"
  by (induction xs) (auto split: if_splits)

lemma sorted_latest_first: "sorted (map (\<lambda>x. (- x_from x, - x_created_at x)) (latest_first xs))"
  unfolding latest_first_def by (rule sorted_sort_key)

lemma set_latest_first [simp]: "set (latest_first xs) = set xs"
  by (simp add: latest_first_def)

lemma find_latest_first:
  assumes "List.find P (latest_first xs) = Some x"
  shows "x \<in> set xs" and "P x" and "y \<in> set xs \<Longrightarrow> P y \<Longrightarrow> x_from y \<le> x_from x"
proof -
  show "x \<in> set xs" and "P x"
    using find_SomeD [OF assms] by simp_all
  assume "y \<in> set xs" and "P y"
  then have "(- x_from x, - x_created_at x) \<le> (- x_from y, - x_created_at y)"
    using find_sorted_least [OF sorted_latest_first assms, of y] by simp
  then show "x_from y \<le> x_from x" by auto
qed

lemma find_latest_first_None: "List.find P (latest_first xs) = None \<longleftrightarrow> (\<forall>x \<in> set xs. \<not> P x)"
  by (auto simp: latest_first_def find_None_iff)

lemma taxes_at_rows: "x \<in> set (taxes_at en d w) \<longleftrightarrow>
    x \<in> set (rows (monthly_taxes w)) \<and> x_active x \<and> x_from x \<le> to_date en d"
  by (auto simp: taxes_at_def latest_first_def)

lemma getOvertimeBonusPerDay_nonneg: "0 \<le> getOvertimeBonusPerDay w"
  by (simp add: getOvertimeBonusPerDay_def DEFAULT_OVERTIME_BONUS_PER_DAY_def split: option.splits)

lemma getDefaultWorkHours_pos: "0 < getDefaultWorkHours w"
  by (simp add: getDefaultWorkHours_def DEFAULT_WORK_HOURS_PER_DAY_def split: option.splits)

lemma monthly_rate_ok:
  "taxes_ok w \<Longrightarrow> t \<in> set (findMonthlyTaxesAtDate en d w) \<Longrightarrow> 0 \<le> tv_rate t \<and> tv_rate t \<le> 100"
proof -
  assume ok: "taxes_ok w" and t: "t \<in> set (findMonthlyTaxesAtDate en d w)"
  show ?thesis
  proof (cases "List.find (\<lambda>x. isPitTaxName (x_name x)) (taxes_at en d w)")
    case None
    with t show ?thesis
      by (simp add: findMonthlyTaxesAtDate_def defaultPitTax_def DEFAULT_PIT_RATE_def)
  next
    case (Some x)
    then have "x \<in> set (taxes_at en d w)" using find_SomeD by metis
    then have "rate_ok x" using ok by (simp add: taxes_at_rows taxes_ok_def)
    moreover have "tv_rate t = x_rate x" using Some t by (simp add: findMonthlyTaxesAtDate_def)
    ultimately show ?thesis by (simp add: rate_ok_def)
  qed
qed

lemma add_unique_names: "distinct (map tv_name acc) \<Longrightarrow> distinct (map tv_name (add_unique acc t))"
  by (auto simp: add_unique_def)

lemma assigned_step_distinct: "distinct (map tv_name acc) \<Longrightarrow> distinct (map tv_name (assigned_step acc x))"
  by (simp add: assigned_step_def add_unique_names)

lemma assigned_step_rate:
  "\<forall>t \<in> set acc. 0 \<le> tv_rate t \<and> tv_rate t \<le> 100 \<Longrightarrow> rate_ok x \<Longrightarrow>
   \<forall>t \<in> set (assigned_step acc x). 0 \<le> tv_rate t \<and> tv_rate t \<le> 100"
  by (auto simp: assigned_step_def add_unique_def rate_ok_def)

lemma assigned_fold_distinct:
  "distinct (map tv_name acc) \<Longrightarrow> distinct (map tv_name (foldl assigned_step acc xs))"
  by (induction xs arbitrary: acc) (simp_all add: assigned_step_distinct)

lemma assigned_fold_rate:
  "\<forall>t \<in> set acc. 0 \<le> tv_rate t \<and> tv_rate t \<le> 100 \<Longrightarrow> \<forall>x \<in> set xs. rate_ok x \<Longrightarrow>
   \<forall>t \<in> set (foldl assigned_step acc xs). 0 \<le> tv_rate t \<and> tv_rate t \<le> 100"
proof (induction xs arbitrary: acc)
  case Nil
  then show ?case by simp
next
  case (Cons x xs)
  have "\<forall>t \<in> set (assigned_step acc x). 0 \<le> tv_rate t \<and> tv_rate t \<le> 100"
    using Cons.prems by (intro assigned_step_rate) simp_all
  moreover have "\<forall>x \<in> set xs. rate_ok x" using Cons.prems(2) by simp
  ultimately have "\<forall>t \<in> set (foldl assigned_step (assigned_step acc x) xs). 0 \<le> tv_rate t \<and> tv_rate t \<le> 100"
    by (rule Cons.IH)
  then show ?case by (simp only: foldl_Cons)
qed

lemma assigned_names_distinct: "distinct (map tv_name (findEmployeeAssignedMonthlyTaxesAtDate en d w))"
  unfolding findEmployeeAssignedMonthlyTaxesAtDate_def by (intro assigned_fold_distinct) simp

lemma assigned_rate_ok:
  "taxes_ok w \<Longrightarrow> t \<in> set (findEmployeeAssignedMonthlyTaxesAtDate en d w) \<Longrightarrow> 0 \<le> tv_rate t \<and> tv_rate t \<le> 100"
  using assigned_fold_rate [of "[]" "taxes_at en d w"]
  by (auto simp: findEmployeeAssignedMonthlyTaxesAtDate_def taxes_at_rows taxes_ok_def)

subsection \<open>The tax policy the payroll relies on\<close>

text \<open>
  What the payroll calculation assumes of the tax service: exactly one automatic tax for
  monthly employees at any date, and percentages between 0 and 100.
\<close>

locale tax_policy =
  fixes valid :: "world \<Rightarrow> bool"
    and monthly :: "int \<Rightarrow> world \<Rightarrow> tax_view list"
    and assigned :: "int \<Rightarrow> world \<Rightarrow> tax_view list"
  assumes monthly_single: "\<exists>t. monthly d w = [t]"
    and monthly_percent: "valid w \<Longrightarrow> t \<in> set (monthly d w) \<Longrightarrow> 0 \<le> tv_rate t \<and> tv_rate t \<le> 100"
    and assigned_percent: "valid w \<Longrightarrow> t \<in> set (assigned d w) \<Longrightarrow> 0 \<le> tv_rate t \<and> tv_rate t \<le> 100"
    and assigned_distinct: "distinct (map tv_name (assigned d w))"
begin

lemma total_tax_single:
  "\<exists>r. sum_of (\<lambda>t. salary * (tv_rate t / 100)) (monthly d w) = salary * (r / 100) \<and>
     (valid w \<longrightarrow> 0 \<le> r \<and> r \<le> 100)"
proof -
  obtain t where t: "monthly d w = [t]" using monthly_single by blast
  then have "sum_of (\<lambda>t. salary * (tv_rate t / 100)) (monthly d w) = salary * (tv_rate t / 100)" by simp
  moreover have "valid w \<longrightarrow> 0 \<le> tv_rate t \<and> tv_rate t \<le> 100"
    using monthly_percent [of w t d] t by simp
  ultimately show ?thesis by blast
qed

lemma total_tax_bounds:
  assumes "valid w" and "0 \<le> salary"
  shows "0 \<le> sum_of (\<lambda>t. salary * (tv_rate t / 100)) (monthly d w)"
    and "sum_of (\<lambda>t. salary * (tv_rate t / 100)) (monthly d w) \<le> salary"
proof -
  obtain r where eq: "sum_of (\<lambda>t. salary * (tv_rate t / 100)) (monthly d w) = salary * (r / 100)"
    and r: "0 \<le> r" "r \<le> 100"
    using total_tax_single [of salary d w] assms(1) by blast
  show "0 \<le> sum_of (\<lambda>t. salary * (tv_rate t / 100)) (monthly d w)"
    unfolding eq using r assms by (intro mult_nonneg_nonneg) simp_all
  have "salary * (r / 100) \<le> salary * 1"
    using r assms by (intro mult_left_mono) simp_all
  then show "sum_of (\<lambda>t. salary * (tv_rate t / 100)) (monthly d w) \<le> salary"
    unfolding eq by simp
qed

end

interpretation taxes: tax_policy taxes_ok "\<lambda>d w. findMonthlyTaxesAtDate en d w"
    "\<lambda>d w. findEmployeeAssignedMonthlyTaxesAtDate en d w" for en
proof unfold_locales
  show "\<exists>t. findMonthlyTaxesAtDate en d w = [t]" for d w
    by (simp add: findMonthlyTaxesAtDate_def split: option.splits)
qed (use monthly_rate_ok assigned_rate_ok assigned_names_distinct in \<open>blast+\<close>)

end
