(* ===== verification/Ikimina.thy ===== *)
theory Ikimina
  imports Notifications System_Config
begin

text \<open>
  \<open>ikimina/ikimina.service.ts\<close>, the savings scheme: one membership per employee, a ledger
  of contributions, and \<open>deductForBatch\<close>, which payroll calls while it creates a batch.
  The locale \<open>savings_ledger\<close> states what payroll relies on.
\<close>

section \<open>Caches and look-ups\<close>

definition MEMBERSHIPS_LIST_CACHE_KEY :: string where
  "MEMBERSHIPS_LIST_CACHE_KEY = ''ikimina:memberships:all''"

definition membershipByEmployeeCacheKey :: "nat \<Rightarrow> string" where
  "membershipByEmployeeCacheKey eid = ''ikimina:membership:employee:'' @ show_nat eid"

definition cache_del :: "string \<Rightarrow> unit service" where
  "cache_del key = modify (\<lambda>w. w\<lparr>cache_keys := filter (\<lambda>k. k \<noteq> key) (cache_keys w)\<rparr>)"

definition cache_put :: "string \<Rightarrow> unit service" where
  "cache_put key = modify (\<lambda>w. w\<lparr>cache_keys := (if key \<in> set (cache_keys w) then cache_keys w
     else cache_keys w @ [key])\<rparr>)"

definition invalidateMembershipCaches :: "nat option \<Rightarrow> unit service" where
  "invalidateMembershipCaches employeeId =
     bind (cache_del MEMBERSHIPS_LIST_CACHE_KEY) (\<lambda>_.
     case employeeId of None \<Rightarrow> ret () | Some eid \<Rightarrow> cache_del (membershipByEmployeeCacheKey eid))"

definition toBigInt :: "string \<Rightarrow> string \<Rightarrow> nat service" where
  "toBigInt value fieldName = (if isNumericId value then ret (read_nat value)
     else throw (BadRequest (''Please choose a valid '' @ fieldName @ ''.'')))"

definition latest_structure :: "world \<Rightarrow> nat \<Rightarrow> pay_structure option" where
  "latest_structure w eid = (case sort_key (\<lambda>s. - s_from s) (select (\<lambda>s. s_employee s = eid) (structures w)) of
     [] \<Rightarrow> None | s # _ \<Rightarrow> Some s)"

definition category_of :: "world \<Rightarrow> employee \<Rightarrow> category option" where
  "category_of w e = Option.bind (e_category e) (\<lambda>cid. find_row (\<lambda>c. c_id c = cid) (categories w))"

definition frequency_name :: "frequency option \<Rightarrow> string" where
  "frequency_name f = (case f of None \<Rightarrow> ''undefined'' | Some DAILY \<Rightarrow> ''DAILY''
     | Some MONTHLY \<Rightarrow> ''MONTHLY'' | Some CUSTOM \<Rightarrow> ''CUSTOM'')"

text \<open>The structure's frequency, or else the employment category's.\<close>

definition employee_frequency :: "world \<Rightarrow> employee \<Rightarrow> frequency option" where
  "employee_frequency w e = (case latest_structure w (e_id e) of
     Some s \<Rightarrow> Some (s_frequency s)
   | None \<Rightarrow> map_option c_frequency (category_of w e))"

section \<open>Operations\<close>

record membership_dto =
  md_employee :: string
  md_amount :: "rat option"
  md_active :: "bool option"

definition createMembership :: "env \<Rightarrow> membership_dto \<Rightarrow> current_user \<Rightarrow> membership service" where
  "createMembership en dto actor =
     bind (ensure (md_employee dto \<noteq> [] \<and> md_amount dto \<noteq> None \<and> md_amount dto \<noteq> Some 0)
       (BadRequest ''Employee ID and monthly amount are required.'')) (\<lambda>_.
     bind (toBigInt (md_employee dto) ''employee id'') (\<lambda>employeeId.
     bind (reads (\<lambda>w. w)) (\<lambda>w.
     bind (the_or (BadRequest ''Employee not found.'')
       (find_row (\<lambda>e. e_id e = employeeId \<and> \<not> e_deleted e) (employees w))) (\<lambda>employee.
     bind (ensure (employee_frequency w employee = Some MONTHLY)
       (BadRequest (''Only employees with a MONTHLY payroll frequency may join Ikimina. This employee's payroll frequency is ''
         @ frequency_name (employee_frequency w employee) @ ''.''))) (\<lambda>_.
     bind (case find_row (\<lambda>m. m_employee m = employeeId) (memberships w) of None \<Rightarrow> ret ()
       | Some existing \<Rightarrow> throw (BadRequest (''This employee already has an Ikimina membership (''
           @ (if m_active existing then ''active'' else ''inactive'') @ ''). Update the existing record instead.''))) (\<lambda>_.
     (let amount = the (md_amount dto);
          active = (case md_active dto of None \<Rightarrow> True | Some b \<Rightarrow> b);
          mk = (\<lambda>n. \<lparr>m_id = n, m_uuid = gen_uuid en ''ikimina_memberships'' n, m_employee = employeeId,
             m_amount = amount, m_active = active, m_joined = now en, m_created_by = cu_id actor,
             m_loc = e_loc employee, m_department = e_department employee\<rparr>) in
     bind (atomically (
       bind (update_ret (\<lambda>w. (mk (next_id (memberships w)), w\<lparr>memberships := insert_row mk (memberships w)\<rparr>))) (\<lambda>created.
       bind (audit (\<lambda>n. \<lparr>a_id = n, a_user = cu_id actor, a_employee = Some employeeId,
         a_table = ''ikimina_memberships'', a_entity = m_id created, a_module = ''IKIMINA'',
         a_type = AT_CREATE, a_description = ''Created Ikimina savings membership.'', a_action = AU_CREATED,
         a_old = JNull, a_new = JObj [(''employee_id'', JStr (show_nat employeeId)),
           (''monthly_amount'', JNum amount), (''is_active'', JBool (m_active created))], a_changed = []\<rparr>)) (\<lambda>_.
       ret created)))) (\<lambda>membership.
     bind (invalidateMembershipCaches (Some employeeId)) (\<lambda>_.
     ret membership)))))))))"

definition contributions_of :: "world \<Rightarrow> membership \<Rightarrow> contribution list" where
  "contributions_of w m = select (\<lambda>k. k_membership k = m_id m) (contributions w)"

definition total_savings :: "world \<Rightarrow> membership \<Rightarrow> rat" where
  "total_savings w m = sum_of k_amount (contributions_of w m)"

text \<open>The two read endpoints; \<open>None\<close> stands for a response served from the cache.\<close>

definition findMemberships :: "(membership \<times> rat) list option service" where
  "findMemberships = bind (reads (\<lambda>w. w)) (\<lambda>w.
     if MEMBERSHIPS_LIST_CACHE_KEY \<in> set (cache_keys w) then ret None
     else bind (cache_put MEMBERSHIPS_LIST_CACHE_KEY) (\<lambda>_.
       ret (Some (map (\<lambda>m. (m, total_savings w m))
         (sort_key (\<lambda>m. - m_joined m) (rows (memberships w)))))))"

definition findMembershipByEmployee :: "string \<Rightarrow> (membership \<times> rat \<times> contribution list) option service" where
  "findMembershipByEmployee employeeId = bind (toBigInt employeeId ''employee id'') (\<lambda>eid.
     bind (reads (\<lambda>w. w)) (\<lambda>w.
     if membershipByEmployeeCacheKey eid \<in> set (cache_keys w) then ret None
     else bind (the_or (NotFound ''No Ikimina membership found for this employee.'')
         (find_row (\<lambda>m. m_employee m = eid) (memberships w))) (\<lambda>m.
       bind (cache_put (membershipByEmployeeCacheKey eid)) (\<lambda>_.
       ret (Some (m, total_savings w m, sort_key (\<lambda>k. - k_date k) (contributions_of w m)))))))"

definition updateMembership :: "string \<Rightarrow> rat option \<Rightarrow> bool option \<Rightarrow> current_user \<Rightarrow> membership service" where
  "updateMembership uuid amount active actor =
     bind (reads (\<lambda>w. find_row (\<lambda>m. m_uuid m = uuid) (memberships w))) (\<lambda>r.
     bind (the_or (NotFound ''Ikimina membership not found.'') r) (\<lambda>membership.
     (let saved = membership\<lparr>m_amount := (case amount of None \<Rightarrow> m_amount membership | Some a \<Rightarrow> a),
            m_active := (case active of None \<Rightarrow> m_active membership | Some b \<Rightarrow> b)\<rparr> in
     bind (atomically (
       bind (modify (\<lambda>w. w\<lparr>memberships := update_rows (\<lambda>m. m_id m = m_id membership)
         (\<lambda>m. m\<lparr>m_amount := m_amount saved, m_active := m_active saved\<rparr>) (memberships w)\<rparr>)) (\<lambda>_.
       bind (audit (\<lambda>n. \<lparr>a_id = n, a_user = cu_id actor, a_employee = Some (m_employee membership),
         a_table = ''ikimina_memberships'', a_entity = m_id saved, a_module = ''IKIMINA'',
         a_type = AT_UPDATE, a_description = ''Updated Ikimina membership.'', a_action = AU_UPDATED,
         a_old = JObj [(''monthly_amount'', JNum (m_amount membership)), (''is_active'', JBool (m_active membership))],
         a_new = JObj [(''monthly_amount'', JNum (m_amount saved)), (''is_active'', JBool (m_active saved))],
         a_changed = []\<rparr>)) (\<lambda>_.
       ret saved)))) (\<lambda>updated.
     bind (invalidateMembershipCaches (Some (m_employee membership))) (\<lambda>_.
     ret updated)))))"

definition removeMembership :: "string \<Rightarrow> current_user \<Rightarrow> unit service" where
  "removeMembership uuid actor = bind (reads (\<lambda>w. w)) (\<lambda>w.
     bind (the_or (NotFound ''Ikimina membership not found.'')
       (find_row (\<lambda>m. m_uuid m = uuid) (memberships w))) (\<lambda>membership.
     bind (ensure (\<not> list_ex (\<lambda>k. k_batch k \<noteq> None) (contributions_of w membership))
       (BadRequest ''This membership has contributions already processed through payroll and cannot be removed. Deactivate it instead to stop future deductions.'')) (\<lambda>_.
     bind (atomically (
       bind (modify (\<lambda>w. w\<lparr>contributions := delete_rows (\<lambda>k. k_membership k = m_id membership) (contributions w)\<rparr>)) (\<lambda>_.
       bind (modify (\<lambda>w. w\<lparr>memberships := delete_rows (\<lambda>m. m_id m = m_id membership) (memberships w)\<rparr>)) (\<lambda>_.
       audit (\<lambda>n. \<lparr>a_id = n, a_user = cu_id actor, a_employee = Some (m_employee membership),
         a_table = ''ikimina_memberships'', a_entity = m_id membership, a_module = ''IKIMINA'',
         a_type = AT_DELETE, a_description = ''Removed employee from Ikimina savings.'', a_action = AU_DELETED,
         a_old = JObj [(''employee_id'', JStr (show_nat (m_employee membership))),
           (''monthly_amount'', JNum (m_amount membership)), (''is_active'', JBool (m_active membership))],
         a_new = JNull, a_changed = []\<rparr>))))) (\<lambda>_.
     invalidateMembershipCaches (Some (m_employee membership))))))"

section \<open>The payroll deduction\<close>

text \<open>One entry of the result: an employee and the amount to deduct.\<close>

definition contribution_row :: "env \<Rightarrow> nat \<Rightarrow> membership \<Rightarrow> nat \<Rightarrow> contribution" where
  "contribution_row en batchId m n = \<lparr>k_id = n, k_employee = m_employee m, k_membership = m_id m,
     k_batch = Some batchId, k_amount = m_amount m, k_date = now en\<rparr>"

text \<open>The loop body: an existing contribution of this batch is reused, otherwise one is created.\<close>

definition deduct_one :: "env \<Rightarrow> nat \<Rightarrow> (nat \<Rightarrow> contribution option) \<Rightarrow> membership \<Rightarrow> (nat \<times> rat) service" where
  "deduct_one en batchId existing m = (case existing (m_employee m) of
     Some c \<Rightarrow> ret (m_employee m, k_amount c)
   | None \<Rightarrow> bind (modify (\<lambda>w. w\<lparr>contributions := insert_row (contribution_row en batchId m) (contributions w)\<rparr>)) (\<lambda>_.
       ret (m_employee m, m_amount m)))"

definition deductForBatch :: "env \<Rightarrow> nat \<Rightarrow> nat list \<Rightarrow> (nat \<times> rat) list service" where
  "deductForBatch en batchId employeeIds =
     (if employeeIds = [] then ret []
      else bind (reads (\<lambda>w. w)) (\<lambda>w.
       let activeMemberships = select (\<lambda>m. m_employee m \<in> set employeeIds \<and> m_active m) (memberships w) in
       if activeMemberships = [] then ret []
       else let existingContributions = select (\<lambda>k. k_batch k = Some batchId
                  \<and> k_employee k \<in> set (map m_employee activeMemberships)) (contributions w);
                existingMap = map_of (rev (map (\<lambda>c. (k_employee c, c)) existingContributions)) in
         bind (map_each activeMemberships (deduct_one en batchId existingMap)) (\<lambda>deductions.
         bind (for_each deductions (\<lambda>d. invalidateMembershipCaches (Some (fst d)))) (\<lambda>_.
         ret deductions))))"

section \<open>Well-formed savings tables\<close>

definition ikimina_ok :: "world \<Rightarrow> bool" where
  "ikimina_ok w \<longleftrightarrow> table_ok m_id (memberships w) \<and> table_ok k_id (contributions w)
     \<and> distinct (map m_employee (rows (memberships w)))
     \<and> distinct (map (\<lambda>k. (k_employee k, k_batch k)) (filter (\<lambda>k. k_batch k \<noteq> None) (rows (contributions w))))
     \<and> (\<forall>k \<in> set (rows (contributions w)). \<exists>m \<in> set (rows (memberships w)).
          m_id m = k_membership k \<and> m_employee m = k_employee k)"

lemma quiet_ikimina_ok: "quiet ikimina_ok"
  by (simp add: quiet_def ikimina_ok_def)

lemma ikimina_ok_cong:
  "memberships v = memberships w \<Longrightarrow> contributions v = contributions w \<Longrightarrow> ikimina_ok v = ikimina_ok w"
  by (simp add: ikimina_ok_def)

lemma never_fails_cache_del [fail_rules]: "never_fails (cache_del key)"
  by (simp add: cache_del_def fail_rules)

lemma never_fails_cache_put [fail_rules]: "never_fails (cache_put key)"
  by (simp add: cache_put_def fail_rules)

lemma never_fails_invalidate [fail_rules]: "never_fails (invalidateMembershipCaches e)"
  unfolding invalidateMembershipCaches_def by (intro fail_rules)

lemma invalidate_app: "\<exists>ks. invalidateMembershipCaches e w = (Inr (), w\<lparr>cache_keys := ks\<rparr>)"
proof (cases e)
  case None
  then show ?thesis
    by (simp add: invalidateMembershipCaches_def cache_del_def) (rule exI, rule refl)
next
  case (Some a)
  then show ?thesis
    by (simp add: invalidateMembershipCaches_def cache_del_def) (rule exI, rule refl)
qed

lemma for_each_invalidate:
  "\<exists>ks. for_each ds (\<lambda>d. invalidateMembershipCaches (f d)) w = (Inr (), w\<lparr>cache_keys := ks\<rparr>)"
proof (induction ds arbitrary: w)
  case Nil
  have "w = w\<lparr>cache_keys := cache_keys w\<rparr>" by simp
  then show ?case by (metis for_each.simps(1) ret_app)
next
  case (Cons d ds)
  obtain ks where ks: "invalidateMembershipCaches (f d) w = (Inr (), w\<lparr>cache_keys := ks\<rparr>)"
    using invalidate_app by blast
  obtain ks' where "for_each ds (\<lambda>d. invalidateMembershipCaches (f d)) (w\<lparr>cache_keys := ks\<rparr>)
      = (Inr (), w\<lparr>cache_keys := ks, cache_keys := ks'\<rparr>)"
    using Cons.IH by blast
  with ks have "for_each (d # ds) (\<lambda>d. invalidateMembershipCaches (f d)) w = (Inr (), w\<lparr>cache_keys := ks'\<rparr>)"
    by (simp add: bind_def)
  then show ?case by blast
qed

section \<open>Closed form of the deduction\<close>

text \<open>The rows the loop creates for the memberships that have no contribution in the batch yet.\<close>

fun new_contributions :: "env \<Rightarrow> nat \<Rightarrow> membership list \<Rightarrow> nat \<Rightarrow> contribution list" where
  "new_contributions en batchId [] n = []"
| "new_contributions en batchId (m # ms) n = contribution_row en batchId m n # new_contributions en batchId ms (Suc n)"

definition deduction_amount :: "(nat \<Rightarrow> contribution option) \<Rightarrow> membership \<Rightarrow> nat \<times> rat" where
  "deduction_amount existing m = (m_employee m,
     case existing (m_employee m) of Some c \<Rightarrow> k_amount c | None \<Rightarrow> m_amount m)"

definition append_rows :: "'r list \<Rightarrow> 'r table \<Rightarrow> 'r table" where
  "append_rows rs t = t\<lparr>rows := rows t @ rs, next_id := next_id t + length rs\<rparr>"

lemma rows_append [simp]: "rows (append_rows rs t) = rows t @ rs"
  by (simp add: append_rows_def)

lemma append_rows_Nil [simp]: "append_rows [] t = t"
  by (simp add: append_rows_def)

lemma insert_append: "append_rows (new_contributions en b ms (Suc (next_id t)))
    (insert_row (contribution_row en b m) t) = append_rows (new_contributions en b (m # ms) (next_id t)) t"
  by (simp add: append_rows_def insert_row_def)

lemma deduct_loop:
  "map_each ms (deduct_one en b existing) w =
    (Inr (map (deduction_amount existing) ms),
     w\<lparr>contributions := append_rows (new_contributions en b
        (filter (\<lambda>m. existing (m_employee m) = None) ms) (next_id (contributions w))) (contributions w)\<rparr>)"
proof (induction ms arbitrary: w)
  case Nil
  show ?case by simp
next
  case (Cons m ms)
  show ?case
  proof (cases "existing (m_employee m)")
    case None
    let ?v = "w\<lparr>contributions := insert_row (contribution_row en b m) (contributions w)\<rparr>"
    have "deduct_one en b existing m w = (Inr (deduction_amount existing m), ?v)"
      using None by (simp add: deduct_one_def deduction_amount_def)
    then show ?thesis
      using None insert_append [of en b] by (simp add: bind_def Cons.IH del: new_contributions.simps)
  next
    case (Some c)
    then have "deduct_one en b existing m w = (Inr (deduction_amount existing m), w)"
      by (simp add: deduct_one_def deduction_amount_def)
    with Some show ?thesis
      by (simp add: bind_def Cons.IH)
  qed
qed

definition batch_members :: "nat list \<Rightarrow> world \<Rightarrow> membership list" where
  "batch_members es w = select (\<lambda>m. m_employee m \<in> set es \<and> m_active m) (memberships w)"

definition existing_in :: "nat \<Rightarrow> membership list \<Rightarrow> world \<Rightarrow> nat \<Rightarrow> contribution option" where
  "existing_in b ms w = map_of (rev (map (\<lambda>c. (k_employee c, c))
     (select (\<lambda>k. k_batch k = Some b \<and> k_employee k \<in> set (map m_employee ms)) (contributions w))))"

lemma batch_members_Nil [simp]: "batch_members [] w = []"
  by (simp add: batch_members_def select_def)

lemma deductForBatch_result:
  "\<exists>ks. deductForBatch en b es w =
    (Inr (map (deduction_amount (existing_in b (batch_members es w) w)) (batch_members es w)),
     w\<lparr>contributions := append_rows (new_contributions en b
        (filter (\<lambda>m. existing_in b (batch_members es w) w (m_employee m) = None) (batch_members es w))
        (next_id (contributions w))) (contributions w), cache_keys := ks\<rparr>)"
proof (cases "batch_members es w = []")
  case True
  then have "deductForBatch en b es w = (Inr [], w)"
    by (simp add: deductForBatch_def batch_members_def Let_def)
  with True show ?thesis by (simp) (rule exI [of _ "cache_keys w"], simp)
next
  case False
  let ?ms = "batch_members es w" and ?ex = "existing_in b (batch_members es w) w"
  let ?v = "w\<lparr>contributions := append_rows (new_contributions en b
        (filter (\<lambda>m. ?ex (m_employee m) = None) ?ms) (next_id (contributions w))) (contributions w)\<rparr>"
  obtain ks where ks: "for_each (map (deduction_amount ?ex) ?ms) (\<lambda>d. invalidateMembershipCaches (Some (fst d))) ?v
      = (Inr (), ?v\<lparr>cache_keys := ks\<rparr>)"
    using for_each_invalidate [of "map (deduction_amount ?ex) ?ms" "\<lambda>d. Some (fst d)" ?v] by blast
  have "es \<noteq> []" using False by auto
  then have "deductForBatch en b es w =
      bind (map_each ?ms (deduct_one en b ?ex)) (\<lambda>deductions.
         bind (for_each deductions (\<lambda>d. invalidateMembershipCaches (Some (fst d)))) (\<lambda>_. ret deductions)) w"
    using False by (simp add: deductForBatch_def batch_members_def existing_in_def Let_def)
  also have "\<dots> = (Inr (map (deduction_amount ?ex) ?ms), ?v\<lparr>cache_keys := ks\<rparr>)"
    by (simp add: bind_def deduct_loop ks)
  finally show ?thesis by auto
qed

lemma deductForBatch_frame:
  "\<exists>ds c ks. deductForBatch en b es w = (Inr ds, w\<lparr>contributions := c, cache_keys := ks\<rparr>)"
  using deductForBatch_result [of en b es w] by blast

lemma never_fails_deduct [fail_rules]: "never_fails (deductForBatch en b es)"
  unfolding never_fails_def using deductForBatch_frame by blast

lemma deduct_rows:
  assumes "deductForBatch en b es w = (Inr ds, v)"
  shows "ds = map (deduction_amount (existing_in b (batch_members es w) w)) (batch_members es w)"
    and "rows (contributions v) = rows (contributions w) @ new_contributions en b
        (filter (\<lambda>m. existing_in b (batch_members es w) w (m_employee m) = None) (batch_members es w))
        (next_id (contributions w))"
    and "memberships v = memberships w"
    and "contributions v = append_rows (new_contributions en b
        (filter (\<lambda>m. existing_in b (batch_members es w) w (m_employee m) = None) (batch_members es w))
        (next_id (contributions w))) (contributions w)"
proof -
  obtain ks where "deductForBatch en b es w =
    (Inr (map (deduction_amount (existing_in b (batch_members es w) w)) (batch_members es w)),
     w\<lparr>contributions := append_rows (new_contributions en b
        (filter (\<lambda>m. existing_in b (batch_members es w) w (m_employee m) = None) (batch_members es w))
        (next_id (contributions w))) (contributions w), cache_keys := ks\<rparr>)"
    using deductForBatch_result by blast
  with assms have ds: "ds = map (deduction_amount (existing_in b (batch_members es w) w)) (batch_members es w)"
    and v: "v = w\<lparr>contributions := append_rows (new_contributions en b
        (filter (\<lambda>m. existing_in b (batch_members es w) w (m_employee m) = None) (batch_members es w))
        (next_id (contributions w))) (contributions w), cache_keys := ks\<rparr>"
    by simp_all
  show "ds = map (deduction_amount (existing_in b (batch_members es w) w)) (batch_members es w)"
    by (rule ds)
  show "rows (contributions v) = rows (contributions w) @ new_contributions en b
        (filter (\<lambda>m. existing_in b (batch_members es w) w (m_employee m) = None) (batch_members es w))
        (next_id (contributions w))"
    and "memberships v = memberships w"
    and "contributions v = append_rows (new_contributions en b
        (filter (\<lambda>m. existing_in b (batch_members es w) w (m_employee m) = None) (batch_members es w))
        (next_id (contributions w))) (contributions w)"
    by (simp_all add: v)
qed

lemma new_contributions_ids: "map k_id (new_contributions en b ms n) = [n..<n + length ms]"
  by (induction ms arbitrary: n) (simp_all add: contribution_row_def upt_rec)

lemma length_new_contributions [simp]: "length (new_contributions en b ms n) = length ms"
  by (induction ms arbitrary: n) simp_all

lemma map_new_contributions:
  "(\<And>m n. f (contribution_row en b m n) = g m) \<Longrightarrow> map f (new_contributions en b ms n) = map g ms"
  by (induction ms arbitrary: n) simp_all

lemma new_contribution_fields:
  "k \<in> set (new_contributions en b ms n) \<Longrightarrow>
     k_batch k = Some b \<and> (\<exists>m \<in> set ms. k_employee k = m_employee m \<and> k_membership k = m_id m \<and> k_amount k = m_amount m)"
  by (induction ms arbitrary: n) (auto simp: contribution_row_def)

lemma new_contribution_exists:
  "m \<in> set ms \<Longrightarrow> \<exists>k \<in> set (new_contributions en b ms n).
     k_batch k = Some b \<and> k_employee k = m_employee m \<and> k_amount k = m_amount m"
  by (induction ms arbitrary: n) (auto simp: contribution_row_def)

lemma distinct_members:
  "ikimina_ok w \<Longrightarrow> distinct (map m_employee (batch_members es w))"
  by (simp add: ikimina_ok_def batch_members_def select_def distinct_map_filter)

lemma members_of: "m \<in> set (batch_members es w) \<Longrightarrow>
    m \<in> set (rows (memberships w)) \<and> m_active m \<and> m_employee m \<in> set es"
  by (auto simp: batch_members_def)

text \<open>Employee and batch identify a contribution.\<close>

lemma contribution_unique:
  assumes "ikimina_ok w" and "k \<in> set (rows (contributions w))" and "k' \<in> set (rows (contributions w))"
    and "k_batch k = Some b" and "k_batch k' = Some b" and "k_employee k = k_employee k'"
  shows "k = k'"
proof -
  have "inj_on (\<lambda>k. (k_employee k, k_batch k)) (set (filter (\<lambda>k. k_batch k \<noteq> None) (rows (contributions w))))"
    using assms(1) by (simp only: ikimina_ok_def distinct_map)
  from inj_onD [OF this, of k k'] show ?thesis using assms(2-) by simp
qed

lemma distinct_filter_mono: "distinct (map f (filter P xs)) \<Longrightarrow> (\<And>x. Q x \<Longrightarrow> P x) \<Longrightarrow> distinct (map f (filter Q xs))"
  by (induction xs) (auto split: if_splits)

lemma existing_in_Some:
  assumes "ikimina_ok w"
  shows "existing_in b ms w e = Some c \<longleftrightarrow>
    c \<in> set (rows (contributions w)) \<and> k_batch c = Some b \<and> k_employee c = e \<and> e \<in> m_employee ` set ms"
proof -
  let ?P = "\<lambda>k. k_batch k = Some b \<and> k_employee k \<in> set (map m_employee ms)"
  have "distinct (map (\<lambda>k. (k_employee k, k_batch k)) (filter ?P (rows (contributions w))))"
    using assms unfolding ikimina_ok_def by (elim conjE) (erule distinct_filter_mono, simp)
  moreover have "map (\<lambda>k. (k_employee k, k_batch k)) (filter ?P (rows (contributions w)))
      = map (\<lambda>e. (e, Some b)) (map k_employee (filter ?P (rows (contributions w))))"
    by (simp add: comp_def)
  ultimately have "distinct (map k_employee (select ?P (contributions w)))"
    by (auto simp: select_def distinct_map inj_on_def)
  then have "distinct (map fst (rev (map (\<lambda>c. (k_employee c, c)) (select ?P (contributions w)))))"
    by (simp add: rev_map [symmetric] comp_def)
  then show ?thesis
    by (auto simp: existing_in_def)
qed

lemma deduct_keeps_ok:
  assumes ok: "ikimina_ok w" and ded: "deductForBatch en b es w = (Inr ds, v)"
  shows "ikimina_ok v"
proof -
  let ?ms = "batch_members es w"
  let ?ns = "filter (\<lambda>m. existing_in b ?ms w (m_employee m) = None) ?ms"
  let ?new = "new_contributions en b ?ns (next_id (contributions w))"
  have c: "contributions v = append_rows ?new (contributions w)" and m: "memberships v = memberships w"
    using deduct_rows [OF ded] by simp_all
  have t: "table_ok k_id (contributions w)" using ok by (simp add: ikimina_ok_def)
  have ids: "k_id k \<ge> next_id (contributions w) \<and> k_id k < next_id (contributions w) + length ?ns"
    if "k \<in> set ?new" for k
  proof -
    have "k_id k \<in> set (map k_id ?new)" using that by simp
    then show ?thesis unfolding new_contributions_ids by simp
  qed
  have "distinct (map k_id ?new)" unfolding new_contributions_ids by simp
  then have tv: "table_ok k_id (contributions v)"
    using t ids unfolding c by (fastforce simp: table_ok_def append_rows_def)
  let ?f = "\<lambda>k. (k_employee k, k_batch k)"
  have batch_new: "filter (\<lambda>k. k_batch k \<noteq> None) ?new = ?new"
    using new_contribution_fields by (fastforce simp: filter_id_conv)
  have "map ?f ?new = map (\<lambda>m. (m_employee m, Some b)) ?ns"
    by (intro map_new_contributions) (simp add: contribution_row_def)
  moreover have "distinct (map (\<lambda>m. (m_employee m, Some b)) ?ns)"
    using distinct_members [OF ok, of es] by (simp add: distinct_map inj_on_def)
  ultimately have dn: "distinct (map ?f ?new)" by simp
  have "?f k \<notin> set (map ?f ?new)" if "k \<in> set (filter (\<lambda>k. k_batch k \<noteq> None) (rows (contributions w)))" for k
  proof
    assume "?f k \<in> set (map ?f ?new)"
    then obtain m where mm: "m \<in> set ?ns" and e: "k_employee k = m_employee m" and kb: "k_batch k = Some b"
      by (auto dest!: new_contribution_fields)
    have "m \<in> set ?ms" using mm by simp
    then have "existing_in b ?ms w (m_employee m) = Some k"
      unfolding existing_in_Some [OF ok] using that e kb by simp
    with mm show False by simp
  qed
  then have disj: "set (map ?f (filter (\<lambda>k. k_batch k \<noteq> None) (rows (contributions w)))) \<inter> set (map ?f ?new) = {}"
    unfolding set_map by blast
  have "distinct (map ?f (filter (\<lambda>k. k_batch k \<noteq> None) (rows (contributions w))))"
    using ok unfolding ikimina_ok_def by blast
  with dn disj have dv: "distinct (map ?f (filter (\<lambda>k. k_batch k \<noteq> None) (rows (contributions v))))"
    unfolding c rows_append filter_append map_append batch_new distinct_append by blast
  have fk: "\<exists>m \<in> set (rows (memberships w)). m_id m = k_membership k \<and> m_employee m = k_employee k"
    if "k \<in> set ?new" for k
    using new_contribution_fields [OF that] members_of by fastforce
  show ?thesis
    using ok tv dv fk unfolding ikimina_ok_def c m by auto
qed

lemma deduct_distinct:
  assumes "ikimina_ok w" and "deductForBatch en b es w = (Inr ds, v)"
  shows "distinct (map fst ds)"
  unfolding deduct_rows(1) [OF assms(2)]
  using distinct_members [OF assms(1), of es] by (simp add: deduction_amount_def comp_def)

lemma deduct_subset:
  assumes "deductForBatch en b es w = (Inr ds, v)"
  shows "fst ` set ds \<subseteq> set es"
  unfolding deduct_rows(1) [OF assms] by (auto simp: deduction_amount_def dest!: members_of)

text \<open>Every deduction has its entry in the ledger of the batch, with the same amount.\<close>

lemma deduct_backed:
  assumes ok: "ikimina_ok w" and ded: "deductForBatch en b es w = (Inr ds, v)" and d: "(e, a) \<in> set ds"
  shows "\<exists>k \<in> set (rows (contributions v)). k_batch k = Some b \<and> k_employee k = e \<and> k_amount k = a"
proof -
  let ?ms = "batch_members es w"
  from d obtain m where m: "m \<in> set ?ms" and ea: "(e, a) = deduction_amount (existing_in b ?ms w) m"
    by (auto simp: deduct_rows(1) [OF ded])
  show ?thesis
  proof (cases "existing_in b ?ms w (m_employee m)")
    case None
    with m have "m \<in> set (filter (\<lambda>m. existing_in b ?ms w (m_employee m) = None) ?ms)" by simp
    from new_contribution_exists [OF this, of en b "next_id (contributions w)"] None ea show ?thesis
      by (auto simp: deduct_rows(2) [OF ded] deduction_amount_def)
  next
    case (Some c)
    with ea show ?thesis
      using existing_in_Some [OF ok, of b ?ms "m_employee m" c]
      by (auto simp: deduct_rows(2) [OF ded] deduction_amount_def)
  qed
qed

text \<open>Running the deduction again for the same batch and employees changes no contribution.\<close>

lemma deduct_again:
  assumes ok: "ikimina_ok w" and ded: "deductForBatch en b es w = (Inr ds, v)"
    and again: "deductForBatch en' b es v = (Inr ds', u)"
  shows "ds' = ds" and "contributions u = contributions v"
proof -
  have okv: "ikimina_ok v" by (rule deduct_keeps_ok [OF ok ded])
  have ms: "batch_members es v = batch_members es w"
    by (simp add: batch_members_def deduct_rows(3) [OF ded])
  have ex: "\<exists>c. existing_in b (batch_members es v) v (m_employee m) = Some c
      \<and> deduction_amount (existing_in b (batch_members es w) w) m = (m_employee m, k_amount c)"
    if m: "m \<in> set (batch_members es w)" for m
  proof -
    let ?d = "deduction_amount (existing_in b (batch_members es w) w) m"
    have "(m_employee m, snd ?d) \<in> set ds"
      using m by (auto simp: deduct_rows(1) [OF ded] deduction_amount_def)
    from deduct_backed [OF ok ded this] obtain k where "k \<in> set (rows (contributions v))"
      and "k_batch k = Some b" "k_employee k = m_employee m" "k_amount k = snd ?d" by blast
    then have "existing_in b (batch_members es v) v (m_employee m) = Some k"
      using m by (simp add: existing_in_Some [OF okv] ms)
    with \<open>k_amount k = snd ?d\<close> show ?thesis by (auto simp: deduction_amount_def)
  qed
  have "ds' = map (deduction_amount (existing_in b (batch_members es v) v)) (batch_members es w)"
    using deduct_rows(1) [OF again] ms by simp
  also have "\<dots> = ds"
    unfolding deduct_rows(1) [OF ded]
  proof (rule map_cong [OF refl])
    fix m
    assume "m \<in> set (batch_members es w)"
    from ex [OF this] show "deduction_amount (existing_in b (batch_members es v) v) m
        = deduction_amount (existing_in b (batch_members es w) w) m"
      by (auto simp: deduction_amount_def [of "existing_in b (batch_members es v) v"])
  qed
  finally show "ds' = ds" .
  have "filter (\<lambda>m. existing_in b (batch_members es v) v (m_employee m) = None) (batch_members es v) = []"
    using ex ms by (auto simp: filter_empty_conv)
  then show "contributions u = contributions v"
    using deduct_rows(4) [OF again] by simp
qed

section \<open>The interface payroll relies on\<close>

text \<open>
  The deduction always returns, touches only the ledger and the caches, keeps the savings
  tables well formed, names each employee at most once and only employees of the batch, and
  backs every amount by an entry of the ledger.
\<close>

locale savings_ledger =
  fixes valid :: "world \<Rightarrow> bool"
    and deduct :: "env \<Rightarrow> nat \<Rightarrow> nat list \<Rightarrow> (nat \<times> rat) list service"
  assumes deduct_frame: "\<exists>ds c ks. deduct en b es w = (Inr ds, w\<lparr>contributions := c, cache_keys := ks\<rparr>)"
    and deduct_valid: "valid w \<Longrightarrow> deduct en b es w = (Inr ds, v) \<Longrightarrow> valid v"
    and deduct_names: "valid w \<Longrightarrow> deduct en b es w = (Inr ds, v) \<Longrightarrow> distinct (map fst ds) \<and> fst ` set ds \<subseteq> set es"
    and deduct_entry: "valid w \<Longrightarrow> deduct en b es w = (Inr ds, v) \<Longrightarrow> (e, a) \<in> set ds \<Longrightarrow>
      \<exists>k \<in> set (rows (contributions v)). k_batch k = Some b \<and> k_employee k = e \<and> k_amount k = a"
begin

lemma deduct_total: "never_fails (deduct en b es)"
  unfolding never_fails_def using deduct_frame by blast

text \<open>A predicate that reads neither the ledger nor the caches survives the deduction.\<close>

lemma keeps_deduct:
  assumes "\<And>w c ks. I (w\<lparr>contributions := c, cache_keys := ks\<rparr>) = I w"
  shows "keeps I (deduct en b es)"
proof (rule keepsI)
  fix s r t
  assume "I s" and run: "deduct en b es s = (r, t)"
  obtain ds c ks where "deduct en b es s = (Inr ds, s\<lparr>contributions := c, cache_keys := ks\<rparr>)"
    using deduct_frame by blast
  with run have "t = s\<lparr>contributions := c, cache_keys := ks\<rparr>" by simp
  with \<open>I s\<close> show "I t" using assms by simp
qed

lemma deduct_amount_unique:
  assumes "valid w" and "deduct en b es w = (Inr ds, v)" and "(e, a) \<in> set ds" and "(e, a') \<in> set ds"
  shows "a = a'"
  using deduct_names [OF assms(1,2)] assms(3,4) by (meson eq_key_imp_eq_value)

end

interpretation ledger: savings_ledger ikimina_ok deductForBatch
proof unfold_locales
  fix en b es w ds v
  assume ok: "ikimina_ok w" and ded: "deductForBatch en b es w = (Inr ds, v)"
  show "ikimina_ok v" by (rule deduct_keeps_ok [OF ok ded])
  show "distinct (map fst ds) \<and> fst ` set ds \<subseteq> set es"
    using deduct_distinct [OF ok ded] deduct_subset [OF ded] by simp
qed (use deductForBatch_frame deduct_backed in \<open>blast+\<close>)

section \<open>The other operations keep the savings tables well formed\<close>

lemma invalidate_Inr:
  "invalidateMembershipCaches e w = (Inr u, v) \<Longrightarrow> memberships v = memberships w \<and> contributions v = contributions w"
  using invalidate_app [of e w] by auto

lemma toBigInt_Inr [simp]: "toBigInt s f w = (Inr n, v) \<longleftrightarrow> isNumericId s \<and> n = read_nat s \<and> v = w"
  by (auto simp: toBigInt_def)

lemma readonly_toBigInt [fail_rules]: "readonly (toBigInt s f)"
  unfolding toBigInt_def by (intro fail_rules)

lemma clean_fail_createMembership: "clean_fail (createMembership en dto actor)"
  unfolding createMembership_def Let_def
  by (intro clean_fail_bind clean_fail_never fail_rules allI)

lemma clean_fail_updateMembership: "clean_fail (updateMembership uuid a b actor)"
  unfolding updateMembership_def Let_def audit_def
  by (intro clean_fail_bind clean_fail_never fail_rules)

lemma clean_fail_removeMembership: "clean_fail (removeMembership uuid actor)"
  unfolding removeMembership_def Let_def
  by (intro clean_fail_bind clean_fail_never fail_rules)

lemma createMembership_success:
  assumes "createMembership en dto actor w = (Inr m, v)"
  shows "(\<forall>m' \<in> set (rows (memberships w)). m_employee m' \<noteq> m_employee m)
    \<and> (\<exists>e \<in> set (rows (employees w)). e_id e = m_employee m \<and> \<not> e_deleted e \<and> employee_frequency w e = Some MONTHLY)
    \<and> (\<exists>mk. memberships v = insert_row mk (memberships w) \<and> m = mk (next_id (memberships w))
         \<and> m_id m = next_id (memberships w))
    \<and> contributions v = contributions w"
  using assms
  by (auto simp: createMembership_def Let_def op_success atomically_Inr dest!: invalidate_Inr find_row_Some
      split: option.splits simp: find_row_None)

lemma updateMembership_success:
  assumes "updateMembership uuid a b actor w = (Inr m, v)"
  shows "\<exists>m0 \<in> set (rows (memberships w)). m_uuid m0 = uuid \<and>
      memberships v = update_rows (\<lambda>x. m_id x = m_id m0) (\<lambda>x. x\<lparr>m_amount := m_amount m, m_active := m_active m\<rparr>) (memberships w)
      \<and> m_employee m = m_employee m0 \<and> contributions v = contributions w"
proof -
  have "\<exists>m0 u. find_row (\<lambda>m. m_uuid m = uuid) (memberships w) = Some m0
    \<and> invalidateMembershipCaches (Some (m_employee m0)) u = (Inr (), v)
    \<and> m = m0\<lparr>m_amount := (case a of None \<Rightarrow> m_amount m0 | Some x \<Rightarrow> x),
            m_active := (case b of None \<Rightarrow> m_active m0 | Some x \<Rightarrow> x)\<rparr>
    \<and> memberships u = update_rows (\<lambda>x. m_id x = m_id m0)
        (\<lambda>x. x\<lparr>m_amount := m_amount m, m_active := m_active m\<rparr>) (memberships w)
    \<and> contributions u = contributions w"
    using assms unfolding updateMembership_def Let_def
    by (simp add: op_success) (elim exE conjE, intro exI conjI, assumption, assumption, auto)
  then obtain m0 u where m0: "find_row (\<lambda>m. m_uuid m = uuid) (memberships w) = Some m0"
    and inv: "invalidateMembershipCaches (Some (m_employee m0)) u = (Inr (), v)"
    and m: "m = m0\<lparr>m_amount := (case a of None \<Rightarrow> m_amount m0 | Some x \<Rightarrow> x),
            m_active := (case b of None \<Rightarrow> m_active m0 | Some x \<Rightarrow> x)\<rparr>"
    and u: "memberships u = update_rows (\<lambda>x. m_id x = m_id m0)
        (\<lambda>x. x\<lparr>m_amount := m_amount m, m_active := m_active m\<rparr>) (memberships w)"
    and uc: "contributions u = contributions w" by blast
  show ?thesis
    using find_row_Some [OF m0] invalidate_Inr [OF inv] m u uc by (intro bexI [of _ m0]) simp_all
qed

lemma removeMembership_success:
  assumes "removeMembership uuid actor w = (Inr u, v)"
  shows "\<exists>m \<in> set (rows (memberships w)). m_uuid m = uuid
      \<and> (\<forall>k \<in> set (rows (contributions w)). k_membership k = m_id m \<longrightarrow> k_batch k = None)
      \<and> memberships v = delete_rows (\<lambda>x. m_id x = m_id m) (memberships w)
      \<and> contributions v = delete_rows (\<lambda>k. k_membership k = m_id m) (contributions w)"
  using assms
  by (auto simp: removeMembership_def Let_def op_success contributions_of_def list_ex_iff
      dest!: invalidate_Inr find_row_Some)

lemma ikimina_ok_create:
  assumes ok: "ikimina_ok w" and run: "createMembership en dto actor w = (Inr m, v)"
  shows "ikimina_ok v"
proof -
  from createMembership_success [OF run] obtain mk where
    new: "\<forall>m' \<in> set (rows (memberships w)). m_employee m' \<noteq> m_employee m"
    and mv: "memberships v = insert_row mk (memberships w)" and m: "m = mk (next_id (memberships w))"
    and i: "m_id m = next_id (memberships w)" and cv: "contributions v = contributions w" by blast
  have "table_ok m_id (memberships v)"
    using ok i m unfolding mv by (intro table_ok_insert) (simp_all add: ikimina_ok_def)
  with ok new m show ?thesis
    by (auto simp: ikimina_ok_def mv cv)
qed

lemma ikimina_ok_update:
  assumes ok: "ikimina_ok w" and run: "updateMembership uuid a b actor w = (Inr m, v)"
  shows "ikimina_ok v"
proof -
  from updateMembership_success [OF run] obtain m0 :: membership where
    mv: "memberships v = update_rows (\<lambda>x. m_id x = m_id m0) (\<lambda>x. x\<lparr>m_amount := m_amount m, m_active := m_active m\<rparr>) (memberships w)"
    and cv: "contributions v = contributions w" by blast
  have t: "table_ok m_id (memberships v)"
    unfolding mv using ok by (intro table_ok_update) (simp_all add: ikimina_ok_def)
  have e: "map m_employee (rows (memberships v)) = map m_employee (rows (memberships w))"
    unfolding mv rows_update by (rule map_key_update) simp
  have fk: "\<exists>x \<in> set (rows (memberships v)). m_id x = i \<and> m_employee x = j"
    if "\<exists>x \<in> set (rows (memberships w)). m_id x = i \<and> m_employee x = j" for i j
    using that unfolding mv by (rule ex_update_rows) simp
  show ?thesis
    using ok t e fk unfolding ikimina_ok_def cv by simp
qed

lemma ikimina_ok_remove:
  assumes ok: "ikimina_ok w" and run: "removeMembership uuid actor w = (Inr u, v)"
  shows "ikimina_ok v"
proof -
  from removeMembership_success [OF run] obtain m :: membership where
    mv: "memberships v = delete_rows (\<lambda>x. m_id x = m_id m) (memberships w)"
    and cv: "contributions v = delete_rows (\<lambda>k. k_membership k = m_id m) (contributions w)" by blast
  have t: "table_ok m_id (memberships v)" "table_ok k_id (contributions v)"
    unfolding mv cv using ok by (simp_all add: ikimina_ok_def table_ok_delete)
  have d: "distinct (map m_employee (rows (memberships v)))"
    unfolding mv using ok by (simp add: ikimina_ok_def distinct_map_filter)
  have p: "distinct (map (\<lambda>k. (k_employee k, k_batch k)) (filter (\<lambda>k. k_batch k \<noteq> None) (rows (contributions v))))"
  proof -
    have "distinct (map (\<lambda>k. (k_employee k, k_batch k)) (filter (\<lambda>k. k_batch k \<noteq> None) (rows (contributions w))))"
      using ok unfolding ikimina_ok_def by blast
    then have "distinct (map (\<lambda>k. (k_employee k, k_batch k))
        (filter (\<lambda>k. k_batch k \<noteq> None \<and> k_membership k \<noteq> m_id m) (rows (contributions w))))"
      by (rule distinct_filter_mono) simp
    then show ?thesis by (simp add: cv conj_commute)
  qed
  show ?thesis
    unfolding ikimina_ok_def using t d p ok unfolding mv cv by (fastforce simp: ikimina_ok_def)
qed

end
