(* ===== verification/Permissions.thy ===== *)
theory Permissions
  imports Schema
begin

text \<open>
  Who may do what.  \<open>common/utils/effective-permissions.util.ts\<close> (raw keys from roles and
  direct grants, one-step expansion through \<open>IMPLIED_PERMISSIONS\<close>, overrides),
  \<open>auth/guards/permissions.guard.ts\<close>, \<open>auth/guards/roles.guard.ts\<close>, the per-request
  identity of \<open>auth/strategies/jwt.strategy.ts\<close>, the request scope of
  \<open>working-location-scope.interceptor.ts\<close> and the query scoping of
  \<open>prisma/prisma.service.ts\<close> with its registry \<open>MODULE_SCOPE_CONFIG\<close>.
\<close>

section \<open>Effective permissions\<close>

definition IMPLIED_PERMISSIONS :: "(string \<times> string list) list" where
  "IMPLIED_PERMISSIONS = [
     (''employees.read_all'', [''employees.read'']),
     (''attendance.read_all'', [''attendance.read'']),
     (''attendance.create'', [''attendance.read'']),
     (''payroll.create'', [''payroll.read'', ''payroll.manage'']),
     (''payroll.manage'', [''payroll.read'']),
     (''payroll.read_all'', [''payroll.read'']),
     (''payroll.approve'', [''payroll.approve_initial'', ''payroll.approve_final'', ''payroll.read'']),
     (''payroll.approve_initial'', [''payroll.read'']),
     (''payroll.approve_final'', [''payroll.read'']),
     (''payment-structures.read_all'', [''payment-structures.read'']),
     (''deductions.manage'', [''payment-structures.read'']),
     (''users.read_all'', [''users.read'']),
     (''users.create'', [''users.read'']),
     (''ikimina.manage'', [''ikimina.read'']),
     (''ikimina.read_all'', [''ikimina.read'']),
     (''audit.read_all'', [''audit.view'']),
     (''branches.manage'', [''departments.manage'', ''branch-manager.manage'']),
     (''positions.manage'', [''positions.read''])]"

definition implied :: "string \<Rightarrow> string list" where
  "implied k = (case map_of IMPLIED_PERMISSIONS k of None \<Rightarrow> [] | Some ks \<Rightarrow> ks)"

text \<open>A JavaScript \<open>Set\<close> as the list of its elements in insertion order.\<close>

definition set_add :: "'a list \<Rightarrow> 'a \<Rightarrow> 'a list" where
  "set_add xs x = (if x \<in> set xs then xs else xs @ [x])"

definition set_delete :: "'a list \<Rightarrow> 'a \<Rightarrow> 'a list" where
  "set_delete xs x = filter (\<lambda>y. y \<noteq> x) xs"

text \<open>\<open>buildRawPermissionKeys\<close>: the key lists of the user's roles, then the direct grants.\<close>

definition buildRawPermissionKeys :: "string list list \<Rightarrow> string list \<Rightarrow> string list" where
  "buildRawPermissionKeys role_keys user_keys =
     foldl set_add (foldl (\<lambda>acc ks. foldl set_add acc ks) [] role_keys) user_keys"

definition apply_override :: "string list \<Rightarrow> override \<Rightarrow> string list" where
  "apply_override acc ov = (if ov_allowed ov then set_add acc (ov_key ov) else set_delete acc (ov_key ov))"

definition computeEffectivePermissions :: "current_user option \<Rightarrow> string list" where
  "computeEffectivePermissions user =
     (let raw = foldl set_add [] (case user of None \<Rightarrow> [] | Some u \<Rightarrow> cu_permissions u);
          expanded = foldl (\<lambda>acc k. foldl set_add acc (implied k)) raw raw
      in foldl apply_override expanded (case user of None \<Rightarrow> [] | Some u \<Rightarrow> cu_overrides u))"

definition hasEffectivePermission :: "current_user \<Rightarrow> string \<Rightarrow> bool" where
  "hasEffectivePermission u p \<longleftrightarrow> p \<in> set (computeEffectivePermissions (Some u))"

definition isSystemAdmin :: "current_user \<Rightarrow> bool" where
  "isSystemAdmin u \<longleftrightarrow> list_ex (\<lambda>r. r \<in> set [''SUPER_ADMIN'']) (cu_roles u)"

text \<open>The override that decides a key: the last one in the list.\<close>

definition last_override :: "current_user \<Rightarrow> string \<Rightarrow> bool option" where
  "last_override u p = map_of (rev (map (\<lambda>ov. (ov_key ov, ov_allowed ov)) (cu_overrides u))) p"

section \<open>Route guards\<close>

text \<open>\<open>PermissionsGuard.canActivate\<close>; an absent or empty decorator is the empty list.\<close>

definition permissions_guard :: "string list \<Rightarrow> current_user option \<Rightarrow> error + bool" where
  "permissions_guard required user =
     (if required = [] then Inr True
      else if (case user of None \<Rightarrow> False | Some u \<Rightarrow> ''SUPER_ADMIN'' \<in> set (cu_roles u)) then Inr True
      else let effective = computeEffectivePermissions user in
        if list_ex (\<lambda>p. p \<in> set effective) required then Inr True
        else Inl (Forbidden ''You do not have the required permission.''))"

text \<open>\<open>RolesGuard.canActivate\<close>\<close>

definition roles_guard :: "string list \<Rightarrow> string list \<Rightarrow> current_user option \<Rightarrow> error + bool" where
  "roles_guard requiredRoles requiredPermissions user =
     (if requiredRoles = [] then Inr True
      else if (case user of None \<Rightarrow> False
               | Some u \<Rightarrow> list_ex (\<lambda>r. r \<in> set [''SUPER_ADMIN'']) (cu_roles u)) then Inr True
      else if requiredPermissions \<noteq> [] \<and>
              list_ex (\<lambda>p. case user of None \<Rightarrow> False | Some u \<Rightarrow> p \<in> set (cu_permissions u)) requiredPermissions
        then Inr True
      else if list_ex (\<lambda>r. case user of None \<Rightarrow> False | Some u \<Rightarrow> r \<in> set (cu_roles u)) requiredRoles
        then Inr True
      else Inl (Forbidden ''You do not have the required role.''))"

section \<open>The identity of a request\<close>

definition roles_of :: "world \<Rightarrow> nat \<Rightarrow> role list" where
  "roles_of w uid = List.maps (\<lambda>ur. select (\<lambda>r. ro_id r = ur_role ur) (roles w))
     (select (\<lambda>ur. ur_user ur = uid) (user_roles w))"

definition direct_keys :: "world \<Rightarrow> nat \<Rightarrow> string list" where
  "direct_keys w uid = map up_key (select (\<lambda>up. up_user up = uid) (user_permissions w))"

definition raw_keys_of :: "world \<Rightarrow> nat \<Rightarrow> string list" where
  "raw_keys_of w uid = buildRawPermissionKeys (map ro_keys (roles_of w uid)) (direct_keys w uid)"

definition status_name :: "person_status \<Rightarrow> string" where
  "status_name st = (case st of P_ACTIVE \<Rightarrow> ''ACTIVE'' | P_INACTIVE \<Rightarrow> ''INACTIVE''
     | P_SUSPENDED \<Rightarrow> ''SUSPENDED'' | P_PENDING \<Rightarrow> ''PENDING'' | P_REJECTED \<Rightarrow> ''REJECTED''
     | P_PAUSED \<Rightarrow> ''PAUSED'')"

text \<open>
  \<open>JwtStrategy.validate\<close>: only the subject of the token is trusted.  A subject that is not
  a decimal id fails as \<open>BigInt\<close> does.
\<close>

definition jwt_validate :: "string \<Rightarrow> current_user service" where
  "jwt_validate sub =
     bind (ensure (isNumericId sub) (Unauthorized ''Invalid session token.'')) (\<lambda>_.
     bind (reads (\<lambda>w. w)) (\<lambda>w.
     bind (the_or (Unauthorized ''Your session is no longer valid. Please log in again.'')
       (find_row (\<lambda>u. u_id u = read_nat sub) (users w))) (\<lambda>user.
     bind (ensure (\<not> u_deleted user)
       (Unauthorized ''Your session is no longer valid. Please log in again.'')) (\<lambda>_.
     bind (ensure (u_status user \<noteq> P_SUSPENDED)
       (Unauthorized ''Your account has been suspended. Please contact the system administrator for assistance.'')) (\<lambda>_.
     bind (ensure (u_status user \<noteq> P_REJECTED)
       (Unauthorized ''Your registration request was rejected. Please contact support if you believe this is an error.'')) (\<lambda>_.
     ret \<lparr>cu_id = read_nat sub,
          cu_status = status_name (u_status user),
          cu_roles = filter (\<lambda>n. n \<noteq> []) (map ro_name (roles_of w (u_id user))),
          cu_permissions = raw_keys_of w (u_id user),
          cu_overrides = map (\<lambda>ov. \<lparr>ov_key = uo_key ov, ov_allowed = uo_allowed ov\<rparr>)
            (select (\<lambda>ov. uo_user ov = u_id user) (user_overrides w)),
          cu_location = map_option show_nat (u_loc user),
          cu_department = map_option show_nat (u_department user)\<rparr>))))))"

section \<open>Query scoping\<close>

record user_scope =
  sc_roles :: "string list"
  sc_permissions :: "string list"
  sc_location :: "string option"
  sc_department :: "string option"

text \<open>\<open>WorkingLocationScopeInterceptor\<close>: no scope without an authenticated user.\<close>

definition request_scope :: "current_user option \<Rightarrow> user_scope option" where
  "request_scope user = map_option (\<lambda>u. \<lparr>sc_roles = cu_roles u,
     sc_permissions = computeEffectivePermissions (Some u),
     sc_location = (if truthy (cu_location u) then cu_location u else None),
     sc_department = (if truthy (cu_department u) then cu_department u else None)\<rparr>) user"

record module_scope =
  ms_read_all :: string
  ms_location_field :: "string option"

definition MODULE_SCOPE_CONFIG :: "(string \<times> module_scope) list" where
  "MODULE_SCOPE_CONFIG = [
     (''Employees'', \<lparr>ms_read_all = ''employees.read_all'', ms_location_field = Some ''working_location_id''\<rparr>),
     (''Users'', \<lparr>ms_read_all = ''users.read_all'', ms_location_field = Some ''working_location_id''\<rparr>),
     (''Departments'', \<lparr>ms_read_all = ''branches.read_all'', ms_location_field = Some ''working_location_id''\<rparr>),
     (''Branch_managers'', \<lparr>ms_read_all = ''branches.read_all'', ms_location_field = Some ''working_location_id''\<rparr>),
     (''Payment_batches'', \<lparr>ms_read_all = ''payroll.read_all'', ms_location_field = Some ''working_location_id''\<rparr>),
     (''Time_records'', \<lparr>ms_read_all = ''attendance.read_all'', ms_location_field = Some ''working_location_id''\<rparr>),
     (''Transactions'', \<lparr>ms_read_all = ''payroll.read_all'', ms_location_field = Some ''working_location_id''\<rparr>),
     (''Ikimina_memberships'', \<lparr>ms_read_all = ''ikimina.read_all'', ms_location_field = Some ''working_location_id''\<rparr>)]"

definition SCOPED_READ_OPERATIONS :: "string list" where
  "SCOPED_READ_OPERATIONS = [''findMany'', ''findFirst'', ''findUnique'', ''count'', ''aggregate'', ''groupBy'']"

text \<open>
  The \<open>$allOperations\<close> extension: it rewrites the \<open>where\<close> clause (here its equalities on id
  columns, by column name) before the query runs.
\<close>

definition scope_query :: "user_scope option \<Rightarrow> string \<Rightarrow> string \<Rightarrow> (string \<rightharpoonup> nat) \<Rightarrow> (string \<rightharpoonup> nat)" where
  "scope_query scope model operation wh =
     (case scope of None \<Rightarrow> wh | Some sc \<Rightarrow>
        if ''SUPER_ADMIN'' \<in> set (sc_roles sc) then wh
        else case map_of MODULE_SCOPE_CONFIG model of None \<Rightarrow> wh | Some config \<Rightarrow>
          if operation \<notin> set SCOPED_READ_OPERATIONS then wh
          else if ms_read_all config \<in> set (sc_permissions sc) then wh
          else case (ms_location_field config, sc_location sc) of
              (Some field, Some loc) \<Rightarrow>
                if loc = [] then wh
                else if model = ''Working_locations'' then wh(''id'' \<mapsto> read_nat loc)
                else wh(field \<mapsto> read_nat loc)
            | _ \<Rightarrow> wh)"

text \<open>The model names of the Prisma schema, which the client passes to the extension.\<close>

definition schema_models :: "string list" where
  "schema_models = [
     ''allowances'', ''allowance_types'', ''approval_request_actions'', ''approval_requests'',
     ''approval_workflow_steps'', ''approval_workflows'', ''audit_logs'', ''branch_managers'',
     ''deduction_types'', ''departments'', ''department_deactivation_requests'', ''employee_deductions'',
     ''employee_documents'', ''employee_history'', ''employees'', ''positions'',
     ''position_employment_categories'', ''employment_categories'', ''position_deduction_types'', ''position_allowance_templates'',
     ''ikimina_contributions'', ''ikimina_memberships'', ''monthly_taxes'', ''notifications'',
     ''notification_dismissals'', ''payment_batch_items'', ''payment_batches'', ''payment_structures'',
     ''payroll_batch_approval_actions'', ''permissions'', ''role_permissions'', ''roles'',
     ''system_config'', ''time_records'', ''transactions'', ''transfer_requests'',
     ''user_departments'', ''user_permission_overrides'', ''user_permissions'', ''user_roles'',
     ''user_sessions'', ''users'', ''working_locations'']"

section \<open>Lemmas\<close>

lemma set_set_add [simp]: "set (set_add xs x) = insert x (set xs)"
  by (auto simp: set_add_def)

lemma set_set_delete [simp]: "set (set_delete xs x) = set xs - {x}"
  by (auto simp: set_delete_def)

lemma set_foldl_add [simp]: "set (foldl set_add xs ys) = set xs \<union> set ys"
  by (induction ys arbitrary: xs) auto

lemma distinct_foldl_add: "distinct xs \<Longrightarrow> distinct (foldl set_add xs ys)"
  by (induction ys arbitrary: xs) (auto simp: set_add_def)

lemma set_foldl_expand:
  "set (foldl (\<lambda>acc k. foldl set_add acc (f k)) xs ks) = set xs \<union> (\<Union>k \<in> set ks. set (f k))"
  by (induction ks arbitrary: xs) auto

lemma set_foldl_lists: "set (foldl (\<lambda>acc ks. foldl set_add acc ks) xs kss) = set xs \<union> \<Union> (set ` set kss)"
  by (induction kss arbitrary: xs) auto

lemma set_buildRawPermissionKeys:
  "set (buildRawPermissionKeys rks uks) = \<Union> (set ` set rks) \<union> set uks"
  by (simp add: buildRawPermissionKeys_def set_foldl_lists)

lemma foldl_apply_override:
  "p \<in> set (foldl apply_override acc ovs) \<longleftrightarrow>
     (case map_of (rev (map (\<lambda>ov. (ov_key ov, ov_allowed ov)) ovs)) p of
        Some b \<Rightarrow> b | None \<Rightarrow> p \<in> set acc)"
  by (induction ovs rule: rev_induct) (auto simp: apply_override_def split: option.splits)

lemma effective_iff:
  "p \<in> set (computeEffectivePermissions (Some u)) \<longleftrightarrow>
     (case last_override u p of Some b \<Rightarrow> b
      | None \<Rightarrow> p \<in> set (cu_permissions u) \<or> (\<exists>q \<in> set (cu_permissions u). p \<in> set (implied q)))"
  by (simp add: computeEffectivePermissions_def Let_def foldl_apply_override last_override_def
      set_foldl_expand cong: option.case_cong)

lemma effective_None [simp]: "computeEffectivePermissions None = []"
  by (simp add: computeEffectivePermissions_def)

lemma isSystemAdmin_iff: "isSystemAdmin u \<longleftrightarrow> ''SUPER_ADMIN'' \<in> set (cu_roles u)"
  by (auto simp: isSystemAdmin_def list_ex_iff)

text \<open>The expansion table is transitively closed, so one pass over the raw keys is enough.\<close>

lemma implied_table_closed:
  "list_all (\<lambda>(k, ks). list_all (\<lambda>q. list_all (\<lambda>r. r \<in> set ks) (implied q)) ks) IMPLIED_PERMISSIONS"
  by code_simp

lemma implied_closed: "q \<in> set (implied p) \<Longrightarrow> r \<in> set (implied q) \<Longrightarrow> r \<in> set (implied p)"
proof -
  assume q: "q \<in> set (implied p)" and r: "r \<in> set (implied q)"
  from q obtain ks where "map_of IMPLIED_PERMISSIONS p = Some ks" and ks: "implied p = ks"
    by (cases "map_of IMPLIED_PERMISSIONS p") (auto simp: implied_def)
  then have "(p, ks) \<in> set IMPLIED_PERMISSIONS" by (simp add: map_of_SomeD)
  with implied_table_closed q r ks show ?thesis by (fastforce simp: list_all_iff)
qed

text \<open>
  The configuration is keyed by capitalised names, the client passes the names of the
  schema: no model of the schema is configured.
\<close>

lemma no_model_configured: "list_all (\<lambda>m. map_of MODULE_SCOPE_CONFIG m = None) schema_models"
  by code_simp

lemma scope_identity: "m \<in> set schema_models \<Longrightarrow> scope_query sc m operation wh = wh"
  using no_model_configured by (auto simp: scope_query_def list_all_iff split: option.splits)

lemma jwt_validate_success:
  "jwt_validate sub w = (Inr u, v) \<Longrightarrow> v = w \<and> isNumericId sub \<and> cu_id u = read_nat sub
     \<and> (\<exists>x \<in> set (rows (users w)). u_id x = read_nat sub \<and> \<not> u_deleted x \<and> u_status x \<noteq> P_SUSPENDED \<and> u_status x \<noteq> P_REJECTED)
     \<and> set (cu_permissions u) = \<Union> (set ` ro_keys ` set (roles_of w (cu_id u))) \<union> set (direct_keys w (cu_id u))"
  by (auto simp: jwt_validate_def op_success raw_keys_of_def set_buildRawPermissionKeys dest!: find_row_Some)

section \<open>The interface the services rely on\<close>

text \<open>
  What a service may assume of the permission source: a deny override removes a key
  whatever the roles grant, an allow override adds it, and without an override the key
  must come from a raw key, directly or through the expansion table.
\<close>

locale permission_source =
  fixes effective :: "current_user \<Rightarrow> string list"
  assumes denied: "last_override u p = Some False \<Longrightarrow> p \<notin> set (effective u)"
    and granted: "last_override u p = Some True \<Longrightarrow> p \<in> set (effective u)"
    and inherited: "last_override u p = None \<Longrightarrow> p \<in> set (effective u) \<longleftrightarrow>
        p \<in> set (cu_permissions u) \<or> (\<exists>q \<in> set (cu_permissions u). p \<in> set (implied q))"
begin

lemma only_from_raw_or_override:
  "p \<in> set (effective u) \<Longrightarrow> last_override u p = Some True \<or> p \<in> set (cu_permissions u)
     \<or> (\<exists>q \<in> set (cu_permissions u). p \<in> set (implied q))"
  using denied [of u p] inherited [of u p] by (cases "last_override u p") auto

lemma more_raw_more_effective:
  assumes "set (cu_permissions u) \<subseteq> set (cu_permissions v)" and "cu_overrides u = cu_overrides v"
    and "p \<in> set (effective u)"
  shows "p \<in> set (effective v)"
proof -
  have same: "last_override u p = last_override v p" using assms(2) by (simp add: last_override_def)
  show ?thesis
  proof (cases "last_override u p")
    case None
    with same assms show ?thesis using inherited [of u p] inherited [of v p] by auto
  next
    case (Some b)
    with same assms(3) show ?thesis using denied [of u p] granted [of v p] by (cases b) auto
  qed
qed

lemma expansion_closed:
  assumes "p \<in> set (effective u)" and "r \<in> set (implied p)"
    and "last_override u p = None" and "last_override u r = None"
  shows "r \<in> set (effective u)"
  using assms inherited [of u p] inherited [of u r] by (auto intro: implied_closed)

end

interpretation perms: permission_source "\<lambda>u. computeEffectivePermissions (Some u)"
  by unfold_locales (simp_all add: effective_iff)

end
