(* ===== verification/Lookup.thy ===== *)
theory Lookup
  imports Ikimina Permissions
begin

text \<open>
  Helpers the services share: \<open>common/utils/lookup.util.ts\<close>, \<open>common/utils/audit-diff.util.ts\<close>,
  the ISO form of a date, and the look-up of a working location that several services
  repeat.
\<close>

section \<open>Identifiers and search text\<close>

definition is_hex :: "char \<Rightarrow> bool" where
  "is_hex c = (is_digit c \<or> (let n = (of_char (lower_char c) :: nat) in 97 \<le> n \<and> n \<le> 102))"

definition isUuid :: "string \<Rightarrow> bool" where
  "isUuid s = (length s = 36 \<and>
     list_all (\<lambda>i. if i \<in> {8, 13, 18, 23} then s ! i = CHR ''-'' else is_hex (s ! i)) [0..<36])"

text \<open>\<open>fieldName.replace('_', ' ')\<close> replaces the first underscore only.\<close>

fun field_label :: "string \<Rightarrow> string" where
  "field_label [] = []"
| "field_label (c # cs) = (if c = CHR ''_'' then CHR '' '' # cs else c # field_label cs)"

definition requireUuidOrNumeric :: "string \<Rightarrow> string \<Rightarrow> unit service" where
  "requireUuidOrNumeric value fieldName =
     ensure (\<not> (value = [] \<or> (\<not> isNumericId value \<and> \<not> isUuid value \<and> length value < 3)))
       (BadRequest (''Please choose a valid '' @ field_label fieldName @ ''.''))"

fun collapse_spaces :: "string \<Rightarrow> string" where
  "collapse_spaces [] = []"
| "collapse_spaces [c] = [if is_space c then CHR '' '' else c]"
| "collapse_spaces (c # d # cs) =
     (if is_space c then (if is_space d then collapse_spaces (d # cs) else CHR '' '' # collapse_spaces (d # cs))
      else c # collapse_spaces (d # cs))"

definition normalizeSearch :: "string option \<Rightarrow> string option" where
  "normalizeSearch value = map_option (\<lambda>s. take 120 (collapse_spaces (js_trim s))) value"

definition normalizeEntityName :: "string \<Rightarrow> string" where
  "normalizeEntityName name = js_trim (filter (\<lambda>c. \<not> (is_space c \<or> c = CHR ''_'' \<or> c = CHR ''-'')) (to_lower name))"

text \<open>\<open>value ?? default\<close>, and a field set when the request has it.\<close>

definition value_or :: "'a option \<Rightarrow> 'a \<Rightarrow> 'a" where
  "value_or x d = (case x of None \<Rightarrow> d | Some a \<Rightarrow> a)"

section \<open>Audit differences\<close>

text \<open>
  The values are those after \<open>serializeAuditValue\<close>; two values are equal when their JSON
  texts are.  The result lists the changed fields with the old and the new value.
\<close>

definition buildAuditDiff :: "(string \<times> json) list \<Rightarrow> (string \<times> json) list \<Rightarrow> string list \<Rightarrow> json \<times> json \<times> string list" where
  "buildAuditDiff old new keys =
     (let val = (\<lambda>xs k. case map_of xs k of None \<Rightarrow> JNull | Some v \<Rightarrow> v);
          changed = filter (\<lambda>k. val old k \<noteq> val new k) keys
      in (if changed = [] then (JNull, JNull, [])
          else (JObj (map (\<lambda>k. (k, val old k)) changed), JObj (map (\<lambda>k. (k, val new k)) changed), changed)))"

section \<open>Dates and working locations\<close>

text \<open>\<open>toISOString().split('T')[0]\<close> of a \<open>DATE\<close> value.\<close>

definition iso_date :: "int \<Rightarrow> string" where
  "iso_date d = (case civil d of (y, m, k) \<Rightarrow>
     show_int y @ ''-'' @ pad2 (show_nat m) @ ''-'' @ pad2 (show_int k))"

text \<open>\<open>toISOString\<close>, for an instant from 1970 on.\<close>

definition iso_instant :: "int \<Rightarrow> string" where
  "iso_instant t = (let ms = nat (t mod day_ms); s = ms div 1000; three = show_nat (ms mod 1000) in
     iso_date (utc_date t) @ ''T'' @ pad2 (show_nat (s div 3600)) @ '':'' @ pad2 (show_nat (s div 60 mod 60)) @ '':''
       @ pad2 (show_nat (s mod 60)) @ ''.'' @ replicate (3 - length three) (CHR ''0'') @ three @ ''Z'')"

text \<open>\<open>store.keys\<close> when the cache client has it, the plain key otherwise.\<close>

definition clear_cached :: "env \<Rightarrow> string \<Rightarrow> unit service" where
  "clear_cached en prefix = (if store_keys en
     then modify (\<lambda>w. w\<lparr>cache_keys := filter (\<lambda>k. \<not> starts_with k prefix) (cache_keys w)\<rparr>)
     else cache_del prefix)"

definition find_location :: "world \<Rightarrow> string \<Rightarrow> location option" where
  "find_location w value = find_row (\<lambda>l. (if isNumericId value then w_id l = read_nat value else w_uuid l = value)
     \<and> \<not> w_deleted l) (locations w)"

definition resolveWorkingLocationId :: "string \<Rightarrow> nat service" where
  "resolveWorkingLocationId value =
     bind (requireUuidOrNumeric value ''working_location_id'') (\<lambda>_.
     bind (reads (\<lambda>w. find_location w value)) (\<lambda>l.
     bind (the_or (BadRequest ''Working location does not exist.'') l) (\<lambda>l. ret (w_id l))))"

section \<open>Lemmas\<close>

lemma readonly_requireUuid [fail_rules]: "readonly (requireUuidOrNumeric v f)"
  by (simp add: requireUuidOrNumeric_def fail_rules)

lemma readonly_resolveWorkingLocationId [fail_rules]: "readonly (resolveWorkingLocationId v)"
  unfolding resolveWorkingLocationId_def by (intro fail_rules)

lemma resolveWorkingLocationId_success:
  assumes "resolveWorkingLocationId v w = (Inr i, u)"
  shows "u = w \<and> (\<exists>l \<in> set (rows (locations w)). w_id l = i \<and> \<not> w_deleted l)"
proof -
  obtain l :: location where "find_location w v = Some l" and "i = w_id l" and "u = w"
    using assms by (auto simp: resolveWorkingLocationId_def requireUuidOrNumeric_def op_success)
  then show ?thesis by (auto simp: find_location_def dest!: find_row_Some)
qed

lemma never_fails_clear_cached [fail_rules]: "never_fails (clear_cached en p)"
  unfolding clear_cached_def cache_del_def by (intro fail_rules)

lemma clear_cached_app: "\<exists>ks. clear_cached en p w = (Inr (), w\<lparr>cache_keys := ks\<rparr>)"
  unfolding clear_cached_def cache_del_def by (cases "store_keys en") (simp_all, (rule exI, rule refl)+)

end
