(* ===== verification/Departments.thy ===== *)
theory Departments
  imports Lookup
begin

text \<open>
  The part of \<open>departments/department.service.ts\<close> that employee transfers drive: a
  department whose archive is pending is archived as soon as the last employee has left it.
\<close>

definition countAssignedEmployees :: "world \<Rightarrow> nat \<Rightarrow> nat" where
  "countAssignedEmployees w did = length (select (\<lambda>e. e_department e = Some did \<and> \<not> e_deleted e) (employees w))"

definition activity_status :: "bool \<Rightarrow> string" where
  "activity_status active = (if active then ''ACTIVE'' else ''INACTIVE'')"

definition pending_deactivation :: "world \<Rightarrow> nat \<Rightarrow> deactivation_request option" where
  "pending_deactivation w did = find_row (\<lambda>r. dr_department r = did \<and> dr_status r = DA_PENDING) (deactivation_requests w)"

definition find_department :: "world \<Rightarrow> nat \<Rightarrow> department option" where
  "find_department w did = find_row (\<lambda>d. d_id d = did) (departments w)"

definition archiveDepartmentNow :: "nat \<Rightarrow> nat \<Rightarrow> string \<Rightarrow> department service" where
  "archiveDepartmentNow departmentId actorUserId activityDescription =
     bind (atomically (
       bind (reads (\<lambda>w. find_department w departmentId)) (\<lambda>before.
       bind (the_or (NotFound ''Department not found.'') before) (\<lambda>before.
       bind (when_op (d_active before) (modify (\<lambda>w. w\<lparr>departments :=
         update_rows (\<lambda>d. d_id d = departmentId) (\<lambda>d. d\<lparr>d_active := False\<rparr>) (departments w)\<rparr>))) (\<lambda>_.
       bind (modify (\<lambda>w. w\<lparr>deactivation_requests :=
         update_rows (\<lambda>r. dr_department r = departmentId \<and> dr_status r = DA_PENDING)
           (\<lambda>r. r\<lparr>dr_status := DA_COMPLETED, dr_remaining := 0, dr_completed_by := Some actorUserId\<rparr>)
           (deactivation_requests w)\<rparr>)) (\<lambda>_.
       bind (audit (\<lambda>n. \<lparr>a_id = n, a_user = actorUserId, a_employee = None, a_table = ''departments'',
         a_entity = departmentId, a_module = ''DEPARTMENTS'', a_type = AT_UPDATE,
         a_description = activityDescription, a_action = AU_UPDATED,
         a_old = JObj [(''status'', JStr (activity_status (d_active before)))],
         a_new = JObj [(''status'', JStr ''INACTIVE'')], a_changed = []\<rparr>)) (\<lambda>_.
       ret (before\<lparr>d_active := False\<rparr>)))))))) (\<lambda>archived.
     bind (cache_del ''working_locations'') (\<lambda>_.
     bind (modify (broadcast (NamedEvent ''departments_updated''))) (\<lambda>_.
     ret archived)))"

definition location_name :: "world \<Rightarrow> nat \<Rightarrow> string" where
  "location_name w loc = (case find_row (\<lambda>l. w_id l = loc) (locations w) of None \<Rightarrow> [] | Some l \<Rightarrow> w_name l)"

definition archivePendingDepartmentIfEmpty :: "env \<Rightarrow> nat \<Rightarrow> nat \<Rightarrow> department option service" where
  "archivePendingDepartmentIfEmpty en departmentId actorUserId =
     bind (reads (\<lambda>w. pending_deactivation w departmentId)) (\<lambda>pending. case pending of
       None \<Rightarrow> ret None
     | Some p \<Rightarrow>
         bind (reads (\<lambda>w. countAssignedEmployees w departmentId)) (\<lambda>remaining.
         if remaining > 0 then
           bind (modify (\<lambda>w. w\<lparr>deactivation_requests :=
             update_rows (\<lambda>r. dr_id r = dr_id p) (\<lambda>r. r\<lparr>dr_remaining := remaining\<rparr>) (deactivation_requests w)\<rparr>)) (\<lambda>_.
           ret None)
         else
           bind (archiveDepartmentNow departmentId actorUserId
             ''Automatically archived department after all employees were transferred.'') (\<lambda>archived.
           bind (reads (\<lambda>w. location_name w (d_loc archived))) (\<lambda>place.
           bind (notifyBranchManager en (dr_loc p) \<lparr>no_user = None, no_sender = Some actorUserId,
             no_title = ''Department Archived Automatically'',
             no_message = d_name archived @ '' at '' @ place @ '' has been archived because all employees were transferred.'',
             no_type = ''DEPARTMENT_ARCHIVED'', no_reference = Some (d_uuid archived),
             no_metadata = JObj [(''department_uuid'', JStr (d_uuid archived)),
               (''department_id'', JStr (show_nat (dr_department p))),
               (''working_location_id'', JStr (show_nat (dr_loc p)))], no_push = []\<rparr>) (\<lambda>_.
           ret (Some archived))))))"

section \<open>Lemmas\<close>

text \<open>A pending department that still has people is only re-counted.\<close>

lemma archive_waits:
  assumes "pending_deactivation w d = Some p" and "countAssignedEmployees w d > 0"
  shows "archivePendingDepartmentIfEmpty en d a w = (Inr None, w\<lparr>deactivation_requests :=
    update_rows (\<lambda>r. dr_id r = dr_id p) (\<lambda>r. r\<lparr>dr_remaining := countAssignedEmployees w d\<rparr>) (deactivation_requests w)\<rparr>)"
  using assms by (simp add: archivePendingDepartmentIfEmpty_def)

lemma archive_not_pending:
  "pending_deactivation w d = None \<Longrightarrow> archivePendingDepartmentIfEmpty en d a w = (Inr None, w)"
  by (simp add: archivePendingDepartmentIfEmpty_def)

lemma archiveDepartmentNow_result:
  fixes a :: nat and msg :: string
  assumes "find_department w d = Some x"
  defines "v \<equiv> snd (archiveDepartmentNow d a msg w)"
  shows "archiveDepartmentNow d a msg w = (Inr (x\<lparr>d_active := False\<rparr>), v)
    \<and> departments v = (if d_active x then update_rows (\<lambda>y. d_id y = d) (\<lambda>y. y\<lparr>d_active := False\<rparr>) (departments w)
         else departments w)
    \<and> deactivation_requests v = update_rows (\<lambda>r. dr_department r = d \<and> dr_status r = DA_PENDING)
         (\<lambda>r. r\<lparr>dr_status := DA_COMPLETED, dr_remaining := 0, dr_completed_by := Some a\<rparr>) (deactivation_requests w)
    \<and> employees v = employees w \<and> locations v = locations w"
  unfolding v_def using assms(1)
  by (cases "d_active x")
    (simp_all add: archiveDepartmentNow_def atomically_def bind_def cache_del_def broadcast_def)

lemma archive_when_empty:
  assumes p: "pending_deactivation w d = Some p" and x: "find_department w d = Some x"
    and key: "table_ok d_id (departments w)" and none: "countAssignedEmployees w d = 0"
  shows "\<exists>v. archivePendingDepartmentIfEmpty en d a w = (Inr (Some (x\<lparr>d_active := False\<rparr>)), v)
    \<and> (\<forall>y \<in> set (rows (departments v)). d_id y = d \<longrightarrow> \<not> d_active y)
    \<and> pending_deactivation v d = None"
proof -
  let ?msg = "''Automatically archived department after all employees were transferred.''"
  obtain v where run: "archiveDepartmentNow d a ?msg w = (Inr (x\<lparr>d_active := False\<rparr>), v)"
    and dep: "departments v = (if d_active x then update_rows (\<lambda>y. d_id y = d) (\<lambda>y. y\<lparr>d_active := False\<rparr>) (departments w)
         else departments w)"
    and req: "deactivation_requests v = update_rows (\<lambda>r. dr_department r = d \<and> dr_status r = DA_PENDING)
         (\<lambda>r. r\<lparr>dr_status := DA_COMPLETED, dr_remaining := 0, dr_completed_by := Some a\<rparr>) (deactivation_requests w)"
    using archiveDepartmentNow_result [OF x, of a ?msg] by blast
  have x_in: "x \<in> set (rows (departments w))" "d_id x = d"
    using x find_row_Some unfolding find_department_def by fastforce+
  have off: "\<forall>y \<in> set (rows (departments v)). d_id y = d \<longrightarrow> \<not> d_active y"
    using x_in table_ok_unique [OF key] unfolding dep by (auto split: if_splits)
  have gone: "pending_deactivation v d = None"
    unfolding pending_deactivation_def find_row_None req ball_update_rows by simp
  obtain k n e where send: "notifyBranchManager en (dr_loc p) dto v = (Inr k, v\<lparr>notifications := n, delivered := e\<rparr>)"
    if "dto = \<lparr>no_user = None, no_sender = Some a,
             no_title = ''Department Archived Automatically'',
             no_message = d_name x @ '' at '' @ location_name v (d_loc x) @ '' has been archived because all employees were transferred.'',
             no_type = ''DEPARTMENT_ARCHIVED'', no_reference = Some (d_uuid x),
             no_metadata = JObj [(''department_uuid'', JStr (d_uuid x)),
               (''department_id'', JStr (show_nat (dr_department p))),
               (''working_location_id'', JStr (show_nat (dr_loc p)))], no_push = []\<rparr>" for dto
    using branch.send_result by blast
  have "archivePendingDepartmentIfEmpty en d a w
      = (Inr (Some (x\<lparr>d_active := False\<rparr>)), v\<lparr>notifications := n, delivered := e\<rparr>)"
    using p none send [OF refl]
    by (simp add: archivePendingDepartmentIfEmpty_def bind_def run)
  moreover have "pending_deactivation (v\<lparr>notifications := n, delivered := e\<rparr>) d = None"
    using gone by (simp add: pending_deactivation_def)
  ultimately show ?thesis using off by auto
qed

end
