(* ===== verification/Employees.thy ===== *)
theory Employees
  imports Departments
begin

text \<open>
  The life cycle of an employee in \<open>employees/employees.service.ts\<close>: automatic pause when a
  contract has ended, suspension and reactivation, and the two-level transfer between
  working locations, with the checks of what an actor may reach.
\<close>

section \<open>Automatic pause\<close>

definition clearEmployeeCache :: "env \<Rightarrow> unit service" where
  "clearEmployeeCache en = clear_cached en ''employees:all''"

text \<open>Midnight of today in the server's time zone.\<close>

definition local_midnight :: "env \<Rightarrow> int" where
  "local_midnight en = (now en + tz_offset en) div day_ms * day_ms - tz_offset en"

definition expired_employees :: "env \<Rightarrow> world \<Rightarrow> nat option \<Rightarrow> employee list" where
  "expired_employees en w workingLocationId = select (\<lambda>e. e_status e = P_ACTIVE
     \<and> (case e_contract_end e of None \<Rightarrow> False | Some d \<Rightarrow> d < to_date en (local_midnight en))
     \<and> (case category_of w e of None \<Rightarrow> False | Some c \<Rightarrow> c_frequency c = DAILY \<or> c_frequency c = CUSTOM)
     \<and> (case workingLocationId of None \<Rightarrow> True | Some l \<Rightarrow> l = 0 \<or> e_loc e = Some l)
     \<and> \<not> e_deleted e) (employees w)"

definition contract_end_text :: "employee \<Rightarrow> string" where
  "contract_end_text e = (case e_contract_end e of None \<Rightarrow> ''undefined'' | Some d \<Rightarrow> iso_date d)"

definition status_history :: "history_action \<Rightarrow> employee \<Rightarrow> bool \<Rightarrow> string option \<Rightarrow> nat \<Rightarrow> nat \<Rightarrow> history" where
  "status_history action e active reason by n = \<lparr>h_id = n, h_employee = e_id e, h_action = action,
     h_old_department = e_department e, h_new_department = e_department e, h_old_loc = e_loc e, h_new_loc = e_loc e,
     h_old_position = e_position e, h_new_position = e_position e, h_active = active, h_reason = reason,
     h_changed_by = by, h_approved_by = by\<rparr>"

definition pause_text :: "employee \<Rightarrow> string" where
  "pause_text e = (case e_contract_end e of
       Some d \<Rightarrow> ''Contract working days have ended (ended '' @ iso_date d @ '').''
     | None \<Rightarrow> ''Contract working days have ended.'')"

definition pause_one :: "employee \<Rightarrow> unit service" where
  "pause_one e =
     bind (modify (\<lambda>w. w\<lparr>employees := update_rows (\<lambda>x. e_id x = e_id e) (\<lambda>x. x\<lparr>e_status := P_PAUSED,
       e_pause_reason := Some (pause_text e)\<rparr>) (employees w)\<rparr>)) (\<lambda>_.
     bind (modify (\<lambda>w. w\<lparr>histories := insert_row (status_history H_SUSPENDED e False
       (Some (''Contract ended on '' @ contract_end_text e @ ''. Employee paused automatically.'')) 1) (histories w)\<rparr>)) (\<lambda>_.
     audit (\<lambda>n. \<lparr>a_id = n, a_user = 1, a_employee = Some (e_id e), a_table = ''employees'', a_entity = e_id e,
       a_module = ''EMPLOYEES'', a_type = AT_UPDATE,
       a_description = ''Employee auto-paused: contract end date expired.'', a_action = AU_UPDATED,
       a_old = JObj [(''status'', JStr (status_name (e_status e)))],
       a_new = JObj [(''status'', JStr ''PAUSED''), (''contract_end_date'',
         jopt (\<lambda>d. JStr (iso_date d @ ''T00:00:00.000Z'')) (e_contract_end e))],
       a_changed = [''status'']\<rparr>)))"

definition autoPauseExpiredContracts :: "env \<Rightarrow> nat option \<Rightarrow> nat service" where
  "autoPauseExpiredContracts en workingLocationId =
     bind (reads (\<lambda>w. expired_employees en w workingLocationId)) (\<lambda>expired.
     if expired = [] then ret 0
     else bind (atomically (for_each expired pause_one)) (\<lambda>_.
       bind (clearEmployeeCache en) (\<lambda>_.
       bind (modify (broadcast (NamedEvent ''employees_updated''))) (\<lambda>_.
       ret (length expired)))))"

section \<open>Suspension and reactivation\<close>

definition findEmployeeByUuidOrThrow :: "string \<Rightarrow> employee service" where
  "findEmployeeByUuidOrThrow uuid = bind (reads (\<lambda>w. find_row (\<lambda>e. e_uuid e = uuid) (employees w))) (\<lambda>e.
     bind (the_or (NotFound ''Employee not found.'') e) (\<lambda>e.
     bind (ensure (\<not> e_deleted e) (NotFound ''Employee not found.'')) (\<lambda>_. ret e)))"

definition set_somewhere :: "nat option \<Rightarrow> bool" where
  "set_somewhere x = (case x of None \<Rightarrow> False | Some n \<Rightarrow> n \<noteq> 0)"

definition changeStatus :: "env \<Rightarrow> string \<Rightarrow> person_status \<Rightarrow> history_action \<Rightarrow> string option \<Rightarrow> current_user \<Rightarrow>
    employee service" where
  "changeStatus en uuid status actionType reason actor =
     bind (findEmployeeByUuidOrThrow uuid) (\<lambda>e.
     bind (ensure (set_somewhere (e_loc e) \<and> set_somewhere (e_department e) \<and> set_somewhere (e_position e))
       (BadRequest ''Employee must be approved before status changes.'')) (\<lambda>_.
     bind (atomically (
       bind (modify (\<lambda>w. w\<lparr>employees := update_rows (\<lambda>x. e_id x = e_id e) (\<lambda>x. x\<lparr>e_status := status\<rparr>) (employees w)\<rparr>)) (\<lambda>_.
       bind (modify (\<lambda>w. w\<lparr>histories := insert_row
         (status_history actionType e (status = P_ACTIVE) reason (cu_id actor)) (histories w)\<rparr>)) (\<lambda>_.
       audit (\<lambda>n. \<lparr>a_id = n, a_user = cu_id actor, a_employee = Some (e_id e), a_table = ''employees'', a_entity = e_id e,
         a_module = ''EMPLOYEES'', a_type = AT_UPDATE,
         a_description = ''Employee status changed to '' @ status_name status @ ''.'', a_action = AU_UPDATED,
         a_old = JObj [(''status'', JStr (status_name (e_status e)))],
         a_new = JObj [(''status'', JStr (status_name status)), (''reason'', jopt JStr reason)],
         a_changed = [''status'']\<rparr>))))) (\<lambda>_.
     bind (clearEmployeeCache en) (\<lambda>_.
     bind (modify (broadcast (NamedEvent ''employees_updated''))) (\<lambda>_.
     ret (e\<lparr>e_status := status\<rparr>))))))"

definition suspend :: "env \<Rightarrow> string \<Rightarrow> string option \<Rightarrow> current_user \<Rightarrow> employee service" where
  "suspend en uuid reason actor = changeStatus en uuid P_SUSPENDED H_SUSPENDED reason actor"

definition reactivate :: "env \<Rightarrow> string \<Rightarrow> current_user \<Rightarrow> employee service" where
  "reactivate en uuid actor = changeStatus en uuid P_ACTIVE H_UPDATE (Some ''Employee reactivated.'') actor"

section \<open>What an actor may reach\<close>

definition isDepartmentScopeExempt :: "current_user \<Rightarrow> bool" where
  "isDepartmentScopeExempt actor = list_ex (\<lambda>r. r \<in> set [''BRANCH_MANAGER'', ''HR'']) (cu_roles actor)"

definition employeeScopeWhere :: "current_user \<Rightarrow> employee \<Rightarrow> bool" where
  "employeeScopeWhere actor e =
     (if isSystemAdmin actor then True
      else if hasEffectivePermission actor ''employees.read_all'' then True
      else (truthy (cu_location actor) \<longrightarrow> e_loc e = Some (read_nat (the (cu_location actor))))
        \<and> (\<not> isDepartmentScopeExempt actor \<and> truthy (cu_department actor)
            \<longrightarrow> e_department e = Some (read_nat (the (cu_department actor)))))"

text \<open>\<open>ensureActorCanUseScope\<close>; \<open>ensureActorCanAccessEmployee\<close> is the same with its own messages.\<close>

definition scope_check :: "current_user \<Rightarrow> nat option \<Rightarrow> nat option \<Rightarrow> string \<Rightarrow> unit service" where
  "scope_check actor loc dep action =
     (if isSystemAdmin actor then ret ()
      else bind (ensure (truthy (cu_location actor) \<longrightarrow> map_option show_nat loc = cu_location actor)
          (Forbidden (''You can only '' @ action @ '' in your working location.''))) (\<lambda>_.
        ensure (\<not> isDepartmentScopeExempt actor \<and> truthy (cu_department actor) \<longrightarrow> map_option show_nat dep = cu_department actor)
          (Forbidden (''You can only '' @ action @ '' in your department.''))))"

definition ensureActorCanUseScope :: "current_user option \<Rightarrow> nat option \<Rightarrow> nat option \<Rightarrow> string \<Rightarrow> unit service" where
  "ensureActorCanUseScope actor loc dep action = (case actor of None \<Rightarrow> ret () | Some a \<Rightarrow> scope_check a loc dep action)"

definition ensureActorCanAccessEmployee :: "current_user \<Rightarrow> employee \<Rightarrow> unit service" where
  "ensureActorCanAccessEmployee actor e = scope_check actor (e_loc e) (e_department e) ''access employees''"

definition ensureActorCanReadEmployee :: "current_user \<Rightarrow> employee \<Rightarrow> unit service" where
  "ensureActorCanReadEmployee actor e =
     (if isSystemAdmin actor then ret ()
      else if hasEffectivePermission actor ''employees.read_all'' then ret ()
      else ensureActorCanAccessEmployee actor e)"

section \<open>Transfers\<close>

definition resolveDepartmentId :: "string \<Rightarrow> nat option \<Rightarrow> nat service" where
  "resolveDepartmentId value workingLocationId =
     bind (requireUuidOrNumeric value ''department_id'') (\<lambda>_.
     bind (reads (\<lambda>w. find_row (\<lambda>d. (if isNumericId value then d_id d = read_nat value else d_uuid d = value)
       \<and> (case workingLocationId of None \<Rightarrow> True | Some l \<Rightarrow> l = 0 \<or> d_loc d = l) \<and> d_active d) (departments w))) (\<lambda>d.
     bind (the_or (BadRequest ''Department does not exist for the selected working location.'') d) (\<lambda>d. ret (d_id d))))"

definition ensureDepartmentCanReceiveEmployees :: "nat \<Rightarrow> unit service" where
  "ensureDepartmentCanReceiveEmployees departmentId =
     bind (reads (\<lambda>w. w)) (\<lambda>w. case pending_deactivation w departmentId of None \<Rightarrow> ret ()
     | Some p \<Rightarrow> throw (BadRequest ((case find_department w departmentId of None \<Rightarrow> [] | Some d \<Rightarrow> d_name d)
         @ '' is pending archive. Reactivate the department before assigning employees to it.'')))"

definition ensureOrganization :: "nat \<Rightarrow> nat \<Rightarrow> unit service" where
  "ensureOrganization workingLocationId departmentId =
     bind (reads (\<lambda>w. find_row (\<lambda>d. d_id d = departmentId \<and> d_loc d = workingLocationId \<and> d_active d) (departments w))) (\<lambda>d.
     ensure (d \<noteq> None) (BadRequest ''Department does not exist for the selected working location.''))"

definition ensurePosition :: "nat \<Rightarrow> unit service" where
  "ensurePosition positionId = bind (reads (\<lambda>w. find_row (\<lambda>p. p_id p = positionId \<and> p_active p) (positions w))) (\<lambda>p.
     ensure (p \<noteq> None) (BadRequest ''Position does not exist or is inactive.''))"

record transfer_dto =
  td_location :: "string option"
  td_department :: "string option"
  td_position :: "string option"
  td_reason :: "string option"

definition transfer_notice :: "employee \<Rightarrow> transfer_request \<Rightarrow> nat \<Rightarrow> string \<Rightarrow> notice" where
  "transfer_notice e q sender level = \<lparr>no_user = None, no_sender = Some sender, no_title = ''Employee Transfer Request'',
     no_message = ''A transfer request has been initiated for employee '' @ e_first_name e @ '' '' @ e_last_name e @ ''.'',
     no_type = ''TRANSFER_REQUEST'', no_reference = Some (q_uuid q),
     no_metadata = JObj [(''level'', JStr level)], no_push = []\<rparr>"

definition transfer_row :: "env \<Rightarrow> employee \<Rightarrow> nat \<Rightarrow> nat \<Rightarrow> string option \<Rightarrow> nat \<Rightarrow> nat \<Rightarrow> transfer_request" where
  "transfer_row en e loc dep reason by n = \<lparr>q_id = n, q_uuid = gen_uuid en ''transfer_requests'' n,
     q_subject = SUBJECT_EMPLOYEE, q_employee = Some (e_id e), q_old_loc = e_loc e, q_new_loc = loc,
     q_old_department = e_department e, q_new_department = Some dep, q_status = RQ_PENDING,
     q_level = ''BRANCH_MANAGER'', q_reason = reason, q_rejection_reason = None, q_history = [],
     q_requested_by = by, q_approved_by = None, q_approved_at = None, q_user = None\<rparr>"

definition update_request :: "nat \<Rightarrow> (transfer_request \<Rightarrow> transfer_request) \<Rightarrow> unit service" where
  "update_request n f = modify (\<lambda>w. w\<lparr>transfer_requests := update_rows (\<lambda>q. q_id q = n) f (transfer_requests w)\<rparr>)"

definition transfer :: "env \<Rightarrow> string \<Rightarrow> transfer_dto \<Rightarrow> current_user \<Rightarrow> transfer_request service" where
  "transfer en uuid dto actor =
     bind (findEmployeeByUuidOrThrow uuid) (\<lambda>e.
     bind (ensureActorCanAccessEmployee actor e) (\<lambda>_.
     bind (ensure (truthy (td_location dto) \<and> truthy (td_department dto))
       (BadRequest ''Working location and department are required for employee transfer.'')) (\<lambda>_.
     bind (resolveWorkingLocationId (the (td_location dto))) (\<lambda>loc.
     bind (resolveDepartmentId (the (td_department dto)) (Some loc)) (\<lambda>dep.
     bind (if truthy (td_position dto)
           then bind (toBigInt (the (td_position dto)) (field_label ''position_id'')) (\<lambda>p. ret (Some p))
           else ret (e_position e)) (\<lambda>pos.
     bind (if e_department e \<noteq> Some dep then ensureDepartmentCanReceiveEmployees dep else ret ()) (\<lambda>_.
     bind (ensure (set_somewhere pos) (BadRequest ''Employee must have a position before transfer.'')) (\<lambda>_.
     bind (ensureOrganization loc dep) (\<lambda>_.
     bind (ensurePosition (the pos)) (\<lambda>_.
     bind (update_ret (\<lambda>w. let q = transfer_row en e loc dep (td_reason dto) (cu_id actor) in
       (q (next_id (transfer_requests w)), w\<lparr>transfer_requests := insert_row q (transfer_requests w)\<rparr>))) (\<lambda>request.
     bind (if set_somewhere (e_loc e)
           then bind (notifyBranchManager en (the (e_loc e)) (transfer_notice e request (cu_id actor) ''BRANCH_MANAGER'')) (\<lambda>_. ret ())
           else bind (notifyAdmins en (transfer_notice e request (cu_id actor) ''SUPER_ADMIN'')) (\<lambda>_.
             update_request (q_id request) (\<lambda>q. q\<lparr>q_level := ''SUPER_ADMIN''\<rparr>))) (\<lambda>_.
     ret request))))))))))))"

definition findTransferRequestOrThrow :: "string \<Rightarrow> transfer_request service" where
  "findTransferRequestOrThrow uuid =
     bind (reads (\<lambda>w. find_row (\<lambda>q. q_uuid q = uuid \<and> q_subject q = SUBJECT_EMPLOYEE \<and> q_status q = RQ_PENDING)
       (transfer_requests w))) (\<lambda>q. the_or (NotFound ''Pending employee transfer request not found.'') q)"

definition finalize_transfer :: "env \<Rightarrow> transfer_request \<Rightarrow> employee \<Rightarrow> current_user \<Rightarrow> unit service" where
  "finalize_transfer en request e actor =
     bind (modify (\<lambda>w. w\<lparr>employees := update_rows (\<lambda>x. e_id x = e_id e)
       (\<lambda>x. x\<lparr>e_loc := Some (q_new_loc request), e_department := q_new_department request\<rparr>) (employees w)\<rparr>)) (\<lambda>_.
     bind (modify (\<lambda>w. w\<lparr>histories := insert_row (\<lambda>n. \<lparr>h_id = n, h_employee = e_id e, h_action = H_TRANSFER,
       h_old_department = e_department e, h_new_department = q_new_department request, h_old_loc = e_loc e,
       h_new_loc = Some (q_new_loc request), h_old_position = e_position e, h_new_position = e_position e,
       h_active = True, h_reason = q_reason request, h_changed_by = cu_id actor,
       h_approved_by = cu_id actor\<rparr>) (histories w)\<rparr>)) (\<lambda>_.
     update_request (q_id request) (\<lambda>q. q\<lparr>q_status := RQ_APPROVED, q_approved_by := Some (cu_id actor),
       q_approved_at := Some (now en), q_level := ''FINALIZED'',
       q_history := q_history request @ [\<lparr>ts_level = ''SUPER_ADMIN'', ts_action = ''APPROVED'', ts_by = cu_id actor,
         ts_at = now en, ts_reason = None\<rparr>]\<rparr>)))"

definition approve_at_branch :: "env \<Rightarrow> transfer_request \<Rightarrow> current_user \<Rightarrow> unit service" where
  "approve_at_branch en request actor =
     bind (update_request (q_id request) (\<lambda>q. q\<lparr>q_level := ''SUPER_ADMIN'',
       q_history := q_history request @ [\<lparr>ts_level = ''BRANCH_MANAGER'', ts_action = ''APPROVED'', ts_by = cu_id actor,
         ts_at = now en, ts_reason = None\<rparr>]\<rparr>)) (\<lambda>_.
     bind (notifyAdmins en \<lparr>no_user = None, no_sender = Some (cu_id actor),
       no_title = ''Employee Transfer Request Awaiting Admin Approval'',
       no_message = ''An employee transfer request has been approved by the Branch Manager and requires final admin approval.'',
       no_type = ''TRANSFER_REQUEST'', no_reference = Some (q_uuid request),
       no_metadata = JObj [(''level'', JStr ''SUPER_ADMIN'')], no_push = []\<rparr>) (\<lambda>_. ret ()))"

definition after_transfer :: "env \<Rightarrow> transfer_request \<Rightarrow> employee \<Rightarrow> current_user \<Rightarrow> unit service" where
  "after_transfer en request e actor =
     bind (create_notification en \<lparr>no_user = Some (q_requested_by request), no_sender = Some (cu_id actor),
       no_title = ''Employee Transfer Request Finalized'',
       no_message = ''Your transfer request for '' @ e_first_name e @ '' '' @ e_last_name e @ '' has been fully approved.'',
       no_type = ''TRANSFER_APPROVED'', no_reference = Some (q_uuid request), no_metadata = JNull, no_push = []\<rparr>) (\<lambda>_.
     bind (clearEmployeeCache en) (\<lambda>_.
     bind (if set_somewhere (q_old_department request) \<and> q_old_department request \<noteq> q_new_department request
           then bind (archivePendingDepartmentIfEmpty en (the (q_old_department request)) (cu_id actor)) (\<lambda>_. ret ())
           else ret ()) (\<lambda>_.
     modify (broadcast (NamedEvent ''employees_updated'')))))"

definition approve_at_top :: "env \<Rightarrow> transfer_request \<Rightarrow> nat \<Rightarrow> current_user \<Rightarrow> unit service" where
  "approve_at_top en request eid actor =
     bind (reads (\<lambda>w. find_row (\<lambda>e. e_id e = eid) (employees w))) (\<lambda>e.
     bind (the_or (NotFound ''No employees found'') e) (\<lambda>e.
     bind (atomically (finalize_transfer en request e actor)) (\<lambda>_.
     after_transfer en request e actor)))"

definition approveTransfer :: "env \<Rightarrow> string \<Rightarrow> current_user \<Rightarrow> unit service" where
  "approveTransfer en requestUuid actor =
     bind (findTransferRequestOrThrow requestUuid) (\<lambda>request.
     if \<not> set_somewhere (q_employee request) then throw (BadRequest ''Transfer request has no employee.'')
     else let eid = the (q_employee request) in
         if q_level request = ''BRANCH_MANAGER'' then
           bind (ensure (''employees.transfer_approve'' \<in> set (cu_permissions actor) \<or> isSystemAdmin actor)
             (Forbidden ''Only a user with transfer approval permission can approve this at this level.'')) (\<lambda>_.
           approve_at_branch en request actor)
         else if q_level request = ''SUPER_ADMIN'' then
           bind (ensure (isSystemAdmin actor) (Forbidden ''Only an Admin can finalize this transfer.'')) (\<lambda>_.
           approve_at_top en request eid actor)
         else throw (BadRequest ''Invalid transfer request level.''))"

definition rejectTransfer :: "env \<Rightarrow> string \<Rightarrow> string \<Rightarrow> current_user \<Rightarrow> unit service" where
  "rejectTransfer en requestUuid reason actor =
     bind (findTransferRequestOrThrow requestUuid) (\<lambda>request.
     bind (update_request (q_id request) (\<lambda>q. q\<lparr>q_status := RQ_REJECTED, q_rejection_reason := Some reason,
       q_approved_by := Some (cu_id actor), q_approved_at := Some (now en), q_level := ''REJECTED'',
       q_history := q_history request @ [\<lparr>ts_level = q_level request, ts_action = ''REJECTED'', ts_by = cu_id actor,
         ts_at = now en, ts_reason = Some reason\<rparr>]\<rparr>)) (\<lambda>_.
     bind (create_notification en \<lparr>no_user = Some (q_requested_by request), no_sender = Some (cu_id actor),
       no_title = ''Employee Transfer Request Rejected'',
       no_message = ''Your transfer request was rejected. Reason: '' @ reason, no_type = ''TRANSFER_REJECTED'',
       no_reference = Some (q_uuid request), no_metadata = JNull, no_push = []\<rparr>) (\<lambda>_. ret ())))"

section \<open>Lemmas\<close>

subsection \<open>Automatic pause\<close>

lemma expired_iff: "x \<in> set (expired_employees en w l) \<longleftrightarrow> x \<in> set (rows (employees w)) \<and> e_status x = P_ACTIVE
    \<and> \<not> e_deleted x \<and> (case e_contract_end x of None \<Rightarrow> False | Some d \<Rightarrow> d < to_date en (local_midnight en))
    \<and> (case category_of w x of None \<Rightarrow> False | Some c \<Rightarrow> c_frequency c \<noteq> MONTHLY)
    \<and> (case l of None \<Rightarrow> True | Some n \<Rightarrow> n = 0 \<or> e_loc x = Some n)"
proof -
  have "f = DAILY \<or> f = CUSTOM \<longleftrightarrow> f \<noteq> MONTHLY" for f :: frequency by (cases f) simp_all
  then show ?thesis by (auto simp: expired_employees_def select_def split: option.splits)
qed

definition pause_row :: "employee \<Rightarrow> employee \<Rightarrow> employee" where
  "pause_row e x = (if e_id x = e_id e then x\<lparr>e_status := P_PAUSED, e_pause_reason := Some (pause_text e)\<rparr> else x)"

lemma pause_one_employees: "\<exists>t. pause_one e w = (Inr (), t) \<and> rows (employees t) = map (pause_row e) (rows (employees w))"
  by (simp add: pause_one_def pause_row_def)

lemma never_fails_pause_one [fail_rules]: "never_fails (pause_one e)"
  unfolding pause_one_def by (intro fail_rules)

lemma never_fails_clearEmployeeCache [fail_rules]: "never_fails (clearEmployeeCache en)"
  unfolding clearEmployeeCache_def by (intro fail_rules)

lemma never_fails_autoPause [fail_rules]: "never_fails (autoPauseExpiredContracts en l)"
  unfolding autoPauseExpiredContracts_def by (intro fail_rules)

lemma pause_loop:
  "\<exists>t. for_each es pause_one w = (Inr (), t) \<and>
     rows (employees t) = map (\<lambda>x. foldl (\<lambda>y e. pause_row e y) x es) (rows (employees w))"
proof (induction es arbitrary: w)
  case (Cons e es)
  obtain t where t: "pause_one e w = (Inr (), t)" "rows (employees t) = map (pause_row e) (rows (employees w))"
    using pause_one_employees by blast
  obtain u where u: "for_each es pause_one t = (Inr (), u)"
    "rows (employees u) = map (\<lambda>x. foldl (\<lambda>y e. pause_row e y) x es) (rows (employees t))"
    using Cons.IH by blast
  from t u have "for_each (e # es) pause_one w = (Inr (), u)" by (simp add: bind_def)
  moreover from t u have "rows (employees u) = map (\<lambda>x. foldl (\<lambda>y e. pause_row e y) x (e # es)) (rows (employees w))"
    by simp
  ultimately show ?case by blast
qed simp

lemma pause_row_key [simp]: "e_id (pause_row e x) = e_id x"
  by (simp add: pause_row_def)

lemma pause_row_other: "e_id x \<noteq> e_id e \<Longrightarrow> pause_row e x = x"
  by (simp add: pause_row_def)

lemma pause_fold_other: "e_id x \<notin> e_id ` set es \<Longrightarrow> foldl (\<lambda>y e. pause_row e y) x es = x"
  by (induction es arbitrary: x) (auto simp: pause_row_other)

lemma pause_fold: "e \<in> set es \<Longrightarrow> distinct (map e_id es) \<Longrightarrow> e_id x = e_id e \<Longrightarrow>
    foldl (\<lambda>y e. pause_row e y) x es = x\<lparr>e_status := P_PAUSED, e_pause_reason := Some (pause_text e)\<rparr>"
proof (induction es arbitrary: x)
  case (Cons a es)
  show ?case
  proof (cases "a = e")
    case True
    with Cons.prems have "e_id (pause_row a x) \<notin> e_id ` set es" by auto
    with True Cons.prems show ?thesis by (simp add: pause_fold_other) (simp add: pause_row_def)
  next
    case False
    with Cons.prems have "e_id x \<noteq> e_id a" by force
    then have "pause_row a x = x" by (rule pause_row_other)
    with False Cons show ?thesis by simp
  qed
qed simp

lemma autoPause_employees:
  assumes ok: "table_ok e_id (employees w)"
  shows "\<exists>v. autoPauseExpiredContracts en l w = (Inr (length (expired_employees en w l)), v) \<and>
    rows (employees v) = map (\<lambda>x. if x \<in> set (expired_employees en w l)
      then x\<lparr>e_status := P_PAUSED, e_pause_reason := Some (pause_text x)\<rparr> else x) (rows (employees w))"
proof (cases "expired_employees en w l = []")
  case True
  then have "autoPauseExpiredContracts en l w = (Inr (length (expired_employees en w l)), w)"
    by (simp add: autoPauseExpiredContracts_def)
  moreover have "rows (employees w) = map (\<lambda>x. if x \<in> set (expired_employees en w l)
      then x\<lparr>e_status := P_PAUSED, e_pause_reason := Some (pause_text x)\<rparr> else x) (rows (employees w))"
    using True by (simp del: set_select)
  ultimately show ?thesis by blast
next
  case False
  let ?es = "expired_employees en w l"
  obtain t where loop: "for_each ?es pause_one w = (Inr (), t)"
    and rows: "rows (employees t) = map (\<lambda>x. foldl (\<lambda>y e. pause_row e y) x ?es) (rows (employees w))"
    using pause_loop by blast
  obtain ks where clear: "clearEmployeeCache en t = (Inr (), t\<lparr>cache_keys := ks\<rparr>)"
    unfolding clearEmployeeCache_def using clear_cached_app by blast
  have dist: "distinct (map e_id ?es)" and sub: "set ?es \<subseteq> set (rows (employees w))"
    using ok by (auto simp: expired_employees_def select_def table_ok_def distinct_map_filter)
  have eq: "foldl (\<lambda>y e. pause_row e y) x ?es = (if x \<in> set ?es
      then x\<lparr>e_status := P_PAUSED, e_pause_reason := Some (pause_text x)\<rparr> else x)"
    if "x \<in> set (rows (employees w))" for x
  proof (cases "x \<in> set ?es")
    case True
    then show ?thesis using pause_fold [OF True dist refl] by simp
  next
    case False
    have "e_id x \<notin> e_id ` set ?es"
    proof
      assume "e_id x \<in> e_id ` set ?es"
      then obtain e where "e \<in> set ?es" "e_id x = e_id e" by blast
      then have "x = e" using table_ok_unique [OF ok that] sub by blast
      with False \<open>e \<in> set ?es\<close> show False by simp
    qed
    then have "foldl (\<lambda>y e. pause_row e y) x ?es = x" by (rule pause_fold_other)
    with False show ?thesis by simp
  qed
  have "autoPauseExpiredContracts en l w
      = (Inr (length ?es), broadcast (NamedEvent ''employees_updated'') (t\<lparr>cache_keys := ks\<rparr>))"
    using False loop clear by (simp add: autoPauseExpiredContracts_def bind_def atomically_def)
  moreover have "rows (employees (broadcast (NamedEvent ''employees_updated'') (t\<lparr>cache_keys := ks\<rparr>)))
      = map (\<lambda>x. if x \<in> set ?es then x\<lparr>e_status := P_PAUSED, e_pause_reason := Some (pause_text x)\<rparr> else x)
          (rows (employees w))"
    using eq by (simp add: broadcast_def rows)
  ultimately show ?thesis by blast
qed

text \<open>A predicate that does not read what the employee operations write.\<close>

definition people_free :: "(world \<Rightarrow> bool) \<Rightarrow> bool" where
  "people_free I \<longleftrightarrow> (\<forall>w e h a k d. I (w\<lparr>employees := e, histories := h, audit_logs := a, cache_keys := k, delivered := d\<rparr>) = I w)"

lemma people_freeD:
  assumes "people_free I"
  shows "I (w\<lparr>employees := e\<rparr>) = I w" "I (w\<lparr>histories := h\<rparr>) = I w" "I (w\<lparr>audit_logs := a\<rparr>) = I w"
    "I (w\<lparr>cache_keys := k\<rparr>) = I w" "I (w\<lparr>delivered := d\<rparr>) = I w"
proof -
  have all: "I (w\<lparr>employees := e, histories := h, audit_logs := a, cache_keys := k, delivered := d\<rparr>) = I w" for e h a k d
    using assms unfolding people_free_def by blast
  show "I (w\<lparr>employees := e\<rparr>) = I w"
    using all [where e = e and h = "histories w" and a = "audit_logs w" and k = "cache_keys w" and d = "delivered w"] by simp
  show "I (w\<lparr>histories := h\<rparr>) = I w"
    using all [where e = "employees w" and h = h and a = "audit_logs w" and k = "cache_keys w" and d = "delivered w"] by simp
  show "I (w\<lparr>audit_logs := a\<rparr>) = I w"
    using all [where e = "employees w" and h = "histories w" and a = a and k = "cache_keys w" and d = "delivered w"] by simp
  show "I (w\<lparr>cache_keys := k\<rparr>) = I w"
    using all [where e = "employees w" and h = "histories w" and a = "audit_logs w" and k = k and d = "delivered w"] by simp
  show "I (w\<lparr>delivered := d\<rparr>) = I w"
    using all [where e = "employees w" and h = "histories w" and a = "audit_logs w" and k = "cache_keys w" and d = d] by simp
qed

lemma keeps_autoPause:
  assumes "people_free I"
  shows "keeps I (autoPauseExpiredContracts en l)"
proof -
  have one: "keeps I (pause_one e)" for e
    unfolding pause_one_def audit_def using people_freeD [OF assms]
    by (intro keeps_rules keeps_modify) simp_all
  then show ?thesis
    unfolding autoPauseExpiredContracts_def clearEmployeeCache_def clear_cached_def cache_del_def
      atomically_never [OF never_fails_for_each [OF never_fails_pause_one]] broadcast_def
    using people_freeD [OF assms] by (intro keeps_rules keeps_modify) simp_all
qed

subsection \<open>Status changes and transfers\<close>

lemma readonly_findEmployee [fail_rules]: "readonly (findEmployeeByUuidOrThrow u)"
  unfolding findEmployeeByUuidOrThrow_def by (intro fail_rules)

lemma readonly_findTransfer [fail_rules]: "readonly (findTransferRequestOrThrow u)"
  unfolding findTransferRequestOrThrow_def by (intro fail_rules)

lemma never_fails_update_request [fail_rules]: "never_fails (update_request n f)"
  unfolding update_request_def by (intro fail_rules)

lemma clean_fail_changeStatus: "clean_fail (changeStatus en uuid st act r actor)"
  unfolding changeStatus_def by (intro clean_fail_bind clean_fail_never fail_rules)

lemma clean_fail_rejectTransfer: "clean_fail (rejectTransfer en uuid r actor)"
  unfolding rejectTransfer_def by (intro clean_fail_bind clean_fail_never fail_rules direct.sends)

lemma findEmployee_success: "findEmployeeByUuidOrThrow u w = (Inr e, v) \<Longrightarrow>
    v = w \<and> e \<in> set (rows (employees w)) \<and> e_uuid e = u \<and> \<not> e_deleted e"
  by (auto simp: findEmployeeByUuidOrThrow_def op_success dest!: find_row_Some)

lemma findTransfer_success: "findTransferRequestOrThrow u w = (Inr q, v) \<Longrightarrow>
    v = w \<and> q \<in> set (rows (transfer_requests w)) \<and> q_uuid q = u \<and> q_subject q = SUBJECT_EMPLOYEE \<and> q_status q = RQ_PENDING"
  by (auto simp: findTransferRequestOrThrow_def op_success dest!: find_row_Some)

lemma changeStatus_success:
  assumes "changeStatus en uuid st act r actor w = (Inr x, v)"
  shows "\<exists>e \<in> set (rows (employees w)). e_uuid e = uuid \<and> \<not> e_deleted e \<and> x = e\<lparr>e_status := st\<rparr>
    \<and> set_somewhere (e_loc e) \<and> set_somewhere (e_department e) \<and> set_somewhere (e_position e)
    \<and> employees v = update_rows (\<lambda>y. e_id y = e_id e) (\<lambda>y. y\<lparr>e_status := st\<rparr>) (employees w)"
proof -
  obtain ks where clear: "clearEmployeeCache en u = (Inr (), u\<lparr>cache_keys := ks u\<rparr>)" for u
    unfolding clearEmployeeCache_def using clear_cached_app by metis
  show ?thesis
    using assms unfolding changeStatus_def
    by (auto simp: op_success clear broadcast_def dest!: findEmployee_success)
qed

text \<open>A transfer is applied only by a system administrator, at the last level.\<close>

lemma keeps_approve_at_branch:
  "quiet I \<Longrightarrow> (\<And>w t. I (w\<lparr>transfer_requests := t\<rparr>) = I w) \<Longrightarrow> keeps I (approve_at_branch en q actor)"
  unfolding approve_at_branch_def update_request_def
  by (intro keeps_rules keeps_modify keeps_notify) simp_all

lemma approveTransfer_success:
  assumes "approveTransfer en uuid actor w = (Inr u, v)"
  shows "\<exists>q \<in> set (rows (transfer_requests w)). q_uuid q = uuid \<and> q_status q = RQ_PENDING \<and> set_somewhere (q_employee q)
    \<and> ((q_level q = ''BRANCH_MANAGER'' \<and> approve_at_branch en q actor w = (Inr u, v)
          \<and> (''employees.transfer_approve'' \<in> set (cu_permissions actor) \<or> isSystemAdmin actor))
       \<or> (q_level q = ''SUPER_ADMIN'' \<and> isSystemAdmin actor
          \<and> approve_at_top en q (the (q_employee q)) actor w = (Inr u, v)))"
proof -
  obtain q where q: "findTransferRequestOrThrow uuid w = (Inr q, w)"
    and run: "(if \<not> set_somewhere (q_employee q) then throw (BadRequest ''Transfer request has no employee.'')
     else let eid = the (q_employee q) in
         if q_level q = ''BRANCH_MANAGER'' then
           bind (ensure (''employees.transfer_approve'' \<in> set (cu_permissions actor) \<or> isSystemAdmin actor)
             (Forbidden ''Only a user with transfer approval permission can approve this at this level.'')) (\<lambda>_.
           approve_at_branch en q actor)
         else if q_level q = ''SUPER_ADMIN'' then
           bind (ensure (isSystemAdmin actor) (Forbidden ''Only an Admin can finalize this transfer.'')) (\<lambda>_.
           approve_at_top en q eid actor)
         else throw (BadRequest ''Invalid transfer request level.'')) w = (Inr u, v)"
    using assms unfolding approveTransfer_def bind_Inr using findTransfer_success by metis
  have "q \<in> set (rows (transfer_requests w))" "q_uuid q = uuid" "q_status q = RQ_PENDING"
    using findTransfer_success [OF q] by simp_all
  moreover have "set_somewhere (q_employee q)"
    using run by (rule_tac ccontr) simp
  ultimately show ?thesis
    using run by (intro bexI [of _ q]) (auto simp: Let_def op_success split: if_splits)
qed

lemma branch_approval_moves_nobody:
  assumes "approve_at_branch en q actor w = (Inr u, v)"
  shows "employees v = employees w"
proof -
  have "keeps (\<lambda>x. employees x = employees w) (approve_at_branch en q actor)"
    by (rule keeps_approve_at_branch) (simp_all add: quiet_def)
  from keepsD [OF this refl assms] show ?thesis .
qed

lemma keeps_archivePending:
  fixes E :: "employee table" and T :: "transfer_request table"
  defines "I \<equiv> (\<lambda>x. employees x = E \<and> transfer_requests x = T)"
  shows "keeps I (archivePendingDepartmentIfEmpty en d a)"
proof -
  have "quiet I" by (simp add: I_def quiet_def)
  then show ?thesis
    unfolding archivePendingDepartmentIfEmpty_def archiveDepartmentNow_def audit_def cache_del_def broadcast_def
    by (intro keeps_rules keeps_modify keeps_notify keeps_atomically) (simp_all add: I_def)
qed

lemma top_approval:
  assumes "approve_at_top en q eid actor w = (Inr u, v)"
  shows "employees v = update_rows (\<lambda>x. e_id x = eid)
      (\<lambda>x. x\<lparr>e_loc := Some (q_new_loc q), e_department := q_new_department q\<rparr>) (employees w)
    \<and> (\<forall>r \<in> set (rows (transfer_requests v)). q_id r = q_id q \<longrightarrow> q_status r = RQ_APPROVED)"
proof -
  obtain e t where e: "find_row (\<lambda>e. e_id e = eid) (employees w) = Some e"
    and fin: "finalize_transfer en q e actor w = (Inr (), t)" and rest: "after_transfer en q e actor t = (Inr u, v)"
    using assms by (auto simp: approve_at_top_def op_success)
  have id: "e_id e = eid" using find_row_Some [OF e] by simp
  let ?I = "\<lambda>x. employees x = employees t \<and> transfer_requests x = transfer_requests t"
  have "quiet ?I" by (simp add: quiet_def)
  then have "keeps ?I (after_transfer en q e actor)"
    unfolding after_transfer_def clearEmployeeCache_def clear_cached_def cache_del_def
    by (intro keeps_rules keeps_modify keeps_archivePending direct.keeps_send) (simp_all add: broadcast_def)
  from keepsD [OF this _ rest]
  have "employees v = employees t \<and> transfer_requests v = transfer_requests t" by simp
  moreover have "employees t = update_rows (\<lambda>x. e_id x = eid)
      (\<lambda>x. x\<lparr>e_loc := Some (q_new_loc q), e_department := q_new_department q\<rparr>) (employees w)
    \<and> (\<forall>r \<in> set (rows (transfer_requests t)). q_id r = q_id q \<longrightarrow> q_status r = RQ_APPROVED)"
    using fin id by (auto simp: finalize_transfer_def update_request_def)
  ultimately show ?thesis by simp
qed

end
