(* ===== verification/Payroll_Access.thy ===== *)
theory Payroll_Access
  imports Lookup
begin

text \<open>
  Who may do what to a payroll batch (\<open>payroll/payroll.service.ts\<close>): the location checks,
  who approves the first step, and the final approval that belongs to HR at headquarters
  with the super administrator as the only fallback.
\<close>

section \<open>Location scope\<close>

definition batchScopeWhere :: "current_user \<Rightarrow> batch \<Rightarrow> bool" where
  "batchScopeWhere actor b =
     (if isSystemAdmin actor then True
      else if hasEffectivePermission actor ''payroll.read_all'' then True
      else if truthy (cu_location actor) then b_loc b = read_nat (the (cu_location actor))
      else b_id b = 0)"

definition ensureActorCanUseWorkingLocation :: "current_user \<Rightarrow> nat \<Rightarrow> unit service" where
  "ensureActorCanUseWorkingLocation actor workingLocationId =
     (if isSystemAdmin actor then ret ()
      else if cu_location actor = Some (show_nat workingLocationId) then ret ()
      else throw (BadRequest ''You can only access payroll in your working location.''))"

definition ensureActorCanViewWorkingLocation :: "current_user \<Rightarrow> nat \<Rightarrow> unit service" where
  "ensureActorCanViewWorkingLocation actor workingLocationId =
     (if isSystemAdmin actor then ret ()
      else if hasEffectivePermission actor ''payroll.read_all'' then ret ()
      else ensureActorCanUseWorkingLocation actor workingLocationId)"

definition ensureWorkingLocation :: "nat \<Rightarrow> unit service" where
  "ensureWorkingLocation i = bind (reads (\<lambda>w. find_row (\<lambda>l. w_id l = i \<and> \<not> w_deleted l) (locations w))) (\<lambda>l.
     ensure (l \<noteq> None) (BadRequest ''Working location does not exist.''))"

section \<open>Approvers\<close>

definition active_users_at :: "world \<Rightarrow> nat \<Rightarrow> user list" where
  "active_users_at w loc = select (\<lambda>u. u_loc u = Some loc \<and> u_status u = P_ACTIVE) (users w)"

definition hasInitialApprover :: "world \<Rightarrow> nat \<Rightarrow> bool" where
  "hasInitialApprover w workingLocationId =
     (if find_row (\<lambda>b. bm_loc b = workingLocationId \<and> bm_active b) (branch_managers w) \<noteq> None then True
      else if find_row (\<lambda>p. up_key p \<in> set [''payroll.approve_initial'', ''payroll.approve'']
          \<and> list_ex (\<lambda>u. u_id u = up_user p) (active_users_at w workingLocationId)) (user_permissions w) \<noteq> None then True
      else list_ex (\<lambda>u. ''payroll.approve_initial'' \<in> set (raw_keys_of w (u_id u))
          \<or> ''payroll.approve'' \<in> set (raw_keys_of w (u_id u))) (active_users_at w workingLocationId))"

definition hasActiveHrAt :: "world \<Rightarrow> nat \<Rightarrow> bool" where
  "hasActiveHrAt w workingLocationId = (find_row (\<lambda>ur.
     list_ex (\<lambda>r. ro_id r = ur_role ur \<and> ro_name r = ''HR'') (rows (roles w))
     \<and> list_ex (\<lambda>u. u_id u = ur_user ur \<and> u_loc u = Some workingLocationId \<and> u_status u = P_ACTIVE) (rows (users w)))
     (user_roles w) \<noteq> None)"

datatype authority_kind = HQ_HR | SUPER_ADMIN_ONLY

record authority =
  au_kind :: authority_kind
  au_hq :: "nat option"
  au_message :: string

definition resolveFinalApprovalAuthority :: "world \<Rightarrow> authority" where
  "resolveFinalApprovalAuthority w = (case hq_location w of
     Some hq \<Rightarrow> if hasActiveHrAt w (w_id hq)
       then \<lparr>au_kind = HQ_HR, au_hq = Some (w_id hq),
             au_message = ''Only HR at headquarters can give final approval for this payroll batch.''\<rparr>
       else \<lparr>au_kind = SUPER_ADMIN_ONLY, au_hq = Some (w_id hq),
             au_message = ''No HR is available at headquarters, so only a super admin can give final approval.''\<rparr>
   | None \<Rightarrow> \<lparr>au_kind = SUPER_ADMIN_ONLY, au_hq = None,
             au_message = ''No HR is available at headquarters, so only a super admin can give final approval.''\<rparr>)"

definition canInitialApprove :: "current_user \<Rightarrow> nat \<Rightarrow> bool" where
  "canInitialApprove actor loc = (hasEffectivePermission actor ''payroll.approve_initial''
     \<or> hasEffectivePermission actor ''payroll.approve''
     \<or> (''BRANCH_MANAGER'' \<in> set (cu_roles actor) \<and> cu_location actor = Some (show_nat loc)))"

definition canFinalApprove :: "current_user \<Rightarrow> authority \<Rightarrow> bool" where
  "canFinalApprove actor au =
     (let holdsFinalPermission = (hasEffectivePermission actor ''payroll.approve_final''
            \<or> hasEffectivePermission actor ''payroll.approve'') in
      au_kind au = HQ_HR \<and> holdsFinalPermission \<and> ''HR'' \<in> set (cu_roles actor)
        \<and> cu_location actor = map_option show_nat (au_hq au))"

definition ensureActorCanApproveBatch :: "current_user \<Rightarrow> batch \<Rightarrow> unit service" where
  "ensureActorCanApproveBatch actor b =
     (if ''SUPER_ADMIN'' \<in> set (cu_roles actor) then ret ()
      else bind (reads (\<lambda>w. w)) (\<lambda>w.
       if b_step b = 1 \<and> hasInitialApprover w (b_loc b) then
         ensure (canInitialApprove actor (b_loc b))
           (BadRequest ''You do not have permission to approve the initial step of this payroll batch.'')
       else
         let au = resolveFinalApprovalAuthority w in
         ensure (canFinalApprove actor au) (BadRequest (au_message au))))"

definition ensureBatchCanStillBeReviewed :: "batch \<Rightarrow> unit service" where
  "ensureBatchCanStillBeReviewed b =
     bind (ensure (\<not> (b_status b = APPROVED \<or> b_status b = REJECTED))
       (BadRequest ''Terminal batches cannot be modified.'')) (\<lambda>_.
     ensure (b_status b \<in> set [PENDING, IN_REVIEW, MANAGER_APPROVED])
       (BadRequest ''Only submitted payroll batches can be approved or rejected.''))"

section \<open>Lemmas\<close>

lemma readonly_useLocation [fail_rules]: "readonly (ensureActorCanUseWorkingLocation a l)"
  unfolding ensureActorCanUseWorkingLocation_def by (intro fail_rules)

lemma readonly_viewLocation [fail_rules]: "readonly (ensureActorCanViewWorkingLocation a l)"
  unfolding ensureActorCanViewWorkingLocation_def by (intro fail_rules)

lemma readonly_ensureWorkingLocation [fail_rules]: "readonly (ensureWorkingLocation i)"
  unfolding ensureWorkingLocation_def by (intro fail_rules)

lemma readonly_canApprove [fail_rules]: "readonly (ensureActorCanApproveBatch a b)"
  unfolding ensureActorCanApproveBatch_def Let_def by (intro fail_rules)

lemma readonly_canReview [fail_rules]: "readonly (ensureBatchCanStillBeReviewed b)"
  unfolding ensureBatchCanStillBeReviewed_def by (intro fail_rules)

lemma useLocation_Inr [simp]: "ensureActorCanUseWorkingLocation a l w = (Inr u, v) \<longleftrightarrow>
    v = w \<and> (isSystemAdmin a \<or> cu_location a = Some (show_nat l))"
  by (auto simp: ensureActorCanUseWorkingLocation_def)

lemma viewLocation_Inr: "ensureActorCanViewWorkingLocation a l w = (Inr u, v) \<longleftrightarrow>
    v = w \<and> (isSystemAdmin a \<or> hasEffectivePermission a ''payroll.read_all'' \<or> cu_location a = Some (show_nat l))"
  by (auto simp: ensureActorCanViewWorkingLocation_def)

lemma canReview_Inr [simp]: "ensureBatchCanStillBeReviewed b w = (Inr u, v) \<longleftrightarrow>
    v = w \<and> b_status b \<in> {PENDING, IN_REVIEW, MANAGER_APPROVED}"
  by (auto simp: ensureBatchCanStillBeReviewed_def op_success)

text \<open>The actor may decide on a batch: the first step, or the final one.\<close>

definition may_decide :: "world \<Rightarrow> current_user \<Rightarrow> batch \<Rightarrow> bool" where
  "may_decide w actor b \<longleftrightarrow> isSystemAdmin actor
     \<or> (if b_step b = 1 \<and> hasInitialApprover w (b_loc b) then canInitialApprove actor (b_loc b)
        else canFinalApprove actor (resolveFinalApprovalAuthority w))"

lemma canApprove_Inr [simp]: "ensureActorCanApproveBatch a b w = (Inr u, v) \<longleftrightarrow> v = w \<and> may_decide w a b"
  by (auto simp: ensureActorCanApproveBatch_def may_decide_def isSystemAdmin_iff Let_def)

lemma canFinalApprove_iff: "canFinalApprove a (resolveFinalApprovalAuthority w) \<longleftrightarrow>
    (\<exists>hq. hq_location w = Some hq \<and> hasActiveHrAt w (w_id hq) \<and> ''HR'' \<in> set (cu_roles a)
      \<and> cu_location a = Some (show_nat (w_id hq))
      \<and> (hasEffectivePermission a ''payroll.approve_final'' \<or> hasEffectivePermission a ''payroll.approve''))"
  by (auto simp: canFinalApprove_def resolveFinalApprovalAuthority_def Let_def split: option.splits if_splits)

text \<open>The HR users that are told about a batch are there exactly when HR has the final say.\<close>

lemma hasActiveHrAt_iff: "hasActiveHrAt w loc \<longleftrightarrow> active_hr_at w loc \<noteq> []"
proof -
  have "hasActiveHrAt w loc \<longleftrightarrow> (\<exists>ur \<in> set (rows (user_roles w)).
      list_ex (\<lambda>r. ro_id r = ur_role ur \<and> ro_name r = ''HR'') (rows (roles w))
      \<and> list_ex (\<lambda>u. u_id u = ur_user ur \<and> u_loc u = Some loc \<and> u_status u = P_ACTIVE) (rows (users w)))"
    unfolding hasActiveHrAt_def by (auto simp: find_row_None)
  then show ?thesis
    unfolding active_hr_at_def users_with_role_def filter_empty_conv by auto
qed

end
