(* ===== verification/Payroll_Calculation.thy ===== *)
theory Payroll_Calculation
  imports System_Config Ikimina
begin

text \<open>
  \<open>PayrollService.calculateEmployeePayroll\<close> (\<open>payroll/payroll.service.ts\<close>): what one
  employee earns in a payroll period.  The method is split where the code changes subject:
  the period, the structure that applies, attendance, the day counts, base pay and
  overrides, configured deductions, the three pay regimes (monthly; daily or custom over
  21 days; daily or custom up to 21 days), and the assembled result.
\<close>

section \<open>Requests and results\<close>

record pay_override =
  od_employee :: string
  od_base :: "rat option"
  od_phone :: "string option"

record create_batch_dto =
  bd_location :: string
  bd_month :: nat
  bd_year :: nat
  bd_payment_date :: int
  bd_method :: payment_method
  bd_description :: "string option"
  bd_start :: "int option"
  bd_end :: "int option"
  bd_work_days :: "int option"
  bd_categories :: "frequency list"
  bd_overrides :: "pay_override list"

record payroll_calculation =
  pc_employee :: nat
  pc_department :: "nat option"
  pc_structure :: nat
  pc_base :: rat
  pc_allowance :: rat
  pc_tax :: rat
  pc_attendance_days :: nat
  pc_work_days :: nat
  pc_start :: int
  pc_end :: int
  pc_metadata :: calc_metadata
  pc_gross :: rat
  pc_deductions :: rat
  pc_net :: rat
  pc_phone :: "string option"

section \<open>The period\<close>

text \<open>
  Dates of the request are civil days.  A missing start or end is the first or last day of
  the payroll month; both ends are instants in Kigali.
\<close>

definition period_start :: "create_batch_dto \<Rightarrow> int" where
  "period_start dto = kigali_start_of_day (case bd_start dto of Some d \<Rightarrow> d
     | None \<Rightarrow> month_first (int (bd_year dto)) (bd_month dto))"

definition period_end :: "create_batch_dto \<Rightarrow> int" where
  "period_end dto = kigali_end_of_day (case bd_end dto of Some d \<Rightarrow> d
     | None \<Rightarrow> (case next_month (int (bd_year dto), bd_month dto) of (y, m) \<Rightarrow> month_first y m - 1))"

definition period_calendar_days :: "create_batch_dto \<Rightarrow> int" where
  "period_calendar_days dto = kigali_day (period_end dto) - kigali_day (period_start dto) + 1"

section \<open>The structure that applies and the attendance\<close>

definition find_pay_structure :: "env \<Rightarrow> world \<Rightarrow> nat \<Rightarrow> create_batch_dto \<Rightarrow> pay_structure option" where
  "find_pay_structure en w eid dto =
     (case sort_key (\<lambda>s. - s_from s) (select (\<lambda>s. s_employee s = eid
          \<and> s_from s \<le> to_date en (period_end dto)
          \<and> (case s_to s of None \<Rightarrow> True | Some t \<Rightarrow> t \<ge> period_start dto)) (structures w)) of
        [] \<Rightarrow> None | s # _ \<Rightarrow> Some s)"

definition period_attendance :: "env \<Rightarrow> world \<Rightarrow> nat \<Rightarrow> create_batch_dto \<Rightarrow> time_record list" where
  "period_attendance en w eid dto = select (\<lambda>r. r_employee r = eid
     \<and> to_date en (period_start dto) \<le> r_date r \<and> r_date r \<le> to_date en (period_end dto)) (time_records w)"

definition present_days :: "time_record list \<Rightarrow> nat" where
  "present_days att = length (filter (\<lambda>r. r_status r = PRESENT) att)"

definition overtime_hours :: "time_record list \<Rightarrow> rat" where
  "overtime_hours att = sum_of r_overtime att"

definition overtime_days :: "time_record list \<Rightarrow> nat" where
  "overtime_days att = length (filter (\<lambda>r. r_overtime r > 0) att)"

section \<open>Day counts\<close>

definition contract_days :: "employee \<Rightarrow> nat option" where
  "contract_days e = (case (e_contract_start e, e_contract_end e) of
     (Some a, Some b) \<Rightarrow> Some (getContractDays a b) | _ \<Rightarrow> None)"

definition expected_work_days :: "frequency \<Rightarrow> int \<Rightarrow> int option \<Rightarrow> nat option \<Rightarrow> nat" where
  "expected_work_days f calendar_days work_days contract =
     (let expected = (case work_days of
            Some d \<Rightarrow> d
          | None \<Rightarrow> if (f = CUSTOM \<or> f = DAILY) \<and> (case contract of None \<Rightarrow> False | Some c \<Rightarrow> c \<noteq> 0)
              then int (the contract)
              else if f = MONTHLY then int DEFAULT_MONTHLY_WORK_DAYS else calendar_days)
      in if expected < 1 then 1 else nat expected)"

definition salary_present_days :: "frequency \<Rightarrow> nat \<Rightarrow> nat \<Rightarrow> nat" where
  "salary_present_days f present expected = (if f = MONTHLY then min present expected else present)"

definition proration_ratio :: "nat \<Rightarrow> nat \<Rightarrow> rat" where
  "proration_ratio salary_days expected = of_nat salary_days / of_nat expected"

section \<open>Base pay and overrides\<close>

record base_pay =
  bp_base :: rat
  bp_full :: rat
  bp_absent_days :: nat
  bp_absent_deduction :: rat

definition compute_base_pay :: "pay_structure \<Rightarrow> nat \<Rightarrow> nat \<Rightarrow> base_pay" where
  "compute_base_pay s present expected =
     (let salary_days = salary_present_days (s_frequency s) present expected;
          absent = expected - salary_days in
      if s_frequency s = MONTHLY then
        (let full = s_basic_salary s;
             rate = (if s_daily_rate s \<noteq> 0 then s_daily_rate s
               else calculateMonthlyDailyRate full (of_nat expected)) in
         \<lparr>bp_base = rate * of_nat salary_days, bp_full = full, bp_absent_days = absent,
          bp_absent_deduction = of_nat absent * rate\<rparr>)
      else
        (let rate = s_daily_rate s in
         \<lparr>bp_base = rate * of_nat present, bp_full = rate * of_nat expected, bp_absent_days = absent,
          bp_absent_deduction = of_nat absent * rate\<rparr>))"

definition find_override :: "create_batch_dto \<Rightarrow> nat \<Rightarrow> pay_override option" where
  "find_override dto eid = List.find (\<lambda>ov. od_employee ov = show_nat eid) (bd_overrides dto)"

definition overridden_base :: "pay_override option \<Rightarrow> rat \<Rightarrow> rat" where
  "overridden_base ov base = (case ov of None \<Rightarrow> base
     | Some x \<Rightarrow> (case od_base x of None \<Rightarrow> base | Some b \<Rightarrow> b))"

definition overridden_phone :: "pay_override option \<Rightarrow> string option" where
  "overridden_phone ov = (case ov of None \<Rightarrow> None | Some x \<Rightarrow> od_phone x)"

section \<open>Configured deductions\<close>

definition normalizeDeductionName :: "string \<Rightarrow> string" where
  "normalizeDeductionName name = only_lower_letters (to_lower name)"

definition assigned_policy :: "tax_view list \<Rightarrow> string \<Rightarrow> tax_view option" where
  "assigned_policy assigned name =
     map_of (rev (map (\<lambda>t. (normalizeDeductionName (tv_name t), t)) assigned)) (normalizeDeductionName name)"

definition configured_line :: "tax_view list \<Rightarrow> rat \<Rightarrow> rat \<Rightarrow> deduction_type \<Rightarrow> deduction_line" where
  "configured_line assigned base ratio ty =
     (let policy = assigned_policy assigned (dt_name ty);
          isPercentage = (policy \<noteq> None \<or> dt_mode ty = PERCENTAGE);
          rate = (case policy of Some t \<Rightarrow> tv_rate t | None \<Rightarrow> dt_percentage ty);
          fullAmount = (if isPercentage then base * (rate / 100) else dt_amount ty)
      in \<lparr>dl_name = (case policy of Some t \<Rightarrow> tv_name t | None \<Rightarrow> dt_name ty),
          dl_mode = (if policy \<noteq> None then PERCENTAGE else dt_mode ty),
          dl_rate = (if isPercentage then Some rate else None),
          dl_base = (if isPercentage then Some base else None),
          dl_full = fullAmount, dl_prorated = fullAmount * ratio\<rparr>)"

definition calculateConfiguredDeductions ::
    "tax_view list \<Rightarrow> deduction_type list \<Rightarrow> rat \<Rightarrow> rat \<Rightarrow> deduction_line list" where
  "calculateConfiguredDeductions assigned types base ratio = map (configured_line assigned base ratio) types"

definition filterEmployeeSpecificDeductions :: "tax_view list \<Rightarrow> deduction_type list \<Rightarrow> deduction_type list" where
  "filterEmployeeSpecificDeductions monthly types =
     filter (\<lambda>ty. normalizeDeductionName (dt_name ty) \<notin> set (map (\<lambda>t. normalizeDeductionName (tv_name t)) monthly)) types"

text \<open>The types of the employee's deductions that are active somewhere in the period.\<close>

definition period_deduction_types :: "env \<Rightarrow> world \<Rightarrow> nat \<Rightarrow> create_batch_dto \<Rightarrow> deduction_type list" where
  "period_deduction_types en w eid dto = List.maps
     (\<lambda>d. select (\<lambda>ty. dt_id ty = ed_type d) (deduction_types w))
     (select (\<lambda>d. ed_employee d = eid \<and> ed_active d \<and> ed_start d \<le> to_date en (period_end dto)
        \<and> (case ed_end d of None \<Rightarrow> True | Some t \<Rightarrow> t \<ge> period_start dto)) (employee_deductions w))"

definition active_allowances :: "world \<Rightarrow> nat \<Rightarrow> allowance list" where
  "active_allowances w eid = select (\<lambda>a. al_employee a = eid \<and> al_active a) (allowances w)"

section \<open>The pay regimes\<close>

record pay_amounts =
  pa_base :: rat
  pa_allowance :: rat
  pa_overtime :: rat
  pa_gross :: rat
  pa_tax :: rat
  pa_tax_lines :: "tax_line list"
  pa_lines :: "deduction_line list"
  pa_deductions :: rat
  pa_net :: rat
  pa_eligible :: bool
  pa_gross_before :: rat
  pa_net_before :: rat
  pa_daily_net :: "rat option"
  pa_titles :: "string list"

definition tax_lines :: "rat \<Rightarrow> rat \<Rightarrow> tax_view list \<Rightarrow> tax_line list" where
  "tax_lines salary ratio taxes = map (\<lambda>t. \<lparr>tl_name = tv_name t, tl_rate = tv_rate t, tl_base = salary,
     tl_full = salary * (tv_rate t / 100), tl_prorated = salary * (tv_rate t / 100) * ratio\<rparr>) taxes"

definition monthly_pay :: "base_pay \<Rightarrow> nat \<Rightarrow> rat \<Rightarrow> rat \<Rightarrow> allowance list \<Rightarrow> tax_view list \<Rightarrow>
    deduction_line list \<Rightarrow> pay_amounts" where
  "monthly_pay bp expected ratio overtime als taxes lines =
     (let basicSalary = bp_full bp;
          fullAllowance = sum_of al_amount als;
          fullMonthlyGross = basicSalary + fullAllowance + overtime;
          breakdown = tax_lines basicSalary ratio taxes;
          fullTax = sum_of tl_full breakdown;
          fullConfigured = sum_of dl_full lines;
          prorated = sum_of dl_prorated lines;
          fullNet = basicSalary - fullTax - fullConfigured + fullAllowance;
          baseAmount = basicSalary;
          allowanceAmount = fullAllowance * ratio;
          taxAmount = fullTax * ratio
      in \<lparr>pa_base = baseAmount, pa_allowance = allowanceAmount, pa_overtime = overtime,
          pa_gross = baseAmount + allowanceAmount + overtime,
          pa_tax = taxAmount, pa_tax_lines = breakdown, pa_lines = lines,
          pa_deductions = taxAmount + prorated + bp_absent_deduction bp,
          pa_net = max 0 (baseAmount - taxAmount - prorated - bp_absent_deduction bp + allowanceAmount + overtime),
          pa_eligible = True, pa_gross_before = fullMonthlyGross, pa_net_before = fullNet,
          pa_daily_net = Some (fullNet / of_nat expected), pa_titles = map al_title als\<rparr>)"

definition over21_pay :: "rat \<Rightarrow> nat \<Rightarrow> rat \<Rightarrow> rat \<Rightarrow> allowance list \<Rightarrow> deduction_line list \<Rightarrow> pay_amounts" where
  "over21_pay fullBase expected ratio overtime als lines =
     (let fullAllowance = sum_of al_amount als;
          fullConfigured = sum_of dl_full lines;
          prorated = sum_of dl_prorated lines;
          fullNet = fullBase - fullConfigured + fullAllowance;
          baseAmount = fullBase * ratio;
          allowanceAmount = fullAllowance * ratio
      in \<lparr>pa_base = baseAmount, pa_allowance = allowanceAmount, pa_overtime = overtime,
          pa_gross = baseAmount + allowanceAmount + overtime,
          pa_tax = 0, pa_tax_lines = [], pa_lines = lines,
          pa_deductions = prorated,
          pa_net = max 0 (baseAmount + allowanceAmount + overtime - prorated),
          pa_eligible = True, pa_gross_before = fullBase + overtime + fullAllowance, pa_net_before = fullNet,
          pa_daily_net = Some (fullNet / of_nat expected), pa_titles = map al_title als\<rparr>)"

definition short_pay :: "rat \<Rightarrow> rat \<Rightarrow> pay_amounts" where
  "short_pay base overtime =
     (let gross = base + overtime + 0 in
      \<lparr>pa_base = base, pa_allowance = 0, pa_overtime = overtime, pa_gross = gross,
       pa_tax = 0, pa_tax_lines = [], pa_lines = [], pa_deductions = 0, pa_net = max 0 (gross - 0),
       pa_eligible = False, pa_gross_before = 0, pa_net_before = 0, pa_daily_net = None, pa_titles = []\<rparr>)"

text \<open>\<open>x || null\<close>\<close>

definition or_null :: "rat \<Rightarrow> rat option" where
  "or_null x = (if x = 0 then None else Some x)"

section \<open>The calculation\<close>

definition pay_of :: "env \<Rightarrow> world \<Rightarrow> employee \<Rightarrow> create_batch_dto \<Rightarrow> pay_structure \<Rightarrow> pay_amounts" where
  "pay_of en w e dto s =
     (let att = period_attendance en w (e_id e) dto;
          present = present_days att;
          overtime = calculateOvertimePay (overtime_hours att) (getOvertimeBonusPerDay w);
          f = s_frequency s;
          expected = expected_work_days f (period_calendar_days dto) (bd_work_days dto) (contract_days e);
          ratio = proration_ratio (salary_present_days f present expected) expected;
          bp = compute_base_pay s present expected;
          monthly = findMonthlyTaxesAtDate en (period_end dto) w;
          assigned = findEmployeeAssignedMonthlyTaxesAtDate en (period_end dto) w;
          types = filterEmployeeSpecificDeductions monthly (period_deduction_types en w (e_id e) dto);
          als = active_allowances w (e_id e)
      in if f = MONTHLY then
           monthly_pay bp expected ratio overtime als monthly
             (calculateConfiguredDeductions assigned types (bp_full bp) ratio)
         else if present > 21 then
           (let fullBase = s_daily_rate s * of_nat expected in
            over21_pay fullBase expected ratio overtime als
             (calculateConfiguredDeductions assigned types fullBase ratio))
         else short_pay (overridden_base (find_override dto (e_id e)) (bp_base bp)) overtime)"

definition calculation_of :: "env \<Rightarrow> world \<Rightarrow> employee \<Rightarrow> create_batch_dto \<Rightarrow> pay_structure \<Rightarrow> payroll_calculation" where
  "calculation_of en w e dto s =
     (let att = period_attendance en w (e_id e) dto;
          present = present_days att;
          f = s_frequency s;
          expected = expected_work_days f (period_calendar_days dto) (bd_work_days dto) (contract_days e);
          bp = compute_base_pay s present expected;
          pa = pay_of en w e dto s
      in \<lparr>pc_employee = e_id e, pc_department = e_department e, pc_structure = s_id s,
          pc_base = pa_base pa, pc_allowance = pa_allowance pa, pc_tax = pa_tax pa,
          pc_attendance_days = present, pc_work_days = expected,
          pc_start = period_start dto, pc_end = period_end dto,
          pc_metadata = \<lparr>md_frequency = f, md_present_days = present, md_expected_work_days = expected,
            md_contract_days = contract_days e, md_overtime_rate_per_hour = getOvertimeBonusPerDay w,
            md_daily_net_rate = pa_daily_net pa, md_gross_before_proration = or_null (pa_gross_before pa),
            md_net_before_proration = or_null (pa_net_before pa),
            md_proration_ratio = proration_ratio (salary_present_days f present expected) expected,
            md_overtime_days = overtime_days att, md_overtime_hours = overtime_hours att,
            md_overtime_amount = pa_overtime pa,
            md_taxable_base_amount = (if pa_tax_lines pa \<noteq> [] then pa_base pa else 0),
            md_base_after_pit = max 0 (pa_base pa - pa_tax pa),
            md_additions_amount = pa_allowance pa + pa_overtime pa,
            md_configured_deductions_amount = sum_of dl_prorated (pa_lines pa),
            md_configured_deductions = pa_lines pa, md_full_base_salary = bp_full bp,
            md_absent_days = bp_absent_days bp, md_absent_days_deduction = bp_absent_deduction bp,
            md_allowance_eligible = pa_eligible pa, md_tax_breakdown = pa_tax_lines pa,
            md_is_over_21_days = present > 21, md_period_calendar_days = period_calendar_days dto,
            md_allowance_titles = pa_titles pa\<rparr>,
          pc_gross = pa_gross pa, pc_deductions = pa_deductions pa, pc_net = pa_net pa,
          pc_phone = overridden_phone (find_override dto (e_id e))\<rparr>)"

definition calculateEmployeePayroll ::
    "env \<Rightarrow> world \<Rightarrow> create_batch_dto \<Rightarrow> employee \<Rightarrow> error + payroll_calculation option" where
  "calculateEmployeePayroll en w dto e =
     (if period_end dto < period_start dto
      then Inl (BadRequest ''Payroll end date must be after start date.'')
      else Inr (case find_pay_structure en w (e_id e) dto of
          None \<Rightarrow> None
        | Some s \<Rightarrow> Some (calculation_of en w e dto s)))"

end
