(* ===== verification/Payroll_Batches.thy ===== *)
theory Payroll_Batches
  imports Employees Payroll_Access Payroll_Calculation
begin

text \<open>
  Creating and reading payroll batches (\<open>payroll/payroll.service.ts\<close>): \<open>createBatch\<close>, split
  into the selection of the employees, the calculations, the draft that is written or
  reused, the items and transactions, and the savings deduction applied afterwards;
  \<open>addBatchAttachments\<close>; \<open>findBatches\<close> and \<open>findBatch\<close>.
\<close>

section \<open>Selecting the employees\<close>

definition candidate_employees :: "world \<Rightarrow> nat \<Rightarrow> create_batch_dto \<Rightarrow> employee list" where
  "candidate_employees w workingLocationId dto = select (\<lambda>e. e_loc e = Some workingLocationId
     \<and> e_status e = P_ACTIVE \<and> \<not> e_deleted e
     \<and> (if bd_categories dto \<noteq> [] then
          (case category_of w e of None \<Rightarrow> False | Some c \<Rightarrow> c_frequency c \<in> set (bd_categories dto)) else True))
     (employees w)"

definition processing_statuses :: "batch_status list" where
  "processing_statuses = [PENDING, IN_REVIEW, MANAGER_APPROVED, APPROVED]"

definition processed_employees :: "world \<Rightarrow> nat \<Rightarrow> nat \<Rightarrow> nat list" where
  "processed_employees w month year = map i_employee (select (\<lambda>i. list_ex (\<lambda>b. b_id b = i_batch i
     \<and> b_month b = month \<and> b_year b = year \<and> b_status b \<in> set processing_statuses) (rows (batches w))) (items w))"

definition eligible_employees :: "world \<Rightarrow> nat \<Rightarrow> create_batch_dto \<Rightarrow> employee list" where
  "eligible_employees w workingLocationId dto =
     filter (\<lambda>e. e_id e \<notin> set (processed_employees w (bd_month dto) (bd_year dto)))
       (candidate_employees w workingLocationId dto)"

text \<open>The loop over the employees: employees without a structure are skipped, an error stops it.\<close>

fun calculate_all :: "env \<Rightarrow> world \<Rightarrow> create_batch_dto \<Rightarrow> employee list \<Rightarrow> error + payroll_calculation list" where
  "calculate_all en w dto [] = Inr []"
| "calculate_all en w dto (e # es) = (case calculateEmployeePayroll en w dto e of
     Inl err \<Rightarrow> Inl err
   | Inr c \<Rightarrow> (case calculate_all en w dto es of
       Inl err \<Rightarrow> Inl err
     | Inr cs \<Rightarrow> Inr (case c of None \<Rightarrow> cs | Some x \<Rightarrow> x # cs)))"

definition of_result :: "error + 'a \<Rightarrow> 'a service" where
  "of_result r = (case r of Inl e \<Rightarrow> throw e | Inr a \<Rightarrow> ret a)"

section \<open>Totals\<close>

record batch_totals =
  bt_employees :: int
  bt_amount :: rat
  bt_gross :: rat
  bt_allowances :: rat
  bt_deductions :: rat
  bt_tax :: rat

definition totals_of :: "payroll_calculation list \<Rightarrow> batch_totals" where
  "totals_of cs = \<lparr>bt_employees = int (length cs), bt_amount = sum_of pc_net cs, bt_gross = sum_of pc_gross cs,
     bt_allowances = sum_of pc_allowance cs, bt_deductions = sum_of pc_deductions cs, bt_tax = sum_of pc_tax cs\<rparr>"

definition set_totals :: "batch_totals \<Rightarrow> batch \<Rightarrow> batch" where
  "set_totals bt b = b\<lparr>b_total_employees := bt_employees bt, b_total_amount := bt_amount bt,
     b_total_gross := bt_gross bt, b_total_allowances := bt_allowances bt,
     b_total_deductions := bt_deductions bt, b_total_tax := bt_tax bt\<rparr>"

section \<open>Writing the draft\<close>

definition update_batch :: "nat \<Rightarrow> (batch \<Rightarrow> batch) \<Rightarrow> unit service" where
  "update_batch i f = modify (\<lambda>w. w\<lparr>batches := update_rows (\<lambda>b. b_id b = i) f (batches w)\<rparr>)"

text \<open>\<open>payment_batches.create\<close>: the batch code is unique.\<close>

definition insert_batch :: "string \<Rightarrow> (nat \<Rightarrow> batch) \<Rightarrow> batch service" where
  "insert_batch code mk =
     bind (reads (\<lambda>w. list_ex (\<lambda>b. b_code b = code) (rows (batches w)))) (\<lambda>taken.
     bind (ensure (\<not> taken) (UniqueIndex ''Payment_batches_batch_code_key'')) (\<lambda>_.
     update_ret (\<lambda>w. (mk (next_id (batches w)), w\<lparr>batches := insert_row mk (batches w)\<rparr>))))"

definition batch_code_for :: "env \<Rightarrow> create_batch_dto \<Rightarrow> string" where
  "batch_code_for en dto = ''PAY-'' @ show_nat (bd_year dto) @ ''-'' @ pad2 (show_nat (bd_month dto)) @ ''-'' @ show_int (now en)"

definition batch_description :: "create_batch_dto \<Rightarrow> string option" where
  "batch_description dto = (case bd_description dto of None \<Rightarrow> None
     | Some s \<Rightarrow> if js_trim s = [] then None else Some (js_trim s))"

definition new_draft :: "env \<Rightarrow> create_batch_dto \<Rightarrow> nat \<Rightarrow> nat \<Rightarrow> batch_totals \<Rightarrow> nat \<Rightarrow> batch" where
  "new_draft en dto loc by bt n = \<lparr>b_id = n, b_uuid = gen_uuid en ''payment_batches'' n, b_code = batch_code_for en dto,
     b_loc = loc, b_month = bd_month dto, b_year = bd_year dto, b_total_employees = bt_employees bt,
     b_total_amount = bt_amount bt, b_total_gross = bt_gross bt, b_total_allowances = bt_allowances bt,
     b_total_deductions = bt_deductions bt, b_total_tax = bt_tax bt, b_status = DRAFT, b_step = 1,
     b_rejected_reason = None, b_description = batch_description dto, b_attachments = [], b_submitted_by = by,
     b_approved_by = None, b_submitted_at = Some (now en), b_approved_at = None, b_created_at = now en\<rparr>"

definition find_draft :: "world \<Rightarrow> nat \<Rightarrow> create_batch_dto \<Rightarrow> batch option" where
  "find_draft w loc dto = find_row (\<lambda>b. b_loc b = loc \<and> b_month b = bd_month dto \<and> b_year b = bd_year dto
     \<and> b_status b = DRAFT) (batches w)"

definition clear_draft :: "nat \<Rightarrow> unit service" where
  "clear_draft i =
     bind (reads (\<lambda>w. map i_transaction (select (\<lambda>x. i_batch x = i) (items w)))) (\<lambda>old.
     bind (modify (\<lambda>w. w\<lparr>items := delete_rows (\<lambda>x. i_batch x = i) (items w)\<rparr>)) (\<lambda>_.
     modify (\<lambda>w. w\<lparr>transactions := delete_rows (\<lambda>t. t_id t \<in> set old) (transactions w)\<rparr>)))"

definition target_batch :: "env \<Rightarrow> create_batch_dto \<Rightarrow> nat \<Rightarrow> nat \<Rightarrow> batch option \<Rightarrow> batch_totals \<Rightarrow> batch service" where
  "target_batch en dto loc by draft bt = (case draft of
     Some d \<Rightarrow>
       (let redraft = (\<lambda>b. (set_totals bt b)\<lparr>b_description := batch_description dto, b_submitted_at := Some (now en)\<rparr>) in
        bind (clear_draft (b_id d)) (\<lambda>_. bind (update_batch (b_id d) redraft) (\<lambda>_. ret (redraft d))))
   | None \<Rightarrow> insert_batch (batch_code_for en dto) (new_draft en dto loc by bt))"

section \<open>Items and transactions\<close>

definition set_phone :: "nat \<Rightarrow> string \<Rightarrow> unit service" where
  "set_phone eid phone =
     bind (reads (\<lambda>w. list_ex (\<lambda>e. e_phone e = Some phone \<and> e_id e \<noteq> eid) (rows (employees w)))) (\<lambda>taken.
     bind (ensure (\<not> taken) (UniqueIndex ''Employees_phone_number_key'')) (\<lambda>_.
     modify (\<lambda>w. w\<lparr>employees := update_rows (\<lambda>e. e_id e = eid) (\<lambda>e. e\<lparr>e_phone := Some phone\<rparr>) (employees w)\<rparr>)))"

definition transaction_row :: "env \<Rightarrow> create_batch_dto \<Rightarrow> nat \<Rightarrow> payroll_calculation \<Rightarrow> nat \<Rightarrow> transaction" where
  "transaction_row en dto loc c n = \<lparr>t_id = n, t_employee = pc_employee c, t_structure = pc_structure c,
     t_month = bd_month dto, t_year = bd_year dto, t_gross = pc_gross c, t_base = pc_base c,
     t_allowance = pc_allowance c, t_tax = pc_tax c, t_attendance_days = pc_attendance_days c,
     t_work_days = pc_work_days c, t_start = to_date en (pc_start c), t_end = to_date en (pc_end c),
     t_metadata = pc_metadata c, t_deductions = pc_deductions c, t_net = pc_net c,
     t_payment_date = bd_payment_date dto, t_method = bd_method dto, t_status = TX_PENDING,
     t_approved_by = None, t_loc = loc, t_department = pc_department c\<rparr>"

definition item_row :: "env \<Rightarrow> nat \<Rightarrow> nat \<Rightarrow> nat \<Rightarrow> nat \<Rightarrow> batch_item" where
  "item_row en batchId eid tid n = \<lparr>i_id = n, i_uuid = gen_uuid en ''payment_batch_items'' n, i_batch = batchId,
     i_employee = eid, i_transaction = tid, i_status = PENDING, i_rejection_reason = None,
     i_approved_by = None, i_approved_at = None, i_created_at = now en\<rparr>"

definition insert_transaction :: "(nat \<Rightarrow> transaction) \<Rightarrow> nat service" where
  "insert_transaction mk = update_ret (\<lambda>w. (next_id (transactions w), w\<lparr>transactions := insert_row mk (transactions w)\<rparr>))"

definition add_item :: "env \<Rightarrow> create_batch_dto \<Rightarrow> nat \<Rightarrow> nat \<Rightarrow> payroll_calculation \<Rightarrow> unit service" where
  "add_item en dto loc batchId c =
     bind (case pc_phone c of None \<Rightarrow> ret () | Some p \<Rightarrow> when_op (p \<noteq> []) (set_phone (pc_employee c) p)) (\<lambda>_.
     bind (insert_transaction (transaction_row en dto loc c)) (\<lambda>tid.
     modify (\<lambda>w. w\<lparr>items := insert_row (item_row en batchId (pc_employee c) tid) (items w)\<rparr>)))"

section \<open>The savings deduction\<close>

text \<open>The calculations are objects the loop updates in place: here they are passed along.\<close>

fun update_first :: "('a \<Rightarrow> bool) \<Rightarrow> ('a \<Rightarrow> 'a) \<Rightarrow> 'a list \<Rightarrow> 'a list" where
  "update_first p f [] = []"
| "update_first p f (x # xs) = (if p x then f x # xs else x # update_first p f xs)"

definition deduct_calculation :: "rat \<Rightarrow> payroll_calculation \<Rightarrow> payroll_calculation" where
  "deduct_calculation amount c = c\<lparr>pc_deductions := pc_deductions c + amount, pc_net := max 0 (pc_net c - amount)\<rparr>"

definition apply_deduction :: "nat \<Rightarrow> nat \<times> rat \<Rightarrow> payroll_calculation list \<Rightarrow> payroll_calculation list service" where
  "apply_deduction batchId d cs = (case List.find (\<lambda>c. pc_employee c = fst d) cs of
     None \<Rightarrow> ret cs
   | Some c \<Rightarrow>
       (let c' = deduct_calculation (snd d) c in
        bind (modify (\<lambda>w. w\<lparr>transactions := update_rows (\<lambda>t. list_ex (\<lambda>i. i_transaction i = t_id t
            \<and> i_batch i = batchId \<and> i_employee i = fst d) (rows (items w)))
          (\<lambda>t. t\<lparr>t_deductions := pc_deductions c', t_net := pc_net c'\<rparr>) (transactions w)\<rparr>)) (\<lambda>_.
        ret (update_first (\<lambda>c. pc_employee c = fst d) (deduct_calculation (snd d)) cs))))"

primrec apply_deductions :: "nat \<Rightarrow> (nat \<times> rat) list \<Rightarrow> payroll_calculation list \<Rightarrow> payroll_calculation list service" where
  "apply_deductions batchId [] cs = ret cs"
| "apply_deductions batchId (d # ds) cs = bind (apply_deduction batchId d cs) (\<lambda>cs'. apply_deductions batchId ds cs')"

definition adjust_for_savings :: "env \<Rightarrow> nat \<Rightarrow> payroll_calculation list \<Rightarrow> payroll_calculation list service" where
  "adjust_for_savings en batchId cs =
     bind (deductForBatch en batchId (map pc_employee cs)) (\<lambda>deductions.
     if deductions = [] then ret cs
     else bind (apply_deductions batchId deductions cs) (\<lambda>cs'.
       bind (update_batch batchId (\<lambda>b. b\<lparr>b_total_deductions := sum_of pc_deductions cs',
         b_total_amount := sum_of pc_net cs'\<rparr>)) (\<lambda>_. ret cs')))"

section \<open>createBatch\<close>

definition clearPayrollCache :: "env \<Rightarrow> unit service" where
  "clearPayrollCache en = clear_cached en ''payroll:batches''"

definition batch_status_name :: "batch_status \<Rightarrow> string" where
  "batch_status_name s = (case s of DRAFT \<Rightarrow> ''DRAFT'' | PENDING \<Rightarrow> ''PENDING'' | IN_REVIEW \<Rightarrow> ''IN_REVIEW''
     | MANAGER_APPROVED \<Rightarrow> ''MANAGER_APPROVED'' | APPROVED \<Rightarrow> ''APPROVED'' | REJECTED \<Rightarrow> ''REJECTED''
     | REJECTED_BY_BRANCH_MANAGER \<Rightarrow> ''REJECTED_BY_BRANCH_MANAGER''
     | REJECTED_BY_SUPER_ADMIN \<Rightarrow> ''REJECTED_BY_SUPER_ADMIN'')"

definition batch_metadata :: "batch \<Rightarrow> string \<Rightarrow> (string \<times> json) list" where
  "batch_metadata b level = [(''redirect'', JStr (''payroll/'' @ b_uuid b)), (''level'', JStr level),
     (''status'', JStr (batch_status_name (b_status b)))]"

definition audit_payroll :: "current_user \<Rightarrow> nat option \<Rightarrow> string \<Rightarrow> nat \<Rightarrow> activity_type \<Rightarrow> string \<Rightarrow> audit_action \<Rightarrow>
    json \<Rightarrow> json \<Rightarrow> string list \<Rightarrow> unit service" where
  "audit_payroll actor employee table entity type description action old new changed =
     audit (\<lambda>n. \<lparr>a_id = n, a_user = cu_id actor, a_employee = employee, a_table = table, a_entity = entity,
       a_module = ''PAYROLL'', a_type = type, a_description = description, a_action = action, a_old = old,
       a_new = new, a_changed = changed\<rparr>)"

definition batch_audit_values :: "batch \<Rightarrow> nat \<Rightarrow> create_batch_dto \<Rightarrow> batch_totals \<Rightarrow> payroll_calculation list \<Rightarrow> json" where
  "batch_audit_values b loc dto bt cs = JObj [(''batch_code'', JStr (b_code b)),
     (''working_location_id'', JStr (show_nat loc)), (''payroll_month'', JNum (of_nat (bd_month dto))),
     (''payroll_year'', JNum (of_nat (bd_year dto))), (''total_employees'', JNum (of_int (bt_employees bt))),
     (''total_amount'', JNum (sum_of pc_net cs)), (''total_gross'', JNum (bt_gross bt)),
     (''total_allowances'', JNum (bt_allowances bt)), (''total_deductions'', JNum (sum_of pc_deductions cs)),
     (''total_tax'', JNum (bt_tax bt)), (''description'', jopt JStr (batch_description dto))]"

text \<open>The body of the database transaction.\<close>

definition write_batch :: "env \<Rightarrow> create_batch_dto \<Rightarrow> current_user \<Rightarrow> nat \<Rightarrow> batch option \<Rightarrow> payroll_calculation list \<Rightarrow>
    batch service" where
  "write_batch en dto actor loc draft cs =
     bind (target_batch en dto loc (cu_id actor) draft (totals_of cs)) (\<lambda>target.
     bind (for_each cs (add_item en dto loc (b_id target))) (\<lambda>_.
     bind (adjust_for_savings en (b_id target) cs) (\<lambda>cs'.
     bind (audit_payroll actor None ''payment_batches'' (b_id target) AT_CREATE
       (if draft \<noteq> None then ''Updated payroll batch.'' else ''Created payroll batch.'') AU_CREATED JNull
       (batch_audit_values target loc dto (totals_of cs) cs') []) (\<lambda>_.
     bind (reads (\<lambda>w. find_row (\<lambda>b. b_id b = b_id target) (batches w))) (\<lambda>saved.
     the_or (NotFound ''No payment_batches found'') saved)))))"

text \<open>Everything that is read between the automatic pause and the transaction.\<close>

definition plan_batch :: "env \<Rightarrow> create_batch_dto \<Rightarrow> nat \<Rightarrow> world \<Rightarrow> error + batch option \<times> payroll_calculation list" where
  "plan_batch en dto loc w =
     (if candidate_employees w loc dto = []
      then Inl (BadRequest ''No active employees found for this working location.'')
      else if eligible_employees w loc dto = []
      then Inl (BadRequest ''All active employees for this period are already assigned to active payroll batches.'')
      else case calculate_all en w dto (eligible_employees w loc dto) of Inl e \<Rightarrow> Inl e
      | Inr cs \<Rightarrow>
          if cs = [] then Inl (BadRequest ''No employees have active payment structures for this period.'')
          else let existingDraft = find_draft w loc dto in
            if (case existingDraft of None \<Rightarrow> False | Some d \<Rightarrow> b_status d = APPROVED \<or> b_status d = REJECTED)
            then Inl (BadRequest ''Cannot update a finalized payroll batch.'')
            else Inr (existingDraft, cs))"

definition commit_batch :: "env \<Rightarrow> create_batch_dto \<Rightarrow> current_user \<Rightarrow> nat \<Rightarrow> batch service" where
  "commit_batch en dto actor loc =
     bind (reads (plan_batch en dto loc)) (\<lambda>plan.
     bind (of_result plan) (\<lambda>(draft, cs).
     bind (atomically (write_batch en dto actor loc draft cs)) (\<lambda>batch.
     bind (clearPayrollCache en) (\<lambda>_.
     bind (when_op (b_status batch \<noteq> DRAFT)
       (bind (notifyBranchManager en loc \<lparr>no_user = None, no_sender = Some (cu_id actor),
          no_title = ''Payroll Batch Submitted'', no_message = b_code batch @ '' is awaiting manager approval.'',
          no_type = ''PAYROLL_APPROVAL_REQUEST'', no_reference = Some (b_uuid batch),
          no_metadata = JObj (batch_metadata batch ''BRANCH_MANAGER''), no_push = []\<rparr>) (\<lambda>_. ret ()))) (\<lambda>_.
     ret batch)))))"

definition createBatch :: "env \<Rightarrow> create_batch_dto \<Rightarrow> current_user \<Rightarrow> batch service" where
  "createBatch en dto actor =
     bind (resolveWorkingLocationId (bd_location dto)) (\<lambda>loc.
     bind (ensureWorkingLocation loc) (\<lambda>_.
     bind (ensureActorCanUseWorkingLocation actor loc) (\<lambda>_.
     bind (autoPauseExpiredContracts en (Some loc)) (\<lambda>_.
     commit_batch en dto actor loc))))"

section \<open>Attachments\<close>

record upload =
  up_original :: string
  up_stored :: string
  up_mime :: string
  up_size :: nat

definition findBatchByUuid :: "string \<Rightarrow> batch service" where
  "findBatchByUuid uuid = bind (reads (\<lambda>w. find_row (\<lambda>b. b_uuid b = uuid) (batches w))) (\<lambda>b.
     the_or (NotFound ''Payroll batch not found.'') b)"

definition attachments_of :: "env \<Rightarrow> current_user \<Rightarrow> upload list \<Rightarrow> attachment list" where
  "attachments_of en actor files = map (\<lambda>f. \<lparr>at_name = up_original f, at_stored = up_stored f, at_mime = up_mime f,
     at_size = up_size f, at_by = cu_id actor, at_when = now en\<rparr>) files"

definition write_attachments :: "env \<Rightarrow> batch \<Rightarrow> attachment list \<Rightarrow> current_user \<Rightarrow> unit service" where
  "write_attachments en batch added actor =
     (let existing = b_attachments batch in
      bind (update_batch (b_id batch) (\<lambda>b. b\<lparr>b_attachments := existing @ added\<rparr>)) (\<lambda>_.
      audit_payroll actor None ''payment_batches'' (b_id batch) AT_UPDATE
        (''Added '' @ show_nat (length added) @ '' payroll batch attachment''
          @ (if length added = 1 then [] else ''s'') @ ''.'') AU_UPDATED
        (JObj [(''attachment_count'', JNum (of_nat (length existing)))])
        (JObj [(''attachment_count'', JNum (of_nat (length existing + length added))),
          (''files'', JArr (map (\<lambda>a. JObj [(''name'', JStr (at_name a)), (''type'', JStr (at_mime a)),
            (''size'', JNum (of_nat (at_size a)))]) added))]) [''attachments'']))"

definition addBatchAttachments :: "env \<Rightarrow> string \<Rightarrow> upload list \<Rightarrow> current_user \<Rightarrow> batch service" where
  "addBatchAttachments en uuid files actor =
     bind (ensure (files \<noteq> []) (BadRequest ''Select at least one attachment to upload.'')) (\<lambda>_.
     bind (findBatchByUuid uuid) (\<lambda>batch.
     bind (ensureActorCanUseWorkingLocation actor (b_loc batch)) (\<lambda>_.
     bind (ensure (\<not> (b_status batch = APPROVED \<or> b_status batch = REJECTED))
       (BadRequest ''Completed payroll batches are read-only and cannot receive new attachments.'')) (\<lambda>_.
     bind (atomically (write_attachments en batch (attachments_of en actor files) actor)) (\<lambda>_.
     bind (clearPayrollCache en) (\<lambda>_.
     ret (batch\<lparr>b_attachments := b_attachments batch @ attachments_of en actor files\<rparr>)))))))"

section \<open>Reading\<close>

fun split_commas :: "string \<Rightarrow> string list" where
  "split_commas [] = [[]]"
| "split_commas (c # cs) = (if c = CHR '','' then [] # split_commas cs
     else (case split_commas cs of [] \<Rightarrow> [[c]] | s # ss \<Rightarrow> (c # s) # ss))"

definition status_filter :: "string option \<Rightarrow> string list" where
  "status_filter s = (case s of None \<Rightarrow> [] | Some t \<Rightarrow> filter (\<lambda>x. x \<noteq> []) (map js_trim (split_commas t)))"

definition position_matches :: "world \<Rightarrow> string \<Rightarrow> employee \<Rightarrow> bool" where
  "position_matches w input e = (if isNumericId input then e_position e = Some (read_nat input)
     else list_ex (\<lambda>p. Some (p_id p) = e_position e \<and> p_uuid p = input) (rows (positions w)))"

text \<open>The database's text comparison ignores case.\<close>

definition batch_query :: "world \<Rightarrow> current_user \<Rightarrow> string option \<Rightarrow> string option \<Rightarrow> string option \<Rightarrow> batch list" where
  "batch_query w actor qInput statusInput positionInput =
     (let q = normalizeSearch qInput; statuses = status_filter statusInput in
      sort_key (\<lambda>b. - b_created_at b) (select (\<lambda>b. batchScopeWhere actor b
        \<and> (truthy q \<longrightarrow> str_includes (to_lower (b_code b)) (to_lower (the q)))
        \<and> (statuses \<noteq> [] \<longrightarrow> batch_status_name (b_status b) \<in> set statuses)
        \<and> (truthy positionInput \<longrightarrow> list_ex (\<lambda>i. i_batch i = b_id b \<and> list_ex (\<lambda>e. e_id e = i_employee i
             \<and> position_matches w (the positionInput) e) (rows (employees w))) (rows (items w))))
        (batches w)))"

definition batches_cache_key :: "current_user \<Rightarrow> string option \<Rightarrow> string option \<Rightarrow> string option \<Rightarrow> string" where
  "batches_cache_key actor qInput statusInput positionInput =
     (let text = (\<lambda>x. case x of None \<Rightarrow> [] | Some s \<Rightarrow> s) in
      join_with '':'' [''payroll:batches'', show_nat (cu_id actor), text (cu_location actor),
        text (normalizeSearch qInput), join_with '','' (status_filter statusInput), text positionInput])"

text \<open>\<open>None\<close> stands for the response found in the cache.\<close>

definition findBatches :: "current_user \<Rightarrow> string option \<Rightarrow> string option \<Rightarrow> string option \<Rightarrow> batch list option service" where
  "findBatches actor q status position =
     (let key = batches_cache_key actor q status position in
      bind (reads (\<lambda>w. key \<in> set (cache_keys w))) (\<lambda>cached.
      if cached then ret None
      else bind (reads (\<lambda>w. batch_query w actor q status position)) (\<lambda>result.
        bind (cache_put key) (\<lambda>_. ret (Some result)))))"

definition findBatch :: "string \<Rightarrow> current_user \<Rightarrow> batch service" where
  "findBatch uuid actor = bind (findBatchByUuid uuid) (\<lambda>batch.
     bind (ensureActorCanViewWorkingLocation actor (b_loc batch)) (\<lambda>_. ret batch))"

end
