(* ===== verification/Payroll_Review.thy ===== *)
theory Payroll_Review
  imports Payroll_Batches
begin

text \<open>
  The approval of payroll batches (\<open>payroll/payroll.service.ts\<close>): submission, the decision on
  one item, the approval of a step with the split of rejected items into a new draft, and
  the two kinds of rejection.
\<close>

section \<open>Submission\<close>

definition payroll_notice :: "current_user \<Rightarrow> nat option \<Rightarrow> string \<Rightarrow> string \<Rightarrow> string \<Rightarrow> batch \<Rightarrow> (string \<times> json) list \<Rightarrow> notice" where
  "payroll_notice actor recipient title message type b meta = \<lparr>no_user = recipient, no_sender = Some (cu_id actor),
     no_title = title, no_message = message, no_type = type, no_reference = Some (b_uuid b),
     no_metadata = JObj meta, no_push = []\<rparr>"

definition discard :: "'a service \<Rightarrow> unit service" where
  "discard m = bind m (\<lambda>_. ret ())"

definition submit_row :: "env \<Rightarrow> batch \<Rightarrow> batch" where
  "submit_row en b = b\<lparr>b_status := PENDING, b_step := 1, b_rejected_reason := None, b_submitted_at := Some (now en)\<rparr>"

definition announce_submission :: "env \<Rightarrow> batch \<Rightarrow> batch \<Rightarrow> bool \<Rightarrow> current_user \<Rightarrow> unit service" where
  "announce_submission en batch updated initialApproverExists actor =
     (if initialApproverExists then
        discard (notifyBranchManager en (b_loc batch) (payroll_notice actor None ''Payroll Batch Submitted''
          (b_code batch @ '' is awaiting manager / initial approval.'') ''PAYROLL_APPROVAL_REQUEST'' batch
          (batch_metadata updated ''BRANCH_MANAGER'')))
      else
        discard (notifyAdmins en (payroll_notice actor None ''Payroll Batch Submitted for Admin Approval''
          (b_code batch @ '' has no local approver and is awaiting super admin approval.'')
          ''PAYROLL_APPROVAL_REQUEST'' batch (batch_metadata updated ''SUPER_ADMIN''))))"

definition submitBatch :: "env \<Rightarrow> string \<Rightarrow> current_user \<Rightarrow> batch service" where
  "submitBatch en uuid actor =
     bind (findBatchByUuid uuid) (\<lambda>batch.
     bind (ensure (b_status batch \<noteq> APPROVED) (BadRequest ''Approved batches cannot be modified or resubmitted.'')) (\<lambda>_.
     bind (ensure (b_status batch \<in> set [DRAFT, REJECTED]) (BadRequest ''Only DRAFT or REJECTED batches can be submitted.'')) (\<lambda>_.
     bind (reads (\<lambda>w. hasInitialApprover w (b_loc batch))) (\<lambda>initialApproverExists.
     bind (update_batch (b_id batch) (submit_row en)) (\<lambda>_.
     bind (announce_submission en batch (submit_row en batch) initialApproverExists actor) (\<lambda>_.
     bind (clearPayrollCache en) (\<lambda>_.
     ret (submit_row en batch))))))))"

section \<open>Decisions on one item\<close>

definition update_item :: "nat \<Rightarrow> (batch_item \<Rightarrow> batch_item) \<Rightarrow> unit service" where
  "update_item i f = modify (\<lambda>w. w\<lparr>items := update_rows (\<lambda>x. i_id x = i) f (items w)\<rparr>)"

definition findItemByUuidOrThrow :: "string \<Rightarrow> (batch_item \<times> batch) service" where
  "findItemByUuidOrThrow uuid =
     bind (reads (\<lambda>w. find_row (\<lambda>i. i_uuid i = uuid) (items w))) (\<lambda>i.
     bind (the_or (NotFound ''Payroll item not found.'') i) (\<lambda>i.
     bind (reads (\<lambda>w. find_row (\<lambda>b. b_id b = i_batch i) (batches w))) (\<lambda>b.
     bind (the_or (NotFound ''Payroll item not found.'') b) (\<lambda>b. ret (i, b)))))"

definition recalculateBatchStatus :: "nat \<Rightarrow> unit service" where
  "recalculateBatchStatus batchId =
     bind (reads (\<lambda>w. select (\<lambda>i. i_batch i = batchId) (items w))) (\<lambda>its.
     if its = [] then ret ()
     else if list_ex (\<lambda>i. i_status i = PENDING) its then ret ()
     else update_batch batchId (\<lambda>b. b\<lparr>b_status := IN_REVIEW\<rparr>))"

definition approve_item_row :: "env \<Rightarrow> current_user \<Rightarrow> batch_item \<Rightarrow> batch_item" where
  "approve_item_row en actor i = i\<lparr>i_status := APPROVED, i_approved_by := Some (cu_id actor),
     i_approved_at := Some (now en), i_rejection_reason := None\<rparr>"

definition write_item_approval :: "env \<Rightarrow> batch_item \<Rightarrow> string option \<Rightarrow> current_user \<Rightarrow> unit service" where
  "write_item_approval en item comment actor =
     bind (update_item (i_id item) (approve_item_row en actor)) (\<lambda>_.
     bind (audit_payroll actor (Some (i_employee item)) ''payment_batch_items'' (i_id item) AT_UPDATE
       (if truthy comment then ''Approved payroll item: '' @ the comment else ''Approved payroll item.'')
       AU_APPROVED JNull (JObj [(''status'', JStr ''APPROVED'')]) [''status'', ''approved_by'', ''approved_at'']) (\<lambda>_.
     recalculateBatchStatus (i_batch item)))"

definition approveItem :: "env \<Rightarrow> string \<Rightarrow> string option \<Rightarrow> current_user \<Rightarrow> batch_item service" where
  "approveItem en uuid comment actor =
     bind (findItemByUuidOrThrow uuid) (\<lambda>(item, batch).
     bind (ensureBatchCanStillBeReviewed batch) (\<lambda>_.
     bind (ensureActorCanApproveBatch actor batch) (\<lambda>_.
     bind (atomically (write_item_approval en item comment actor)) (\<lambda>_.
     bind (clearPayrollCache en) (\<lambda>_.
     ret (approve_item_row en actor item))))))"

definition reject_item_row :: "env \<Rightarrow> string \<Rightarrow> current_user \<Rightarrow> batch_item \<Rightarrow> batch_item" where
  "reject_item_row en reason actor i = i\<lparr>i_status := REJECTED, i_approved_by := Some (cu_id actor),
     i_approved_at := Some (now en), i_rejection_reason := Some reason\<rparr>"

definition item_values :: "batch_item \<Rightarrow> (string \<times> json) list" where
  "item_values i = [(''status'', JStr (batch_status_name (i_status i))),
     (''rejection_reason'', jopt JStr (i_rejection_reason i)),
     (''approved_by'', jopt (\<lambda>n. JStr (show_nat n)) (i_approved_by i)),
     (''approved_at'', jopt (\<lambda>t. JNum (of_int t)) (i_approved_at i))]"

definition update_transaction :: "nat \<Rightarrow> (transaction \<Rightarrow> transaction) \<Rightarrow> unit service" where
  "update_transaction i f = modify (\<lambda>w. w\<lparr>transactions := update_rows (\<lambda>t. t_id t = i) f (transactions w)\<rparr>)"

definition write_rejection :: "env \<Rightarrow> batch_item \<Rightarrow> string \<Rightarrow> current_user \<Rightarrow> unit service" where
  "write_rejection en item reason actor =
     bind (update_item (i_id item) (reject_item_row en reason actor)) (\<lambda>_.
     bind (update_transaction (i_transaction item) (\<lambda>t. t\<lparr>t_status := TX_REJECTED\<rparr>)) (\<lambda>_.
     bind (case buildAuditDiff (item_values item) (item_values (reject_item_row en reason actor item))
         [''status'', ''rejection_reason'', ''approved_by'', ''approved_at''] of (old, new, changed) \<Rightarrow>
       audit_payroll actor (Some (i_employee item)) ''payment_batch_items'' (i_id item) AT_UPDATE
         (''Rejected payroll item: '' @ reason) AU_DENIED old new changed) (\<lambda>_.
     recalculateBatchStatus (i_batch item))))"

definition rejected_count :: "world \<Rightarrow> nat \<Rightarrow> nat" where
  "rejected_count w i = length (select (\<lambda>x. i_batch x = i \<and> i_status x = REJECTED) (items w))"

definition notify_item_rejection :: "env \<Rightarrow> nat \<Rightarrow> string \<Rightarrow> current_user \<Rightarrow> unit service" where
  "notify_item_rejection en batchId reason actor =
     bind (reads (\<lambda>w. w)) (\<lambda>w. case find_row (\<lambda>b. b_id b = batchId) (batches w) of
       None \<Rightarrow> ret ()
     | Some b \<Rightarrow> discard (create_notification en (payroll_notice actor (Some (b_submitted_by b)) ''Personnel Denied in Payroll''
         (show_nat (rejected_count w batchId) @ '' employees on batch '' @ b_code b @ '' / ''
           @ iso_date (utc_date (b_created_at b)) @ '' are denied.'') ''PAYROLL_ITEM_REJECTED'' b
         [(''redirect'', JStr (''payroll/'' @ b_uuid b)), (''reason'', JStr reason)])))"

definition rejectItem :: "env \<Rightarrow> string \<Rightarrow> string \<Rightarrow> current_user \<Rightarrow> batch_item service" where
  "rejectItem en uuid reason actor =
     bind (findItemByUuidOrThrow uuid) (\<lambda>(item, batch).
     bind (ensureBatchCanStillBeReviewed batch) (\<lambda>_.
     bind (ensureActorCanApproveBatch actor batch) (\<lambda>_.
     bind (atomically (write_rejection en item reason actor)) (\<lambda>_.
     bind (notify_item_rejection en (i_batch item) reason actor) (\<lambda>_.
     bind (clearPayrollCache en) (\<lambda>_.
     ret (reject_item_row en reason actor item)))))))"

section \<open>Splitting off the rejected items\<close>

definition item_amount :: "transaction table \<Rightarrow> (transaction \<Rightarrow> rat) \<Rightarrow> batch_item \<Rightarrow> rat" where
  "item_amount T f i = (case find_row (\<lambda>t. t_id t = i_transaction i) T of None \<Rightarrow> 0 | Some t \<Rightarrow> f t)"

definition totals_of_items :: "transaction table \<Rightarrow> batch_item list \<Rightarrow> batch_totals" where
  "totals_of_items T its = \<lparr>bt_employees = int (length its), bt_amount = sum_of (item_amount T t_net) its,
     bt_gross = sum_of (item_amount T t_gross) its, bt_allowances = sum_of (item_amount T t_allowance) its,
     bt_deductions = sum_of (item_amount T t_deductions) its, bt_tax = sum_of (item_amount T t_tax) its\<rparr>"

definition subtract_totals :: "batch_totals \<Rightarrow> batch \<Rightarrow> batch" where
  "subtract_totals bt b = b\<lparr>b_total_employees := b_total_employees b - bt_employees bt,
     b_total_amount := b_total_amount b - bt_amount bt, b_total_gross := b_total_gross b - bt_gross bt,
     b_total_allowances := b_total_allowances b - bt_allowances bt,
     b_total_deductions := b_total_deductions b - bt_deductions bt, b_total_tax := b_total_tax b - bt_tax bt\<rparr>"

definition split_code :: "env \<Rightarrow> world \<Rightarrow> batch \<Rightarrow> string" where
  "split_code en w b = ''Rejected-'' @ (case location_name w (b_loc b) of [] \<Rightarrow> ''Unknown'' | c # cs \<Rightarrow> c # cs)
     @ ''-'' @ show_nat (b_month b) @ ''/'' @ show_nat (b_year b) @ ''-'' @ show_int (now en)"

definition split_row :: "env \<Rightarrow> batch \<Rightarrow> string \<Rightarrow> batch_totals \<Rightarrow> nat \<Rightarrow> batch" where
  "split_row en b code bt n = \<lparr>b_id = n, b_uuid = gen_uuid en ''payment_batches'' n, b_code = code,
     b_loc = b_loc b, b_month = b_month b, b_year = b_year b, b_total_employees = bt_employees bt,
     b_total_amount = bt_amount bt, b_total_gross = bt_gross bt, b_total_allowances = bt_allowances bt,
     b_total_deductions = bt_deductions bt, b_total_tax = bt_tax bt, b_status = DRAFT, b_step = 1,
     b_rejected_reason = None,
     b_description = Some (if truthy (b_description b)
       then ''Rejected employees split from '' @ b_code b @ ''. '' @ the (b_description b)
       else ''Rejected employees split from '' @ b_code b @ ''.''),
     b_attachments = b_attachments b, b_submitted_by = b_submitted_by b, b_approved_by = None,
     b_submitted_at = Some (now en), b_approved_at = None, b_created_at = now en\<rparr>"

definition move_item :: "nat \<Rightarrow> batch_item \<Rightarrow> unit service" where
  "move_item target i = update_item (i_id i) (\<lambda>x. x\<lparr>i_batch := target, i_status := PENDING\<rparr>)"

definition announce_split :: "env \<Rightarrow> batch \<Rightarrow> batch \<Rightarrow> string \<Rightarrow> nat \<Rightarrow> current_user \<Rightarrow> unit service" where
  "announce_split en batch newBatch code n actor =
     discard (create_notification en (payroll_notice actor (Some (b_submitted_by batch))
       ''Rejected Employees Split into New Batch''
       (show_nat n @ '' employees from batch '' @ b_code batch
         @ '' were rejected and moved to a new batch: '' @ code @ ''.'') ''PAYROLL_PARTIAL_REJECTION'' newBatch
       [(''redirect'', JStr (''payroll/'' @ b_uuid newBatch)), (''originalBatchUuid'', JStr (b_uuid batch))]))"

definition handlePartialRejectionSplit :: "env \<Rightarrow> nat \<Rightarrow> current_user \<Rightarrow> unit service" where
  "handlePartialRejectionSplit en batchId actor =
     bind (reads (\<lambda>w. select (\<lambda>i. i_batch i = batchId \<and> i_status i = REJECTED) (items w))) (\<lambda>rejectedItems.
     if rejectedItems = [] then ret ()
     else bind (reads (\<lambda>w. find_row (\<lambda>b. b_id b = batchId) (batches w))) (\<lambda>b.
       bind (the_or (NotFound ''Payroll batch not found.'') b) (\<lambda>batch.
       bind (reads (\<lambda>w. (split_code en w batch, totals_of_items (transactions w) rejectedItems))) (\<lambda>(code, bt).
       bind (insert_batch code (split_row en batch code bt)) (\<lambda>newBatch.
       bind (for_each rejectedItems (move_item (b_id newBatch))) (\<lambda>_.
       bind (update_batch batchId (subtract_totals bt)) (\<lambda>_.
       announce_split en batch newBatch code (length rejectedItems) actor)))))))"

section \<open>Approving a step\<close>

definition pay_items :: "env \<Rightarrow> nat \<Rightarrow> current_user \<Rightarrow> unit service" where
  "pay_items en batchId actor =
     bind (reads (\<lambda>w. map i_transaction (select (\<lambda>i. i_batch i = batchId \<and> i_status i \<noteq> REJECTED) (items w)))) (\<lambda>payable.
     bind (modify (\<lambda>w. w\<lparr>items := update_rows (\<lambda>i. i_batch i = batchId \<and> i_status i \<noteq> REJECTED)
       (\<lambda>i. i\<lparr>i_status := APPROVED, i_approved_by := Some (cu_id actor), i_approved_at := Some (now en)\<rparr>) (items w)\<rparr>)) (\<lambda>_.
     modify (\<lambda>w. w\<lparr>transactions := update_rows (\<lambda>t. t_id t \<in> set payable)
       (\<lambda>t. t\<lparr>t_status := TX_PAID, t_approved_by := Some (cu_id actor)\<rparr>) (transactions w)\<rparr>)))"

definition record_action :: "env \<Rightarrow> batch \<Rightarrow> current_user \<Rightarrow> approval_action \<Rightarrow> string option \<Rightarrow> unit service" where
  "record_action en batch actor action comment = modify (\<lambda>w. w\<lparr>batch_actions := insert_row (\<lambda>n. \<lparr>ba_id = n,
     ba_batch = b_id batch, ba_step = b_step batch, ba_by = cu_id actor, ba_action = action,
     ba_comment = comment, ba_at = now en\<rparr>) (batch_actions w)\<rparr>)"

definition approve_row :: "env \<Rightarrow> current_user \<Rightarrow> nat \<Rightarrow> bool \<Rightarrow> batch \<Rightarrow> batch" where
  "approve_row en actor step isFinal b =
     b\<lparr>b_status := (if isFinal then APPROVED else MANAGER_APPROVED),
       b_step := (if isFinal then step else step + 1),
       b_approved_by := (if isFinal then Some (cu_id actor) else None),
       b_approved_at := (if isFinal then Some (now en) else None)\<rparr>"

definition write_approval :: "env \<Rightarrow> batch \<Rightarrow> bool \<Rightarrow> string option \<Rightarrow> current_user \<Rightarrow> batch service" where
  "write_approval en batch isFinal comment actor =
     bind (handlePartialRejectionSplit en (b_id batch) actor) (\<lambda>_.
     bind (when_op isFinal (pay_items en (b_id batch) actor)) (\<lambda>_.
     bind (record_action en batch actor ACT_APPROVED comment) (\<lambda>_.
     bind (update_batch (b_id batch) (approve_row en actor (b_step batch) isFinal)) (\<lambda>_.
     bind (reads (\<lambda>w. find_row (\<lambda>b. b_id b = b_id batch) (batches w))) (\<lambda>u.
     bind (the_or (NotFound ''Payroll batch not found.'') u) (\<lambda>updated.
     bind (audit_payroll actor None ''payment_batches'' (b_id batch) AT_UPDATE
       (if isFinal then ''Fully approved payroll batch.''
        else ''Approved payroll batch step '' @ show_nat (b_step batch) @ ''.'') AU_APPROVED JNull
       (JObj [(''current_approval_step'', JNum (of_nat (b_step updated))),
         (''status'', JStr (batch_status_name (b_status updated)))]) []) (\<lambda>_.
     ret updated)))))))"

definition announce_approval :: "env \<Rightarrow> batch \<Rightarrow> current_user \<Rightarrow> unit service" where
  "announce_approval en approved actor =
     (if b_status approved = MANAGER_APPROVED then
        bind (reads resolveFinalApprovalAuthority) (\<lambda>authority.
        discard (notifyFinalApprovers en (payroll_notice actor None ''Payroll Batch Awaiting Final Approval''
          (if au_kind authority = SUPER_ADMIN_ONLY
           then b_code approved @ '' was approved by the manager and needs final super admin approval (no HR is assigned at headquarters).''
           else b_code approved @ '' was approved by the manager and needs final HR approval at headquarters.'')
          ''PAYROLL_APPROVAL_REQUEST'' approved
          (batch_metadata approved (if au_kind authority = SUPER_ADMIN_ONLY then ''SUPER_ADMIN'' else ''HR'')))))
      else if b_status approved = APPROVED then
        bind (notifyAdmins en (payroll_notice actor None ''Payroll Batch Completed''
          (b_code approved @ '' is completed and ready for read-only admin review.'') ''PAYROLL_COMPLETED_REVIEW'' approved
          (batch_metadata approved ''SUPER_ADMIN'' @ [(''readOnly'', JBool True)]))) (\<lambda>_.
        discard (create_notification en (payroll_notice actor (Some (b_submitted_by approved)) ''Payroll Batch Finalized''
          (b_code approved @ '' has been fully approved.'') ''PAYROLL_APPROVED'' approved
          [(''redirect'', JStr (''payroll/'' @ b_uuid approved)),
           (''status'', JStr (batch_status_name (b_status approved)))])))
      else ret ())"

text \<open>With a local approver the final step is the second one, otherwise the first.\<close>

definition is_final_step :: "world \<Rightarrow> batch \<Rightarrow> bool" where
  "is_final_step w b = (let finalStep = (if hasInitialApprover w (b_loc b) then 2 else 1) in b_step b \<ge> finalStep)"

definition approveBatch :: "env \<Rightarrow> string \<Rightarrow> string option \<Rightarrow> current_user \<Rightarrow> batch service" where
  "approveBatch en uuid comment actor =
     bind (findBatchByUuid uuid) (\<lambda>batch.
     bind (ensureBatchCanStillBeReviewed batch) (\<lambda>_.
     bind (ensureActorCanApproveBatch actor batch) (\<lambda>_.
     bind (reads (\<lambda>w. is_final_step w batch)) (\<lambda>isFinal.
     bind (atomically (write_approval en batch isFinal comment actor)) (\<lambda>approved.
     bind (announce_approval en approved actor) (\<lambda>_.
     bind (clearPayrollCache en) (\<lambda>_.
     ret approved)))))))"

section \<open>Rejecting a batch\<close>

definition terminal_row :: "env \<Rightarrow> string \<Rightarrow> current_user \<Rightarrow> batch \<Rightarrow> batch" where
  "terminal_row en reason actor b = b\<lparr>b_status := REJECTED, b_rejected_reason := Some reason,
     b_approved_by := Some (cu_id actor), b_approved_at := Some (now en)\<rparr>"

definition returned_row :: "string \<Rightarrow> batch \<Rightarrow> batch" where
  "returned_row reason b = b\<lparr>b_status := DRAFT, b_rejected_reason := Some reason, b_step := 1,
     b_approved_by := None, b_approved_at := None\<rparr>"

definition write_batch_rejection :: "env \<Rightarrow> batch \<Rightarrow> string \<Rightarrow> current_user \<Rightarrow> batch service" where
  "write_batch_rejection en batch reason actor =
     bind (record_action en batch actor ACT_REJECTED (Some reason)) (\<lambda>_.
     if ''SUPER_ADMIN'' \<in> set (cu_roles actor) then
       bind (update_batch (b_id batch) (terminal_row en reason actor)) (\<lambda>_.
       bind (audit_payroll actor None ''payment_batches'' (b_id batch) AT_UPDATE
         (''Super Admin permanently rejected payroll batch: '' @ reason @ ''.'') AU_DENIED JNull
         (JObj [(''status'', JStr ''REJECTED''), (''rejected_reason'', JStr reason)]) []) (\<lambda>_.
       ret (terminal_row en reason actor batch)))
     else
       bind (modify (\<lambda>w. w\<lparr>items := update_rows (\<lambda>i. i_batch i = b_id batch)
         (\<lambda>i. i\<lparr>i_status := PENDING, i_rejection_reason := None\<rparr>) (items w)\<rparr>)) (\<lambda>_.
       bind (update_batch (b_id batch) (returned_row reason)) (\<lambda>_.
       bind (audit_payroll actor None ''payment_batches'' (b_id batch) AT_UPDATE
         (''Manager rejected payroll batch: '' @ reason @ ''. Returned to DRAFT.'') AU_DENIED JNull
         (JObj [(''status'', JStr ''DRAFT''), (''rejected_reason'', JStr reason)]) []) (\<lambda>_.
       ret (returned_row reason batch)))))"

definition rejectBatch :: "env \<Rightarrow> string \<Rightarrow> string \<Rightarrow> current_user \<Rightarrow> batch service" where
  "rejectBatch en uuid reason actor =
     bind (findBatchByUuid uuid) (\<lambda>batch.
     bind (ensureBatchCanStillBeReviewed batch) (\<lambda>_.
     bind (ensureActorCanApproveBatch actor batch) (\<lambda>_.
     bind (atomically (write_batch_rejection en batch reason actor)) (\<lambda>rejected.
     let isSuperAdmin = (''SUPER_ADMIN'' \<in> set (cu_roles actor)) in
     bind (discard (create_notification en (payroll_notice actor (Some (b_submitted_by rejected))
       (if isSuperAdmin then ''Payroll Batch Permanently Rejected'' else ''Payroll Batch Returned for Corrections'')
       (if isSuperAdmin then b_code rejected @ '' was permanently rejected by HQ. Reason: '' @ reason
        else b_code rejected @ '' was returned to you for updates. Reason: '' @ reason)
       (if isSuperAdmin then ''PAYROLL_REJECTED_FINAL'' else ''PAYROLL_REJECTED'') rejected
       [(''redirect'', JStr (''payroll/'' @ b_uuid rejected)), (''reason'', JStr reason),
        (''status'', JStr (batch_status_name (b_status rejected)))]))) (\<lambda>_.
     bind (clearPayrollCache en) (\<lambda>_.
     ret rejected))))))"

end
