(* ===== verification/Payroll_Tables.thy ===== *)
theory Payroll_Tables
  imports Payroll_Review
begin

text \<open>
  The consistency of the three payroll tables (batches, items, transactions), stated on the
  tables alone, and the effect on it of the writes that payroll operations perform:
  editing a batch or an item, moving items to a new batch, paying a batch, dropping the
  contents of a draft and filling it again.
\<close>

section \<open>Consistency\<close>

definition approved_in :: "batch table \<Rightarrow> nat \<Rightarrow> bool" where
  "approved_in B k \<longleftrightarrow> (\<exists>b \<in> set (rows B). b_id b = k \<and> b_status b = APPROVED)"

definition batch_items :: "batch_item table \<Rightarrow> nat \<Rightarrow> batch_item list" where
  "batch_items I k = select (\<lambda>i. i_batch i = k) I"

definition totals_of_batch :: "batch \<Rightarrow> batch_totals" where
  "totals_of_batch b = \<lparr>bt_employees = b_total_employees b, bt_amount = b_total_amount b,
     bt_gross = b_total_gross b, bt_allowances = b_total_allowances b,
     bt_deductions = b_total_deductions b, bt_tax = b_total_tax b\<rparr>"

text \<open>Keys and references: every item belongs to a batch and owns its transaction.\<close>

definition links_ok :: "batch table \<Rightarrow> batch_item table \<Rightarrow> transaction table \<Rightarrow> bool" where
  "links_ok B I T \<longleftrightarrow> table_ok b_id B \<and> table_ok i_id I \<and> table_ok t_id T
     \<and> distinct (map b_code (rows B)) \<and> distinct (map i_transaction (rows I))
     \<and> (\<forall>i \<in> set (rows I). \<exists>b \<in> set (rows B). b_id b = i_batch i)
     \<and> (\<forall>i \<in> set (rows I). \<exists>t \<in> set (rows T). t_id t = i_transaction i \<and> t_employee t = i_employee i)
     \<and> (\<forall>t \<in> set (rows T). \<exists>i \<in> set (rows I). i_transaction i = t_id t)"

text \<open>A batch names an employee at most once.\<close>

definition people_ok :: "batch_item table \<Rightarrow> bool" where
  "people_ok I \<longleftrightarrow> (\<forall>k. distinct (map i_employee (batch_items I k)))"

text \<open>The stored totals are the sums over the items.\<close>

definition totals_ok :: "batch table \<Rightarrow> batch_item table \<Rightarrow> transaction table \<Rightarrow> bool" where
  "totals_ok B I T \<longleftrightarrow> (\<forall>b \<in> set (rows B). totals_of_batch b = totals_of_items T (batch_items I (b_id b)))"

text \<open>Steps stay in range; what is paid is what an approved batch contains.\<close>

definition states_ok :: "batch table \<Rightarrow> batch_item table \<Rightarrow> transaction table \<Rightarrow> bool" where
  "states_ok B I T \<longleftrightarrow> (\<forall>b \<in> set (rows B). b_step b \<in> {1, 2} \<and> (b_status b = DRAFT \<longrightarrow> b_step b = 1))
     \<and> (\<forall>i \<in> set (rows I). \<forall>t \<in> set (rows T). t_id t = i_transaction i \<longrightarrow>
          (t_status t = TX_PAID \<longleftrightarrow> approved_in B (i_batch i)))
     \<and> (\<forall>i \<in> set (rows I). approved_in B (i_batch i) \<longrightarrow> i_status i = APPROVED)"

definition core_ok :: "batch table \<Rightarrow> batch_item table \<Rightarrow> transaction table \<Rightarrow> bool" where
  "core_ok B I T \<longleftrightarrow> links_ok B I T \<and> people_ok I \<and> totals_ok B I T"

definition tables_ok :: "batch table \<Rightarrow> batch_item table \<Rightarrow> transaction table \<Rightarrow> bool" where
  "tables_ok B I T \<longleftrightarrow> core_ok B I T \<and> states_ok B I T"

lemma tables_ok_empty: "tables_ok empty_table empty_table empty_table"
  by (simp add: tables_ok_def core_ok_def links_ok_def people_ok_def totals_ok_def states_ok_def batch_items_def select_def)

section \<open>Amounts\<close>

lemma item_amount_update:
  "(\<And>t. t_id (g t) = t_id t) \<Longrightarrow> (\<And>t. f (g t) = f t) \<Longrightarrow> item_amount (update_rows p g T) f i = item_amount T f i"
  unfolding item_amount_def by (subst find_row_update) (auto split: option.splits)

lemma totals_of_items_append: "totals_of_items T (xs @ ys) = \<lparr>bt_employees = bt_employees (totals_of_items T xs) + bt_employees (totals_of_items T ys),
    bt_amount = bt_amount (totals_of_items T xs) + bt_amount (totals_of_items T ys),
    bt_gross = bt_gross (totals_of_items T xs) + bt_gross (totals_of_items T ys),
    bt_allowances = bt_allowances (totals_of_items T xs) + bt_allowances (totals_of_items T ys),
    bt_deductions = bt_deductions (totals_of_items T xs) + bt_deductions (totals_of_items T ys),
    bt_tax = bt_tax (totals_of_items T xs) + bt_tax (totals_of_items T ys)\<rparr>"
  by (simp add: totals_of_items_def)

lemma totals_of_items_cong:
  assumes "map h xs = map h ys" and "\<And>f i j. i \<in> set xs \<Longrightarrow> j \<in> set ys \<Longrightarrow> h i = h j \<Longrightarrow> item_amount T f i = item_amount T' f j"
  shows "totals_of_items T xs = totals_of_items T' ys"
proof -
  have len: "length xs = length ys" using assms(1) map_eq_imp_length_eq by blast
  have "sum_of (item_amount T f) xs = sum_of (item_amount T' f) ys" for f
    using len assms
  proof (induction rule: list_induct2)
    case (Cons x xs y ys)
    then show ?case by auto
  qed simp
  then show ?thesis by (simp add: totals_of_items_def len)
qed

lemma totals_same_items:
  "(\<And>f i. i \<in> set xs \<Longrightarrow> item_amount T f i = item_amount T' f i) \<Longrightarrow> totals_of_items T xs = totals_of_items T' xs"
  unfolding totals_of_items_def by (simp cong: sum_of_cong)

section \<open>Editing a batch\<close>

lemma approved_in_update:
  assumes id: "\<And>b. b_id (f b) = b_id b"
    and st: "\<And>b. b \<in> set (rows B) \<Longrightarrow> p b \<Longrightarrow> b_status (f b) = APPROVED \<longleftrightarrow> b_status b = APPROVED"
  shows "approved_in (update_rows p f B) k = approved_in B k"
proof -
  have "(\<forall>b \<in> set (rows (update_rows p f B)). \<not> (b_id b = k \<and> b_status b = APPROVED))
      \<longleftrightarrow> (\<forall>b \<in> set (rows B). \<not> (b_id b = k \<and> b_status b = APPROVED))"
    unfolding ball_update_rows using id st by (intro ball_cong refl) simp
  then show ?thesis unfolding approved_in_def by blast
qed

lemma core_edit_batch:
  assumes ok: "core_ok B I T"
    and id: "\<And>b. b_id (f b) = b_id b" and code: "\<And>b. b_code (f b) = b_code b"
    and tot: "\<And>b. totals_of_batch (f b) = totals_of_batch b"
  shows "core_ok (update_rows (\<lambda>b. b_id b = k) f B) I T"
proof -
  define B' where B': "B' = update_rows (\<lambda>b. b_id b = k) f B"
  have links: "links_ok B' I T"
  proof -
    have "table_ok b_id B'" unfolding B' using ok id by (simp add: core_ok_def links_ok_def table_ok_update)
    moreover have "map b_code (rows B') = map b_code (rows B)"
      unfolding B' rows_update by (rule map_key_update) (rule code)
    moreover have "\<exists>b \<in> set (rows B'). b_id b = j" if "\<exists>b \<in> set (rows B). b_id b = j" for j
      using that unfolding B' by (rule ex_update_rows) (simp add: id)
    ultimately show ?thesis using ok unfolding core_ok_def links_ok_def by simp
  qed
  have "totals_ok B' I T"
    using ok id tot unfolding core_ok_def totals_ok_def B' ball_update_rows by simp
  then show ?thesis using ok links unfolding B' by (simp add: core_ok_def)
qed

lemma edit_batch:
  assumes ok: "tables_ok B I T"
    and id: "\<And>b. b_id (f b) = b_id b" and code: "\<And>b. b_code (f b) = b_code b"
    and tot: "\<And>b. totals_of_batch (f b) = totals_of_batch b"
    and st: "\<And>b. b \<in> set (rows B) \<Longrightarrow> b_id b = k \<Longrightarrow> (b_status (f b) = APPROVED \<longleftrightarrow> b_status b = APPROVED)
      \<and> b_step (f b) \<in> {1, 2} \<and> (b_status (f b) = DRAFT \<longrightarrow> b_step (f b) = 1)"
  shows "tables_ok (update_rows (\<lambda>b. b_id b = k) f B) I T"
proof -
  have app: "approved_in (update_rows (\<lambda>b. b_id b = k) f B) j = approved_in B j" for j
    using approved_in_update [of f B "\<lambda>b. b_id b = k"] id st by blast
  have "states_ok (update_rows (\<lambda>b. b_id b = k) f B) I T"
    using ok st unfolding tables_ok_def states_ok_def app unfolding ball_update_rows by simp
  then show ?thesis using core_edit_batch [OF _ id code tot] ok by (simp add: tables_ok_def)
qed

section \<open>Editing items and transactions\<close>

lemma batch_items_update:
  "(\<And>i. i_batch (g i) = i_batch i) \<Longrightarrow> batch_items (update_rows p g I) k = map (\<lambda>i. if p i then g i else i) (batch_items I k)"
  unfolding batch_items_def by (rule select_update) simp

lemma item_amount_item: "i_transaction j = i_transaction i \<Longrightarrow> item_amount T f j = item_amount T f i"
  by (simp add: item_amount_def)

lemma core_edit_items:
  assumes ok: "core_ok B I T"
    and keep: "\<And>i. i_id (g i) = i_id i \<and> i_batch (g i) = i_batch i \<and> i_employee (g i) = i_employee i
      \<and> i_transaction (g i) = i_transaction i"
  shows "core_ok B (update_rows p g I) T"
proof -
  define I' where I': "I' = update_rows p g I"
  have items: "batch_items I' k = map (\<lambda>i. if p i then g i else i) (batch_items I k)" for k
    unfolding I' by (rule batch_items_update) (simp add: keep)
  have same: "map h (map (\<lambda>i. if p i then g i else i) xs) = map h xs" if "\<And>i. h (g i) = h i" for h :: "batch_item \<Rightarrow> nat" and xs
    by (rule map_key_update) (rule that)
  have links: "links_ok B I' T"
  proof -
    have "table_ok i_id I'" unfolding I' using ok keep by (simp add: core_ok_def links_ok_def table_ok_update)
    moreover have "map i_transaction (rows I') = map i_transaction (rows I)"
      unfolding I' rows_update by (rule same) (simp add: keep)
    moreover have "\<exists>i \<in> set (rows I'). i_transaction i = j" if "\<exists>i \<in> set (rows I). i_transaction i = j" for j
      using that unfolding I' by (rule ex_update_rows) (simp add: keep)
    moreover have "\<forall>i \<in> set (rows I'). (\<exists>b \<in> set (rows B). b_id b = i_batch i)
        \<and> (\<exists>t \<in> set (rows T). t_id t = i_transaction i \<and> t_employee t = i_employee i)"
      unfolding I' ball_update_rows using ok keep by (simp add: core_ok_def links_ok_def)
    ultimately show ?thesis using ok unfolding core_ok_def links_ok_def by simp
  qed
  have people: "people_ok I'"
    using ok unfolding core_ok_def people_ok_def items by (subst same) (simp_all add: keep)
  have "totals_of_items T (map (\<lambda>i. if p i then g i else i) xs) = totals_of_items T xs" for xs
    by (rule totals_of_items_cong [where h = i_transaction], rule same)
      (simp_all add: keep item_amount_def)
  then have totals: "totals_ok B I' T" using ok by (simp add: core_ok_def totals_ok_def items)
  show ?thesis using links people totals unfolding I' by (simp add: core_ok_def)
qed

lemma edit_items:
  assumes ok: "tables_ok B I T"
    and keep: "\<And>i. i_id (g i) = i_id i \<and> i_batch (g i) = i_batch i \<and> i_employee (g i) = i_employee i
      \<and> i_transaction (g i) = i_transaction i"
    and free: "\<And>i. i \<in> set (rows I) \<Longrightarrow> p i \<Longrightarrow> \<not> approved_in B (i_batch i)"
  shows "tables_ok B (update_rows p g I) T"
proof -
  have "states_ok B (update_rows p g I) T"
    using ok free unfolding tables_ok_def states_ok_def ball_update_rows by (simp add: keep)
  then show ?thesis using core_edit_items [OF _ keep] ok by (simp add: tables_ok_def)
qed

lemma core_edit_transactions:
  assumes ok: "core_ok B I T"
    and keep: "\<And>t. t_id (h t) = t_id t \<and> t_employee (h t) = t_employee t \<and> t_net (h t) = t_net t
      \<and> t_gross (h t) = t_gross t \<and> t_allowance (h t) = t_allowance t \<and> t_deductions (h t) = t_deductions t
      \<and> t_tax (h t) = t_tax t"
  shows "core_ok B I (update_rows p h T)"
proof -
  define T' where T': "T' = update_rows p h T"
  have amount: "item_amount T' f = item_amount T f"
    if "f \<in> {t_net, t_gross, t_allowance, t_deductions, t_tax}" for f
    unfolding T' by (rule ext, rule item_amount_update) (use keep that in auto)
  have totals: "totals_of_items T' xs = totals_of_items T xs" for xs
    by (simp add: totals_of_items_def amount)
  have "links_ok B I T'"
  proof -
    have "table_ok t_id T'" unfolding T' using ok keep by (simp add: core_ok_def links_ok_def table_ok_update)
    moreover have "\<exists>t \<in> set (rows T'). t_id t = a \<and> t_employee t = c"
      if "\<exists>t \<in> set (rows T). t_id t = a \<and> t_employee t = c" for a c
      using that unfolding T' by (rule ex_update_rows) (simp add: keep)
    moreover have "\<forall>t \<in> set (rows T'). \<exists>i \<in> set (rows I). i_transaction i = t_id t"
      unfolding T' ball_update_rows using ok keep by (simp add: core_ok_def links_ok_def)
    ultimately show ?thesis using ok unfolding core_ok_def links_ok_def by simp
  qed
  moreover have "totals_ok B I T'" using ok by (simp add: core_ok_def totals_ok_def totals)
  ultimately show ?thesis using ok unfolding T' by (simp add: core_ok_def)
qed

lemma edit_transactions:
  assumes ok: "tables_ok B I T"
    and keep: "\<And>t. t_id (h t) = t_id t \<and> t_employee (h t) = t_employee t \<and> t_net (h t) = t_net t
      \<and> t_gross (h t) = t_gross t \<and> t_allowance (h t) = t_allowance t \<and> t_deductions (h t) = t_deductions t
      \<and> t_tax (h t) = t_tax t"
    and st: "\<And>t. t \<in> set (rows T) \<Longrightarrow> p t \<Longrightarrow> t_status (h t) = TX_PAID \<longleftrightarrow> t_status t = TX_PAID"
  shows "tables_ok B I (update_rows p h T)"
proof -
  have "states_ok B I (update_rows p h T)"
    using ok st keep unfolding tables_ok_def states_ok_def ball_update_rows by auto
  then show ?thesis using core_edit_transactions [OF _ keep] ok by (simp add: tables_ok_def)
qed

section \<open>Splitting off the rejected items\<close>

lemma totals_of_items_split:
  "totals_of_items T (filter (\<lambda>i. \<not> p i) xs) = \<lparr>bt_employees = bt_employees (totals_of_items T xs) - bt_employees (totals_of_items T (filter p xs)),
    bt_amount = bt_amount (totals_of_items T xs) - bt_amount (totals_of_items T (filter p xs)),
    bt_gross = bt_gross (totals_of_items T xs) - bt_gross (totals_of_items T (filter p xs)),
    bt_allowances = bt_allowances (totals_of_items T xs) - bt_allowances (totals_of_items T (filter p xs)),
    bt_deductions = bt_deductions (totals_of_items T xs) - bt_deductions (totals_of_items T (filter p xs)),
    bt_tax = bt_tax (totals_of_items T xs) - bt_tax (totals_of_items T (filter p xs))\<rparr>"
proof -
  have n: "int (length (filter (\<lambda>i. \<not> p i) xs)) = int (length xs) - int (length (filter p xs))"
    using sum_length_filter_compl [of p xs] by linarith
  have a: "sum_of (item_amount T f) (filter (\<lambda>i. \<not> p i) xs)
      = sum_of (item_amount T f) xs - sum_of (item_amount T f) (filter p xs)" for f
    using sum_of_split [of "item_amount T f" xs p] by simp
  show ?thesis by (simp add: totals_of_items_def n a)
qed

lemma totals_subtract: "totals_of_batch (subtract_totals bt b) = \<lparr>bt_employees = bt_employees (totals_of_batch b) - bt_employees bt,
    bt_amount = bt_amount (totals_of_batch b) - bt_amount bt, bt_gross = bt_gross (totals_of_batch b) - bt_gross bt,
    bt_allowances = bt_allowances (totals_of_batch b) - bt_allowances bt,
    bt_deductions = bt_deductions (totals_of_batch b) - bt_deductions bt, bt_tax = bt_tax (totals_of_batch b) - bt_tax bt\<rparr>"
  by (simp add: totals_of_batch_def subtract_totals_def)

text \<open>What the batches contain after items have moved from one batch to a new one.\<close>

lemma moved_items:
  assumes new: "\<And>i. i \<in> set (rows I) \<Longrightarrow> i_batch i \<noteq> n"
  shows "batch_items (update_rows (\<lambda>i. i_batch i = k \<and> p i) (\<lambda>i. i\<lparr>i_batch := n, i_status := st\<rparr>) I) j
    = (if j = n then map (\<lambda>i. i\<lparr>i_batch := n, i_status := st\<rparr>) (filter p (batch_items I k))
       else if j = k then filter (\<lambda>i. \<not> p i) (batch_items I k) else batch_items I j)"
proof -
  have "filter (\<lambda>i. i_batch i = j) (map (\<lambda>i. if i_batch i = k \<and> p i then i\<lparr>i_batch := n, i_status := st\<rparr> else i) xs)
    = (if j = n then map (\<lambda>i. i\<lparr>i_batch := n, i_status := st\<rparr>) (filter p (filter (\<lambda>i. i_batch i = k) xs))
       else if j = k then filter (\<lambda>i. \<not> p i) (filter (\<lambda>i. i_batch i = k) xs) else filter (\<lambda>i. i_batch i = j) xs)"
    if "\<forall>i \<in> set xs. i_batch i \<noteq> n" for xs
    using that by (induction xs) auto
  with new show ?thesis by (simp add: batch_items_def select_def)
qed

lemma split_tables:
  assumes ok: "tables_ok B I T" and b: "b \<in> set (rows B)" "b_id b = k" "b_status b \<noteq> APPROVED"
    and R: "R = select (\<lambda>i. i_batch i = k \<and> i_status i = REJECTED) I"
    and nb: "\<And>n. b_id (mk n) = n" "\<And>n. b_status (mk n) = DRAFT" "\<And>n. b_step (mk n) = 1"
      "\<And>n. totals_of_batch (mk n) = totals_of_items T R" "\<And>n. b_code (mk n) = code" "code \<notin> b_code ` set (rows B)"
  shows "tables_ok (update_rows (\<lambda>x. b_id x = k) (subtract_totals (totals_of_items T R)) (insert_row mk B))
    (update_rows (\<lambda>i. i_batch i = k \<and> i_status i = REJECTED) (\<lambda>i. i\<lparr>i_batch := next_id B, i_status := PENDING\<rparr>) I) T"
proof -
  let ?n = "next_id B"
  let ?p = "\<lambda>i. i_status i = REJECTED"
  define B1 where B1: "B1 = insert_row mk B"
  define B' where B': "B' = update_rows (\<lambda>x. b_id x = k) (subtract_totals (totals_of_items T R)) B1"
  define I' where I': "I' = update_rows (\<lambda>i. i_batch i = k \<and> ?p i) (\<lambda>i. i\<lparr>i_batch := ?n, i_status := PENDING\<rparr>) I"
  have L: "links_ok B I T" and P: "people_ok I" and Tt: "totals_ok B I T" and S: "states_ok B I T"
    using ok by (simp_all add: tables_ok_def core_ok_def)
  have keyB: "table_ok b_id B" using L by (simp add: links_ok_def)
  have fresh: "b_id x \<noteq> ?n" if "x \<in> set (rows B)" for x using table_ok_fresh [OF keyB that] .
  have kn: "k \<noteq> ?n" using fresh [OF b(1)] b(2) by simp
  have inew: "i_batch i \<noteq> ?n" if "i \<in> set (rows I)" for i
    using L that fresh unfolding links_ok_def by force
  have items: "batch_items I' j = (if j = ?n then map (\<lambda>i. i\<lparr>i_batch := ?n, i_status := PENDING\<rparr>) (filter ?p (batch_items I k))
       else if j = k then filter (\<lambda>i. \<not> ?p i) (batch_items I k) else batch_items I j)" for j
    unfolding I' by (rule moved_items) (rule inew)
  have Rk: "R = filter ?p (batch_items I k)" by (simp add: R batch_items_def select_def conj_commute)
  have sub: "b_id (subtract_totals bt x) = b_id x" "b_code (subtract_totals bt x) = b_code x"
    "b_status (subtract_totals bt x) = b_status x" "b_step (subtract_totals bt x) = b_step x" for bt x
    by (simp_all add: subtract_totals_def)
  have app1: "approved_in B1 j = approved_in B j" for j
    by (simp add: approved_in_def B1 nb)
  have app: "approved_in B' j = approved_in B j" for j
    unfolding B' by (subst approved_in_update) (simp_all add: sub app1)
  have notk: "\<not> approved_in B k"
    unfolding approved_in_def using b table_ok_unique [OF keyB b(1)] by metis
  have newn: "\<not> approved_in B ?n" unfolding approved_in_def using fresh by blast
  have ids: "map i_transaction (rows I') = map i_transaction (rows I)"
    unfolding I' rows_update by (rule map_key_update) simp
  have links: "links_ok B' I' T"
  proof -
    have "table_ok b_id B'" unfolding B' B1
      by (intro table_ok_update table_ok_insert keyB) (simp_all add: sub nb)
    moreover have "map b_code (rows B') = map b_code (rows B1)"
      unfolding B' rows_update by (rule map_key_update) (simp add: sub)
    moreover have "distinct (map b_code (rows B1))"
      using L nb(5,6) by (simp add: B1 links_ok_def)
    moreover have "table_ok i_id I'" unfolding I' using L by (simp add: links_ok_def table_ok_update)
    moreover have ex: "\<exists>x \<in> set (rows B'). b_id x = j" if "\<exists>x \<in> set (rows B1). b_id x = j" for j
      using that unfolding B' by (rule ex_update_rows) (simp add: sub)
    then have "\<forall>i \<in> set (rows I'). \<exists>x \<in> set (rows B'). b_id x = i_batch i"
      unfolding I' ball_update_rows using L by (auto simp: links_ok_def B1 nb)
    moreover have "\<forall>i \<in> set (rows I'). \<exists>t \<in> set (rows T). t_id t = i_transaction i \<and> t_employee t = i_employee i"
      unfolding I' ball_update_rows using L by (simp add: links_ok_def)
    moreover have "\<exists>i \<in> set (rows I'). i_transaction i = j" if "\<exists>i \<in> set (rows I). i_transaction i = j" for j
      using that unfolding I' by (rule ex_update_rows) simp
    ultimately show ?thesis using L ids unfolding links_ok_def by simp
  qed
  have people: "people_ok I'"
    unfolding people_ok_def items using P
    by (auto simp: people_ok_def comp_def distinct_map_filter)
  have totals: "totals_ok B' I' T"
  proof -
    have "totals_of_batch (subtract_totals (totals_of_items T R) x) = totals_of_items T (filter (\<lambda>i. \<not> ?p i) (batch_items I k))"
      if "x \<in> set (rows B)" "b_id x = k" for x
      using Tt that by (simp add: totals_subtract totals_ok_def totals_of_items_split Rk)
    moreover have "totals_of_items T R = totals_of_items T (map (\<lambda>i. i\<lparr>i_batch := ?n, i_status := PENDING\<rparr>) R)"
      by (rule totals_of_items_cong [where h = i_transaction]) (simp_all add: item_amount_def)
    ultimately show ?thesis
      using Tt kn fresh unfolding totals_ok_def items B' ball_update_rows B1
      by (auto simp: nb sub Rk)
  qed
  have "states_ok B' I' T"
  proof -
    have "\<forall>x \<in> set (rows B'). b_step x \<in> {1, 2} \<and> (b_status x = DRAFT \<longrightarrow> b_step x = 1)"
      unfolding B' ball_update_rows B1 using S by (simp add: states_ok_def sub nb)
    moreover have "\<forall>i \<in> set (rows I'). (\<forall>t \<in> set (rows T). t_id t = i_transaction i \<longrightarrow>
          (t_status t = TX_PAID \<longleftrightarrow> approved_in B (i_batch i))) \<and> (approved_in B (i_batch i) \<longrightarrow> i_status i = APPROVED)"
      unfolding I' ball_update_rows using S notk newn by (auto simp: states_ok_def)
    ultimately show ?thesis by (auto simp: states_ok_def app)
  qed
  with links people totals show ?thesis by (simp add: tables_ok_def core_ok_def B' B1 I')
qed

section \<open>Paying a batch\<close>

lemma pay_tables:
  assumes ok: "tables_ok B I T" and none: "\<And>i. i \<in> set (batch_items I k) \<Longrightarrow> i_status i \<noteq> REJECTED"
    and f: "\<And>b. b_id (f b) = b_id b" "\<And>b. b_code (f b) = b_code b" "\<And>b. totals_of_batch (f b) = totals_of_batch b"
      "\<And>b. b_status (f b) = APPROVED" "\<And>b. b_step (f b) \<in> {1, 2}"
    and g: "\<And>i. i_id (g i) = i_id i \<and> i_batch (g i) = i_batch i \<and> i_employee (g i) = i_employee i
      \<and> i_transaction (g i) = i_transaction i \<and> i_status (g i) = APPROVED"
    and h: "\<And>t. t_id (h t) = t_id t \<and> t_employee (h t) = t_employee t \<and> t_net (h t) = t_net t
      \<and> t_gross (h t) = t_gross t \<and> t_allowance (h t) = t_allowance t \<and> t_deductions (h t) = t_deductions t
      \<and> t_tax (h t) = t_tax t \<and> t_status (h t) = TX_PAID"
    and paid: "paid = map i_transaction (select (\<lambda>i. i_batch i = k \<and> i_status i \<noteq> REJECTED) I)"
    and ex: "\<exists>b \<in> set (rows B). b_id b = k"
  shows "tables_ok (update_rows (\<lambda>b. b_id b = k) f B)
    (update_rows (\<lambda>i. i_batch i = k \<and> i_status i \<noteq> REJECTED) g I) (update_rows (\<lambda>t. t_id t \<in> set paid) h T)"
proof -
  let ?q = "\<lambda>i. i_batch i = k \<and> i_status i \<noteq> REJECTED"
  let ?B = "update_rows (\<lambda>b. b_id b = k) f B" and ?I = "update_rows ?q g I" and ?T = "update_rows (\<lambda>t. t_id t \<in> set paid) h T"
  have L: "links_ok B I T" and S: "states_ok B I T" using ok by (simp_all add: tables_ok_def core_ok_def)
  have "core_ok ?B ?I ?T"
    using ok f g h by (intro core_edit_transactions core_edit_items core_edit_batch) (simp_all add: tables_ok_def)
  moreover have app: "approved_in ?B j \<longleftrightarrow> j = k \<or> approved_in B j" for j
  proof -
    have "(\<forall>b \<in> set (rows ?B). \<not> (b_id b = j \<and> b_status b = APPROVED))
        \<longleftrightarrow> (\<forall>b \<in> set (rows B). \<not> (b_id b = j \<and> (j = k \<or> b_status b = APPROVED)))"
      unfolding ball_update_rows using f by (intro ball_cong refl) auto
    then show ?thesis unfolding approved_in_def using ex by metis
  qed
  have inpaid: "i_transaction i \<in> set paid \<longleftrightarrow> i_batch i = k" if i: "i \<in> set (rows I)" for i
  proof
    assume "i_transaction i \<in> set paid"
    then obtain j where "j \<in> set (rows I)" "i_batch j = k" "i_transaction j = i_transaction i"
      by (auto simp: paid)
    with L i show "i_batch i = k" unfolding links_ok_def distinct_map by (metis inj_onD)
  next
    assume "i_batch i = k"
    with i none show "i_transaction i \<in> set paid" by (auto simp: paid batch_items_def)
  qed
  have "states_ok ?B ?I ?T"
  proof -
    have "\<forall>b \<in> set (rows ?B). b_step b \<in> {1, 2} \<and> (b_status b = DRAFT \<longrightarrow> b_step b = 1)"
      unfolding ball_update_rows using S f by (simp add: states_ok_def)
    moreover have "\<forall>i \<in> set (rows ?I). (\<forall>t \<in> set (rows ?T). t_id t = i_transaction i \<longrightarrow>
          (t_status t = TX_PAID \<longleftrightarrow> i_batch i = k \<or> approved_in B (i_batch i)))
        \<and> (i_batch i = k \<or> approved_in B (i_batch i) \<longrightarrow> i_status i = APPROVED)"
      unfolding ball_update_rows
    proof (rule ballI)
      fix i assume i: "i \<in> set (rows I)"
      show "if ?q i
        then (\<forall>t \<in> set (rows T). if t_id t \<in> set paid then t_id (h t) = i_transaction (g i) \<longrightarrow>
              (t_status (h t) = TX_PAID \<longleftrightarrow> i_batch (g i) = k \<or> approved_in B (i_batch (g i)))
            else t_id t = i_transaction (g i) \<longrightarrow> (t_status t = TX_PAID \<longleftrightarrow> i_batch (g i) = k \<or> approved_in B (i_batch (g i))))
          \<and> (i_batch (g i) = k \<or> approved_in B (i_batch (g i)) \<longrightarrow> i_status (g i) = APPROVED)
        else (\<forall>t \<in> set (rows T). if t_id t \<in> set paid then t_id (h t) = i_transaction i \<longrightarrow>
              (t_status (h t) = TX_PAID \<longleftrightarrow> i_batch i = k \<or> approved_in B (i_batch i))
            else t_id t = i_transaction i \<longrightarrow> (t_status t = TX_PAID \<longleftrightarrow> i_batch i = k \<or> approved_in B (i_batch i)))
          \<and> (i_batch i = k \<or> approved_in B (i_batch i) \<longrightarrow> i_status i = APPROVED)"
      proof (cases "i_batch i = k")
        case True
        then have "?q i" "i_transaction i \<in> set paid" using i none inpaid by (auto simp: batch_items_def)
        then show ?thesis using True g h by auto
      next
        case False
        then have "i_transaction i \<notin> set paid" using i inpaid by simp
        with False i S h show ?thesis unfolding states_ok_def by auto
      qed
    qed
    ultimately show ?thesis unfolding states_ok_def app by blast
  qed
  ultimately show ?thesis by (simp add: tables_ok_def)
qed

section \<open>Filling a draft\<close>

text \<open>
  While a draft is being filled its totals need not agree with its items; the items agree
  with the calculations written so far.
\<close>

definition matches :: "transaction table \<Rightarrow> batch_item \<Rightarrow> payroll_calculation \<Rightarrow> bool" where
  "matches T i c \<longleftrightarrow> i_employee i = pc_employee c \<and> item_amount T t_net i = pc_net c
     \<and> item_amount T t_gross i = pc_gross c \<and> item_amount T t_allowance i = pc_allowance c
     \<and> item_amount T t_deductions i = pc_deductions c \<and> item_amount T t_tax i = pc_tax c"

definition filling :: "nat \<Rightarrow> batch table \<Rightarrow> batch_item table \<Rightarrow> transaction table \<Rightarrow> payroll_calculation list \<Rightarrow> bool" where
  "filling k B I T cs \<longleftrightarrow> links_ok B I T \<and> people_ok I \<and> states_ok B I T
     \<and> (\<forall>b \<in> set (rows B). b_id b \<noteq> k \<longrightarrow> totals_of_batch b = totals_of_items T (batch_items I (b_id b)))
     \<and> (\<exists>b \<in> set (rows B). b_id b = k) \<and> \<not> approved_in B k
     \<and> list_all2 (matches T) (batch_items I k) cs"

lemma matches_totals: "list_all2 (matches T) xs cs \<Longrightarrow> totals_of_items T xs = totals_of cs"
proof -
  assume m: "list_all2 (matches T) xs cs"
  then have "length xs = length cs" by (rule list_all2_lengthD)
  moreover from m have "sum_of (item_amount T t_net) xs = sum_of pc_net cs"
    by (induction rule: list_all2_induct) (auto simp: matches_def)
  moreover from m have "sum_of (item_amount T t_gross) xs = sum_of pc_gross cs"
    by (induction rule: list_all2_induct) (auto simp: matches_def)
  moreover from m have "sum_of (item_amount T t_allowance) xs = sum_of pc_allowance cs"
    by (induction rule: list_all2_induct) (auto simp: matches_def)
  moreover from m have "sum_of (item_amount T t_deductions) xs = sum_of pc_deductions cs"
    by (induction rule: list_all2_induct) (auto simp: matches_def)
  moreover from m have "sum_of (item_amount T t_tax) xs = sum_of pc_tax cs"
    by (induction rule: list_all2_induct) (auto simp: matches_def)
  ultimately show ?thesis by (simp add: totals_of_items_def totals_of_def)
qed

lemma filling_done:
  assumes "filling k B I T cs" and "\<And>b. b \<in> set (rows B) \<Longrightarrow> b_id b = k \<Longrightarrow> totals_of_batch b = totals_of cs"
  shows "tables_ok B I T"
  using assms matches_totals unfolding filling_def tables_ok_def core_ok_def totals_ok_def by metis

lemma filling_edit:
  assumes ok: "filling k B I T cs"
    and f: "\<And>b. b_id (f b) = b_id b \<and> b_code (f b) = b_code b \<and> b_status (f b) = b_status b \<and> b_step (f b) = b_step b"
  shows "filling k (update_rows (\<lambda>b. b_id b = k) f B) I T cs"
proof -
  define B' where B': "B' = update_rows (\<lambda>b. b_id b = k) f B"
  have app: "approved_in B' j = approved_in B j" for j
    unfolding B' using f by (intro approved_in_update) simp_all
  have ex: "\<exists>b \<in> set (rows B'). b_id b = j" if "\<exists>b \<in> set (rows B). b_id b = j" for j
    using that unfolding B' by (rule ex_update_rows) (simp add: f)
  have links: "links_ok B' I T"
  proof -
    have "table_ok b_id B'" unfolding B' using ok f by (simp add: filling_def links_ok_def table_ok_update)
    moreover have "map b_code (rows B') = map b_code (rows B)"
      unfolding B' rows_update using f by (intro map_key_update) simp
    ultimately show ?thesis using ok ex unfolding filling_def links_ok_def by simp
  qed
  have states: "states_ok B' I T"
    using ok f unfolding filling_def states_ok_def app unfolding B' ball_update_rows by simp
  have "\<forall>b \<in> set (rows B'). b_id b \<noteq> k \<longrightarrow> totals_of_batch b = totals_of_items T (batch_items I (b_id b))"
    unfolding B' ball_update_rows using ok f by (simp add: filling_def)
  with links states show ?thesis using ok ex app unfolding filling_def B' [symmetric] by simp
qed

lemma filling_new:
  assumes ok: "tables_ok B I T" and mk: "\<And>n. b_id (mk n) = n \<and> b_code (mk n) = code \<and> b_status (mk n) = DRAFT \<and> b_step (mk n) = 1"
    and code: "code \<notin> b_code ` set (rows B)"
  shows "filling (next_id B) (insert_row mk B) I T []"
proof -
  have L: "links_ok B I T" and S: "states_ok B I T" and P: "people_ok I" and Tt: "totals_ok B I T"
    using ok by (simp_all add: tables_ok_def core_ok_def)
  have key: "table_ok b_id B" using L by (simp add: links_ok_def)
  have fresh: "b_id b \<noteq> next_id B" if "b \<in> set (rows B)" for b using table_ok_fresh [OF key that] .
  have app: "approved_in (insert_row mk B) j = approved_in B j" for j
    by (simp add: approved_in_def mk)
  have none: "batch_items I (next_id B) = []"
    using L fresh unfolding batch_items_def select_def links_ok_def filter_empty_conv by metis
  have links: "links_ok (insert_row mk B) I T"
    using L code mk table_ok_insert [OF key, of mk] unfolding links_ok_def by auto
  have states: "states_ok (insert_row mk B) I T"
    using S mk unfolding states_ok_def app by auto
  have new: "\<not> approved_in B (next_id B)" using fresh by (auto simp: approved_in_def)
  show ?thesis
    unfolding filling_def app using links states P Tt new none mk fresh by (auto simp: totals_ok_def)
qed

lemma item_amount_delete:
  "(\<And>t. t \<in> set (rows T) \<Longrightarrow> t_id t = i_transaction i \<Longrightarrow> \<not> q t) \<Longrightarrow> item_amount (delete_rows q T) f i = item_amount T f i"
  unfolding item_amount_def by (subst find_row_delete) auto

lemma filling_clear:
  assumes ok: "tables_ok B I T" and b: "b \<in> set (rows B)" "b_id b = k" "b_status b = DRAFT"
    and old: "old = map i_transaction (select (\<lambda>i. i_batch i = k) I)"
  shows "filling k B (delete_rows (\<lambda>i. i_batch i = k) I) (delete_rows (\<lambda>t. t_id t \<in> set old) T) []"
proof -
  define I' where I': "I' = delete_rows (\<lambda>i. i_batch i = k) I"
  define T' where T': "T' = delete_rows (\<lambda>t. t_id t \<in> set old) T"
  have L: "links_ok B I T" and S: "states_ok B I T" and P: "people_ok I" and Tt: "totals_ok B I T"
    using ok by (simp_all add: tables_ok_def core_ok_def)
  have key: "table_ok b_id B" using L by (simp add: links_ok_def)
  have inold: "i_transaction i \<in> set old \<longleftrightarrow> i_batch i = k" if i: "i \<in> set (rows I)" for i
  proof
    assume "i_transaction i \<in> set old"
    then obtain j where "j \<in> set (rows I)" "i_batch j = k" "i_transaction j = i_transaction i"
      by (auto simp: old)
    with L i show "i_batch i = k" unfolding links_ok_def distinct_map by (metis inj_onD)
  qed (use i in \<open>auto simp: old\<close>)
  have items: "batch_items I' j = (if j = k then [] else batch_items I j)" for j
    unfolding batch_items_def I' select_delete select_def filter_filter
    by (auto simp: filter_empty_conv intro!: filter_cong)
  have rI: "set (rows I') = {i \<in> set (rows I). i_batch i \<noteq> k}" unfolding I' by auto
  have rT: "set (rows T') = {t \<in> set (rows T). t_id t \<notin> set old}" unfolding T' by auto
  have amount: "item_amount T' f i = item_amount T f i" if "i \<in> set (rows I)" "i_batch i \<noteq> k" for f i
    unfolding T' using that inold by (intro item_amount_delete) auto
  have links: "links_ok B I' T'"
  proof -
    have "table_ok i_id I'" "table_ok t_id T'" unfolding I' T' using L by (simp_all add: links_ok_def table_ok_delete)
    moreover have "distinct (map i_transaction (rows I'))"
      unfolding I' using L by (simp add: links_ok_def distinct_map_filter)
    moreover have "\<exists>i \<in> set (rows I'). i_transaction i = t_id t" if t: "t \<in> set (rows T')" for t
    proof -
      obtain i where "i \<in> set (rows I)" "i_transaction i = t_id t" using L t rT unfolding links_ok_def by blast
      with inold [of i] t show ?thesis unfolding rI rT by auto
    qed
    moreover have "\<exists>t \<in> set (rows T'). t_id t = i_transaction i \<and> t_employee t = i_employee i" if i: "i \<in> set (rows I')" for i
    proof -
      obtain t where "t \<in> set (rows T)" "t_id t = i_transaction i" "t_employee t = i_employee i"
        using L i rI unfolding links_ok_def by blast
      with inold [of i] i show ?thesis unfolding rI rT by auto
    qed
    ultimately show ?thesis using L rI unfolding links_ok_def by simp
  qed
  have "people_ok I'" using P unfolding people_ok_def items by simp
  moreover have "states_ok B I' T'" using S unfolding states_ok_def rI rT by blast
  moreover have "totals_of_batch x = totals_of_items T' (batch_items I' (b_id x))"
    if x: "x \<in> set (rows B)" "b_id x \<noteq> k" for x
  proof -
    have "totals_of_items T (batch_items I (b_id x)) = totals_of_items T' (batch_items I (b_id x))"
      by (rule totals_same_items) (use amount x in \<open>auto simp: batch_items_def\<close>)
    with Tt x show ?thesis by (simp add: items totals_ok_def)
  qed
  moreover have "\<not> approved_in B k"
    unfolding approved_in_def using b table_ok_unique [OF key b(1)] by (metis batch_status.distinct(7))
  ultimately show ?thesis
    using links b unfolding filling_def I' [symmetric] T' [symmetric] items by auto
qed

lemma filling_add:
  assumes ok: "filling k B I T cs" and new: "pc_employee c \<notin> pc_employee ` set cs"
    and mi: "\<And>n. i_id (mi n) = n \<and> i_batch (mi n) = k \<and> i_employee (mi n) = pc_employee c
      \<and> i_transaction (mi n) = next_id T"
    and mt: "\<And>n. t_id (mt n) = n \<and> t_employee (mt n) = pc_employee c \<and> t_net (mt n) = pc_net c
      \<and> t_gross (mt n) = pc_gross c \<and> t_allowance (mt n) = pc_allowance c \<and> t_deductions (mt n) = pc_deductions c
      \<and> t_tax (mt n) = pc_tax c \<and> t_status (mt n) \<noteq> TX_PAID"
  shows "filling k B (insert_row mi I) (insert_row mt T) (cs @ [c])"
proof -
  define I' where I': "I' = insert_row mi I"
  define T' where T': "T' = insert_row mt T"
  have L: "links_ok B I T" and P: "people_ok I" and S: "states_ok B I T"
    and Tt: "\<And>b. b \<in> set (rows B) \<Longrightarrow> b_id b \<noteq> k \<Longrightarrow> totals_of_batch b = totals_of_items T (batch_items I (b_id b))"
    and ex: "\<exists>b \<in> set (rows B). b_id b = k" and na: "\<not> approved_in B k"
    and M: "list_all2 (matches T) (batch_items I k) cs"
    using ok by (auto simp: filling_def)
  have keyT: "table_ok t_id T" using L by (simp add: links_ok_def)
  have fresh: "t_id t \<noteq> next_id T" if "t \<in> set (rows T)" for t using table_ok_fresh [OF keyT that] .
  have old_tx: "i_transaction i \<noteq> next_id T" if "i \<in> set (rows I)" for i
    using L that fresh unfolding links_ok_def by metis
  then have new_tx: "next_id T \<notin> i_transaction ` set (rows I)" by force
  have rI: "rows I' = rows I @ [mi (next_id I)]" and rT: "rows T' = rows T @ [mt (next_id T)]"
    by (simp_all add: I' T')
  have items: "batch_items I' j = batch_items I j @ (if j = k then [mi (next_id I)] else [])" for j
    by (simp add: I' batch_items_def mi)
  have amount: "item_amount T' f i = item_amount T f i" if "i \<in> set (rows I)" for f i
  proof -
    have "find_row (\<lambda>t. t_id t = i_transaction i) T \<noteq> None"
      unfolding find_row_None using L that unfolding links_ok_def by blast
    then show ?thesis by (auto simp: item_amount_def T' find_row_insert)
  qed
  have amount_new: "item_amount T' f (mi (next_id I)) = f (mt (next_id T))" for f
  proof -
    have "find_row (\<lambda>t. t_id t = next_id T) T = None" using fresh by (simp add: find_row_None)
    then show ?thesis by (simp add: item_amount_def T' find_row_insert mi mt)
  qed
  have links: "links_ok B I' T'"
  proof -
    have "table_ok i_id I'" "table_ok t_id T'"
      unfolding I' T' using L mi mt by (simp_all add: links_ok_def table_ok_insert)
    moreover have "distinct (map i_transaction (rows I'))"
      using L new_tx by (simp add: rI mi links_ok_def)
    ultimately show ?thesis using L ex mi mt unfolding links_ok_def rI rT by auto
  qed
  have people: "people_ok I'"
  proof -
    have "map i_employee (batch_items I k) = map pc_employee cs"
      using M by (induction rule: list_all2_induct) (auto simp: matches_def)
    then have "pc_employee c \<notin> set (map i_employee (batch_items I k))" using new by simp
    then show ?thesis using P unfolding people_ok_def items by (simp add: mi)
  qed
  have states: "states_ok B I' T'"
    using S na new_tx fresh unfolding states_ok_def rI rT by (auto simp: mi mt)
  have totals: "totals_of_batch b = totals_of_items T' (batch_items I' (b_id b))"
    if b: "b \<in> set (rows B)" "b_id b \<noteq> k" for b
  proof -
    have "totals_of_items T (batch_items I (b_id b)) = totals_of_items T' (batch_items I (b_id b))"
      by (rule totals_same_items) (simp add: batch_items_def amount)
    with Tt [OF b] b show ?thesis by (simp add: items)
  qed
  have "list_all2 (matches T') (batch_items I k) cs"
    using M by (rule list.rel_mono_strong) (auto simp: matches_def amount batch_items_def)
  moreover have "matches T' (mi (next_id I)) c" by (simp add: matches_def amount_new mi mt)
  ultimately have "list_all2 (matches T') (batch_items I' k) (cs @ [c])"
    by (simp add: items list_all2_appendI)
  with links people states totals ex na show ?thesis by (simp add: filling_def I' [symmetric] T' [symmetric])
qed

text \<open>Distinct keys: updating the first match is updating every match.\<close>

lemma update_first_map:
  "distinct (map g xs) \<Longrightarrow> update_first (\<lambda>x. g x = e) f xs = map (\<lambda>x. if g x = e then f x else x) xs"
proof (induction xs)
  case (Cons x xs)
  show ?case
  proof (cases "g x = e")
    case True
    with Cons.prems have "e \<notin> g ` set xs" by auto
    then have "map (\<lambda>x. if g x = e then f x else x) xs = xs" by (intro map_idI) (metis image_eqI)
    with True show ?thesis by simp
  qed (use Cons in simp)
qed simp

lemma filling_deduct:
  assumes ok: "filling k B I T cs" and dist: "distinct (map pc_employee cs)"
    and c: "List.find (\<lambda>c. pc_employee c = e) cs = Some c"
  shows "filling k B I (update_rows (\<lambda>t. list_ex (\<lambda>i. i_transaction i = t_id t \<and> i_batch i = k \<and> i_employee i = e) (rows I))
      (\<lambda>t. t\<lparr>t_deductions := pc_deductions (deduct_calculation a c), t_net := pc_net (deduct_calculation a c)\<rparr>) T)
    (update_first (\<lambda>c. pc_employee c = e) (deduct_calculation a) cs)"
proof -
  let ?q = "\<lambda>t. list_ex (\<lambda>i. i_transaction i = t_id t \<and> i_batch i = k \<and> i_employee i = e) (rows I)"
  let ?h = "\<lambda>t. t\<lparr>t_deductions := pc_deductions (deduct_calculation a c), t_net := pc_net (deduct_calculation a c)\<rparr>"
  define T' where T': "T' = update_rows ?q ?h T"
  have L: "links_ok B I T" and P: "people_ok I" and S: "states_ok B I T"
    and Tt: "\<And>b. b \<in> set (rows B) \<Longrightarrow> b_id b \<noteq> k \<Longrightarrow> totals_of_batch b = totals_of_items T (batch_items I (b_id b))"
    and M: "list_all2 (matches T) (batch_items I k) cs"
    using ok by (auto simp: filling_def)
  have amount: "item_amount T' f i = (if i_batch i = k \<and> i_employee i = e \<and> find_row (\<lambda>t. t_id t = i_transaction i) T \<noteq> None
      then f (?h (the (find_row (\<lambda>t. t_id t = i_transaction i) T))) else item_amount T f i)" if i: "i \<in> set (rows I)" for f i
  proof -
    have q: "?q t \<longleftrightarrow> i_batch i = k \<and> i_employee i = e" if tid: "t_id t = i_transaction i" for t :: transaction
    proof
      assume "?q t"
      then obtain j where j: "j \<in> set (rows I)" "i_transaction j = i_transaction i" "i_batch j = k" "i_employee j = e"
        using tid by (auto simp: list_ex_iff)
      with L i have "j = i" unfolding links_ok_def distinct_map by (metis inj_onD)
      with j show "i_batch i = k \<and> i_employee i = e" by simp
    qed (use i tid in \<open>auto simp: list_ex_iff\<close>)
    show ?thesis
    proof (cases "find_row (\<lambda>t. t_id t = i_transaction i) T")
      case None
      then show ?thesis unfolding item_amount_def T' by (subst find_row_update) simp_all
    next
      case (Some t)
      then have "t_id t = i_transaction i" using find_row_Some by fastforce
      then have "?q t \<longleftrightarrow> i_batch i = k \<and> i_employee i = e" by (rule q)
      with Some show ?thesis unfolding item_amount_def T' by (subst find_row_update) simp_all
    qed
  qed
  let ?d = "\<lambda>x. if pc_employee x = e then deduct_calculation a x else x"
  have kept: "item_amount T' f i = item_amount T f i" if "i \<in> set (rows I)" "i_batch i \<noteq> k" for f i
    using amount [OF that(1)] that(2) by simp
  have links: "links_ok B I T'"
  proof -
    have "table_ok t_id T'" unfolding T' using L by (simp add: links_ok_def table_ok_update)
    moreover have "\<exists>t \<in> set (rows T'). t_id t = x \<and> t_employee t = y"
      if "\<exists>t \<in> set (rows T). t_id t = x \<and> t_employee t = y" for x y
      using that unfolding T' by (rule ex_update_rows) simp
    moreover have "\<forall>t \<in> set (rows T'). \<exists>i \<in> set (rows I). i_transaction i = t_id t"
      unfolding T' ball_update_rows using L by (simp add: links_ok_def)
    ultimately show ?thesis using L unfolding links_ok_def by simp
  qed
  have states: "states_ok B I T'"
    using S unfolding states_ok_def T' ball_update_rows by simp
  have totals: "totals_of_batch b = totals_of_items T' (batch_items I (b_id b))"
    if b: "b \<in> set (rows B)" "b_id b \<noteq> k" for b
  proof -
    have "totals_of_items T (batch_items I (b_id b)) = totals_of_items T' (batch_items I (b_id b))"
      by (rule totals_same_items) (use kept b in \<open>auto simp: batch_items_def\<close>)
    with Tt [OF b] show ?thesis by simp
  qed
  have "matches T' i (?d x)" if i: "i \<in> set (batch_items I k)" and x: "x \<in> set cs" and m: "matches T i x" for i x
  proof (cases "pc_employee x = e")
    case False
    then show ?thesis using m amount [of i] i by (auto simp: matches_def batch_items_def)
  next
    case True
    have "x = c" using find_SomeD [OF c] True x dist by (auto simp: distinct_map inj_on_def)
    have iI: "i \<in> set (rows I)" "i_batch i = k" "i_employee i = e" using i m True by (auto simp: batch_items_def matches_def)
    have "find_row (\<lambda>t. t_id t = i_transaction i) T \<noteq> None"
      unfolding find_row_None using L iI unfolding links_ok_def by blast
    then obtain t where t: "find_row (\<lambda>t. t_id t = i_transaction i) T = Some t" by blast
    have "item_amount T' f i = f (?h t)" for f using amount [OF iI(1)] iI t by simp
    moreover have "item_amount T f i = f t" for f using t by (simp add: item_amount_def)
    ultimately show ?thesis using m True \<open>x = c\<close> iI by (simp add: matches_def deduct_calculation_def)
  qed
  then have "list_all2 (\<lambda>i x. matches T' i (?d x)) (batch_items I k) cs"
    using M by (blast intro: list.rel_mono_strong)
  then have "list_all2 (matches T') (batch_items I k) (update_first (\<lambda>c. pc_employee c = e) (deduct_calculation a) cs)"
    by (simp add: update_first_map [OF dist] list_all2_map2)
  with ok links states totals P show ?thesis by (simp add: filling_def T' [symmetric])
qed

end
