(* ===== verification/Payroll_Machine.thy ===== *)
theory Payroll_Machine
  imports Payroll_Tables
begin

text \<open>
  The payroll operations as a state machine: what each operation does to the payroll
  tables, the invariant they all keep, the moves a batch can make, and reachability.
\<close>

section \<open>The invariant\<close>

definition payroll_ok :: "world \<Rightarrow> bool" where
  "payroll_ok w \<longleftrightarrow> tables_ok (batches w) (items w) (transactions w)
     \<and> table_ok e_id (employees w) \<and> ikimina_ok w"

definition fills :: "nat \<Rightarrow> world \<Rightarrow> payroll_calculation list \<Rightarrow> bool" where
  "fills k w cs \<longleftrightarrow> filling k (batches w) (items w) (transactions w) cs"

lemma quiet_payroll_ok: "quiet payroll_ok"
  by (simp add: quiet_def payroll_ok_def ikimina_ok_def)

lemma payroll_ok_cong: "batches v = batches w \<Longrightarrow> items v = items w \<Longrightarrow> transactions v = transactions w \<Longrightarrow>
    employees v = employees w \<Longrightarrow> memberships v = memberships w \<Longrightarrow> contributions v = contributions w \<Longrightarrow>
    payroll_ok v = payroll_ok w"
  by (simp add: payroll_ok_def ikimina_ok_def)

section \<open>createBatch\<close>

subsection \<open>The loops of the transaction\<close>

lemma people_side_add_item:
  "keeps (\<lambda>w. table_ok e_id (employees w) \<and> ikimina_ok w) (add_item en dto loc k c)"
  unfolding add_item_def set_phone_def insert_transaction_def
  by (intro keeps_rules keeps_modify keeps_update_ret)
    (simp_all add: ikimina_ok_def table_ok_update)

lemma add_item_tables:
  assumes "add_item en dto loc k c w = (Inr u, v)"
  shows "batches v = batches w
    \<and> items v = insert_row (item_row en k (pc_employee c) (next_id (transactions w))) (items w)
    \<and> transactions v = insert_row (transaction_row en dto loc c) (transactions w)"
  using assms
  by (auto simp: add_item_def set_phone_def insert_transaction_def op_success when_op_def split: option.splits if_splits)

lemma fill_loop:
  assumes "fills k w ds" and "distinct (map pc_employee (ds @ cs))"
    and "for_each cs (add_item en dto loc k) w = (Inr u, v)"
  shows "fills k v (ds @ cs) \<and> batches v = batches w"
  using assms
proof (induction cs arbitrary: ds w)
  case Nil
  then show ?case by simp
next
  case (Cons c cs)
  obtain x t where one: "add_item en dto loc k c w = (Inr x, t)"
    and rest: "for_each cs (add_item en dto loc k) t = (Inr u, v)"
    using Cons.prems(3) by (auto simp: bind_Inr)
  note tabs = add_item_tables [OF one]
  have "pc_employee c \<notin> pc_employee ` set ds" using Cons.prems(2) by auto
  then have "fills k t (ds @ [c])"
    unfolding fills_def using tabs filling_add [OF Cons.prems(1) [unfolded fills_def], of c "item_row en k (pc_employee c) (next_id (transactions w))"
        "transaction_row en dto loc c"]
    by (simp add: item_row_def transaction_row_def)
  moreover have "distinct (map pc_employee ((ds @ [c]) @ cs))" using Cons.prems(2) by simp
  ultimately have "fills k v ((ds @ [c]) @ cs) \<and> batches v = batches t" using Cons.IH rest by blast
  with tabs show ?case by simp
qed

lemma never_fails_apply_deduction [fail_rules]: "never_fails (apply_deduction k d cs)"
  unfolding apply_deduction_def Let_def by (intro fail_rules)

lemma never_fails_apply_deductions [fail_rules]: "never_fails (apply_deductions k ds cs)"
  by (induction ds arbitrary: cs) (auto intro!: fail_rules)

lemma deduct_calculation_simps [simp]:
  "pc_employee (deduct_calculation a c) = pc_employee c" "pc_gross (deduct_calculation a c) = pc_gross c"
  "pc_allowance (deduct_calculation a c) = pc_allowance c" "pc_tax (deduct_calculation a c) = pc_tax c"
  by (simp_all add: deduct_calculation_def)

lemma update_first_keeps: "(\<And>x. h (f x) = h x) \<Longrightarrow> map h (update_first p f xs) = map h xs"
  by (induction xs) auto

lemma apply_deduction_step:
  assumes "fills k w cs" and "distinct (map pc_employee cs)" and "apply_deduction k d cs w = (Inr cs', v)"
  shows "fills k v cs' \<and> batches v = batches w \<and> employees v = employees w \<and> memberships v = memberships w
    \<and> contributions v = contributions w
    \<and> map pc_employee cs' = map pc_employee cs \<and> map pc_gross cs' = map pc_gross cs
    \<and> map pc_allowance cs' = map pc_allowance cs \<and> map pc_tax cs' = map pc_tax cs"
proof (cases "List.find (\<lambda>c. pc_employee c = fst d) cs")
  case None
  with assms show ?thesis by (simp add: apply_deduction_def)
next
  case (Some c)
  then show ?thesis
    using assms(3) filling_deduct [OF assms(1) [unfolded fills_def] assms(2) Some, of "snd d"]
    by (auto simp: fills_def apply_deduction_def Let_def update_first_keeps)
qed

lemma apply_deductions_loop:
  "fills k w cs \<Longrightarrow> distinct (map pc_employee cs) \<Longrightarrow> apply_deductions k ds cs w = (Inr cs', v) \<Longrightarrow>
    fills k v cs' \<and> batches v = batches w \<and> employees v = employees w \<and> memberships v = memberships w
    \<and> contributions v = contributions w
    \<and> map pc_employee cs' = map pc_employee cs \<and> map pc_gross cs' = map pc_gross cs
    \<and> map pc_allowance cs' = map pc_allowance cs \<and> map pc_tax cs' = map pc_tax cs"
proof (induction ds arbitrary: cs w)
  case Nil
  then show ?case by simp
next
  case (Cons d ds)
  obtain xs t where one: "apply_deduction k d cs w = (Inr xs, t)" and rest: "apply_deductions k ds xs t = (Inr cs', v)"
    using Cons.prems(3) by (auto simp: bind_Inr)
  note step = apply_deduction_step [OF Cons.prems(1,2) one]
  have "fills k t xs" using step by blast
  moreover have "distinct (map pc_employee xs)" using step Cons.prems(2) by simp
  ultimately show ?case using Cons.IH [OF _ _ rest] step by simp
qed

lemma totals_of_eq:
  "length cs' = length cs \<Longrightarrow> map pc_gross cs' = map pc_gross cs \<Longrightarrow> map pc_allowance cs' = map pc_allowance cs \<Longrightarrow>
    map pc_tax cs' = map pc_tax cs \<Longrightarrow>
    totals_of cs' = (totals_of cs)\<lparr>bt_amount := sum_of pc_net cs', bt_deductions := sum_of pc_deductions cs'\<rparr>"
  by (simp add: totals_of_def sum_of_eq)

lemma adjust_for_savings_step:
  assumes fill: "fills k w cs" and dist: "distinct (map pc_employee cs)"
    and ok: "ikimina_ok w" "table_ok e_id (employees w)"
    and tot: "\<And>b. b \<in> set (rows (batches w)) \<Longrightarrow> b_id b = k \<Longrightarrow> totals_of_batch b = totals_of cs"
    and run: "adjust_for_savings en k cs w = (Inr cs', v)"
  shows "payroll_ok v"
proof -
  obtain ds c ks where ded: "deductForBatch en k (map pc_employee cs) w = (Inr ds, w\<lparr>contributions := c, cache_keys := ks\<rparr>)"
    using ledger.deduct_frame by blast
  let ?w = "w\<lparr>contributions := c, cache_keys := ks\<rparr>"
  have ik: "ikimina_ok ?w" by (rule ledger.deduct_valid [OF ok(1) ded])
  have fill': "fills k ?w cs" using fill by (simp add: fills_def)
  show ?thesis
  proof (cases "ds = []")
    case True
    then have "v = ?w" using run ded by (simp add: adjust_for_savings_def bind_def)
    with ik ok filling_done [OF fill [unfolded fills_def] tot] show ?thesis by (simp add: payroll_ok_def)
  next
    case False
    let ?f = "\<lambda>b. b\<lparr>b_total_deductions := sum_of pc_deductions cs', b_total_amount := sum_of pc_net cs'\<rparr>"
    obtain t where loop: "apply_deductions k ds cs ?w = (Inr cs', t)"
      and v: "v = t\<lparr>batches := update_rows (\<lambda>b. b_id b = k) ?f (batches t)\<rparr>"
      using run False unfolding adjust_for_savings_def bind_Inr [of "deductForBatch _ _ _"] ded
      by (auto simp: bind_Inr update_batch_def)
    note res = apply_deductions_loop [OF fill' dist loop]
    have len: "length cs' = length cs" using res map_eq_imp_length_eq by blast
    have tabs: "batches v = update_rows (\<lambda>b. b_id b = k) ?f (batches t)" "items v = items t" "transactions v = transactions t"
      "memberships v = memberships t" "contributions v = contributions t" "employees v = employees t"
      by (simp_all add: v)
    have "fills k t cs'" using res by blast
    then have "fills k v cs'" unfolding fills_def tabs by (rule filling_edit) simp
    moreover have "totals_of_batch b = totals_of cs'" if "b \<in> set (rows (batches v))" "b_id b = k" for b
    proof -
      have "\<forall>b \<in> set (rows (batches v)). b_id b = k \<longrightarrow> totals_of_batch b = totals_of cs'"
        unfolding tabs ball_update_rows
      proof (intro ballI)
        fix b assume b: "b \<in> set (rows (batches t))"
        have "totals_of_batch (?f b) = totals_of cs'" if "b_id b = k"
        proof -
          have "totals_of_batch b = totals_of cs" using tot b that res by simp
          then have "totals_of_batch (?f b) = (totals_of cs)\<lparr>bt_amount := sum_of pc_net cs', bt_deductions := sum_of pc_deductions cs'\<rparr>"
            by (simp add: totals_of_batch_def totals_of_def)
          also have "\<dots> = totals_of cs'" using totals_of_eq [OF len] res by simp
          finally show ?thesis .
        qed
        then show "if b_id b = k then b_id (?f b) = k \<longrightarrow> totals_of_batch (?f b) = totals_of cs'
            else b_id b = k \<longrightarrow> totals_of_batch b = totals_of cs'" by simp
      qed
      with that show ?thesis by blast
    qed
    ultimately have "tables_ok (batches v) (items v) (transactions v)" unfolding fills_def by (rule filling_done)
    moreover have "ikimina_ok v" "table_ok e_id (employees v)"
      using res ik ok tabs by (simp_all add: ikimina_ok_def)
    ultimately show ?thesis by (simp add: payroll_ok_def)
  qed
qed

subsection \<open>The transaction\<close>

lemma insert_batch_Inr: "insert_batch code mk w = (Inr b, v) \<Longrightarrow> code \<notin> b_code ` set (rows (batches w))
    \<and> b = mk (next_id (batches w)) \<and> v = w\<lparr>batches := insert_row mk (batches w)\<rparr>"
  by (auto simp: insert_batch_def op_success list_ex_iff)

lemma target_batch_step:
  assumes ok: "payroll_ok w" and draft: "\<And>d. draft = Some d \<Longrightarrow> d \<in> set (rows (batches w)) \<and> b_status d = DRAFT"
    and run: "target_batch en dto loc by draft bt w = (Inr b, v)"
  shows "fills (b_id b) v [] \<and> (\<forall>x \<in> set (rows (batches v)). b_id x = b_id b \<longrightarrow> totals_of_batch x = bt)
    \<and> employees v = employees w \<and> memberships v = memberships w \<and> contributions v = contributions w"
proof (cases draft)
  case None
  let ?mk = "new_draft en dto loc by bt"
  from run None have ins: "insert_batch (batch_code_for en dto) ?mk w = (Inr b, v)" by (simp add: target_batch_def)
  note new = insert_batch_Inr [OF ins]
  have tabs: "tables_ok (batches w) (items w) (transactions w)" using ok by (simp add: payroll_ok_def)
  then have key: "table_ok b_id (batches w)" by (simp add: tables_ok_def core_ok_def links_ok_def)
  have bid: "b_id b = next_id (batches w)" using new by (simp add: new_draft_def)
  have "filling (next_id (batches w)) (insert_row ?mk (batches w)) (items w) (transactions w) []"
    by (rule filling_new [OF tabs, where code = "batch_code_for en dto"]) (use new in \<open>simp_all add: new_draft_def\<close>)
  then have "fills (b_id b) v []" using new bid by (simp add: fills_def)
  moreover have "\<forall>x \<in> set (rows (batches v)). b_id x = b_id b \<longrightarrow> totals_of_batch x = bt"
    using new bid table_ok_fresh [OF key] by (auto simp: new_draft_def totals_of_batch_def)
  ultimately show ?thesis using new by simp
next
  case (Some d)
  let ?f = "\<lambda>b. (set_totals bt b)\<lparr>b_description := batch_description dto, b_submitted_at := Some (now en)\<rparr>"
  let ?old = "map i_transaction (select (\<lambda>x. i_batch x = b_id d) (items w))"
  from run Some have v: "batches v = update_rows (\<lambda>x. b_id x = b_id d) ?f (batches w)"
      "items v = delete_rows (\<lambda>x. i_batch x = b_id d) (items w)"
      "transactions v = delete_rows (\<lambda>t. t_id t \<in> set ?old) (transactions w)"
      "employees v = employees w" "memberships v = memberships w" "contributions v = contributions w"
    and b: "b_id b = b_id d"
    by (auto simp: target_batch_def Let_def clear_draft_def update_batch_def bind_assoc set_totals_def)
  have "filling (b_id d) (batches w) (items v) (transactions v) []"
    unfolding v by (rule filling_clear [OF _ _ refl _ refl]) (use ok draft Some in \<open>simp_all add: payroll_ok_def\<close>)
  then have "filling (b_id d) (batches v) (items v) (transactions v) []"
    unfolding v(1) by (rule filling_edit) (simp add: set_totals_def)
  then have "fills (b_id b) v []" by (simp add: fills_def b)
  moreover have "\<forall>x \<in> set (rows (batches v)). b_id x = b_id b \<longrightarrow> totals_of_batch x = bt"
    unfolding v(1) ball_update_rows b by (simp add: set_totals_def totals_of_batch_def)
  ultimately show ?thesis using v by simp
qed

lemma write_batch_ok:
  assumes ok: "payroll_ok w" and draft: "\<And>d. draft = Some d \<Longrightarrow> d \<in> set (rows (batches w)) \<and> b_status d = DRAFT"
    and dist: "distinct (map pc_employee cs)" and run: "write_batch en dto actor loc draft cs w = (Inr b, v)"
  shows "payroll_ok v"
proof -
  obtain x t u cs' y where target: "target_batch en dto loc (cu_id actor) draft (totals_of cs) w = (Inr x, t)"
    and fill: "for_each cs (add_item en dto loc (b_id x)) t = (Inr (), u)"
    and adj: "adjust_for_savings en (b_id x) cs u = (Inr cs', y)"
    and v: "batches v = batches y" "items v = items y" "transactions v = transactions y" "employees v = employees y"
      "memberships v = memberships y" "contributions v = contributions y"
    using run by (auto simp: write_batch_def op_success audit_payroll_def)
  note t = target_batch_step [OF ok draft target]
  have "fills (b_id x) t []" using t by blast
  then have u: "fills (b_id x) u cs" "batches u = batches t"
    using fill_loop [OF _ _ fill, of "[]"] dist by simp_all
  have "keeps (\<lambda>w. table_ok e_id (employees w) \<and> ikimina_ok w) (for_each cs (add_item en dto loc (b_id x)))"
    by (intro keeps_for_each people_side_add_item)
  from keepsD [OF this _ fill] have people: "table_ok e_id (employees u) \<and> ikimina_ok u"
    using t ok by (simp add: payroll_ok_def ikimina_ok_def)
  have "payroll_ok y"
    using adjust_for_savings_step [OF u(1) dist _ _ _ adj] people t u(2) by simp
  then show ?thesis using payroll_ok_cong [of v y] v by simp
qed

subsection \<open>The whole operation\<close>

lemma calculateEmployeePayroll_employee: "calculateEmployeePayroll en w dto e = Inr (Some c) \<Longrightarrow> pc_employee c = e_id e"
  by (auto simp: calculateEmployeePayroll_def calculation_of_def Let_def split: if_splits option.splits)

lemma calculate_all_employees:
  "calculate_all en w dto es = Inr cs \<Longrightarrow> distinct (map e_id es) \<Longrightarrow>
    distinct (map pc_employee cs) \<and> pc_employee ` set cs \<subseteq> e_id ` set es"
proof (induction es arbitrary: cs)
  case (Cons e es)
  obtain r ds where r: "calculateEmployeePayroll en w dto e = Inr r" and ds: "calculate_all en w dto es = Inr ds"
    and cs: "cs = (case r of None \<Rightarrow> ds | Some x \<Rightarrow> x # ds)"
    using Cons.prems(1) by (auto split: sum.splits)
  from Cons.IH [OF ds] Cons.prems(2)
  have "distinct (map pc_employee ds)" "pc_employee ` set ds \<subseteq> e_id ` set es" by simp_all
  then have "e_id e \<notin> pc_employee ` set ds" using Cons.prems(2) by auto
  with \<open>distinct (map pc_employee ds)\<close> \<open>pc_employee ` set ds \<subseteq> e_id ` set es\<close> r cs show ?case
    by (cases r) (auto dest: calculateEmployeePayroll_employee)
qed simp

lemma plan_batch_distinct:
  assumes "table_ok e_id (employees w)" and "plan_batch en dto loc w = Inr (draft, cs)"
  shows "distinct (map pc_employee cs) \<and> cs \<noteq> [] \<and> draft = find_draft w loc dto
    \<and> calculate_all en w dto (eligible_employees w loc dto) = Inr cs"
proof -
  have "distinct (map e_id (eligible_employees w loc dto))"
    using assms(1) by (simp add: eligible_employees_def candidate_employees_def select_def table_ok_def distinct_map_filter)
  with assms(2) show ?thesis
    by (auto simp: plan_batch_def Let_def split: if_splits sum.splits dest: calculate_all_employees)
qed

lemma find_draft_Some: "find_draft w loc dto = Some d \<Longrightarrow> d \<in> set (rows (batches w)) \<and> b_status d = DRAFT
    \<and> b_loc d = loc \<and> b_month d = bd_month dto \<and> b_year d = bd_year dto"
  by (auto simp: find_draft_def dest!: find_row_Some)

lemma keeps_clearPayrollCache: "keeps payroll_ok (clearPayrollCache en)"
  unfolding clearPayrollCache_def clear_cached_def cache_del_def
  by (intro keeps_rules keeps_modify) (simp_all add: payroll_ok_def ikimina_ok_def)

lemma payroll_ok_channels: "payroll_ok (w\<lparr>cache_keys := k, clients := c, delivered := d\<rparr>) = payroll_ok w"
  by (simp add: payroll_ok_def ikimina_ok_def)

lemma readonly_of_result [fail_rules]: "readonly (of_result r)"
  by (cases r) (simp_all add: of_result_def fail_rules)

lemma keeps_commit_batch: "keeps payroll_ok (commit_batch en dto actor loc)"
proof (rule keeps_leads)
  fix w
  assume ok: "payroll_ok w"
  show "leads payroll_ok (commit_batch en dto actor loc) w"
    unfolding commit_batch_def
  proof (intro leads_guard readonly_reads ok readonly_of_result)
    fix plan p
    assume "reads (plan_batch en dto loc) w = (Inr plan, w)" and "of_result plan w = (Inr p, w)"
    moreover obtain draft cs where p: "p = (draft, cs)" by (cases p)
    ultimately have "plan_batch en dto loc w = Inr (draft, cs)"
      by (cases plan) (simp_all add: of_result_def)
    then have plan: "distinct (map pc_employee cs)" "draft = find_draft w loc dto"
      using plan_batch_distinct ok by (auto simp: payroll_ok_def)
    have draft: "\<And>d. draft = Some d \<Longrightarrow> d \<in> set (rows (batches w)) \<and> b_status d = DRAFT"
      unfolding plan(2) using find_draft_Some by blast
    show "leads payroll_ok (case p of (draft, cs) \<Rightarrow>
       bind (atomically (write_batch en dto actor loc draft cs)) (\<lambda>batch.
       bind (clearPayrollCache en) (\<lambda>_.
       bind (when_op (b_status batch \<noteq> DRAFT)
         (bind (notifyBranchManager en loc \<lparr>no_user = None, no_sender = Some (cu_id actor),
            no_title = ''Payroll Batch Submitted'', no_message = b_code batch @ '' is awaiting manager approval.'',
            no_type = ''PAYROLL_APPROVAL_REQUEST'', no_reference = Some (b_uuid batch),
            no_metadata = JObj (batch_metadata batch ''BRANCH_MANAGER''), no_push = []\<rparr>) (\<lambda>_. ret ()))) (\<lambda>_.
       ret batch)))) w"
      unfolding p prod.case
    proof (rule leads_atomically [OF payroll_ok_channels ok])
      fix b v
      assume "write_batch en dto actor loc draft cs w = (Inr b, v)"
      with write_batch_ok [OF ok draft plan(1)] show "payroll_ok v" by blast
    qed (intro keeps_rules keeps_clearPayrollCache branch.keeps_send quiet_payroll_ok)
  qed
qed

lemma keeps_autoPause_payroll: "keeps payroll_ok (autoPauseExpiredContracts en l)"
proof -
  have one: "keeps payroll_ok (pause_one e)" for e
    unfolding pause_one_def audit_def
    by (intro keeps_rules keeps_modify) (simp_all add: payroll_ok_def ikimina_ok_def table_ok_update)
  then show ?thesis
    unfolding autoPauseExpiredContracts_def clearEmployeeCache_def clear_cached_def cache_del_def broadcast_def
    by (intro keeps_rules keeps_modify keeps_atomically) (simp_all add: payroll_ok_def ikimina_ok_def)
qed

lemma keeps_createBatch: "keeps payroll_ok (createBatch en dto actor)"
  unfolding createBatch_def
  by (intro keeps_bind keeps_commit_batch keeps_autoPause_payroll keeps_readonly fail_rules)

section \<open>The review operations\<close>

lemma readonly_findBatch [fail_rules]: "readonly (findBatchByUuid u)"
  unfolding findBatchByUuid_def by (intro fail_rules)

lemma findBatchByUuid_Inr: "findBatchByUuid u w = (Inr b, v) \<Longrightarrow> v = w \<and> b \<in> set (rows (batches w)) \<and> b_uuid b = u"
  by (auto simp: findBatchByUuid_def dest!: find_row_Some)

lemma readonly_findItem [fail_rules]: "readonly (findItemByUuidOrThrow u)"
  unfolding findItemByUuidOrThrow_def by (intro fail_rules)

lemma findItemByUuid_Inr: "findItemByUuidOrThrow u w = (Inr (i, b), v) \<Longrightarrow>
    v = w \<and> i \<in> set (rows (items w)) \<and> i_uuid i = u \<and> b \<in> set (rows (batches w)) \<and> b_id b = i_batch i"
  by (auto simp: findItemByUuidOrThrow_def op_success dest!: find_row_Some)

text \<open>What the invariant says of a row that was found.\<close>

lemma payroll_okD:
  assumes "payroll_ok w"
  shows "tables_ok (batches w) (items w) (transactions w)" "table_ok b_id (batches w)" "table_ok i_id (items w)"
    "table_ok t_id (transactions w)" "b \<in> set (rows (batches w)) \<Longrightarrow> b_step b \<in> {1, 2}"
  using assms by (auto simp: payroll_ok_def tables_ok_def core_ok_def links_ok_def states_ok_def)

lemma not_approved_in:
  "table_ok b_id B \<Longrightarrow> b \<in> set (rows B) \<Longrightarrow> b_id b = k \<Longrightarrow> b_status b \<noteq> APPROVED \<Longrightarrow> \<not> approved_in B k"
  unfolding approved_in_def by (metis table_ok_unique)

text \<open>Edits that keep the invariant.\<close>

lemma payroll_ok_batches:
  assumes ok: "payroll_ok w" and na: "\<not> approved_in (batches w) k"
    and f: "\<And>b. b_id (f b) = b_id b \<and> b_code (f b) = b_code b \<and> totals_of_batch (f b) = totals_of_batch b"
    and st: "\<And>b. b \<in> set (rows (batches w)) \<Longrightarrow> b_id b = k \<Longrightarrow> b_status (f b) \<noteq> APPROVED \<and> b_step (f b) \<in> {1, 2}
      \<and> (b_status (f b) = DRAFT \<longrightarrow> b_step (f b) = 1)"
  shows "payroll_ok (w\<lparr>batches := update_rows (\<lambda>b. b_id b = k) f (batches w)\<rparr>)"
proof -
  have "b_status b \<noteq> APPROVED" if "b \<in> set (rows (batches w))" "b_id b = k" for b
    using na that by (auto simp: approved_in_def)
  then have "tables_ok (update_rows (\<lambda>b. b_id b = k) f (batches w)) (items w) (transactions w)"
    using f st by (intro edit_batch [OF payroll_okD(1) [OF ok]]) auto
  then show ?thesis using ok by (simp add: payroll_ok_def ikimina_ok_def)
qed

lemma payroll_ok_items:
  assumes ok: "payroll_ok w"
    and g: "\<And>i. i_id (g i) = i_id i \<and> i_batch (g i) = i_batch i \<and> i_employee (g i) = i_employee i \<and> i_transaction (g i) = i_transaction i"
    and na: "\<And>i. i \<in> set (rows (items w)) \<Longrightarrow> p i \<Longrightarrow> \<not> approved_in (batches w) (i_batch i)"
  shows "payroll_ok (w\<lparr>items := update_rows p g (items w)\<rparr>)"
proof -
  have "tables_ok (batches w) (update_rows p g (items w)) (transactions w)"
    using edit_items [OF payroll_okD(1) [OF ok] g na] .
  then show ?thesis using ok by (simp add: payroll_ok_def ikimina_ok_def)
qed

lemma payroll_ok_audit [simp]: "payroll_ok (w\<lparr>audit_logs := a\<rparr>) = payroll_ok w"
  "payroll_ok (w\<lparr>batch_actions := c\<rparr>) = payroll_ok w"
  by (simp_all add: payroll_ok_def ikimina_ok_def)

lemma keeps_send_payroll [keeps_rules]: "keeps payroll_ok (create_notification en dto)" "keeps payroll_ok (notifyAdmins en dto)"
  "keeps payroll_ok (notifyBranchManager en l dto)" "keeps payroll_ok (notifyFinalApprovers en dto)"
  by (intro keeps_notify quiet_payroll_ok)+

lemma keeps_discard [keeps_rules]: "keeps I m \<Longrightarrow> keeps I (discard m)"
  unfolding discard_def by (intro keeps_rules)

lemma keeps_audit_payroll [keeps_rules]: "keeps payroll_ok (audit_payroll a e t i ty d ac ol nw ch)"
  unfolding audit_payroll_def audit_def by (intro keeps_modify) simp

lemmas payroll_keeps = keeps_rules keeps_clearPayrollCache

lemma write_attachments_ok:
  assumes ok: "payroll_ok w" and na: "\<not> approved_in (batches w) (b_id b)"
  shows "leads payroll_ok (write_attachments en b added actor) w"
  unfolding write_attachments_def Let_def update_batch_def
proof (intro leads_modify payroll_keeps)
  show "payroll_ok (w\<lparr>batches := update_rows (\<lambda>x. b_id x = b_id b) (\<lambda>x. x\<lparr>b_attachments := b_attachments b @ added\<rparr>) (batches w)\<rparr>)"
    using na ok by (intro payroll_ok_batches)
      (auto simp: totals_of_batch_def approved_in_def payroll_ok_def tables_ok_def states_ok_def)
qed

lemma keeps_addBatchAttachments: "keeps payroll_ok (addBatchAttachments en uuid files actor)"
proof (rule keeps_leads)
  fix w
  assume ok: "payroll_ok w"
  show "leads payroll_ok (addBatchAttachments en uuid files actor) w"
    unfolding addBatchAttachments_def
  proof (intro leads_atomically leads_guard fail_rules ok payroll_ok_channels payroll_keeps)
    fix b r v x
    assume find: "findBatchByUuid uuid w = (Inr b, w)"
      and st: "ensure (\<not> (b_status b = APPROVED \<or> b_status b = REJECTED))
         (BadRequest ''Completed payroll batches are read-only and cannot receive new attachments.'') w = (Inr r, w)"
      and run: "write_attachments en b (attachments_of en actor files) actor w = (Inr x, v)"
    note b = findBatchByUuid_Inr [OF find]
    have "\<not> approved_in (batches w) (b_id b)"
      using b st by (intro not_approved_in [OF payroll_okD(2) [OF ok]]) auto
    from leadsD [OF write_attachments_ok [OF ok this] run] show "payroll_ok v" .
  qed
qed

lemma keeps_submitBatch: "keeps payroll_ok (submitBatch en uuid actor)"
proof (rule keeps_leads)
  fix w
  assume ok: "payroll_ok w"
  show "leads payroll_ok (submitBatch en uuid actor) w"
    unfolding submitBatch_def Let_def
  proof ((rule leads_guard, (rule fail_rules; fail), rule ok)+)
    fix b r x y
    assume find: "findBatchByUuid uuid w = (Inr b, w)"
      and st: "ensure (b_status b \<noteq> APPROVED) (BadRequest ''Approved batches cannot be modified or resubmitted.'') w = (Inr r, w)"
    note b = findBatchByUuid_Inr [OF find]
    have na: "\<not> approved_in (batches w) (b_id b)"
      using b st by (intro not_approved_in [OF payroll_okD(2) [OF ok]]) auto
    then have upd: "payroll_ok (w\<lparr>batches := update_rows (\<lambda>x. b_id x = b_id b) (submit_row en) (batches w)\<rparr>)"
      using ok by (intro payroll_ok_batches) (auto simp: totals_of_batch_def submit_row_def)
    show "leads payroll_ok (bind (update_batch (b_id b) (submit_row en)) (\<lambda>_.
        bind (announce_submission en b (submit_row en b) x actor) (\<lambda>_.
        bind (clearPayrollCache en) (\<lambda>_. ret (submit_row en b))))) w"
      unfolding update_batch_def announce_submission_def by (intro leads_modify upd payroll_keeps)
  qed
qed

lemma recalculate_ok:
  assumes ok: "payroll_ok w" and na: "\<not> approved_in (batches w) k"
  shows "leads payroll_ok (recalculateBatchStatus k) w"
proof -
  have "payroll_ok (w\<lparr>batches := update_rows (\<lambda>b. b_id b = k) (\<lambda>b. b\<lparr>b_status := IN_REVIEW\<rparr>) (batches w)\<rparr>)"
    using na ok payroll_okD(5) [OF ok] by (intro payroll_ok_batches) (auto simp: totals_of_batch_def)
  then show ?thesis using ok by (simp add: recalculateBatchStatus_def leads_def update_batch_def)
qed

lemma update_item_ok:
  assumes ok: "payroll_ok w" and i: "i \<in> set (rows (items w))" and na: "\<not> approved_in (batches w) (i_batch i)"
    and g: "\<And>x. i_id (g x) = i_id x \<and> i_batch (g x) = i_batch x \<and> i_employee (g x) = i_employee x \<and> i_transaction (g x) = i_transaction x"
  shows "payroll_ok (w\<lparr>items := update_rows (\<lambda>x. i_id x = i_id i) g (items w)\<rparr>)"
proof (rule payroll_ok_items [OF ok g])
  fix x
  assume "x \<in> set (rows (items w))" "i_id x = i_id i"
  with i have "x = i" using table_ok_unique [OF payroll_okD(3) [OF ok]] by blast
  with na show "\<not> approved_in (batches w) (i_batch x)" by simp
qed

lemma write_item_approval_ok:
  assumes ok: "payroll_ok w" and i: "i \<in> set (rows (items w))" and na: "\<not> approved_in (batches w) (i_batch i)"
  shows "leads payroll_ok (write_item_approval en i c actor) w"
proof -
  let ?w = "w\<lparr>items := update_rows (\<lambda>x. i_id x = i_id i) (approve_item_row en actor) (items w)\<rparr>"
  have "payroll_ok ?w" using update_item_ok [OF ok i na] by (simp add: approve_item_row_def)
  then have aud: "payroll_ok (?w\<lparr>audit_logs := a\<rparr>)" for a by simp
  have "payroll_ok (snd (recalculateBatchStatus (i_batch i) (?w\<lparr>audit_logs := a\<rparr>)))" for a
    using recalculate_ok [OF aud [of a], where k = "i_batch i"] na by (simp add: leads_def)
  then show ?thesis
    by (simp add: write_item_approval_def leads_def update_item_def audit_payroll_def audit_def)
qed

text \<open>An item under review belongs to a batch that is not approved.\<close>

lemma item_under_review:
  assumes ok: "payroll_ok w" and find: "findItemByUuidOrThrow uuid w = (Inr (i, b), w)"
    and rev: "ensureBatchCanStillBeReviewed b w = (Inr u, w)"
  shows "i \<in> set (rows (items w)) \<and> \<not> approved_in (batches w) (i_batch i)"
proof -
  have "i \<in> set (rows (items w))" "b \<in> set (rows (batches w))" "b_id b = i_batch i" "b_status b \<noteq> APPROVED"
    using findItemByUuid_Inr [OF find] rev by auto
  then show ?thesis using not_approved_in [OF payroll_okD(2) [OF ok]] by blast
qed

lemma keeps_approveItem: "keeps payroll_ok (approveItem en uuid c actor)"
proof (rule keeps_leads)
  fix w
  assume ok: "payroll_ok w"
  show "leads payroll_ok (approveItem en uuid c actor) w"
    unfolding approveItem_def
  proof (intro leads_guard fail_rules ok, simp only: split_def, intro leads_atomically leads_guard fail_rules ok
      payroll_ok_channels payroll_keeps)
    fix p u x v
    assume "findItemByUuidOrThrow uuid w = (Inr p, w)" and "ensureBatchCanStillBeReviewed (snd p) w = (Inr u, w)"
      and run: "write_item_approval en (fst p) c actor w = (Inr x, v)"
    then have "fst p \<in> set (rows (items w)) \<and> \<not> approved_in (batches w) (i_batch (fst p))"
      using item_under_review [OF ok, of uuid "fst p" "snd p"] by simp
    then show "payroll_ok v" using leadsD [OF write_item_approval_ok [OF ok] run] by blast
  qed
qed

lemma write_rejection_ok:
  assumes ok: "payroll_ok w" and i: "i \<in> set (rows (items w))" and na: "\<not> approved_in (batches w) (i_batch i)"
  shows "leads payroll_ok (write_rejection en i reason actor) w"
proof -
  let ?w = "w\<lparr>items := update_rows (\<lambda>x. i_id x = i_id i) (reject_item_row en reason actor) (items w)\<rparr>"
  let ?v = "?w\<lparr>transactions := update_rows (\<lambda>t. t_id t = i_transaction i) (\<lambda>t. t\<lparr>t_status := TX_REJECTED\<rparr>) (transactions w)\<rparr>"
  have w: "payroll_ok ?w" using update_item_ok [OF ok i na] by (simp add: reject_item_row_def)
  have "t_status t \<noteq> TX_PAID" if "t \<in> set (rows (transactions w))" "t_id t = i_transaction i" for t
    using ok i na that by (auto simp: payroll_ok_def tables_ok_def states_ok_def)
  then have "tables_ok (batches ?w) (items ?w) (update_rows (\<lambda>t. t_id t = i_transaction i) (\<lambda>t. t\<lparr>t_status := TX_REJECTED\<rparr>) (transactions ?w))"
    by (intro edit_transactions [OF payroll_okD(1) [OF w]]) auto
  then have "payroll_ok ?v" using ok by (simp add: payroll_ok_def ikimina_ok_def)
  then have aud: "payroll_ok (?v\<lparr>audit_logs := a\<rparr>)" for a by simp
  have "payroll_ok (snd (recalculateBatchStatus (i_batch i) (?v\<lparr>audit_logs := a\<rparr>)))" for a
    using recalculate_ok [OF aud [of a], where k = "i_batch i"] na by (simp add: leads_def)
  then show ?thesis
    by (simp add: write_rejection_def leads_def update_item_def update_transaction_def audit_payroll_def audit_def split_def)
qed

lemma keeps_rejectItem: "keeps payroll_ok (rejectItem en uuid reason actor)"
proof (rule keeps_leads)
  fix w
  assume ok: "payroll_ok w"
  show "leads payroll_ok (rejectItem en uuid reason actor) w"
    unfolding rejectItem_def notify_item_rejection_def
  proof (intro leads_guard fail_rules ok, simp only: split_def, intro leads_atomically leads_guard fail_rules ok
      payroll_ok_channels payroll_keeps)
    fix p u x v
    assume "findItemByUuidOrThrow uuid w = (Inr p, w)" and "ensureBatchCanStillBeReviewed (snd p) w = (Inr u, w)"
      and run: "write_rejection en (fst p) reason actor w = (Inr x, v)"
    then have "fst p \<in> set (rows (items w)) \<and> \<not> approved_in (batches w) (i_batch (fst p))"
      using item_under_review [OF ok, of uuid "fst p" "snd p"] by simp
    then show "payroll_ok v" using leadsD [OF write_rejection_ok [OF ok] run] by blast
  qed
qed

subsection \<open>Splitting and approving\<close>

lemma move_item_app: "move_item n i w = (Inr (), w\<lparr>items :=
    update_rows (\<lambda>x. i_id x = i_id i) (\<lambda>x. x\<lparr>i_batch := n, i_status := PENDING\<rparr>) (items w)\<rparr>)"
  by (simp add: move_item_def update_item_def)

lemma move_items: "for_each R (move_item n) w = (Inr (), w\<lparr>items :=
    foldl (\<lambda>t k. update_rows (\<lambda>x. i_id x = k) (\<lambda>x. x\<lparr>i_batch := n, i_status := PENDING\<rparr>) t) (items w) (map i_id R)\<rparr>)"
  by (induction R arbitrary: w) (simp_all add: bind_def move_item_app)

lemma moved_table:
  assumes key: "table_ok i_id I" and R: "R = select p I"
  shows "foldl (\<lambda>t k. update_rows (\<lambda>x. i_id x = k) (\<lambda>x. x\<lparr>i_batch := n, i_status := PENDING\<rparr>) t) I (map i_id R)
    = update_rows p (\<lambda>x. x\<lparr>i_batch := n, i_status := PENDING\<rparr>) I"
proof -
  have "distinct (map i_id R)" using key by (simp add: R select_def table_ok_def distinct_map_filter)
  then have "foldl (\<lambda>t k. update_rows (\<lambda>x. i_id x = k) (\<lambda>x. x\<lparr>i_batch := n, i_status := PENDING\<rparr>) t) I (map i_id R)
      = update_rows (\<lambda>x. i_id x \<in> set (map i_id R)) (\<lambda>x. x\<lparr>i_batch := n, i_status := PENDING\<rparr>) I"
    by (intro foldl_update_rows) simp_all
  also have "\<dots> = update_rows p (\<lambda>x. x\<lparr>i_batch := n, i_status := PENDING\<rparr>) I"
  proof (rule update_rows_cong)
    fix x assume x: "x \<in> set (rows I)"
    show "(i_id x \<in> set (map i_id R)) = p x"
      using x table_ok_unique [OF key] unfolding R by auto
  qed
  finally show ?thesis .
qed

lemma split_step:
  assumes ok: "payroll_ok w" and na: "\<not> approved_in (batches w) k"
    and run: "handlePartialRejectionSplit en k actor w = (Inr u, v)"
  shows "payroll_ok v \<and> \<not> approved_in (batches v) k \<and> (\<forall>i \<in> set (batch_items (items v) k). i_status i \<noteq> REJECTED)
    \<and> (\<forall>b \<in> set (rows (batches w)). b_id b = k \<longrightarrow> (\<exists>b' \<in> set (rows (batches v)). b_id b' = k))"
proof (cases "select (\<lambda>i. i_batch i = k \<and> i_status i = REJECTED) (items w) = []")
  case True
  then have "v = w" using run by (simp add: handlePartialRejectionSplit_def)
  moreover have "\<forall>i \<in> set (batch_items (items w) k). i_status i \<noteq> REJECTED"
    using True by (auto simp: batch_items_def select_def filter_empty_conv)
  ultimately show ?thesis using ok na by auto
next
  case False
  define R where R: "R = select (\<lambda>i. i_batch i = k \<and> i_status i = REJECTED) (items w)"
  let ?bt = "totals_of_items (transactions w) R"
  obtain b where b: "find_row (\<lambda>b. b_id b = k) (batches w) = Some b"
    using run False by (cases "find_row (\<lambda>b. b_id b = k) (batches w)")
      (simp_all add: handlePartialRejectionSplit_def)
  let ?mk = "split_row en b (split_code en w b) ?bt"
  let ?B = "update_rows (\<lambda>x. b_id x = k) (subtract_totals ?bt) (insert_row ?mk (batches w))"
  let ?I = "update_rows (\<lambda>i. i_batch i = k \<and> i_status i = REJECTED)
    (\<lambda>i. i\<lparr>i_batch := next_id (batches w), i_status := PENDING\<rparr>) (items w)"
  obtain nb t where ins: "insert_batch (split_code en w b) ?mk w = (Inr nb, t)"
    and rest: "bind (for_each R (move_item (b_id nb))) (\<lambda>_.
       bind (update_batch k (subtract_totals ?bt)) (\<lambda>_.
       announce_split en b nb (split_code en w b) (length R) actor)) t = (Inr u, v)"
    using run False b by (auto simp: handlePartialRejectionSplit_def R bind_Inr)
  note new = insert_batch_Inr [OF ins]
  have nb: "b_id nb = next_id (batches w)" using new by (simp add: split_row_def)
  have t: "t = w\<lparr>batches := insert_row ?mk (batches w)\<rparr>" using new by blast
  have found: "b \<in> set (rows (batches w))" "b_id b = k" using find_row_Some [OF b] by simp_all
  have st: "b_status b \<noteq> APPROVED" using na found by (auto simp: approved_in_def)
  have fresh: "b_id x \<noteq> next_id (batches w)" if "x \<in> set (rows (batches w))" for x
    using table_ok_fresh [OF payroll_okD(2) [OF ok] that] .
  have tabs: "tables_ok ?B ?I (transactions w)"
    by (rule split_tables [OF payroll_okD(1) [OF ok] found st R, where code = "split_code en w b"])
      (use new in \<open>simp_all add: split_row_def totals_of_batch_def\<close>)
  define y where y: "y = w\<lparr>items := ?I, batches := ?B\<rparr>"
  have y_ok: "payroll_ok y" using tabs ok by (simp add: y payroll_ok_def ikimina_ok_def)
  have moved: "foldl (\<lambda>t k. update_rows (\<lambda>x. i_id x = k) (\<lambda>x. x\<lparr>i_batch := next_id (batches w), i_status := PENDING\<rparr>) t)
      (items w) (map i_id R) = ?I"
    by (rule moved_table [OF payroll_okD(3) [OF ok] R])
  have send: "announce_split en b nb (split_code en w b) (length R) actor y = (Inr u, v)"
    using rest unfolding bind_def move_items by (simp add: update_batch_def t nb moved y)
  have "keeps payroll_ok (announce_split en b nb (split_code en w b) (length R) actor)"
    unfolding announce_split_def by (intro payroll_keeps)
  from keepsD [OF this y_ok send] have "payroll_ok v" .
  moreover have same: "batches v = ?B \<and> items v = ?I"
  proof -
    have "keeps (\<lambda>x. batches x = ?B \<and> items x = ?I) (announce_split en b nb (split_code en w b) (length R) actor)"
      unfolding announce_split_def by (intro keeps_rules direct.keeps_send) (simp add: quiet_def)
    from keepsD [OF this _ send] show ?thesis by (simp add: y)
  qed
  moreover have "\<not> approved_in (batches v) k"
  proof -
    have "approved_in ?B k = approved_in (insert_row ?mk (batches w)) k"
      by (rule approved_in_update) (simp_all add: subtract_totals_def)
    also have "\<dots> = approved_in (batches w) k" by (simp add: approved_in_def split_row_def)
    finally show ?thesis using na same by simp
  qed
  moreover have "\<forall>i \<in> set (batch_items (items v) k). i_status i \<noteq> REJECTED"
  proof -
    have "\<forall>i \<in> set (rows ?I). i_batch i = k \<longrightarrow> i_status i \<noteq> REJECTED"
      unfolding ball_update_rows using fresh [OF found(1)] found(2) by simp
    then have "\<forall>i \<in> set (rows (items v)). i_batch i = k \<longrightarrow> i_status i \<noteq> REJECTED" using same by (simp only:)
    then show ?thesis by (auto simp: batch_items_def)
  qed
  moreover have "\<exists>b' \<in> set (rows (batches v)). b_id b' = k"
  proof -
    have "\<exists>b' \<in> set (rows ?B). b_id b' = k"
      by (rule ex_update_rows) (use found in \<open>auto simp: subtract_totals_def\<close>)
    then show ?thesis using same by (simp only:)
  qed
  ultimately show ?thesis by blast
qed

lemma record_action_app: "\<exists>c. record_action en b actor a m w = (Inr (), w\<lparr>batch_actions := c\<rparr>)"
  by (simp add: record_action_def) (rule exI, rule refl)

lemma write_approval_ok:
  assumes ok: "payroll_ok w" and b: "b \<in> set (rows (batches w))" and st: "b_status b \<noteq> APPROVED"
    and fin: "isFinal = is_final_step w b" and run: "write_approval en b isFinal m actor w = (Inr u, v)"
  shows "payroll_ok v"
proof -
  let ?k = "b_id b" and ?f = "approve_row en actor (b_step b) isFinal"
  have na: "\<not> approved_in (batches w) ?k" by (rule not_approved_in [OF payroll_okD(2) [OF ok] b refl st])
  have step: "b_step b \<in> {1, 2}" using payroll_okD(5) [OF ok b] .
  obtain t x where split: "handlePartialRejectionSplit en ?k actor w = (Inr (), t)"
    and pay: "when_op isFinal (pay_items en ?k actor) t = (Inr (), x)"
    and v: "batches v = update_rows (\<lambda>b. b_id b = ?k) ?f (batches x)" "items v = items x"
      "transactions v = transactions x" "employees v = employees x" "memberships v = memberships x"
      "contributions v = contributions x"
    using run by (auto simp: write_approval_def op_success record_action_def update_batch_def audit_payroll_def)
  note t = split_step [OF ok na split]
  have t_ok: "tables_ok (batches t) (items t) (transactions t)" using t by (simp add: payroll_ok_def)
  have ex: "\<exists>b \<in> set (rows (batches t)). b_id b = ?k" using t b by blast
  have "tables_ok (batches v) (items v) (transactions v)"
  proof (cases isFinal)
    case True
    let ?paid = "map i_transaction (select (\<lambda>i. i_batch i = ?k \<and> i_status i \<noteq> REJECTED) (items t))"
    have x: "batches x = batches t"
      "items x = update_rows (\<lambda>i. i_batch i = ?k \<and> i_status i \<noteq> REJECTED)
        (\<lambda>i. i\<lparr>i_status := APPROVED, i_approved_by := Some (cu_id actor), i_approved_at := Some (now en)\<rparr>) (items t)"
      "transactions x = update_rows (\<lambda>y. t_id y \<in> set ?paid)
        (\<lambda>y. y\<lparr>t_status := TX_PAID, t_approved_by := Some (cu_id actor)\<rparr>) (transactions t)"
      using pay True by (auto simp: pay_items_def)
    show ?thesis unfolding v(1-3) x
      by (rule pay_tables [OF t_ok _ _ _ _ _ _ _ _ refl ex])
        (use t True step in \<open>simp_all add: approve_row_def totals_of_batch_def\<close>)
  next
    case False
    then have one: "b_step b = 1" using fin step by (auto simp: is_final_step_def Let_def split: if_splits)
    from pay False have x: "x = t" by simp
    have "tables_ok (update_rows (\<lambda>b. b_id b = ?k) ?f (batches t)) (items t) (transactions t)"
      by (rule edit_batch [OF t_ok]) (use t False one in \<open>auto simp: approve_row_def totals_of_batch_def approved_in_def\<close>)
    then show ?thesis using v x by simp
  qed
  moreover have "employees x = employees t" "memberships x = memberships t" "contributions x = contributions t"
    using pay by (auto simp: when_op_def pay_items_def split: if_splits)
  ultimately show ?thesis using t v by (simp add: payroll_ok_def ikimina_ok_def)
qed

lemma keeps_approveBatch: "keeps payroll_ok (approveBatch en uuid m actor)"
proof (rule keeps_leads)
  fix w
  assume ok: "payroll_ok w"
  show "leads payroll_ok (approveBatch en uuid m actor) w"
    unfolding approveBatch_def announce_approval_def
  proof (intro leads_atomically leads_guard fail_rules ok payroll_ok_channels payroll_keeps)
    fix b r fin u v
    assume find: "findBatchByUuid uuid w = (Inr b, w)" and rev: "ensureBatchCanStillBeReviewed b w = (Inr r, w)"
      and fin: "reads (\<lambda>w. is_final_step w b) w = (Inr fin, w)" and run: "write_approval en b fin m actor w = (Inr u, v)"
    show "payroll_ok v"
      by (rule write_approval_ok [OF ok _ _ _ run]) (use findBatchByUuid_Inr [OF find] rev fin in auto)
  qed
qed

lemma write_batch_rejection_ok:
  assumes ok: "payroll_ok w" and b: "b \<in> set (rows (batches w))" and st: "b_status b \<noteq> APPROVED"
  shows "leads payroll_ok (write_batch_rejection en b reason actor) w"
proof -
  let ?k = "b_id b"
  have na: "\<not> approved_in (batches w) ?k" by (rule not_approved_in [OF payroll_okD(2) [OF ok] b refl st])
  have final: "payroll_ok (w\<lparr>batches := update_rows (\<lambda>b. b_id b = ?k) (terminal_row en reason actor) (batches w)\<rparr>)"
    by (rule payroll_ok_batches [OF ok na])
      (use payroll_okD(5) [OF ok] in \<open>auto simp: terminal_row_def totals_of_batch_def\<close>)
  let ?w = "w\<lparr>items := update_rows (\<lambda>i. i_batch i = ?k) (\<lambda>i. i\<lparr>i_status := PENDING, i_rejection_reason := None\<rparr>) (items w)\<rparr>"
  have "payroll_ok ?w" by (rule payroll_ok_items [OF ok]) (use na in auto)
  then have returned: "payroll_ok (?w\<lparr>batches := update_rows (\<lambda>b. b_id b = ?k) (returned_row reason) (batches ?w)\<rparr>)"
    using na by (intro payroll_ok_batches) (auto simp: returned_row_def totals_of_batch_def)
  have cong: "payroll_ok (y\<lparr>batch_actions := c, audit_logs := a\<rparr>) = payroll_ok y" for y c a by simp
  show ?thesis
  proof (cases "''SUPER_ADMIN'' \<in> set (cu_roles actor)")
    case True
    then show ?thesis
      using final by (simp add: write_batch_rejection_def leads_def record_action_def update_batch_def audit_payroll_def
          audit_def payroll_ok_def ikimina_ok_def)
  next
    case False
    then show ?thesis
      using returned by (simp add: write_batch_rejection_def leads_def record_action_def update_batch_def audit_payroll_def
          audit_def payroll_ok_def ikimina_ok_def)
  qed
qed

lemma keeps_rejectBatch: "keeps payroll_ok (rejectBatch en uuid reason actor)"
proof (rule keeps_leads)
  fix w
  assume ok: "payroll_ok w"
  show "leads payroll_ok (rejectBatch en uuid reason actor) w"
    unfolding rejectBatch_def Let_def
  proof (intro leads_atomically leads_guard fail_rules ok payroll_ok_channels payroll_keeps)
    fix b r u v
    assume find: "findBatchByUuid uuid w = (Inr b, w)" and rev: "ensureBatchCanStillBeReviewed b w = (Inr r, w)"
      and run: "write_batch_rejection en b reason actor w = (Inr u, v)"
    have "b \<in> set (rows (batches w))" "b_status b \<noteq> APPROVED"
      using findBatchByUuid_Inr [OF find] rev by auto
    from leadsD [OF write_batch_rejection_ok [OF ok this] run] show "payroll_ok v" .
  qed
qed

section \<open>Requests\<close>

text \<open>
  The requests that change payroll data, with those of the savings scheme and of the
  employee life cycle that run between them.
\<close>

datatype request =
    CreateBatch create_batch_dto
  | AddAttachments string "upload list"
  | SubmitBatch string
  | ApproveItem string "string option"
  | RejectItem string string
  | ApproveBatch string "string option"
  | RejectBatch string string
  | CreateMembership membership_dto
  | UpdateMembership string "rat option" "bool option"
  | RemoveMembership string
  | Suspend string "string option"
  | Reactivate string
  | PauseExpired "nat option"

primrec run_request :: "env \<Rightarrow> current_user \<Rightarrow> request \<Rightarrow> unit service" where
  "run_request en actor (CreateBatch dto) = discard (createBatch en dto actor)"
| "run_request en actor (AddAttachments uuid files) = discard (addBatchAttachments en uuid files actor)"
| "run_request en actor (SubmitBatch uuid) = discard (submitBatch en uuid actor)"
| "run_request en actor (ApproveItem uuid comment) = discard (approveItem en uuid comment actor)"
| "run_request en actor (RejectItem uuid reason) = discard (rejectItem en uuid reason actor)"
| "run_request en actor (ApproveBatch uuid comment) = discard (approveBatch en uuid comment actor)"
| "run_request en actor (RejectBatch uuid reason) = discard (rejectBatch en uuid reason actor)"
| "run_request en actor (CreateMembership dto) = discard (createMembership en dto actor)"
| "run_request en actor (UpdateMembership uuid amount active) = discard (updateMembership uuid amount active actor)"
| "run_request en actor (RemoveMembership uuid) = discard (removeMembership uuid actor)"
| "run_request en actor (Suspend uuid reason) = discard (suspend en uuid reason actor)"
| "run_request en actor (Reactivate uuid) = discard (reactivate en uuid actor)"
| "run_request en actor (PauseExpired loc) = discard (autoPauseExpiredContracts en loc)"

inductive payroll_step :: "world \<Rightarrow> world \<Rightarrow> bool" where
  served: "run_request en actor rq w = (r, v) \<Longrightarrow> payroll_step w v"

inductive_cases payroll_stepE: "payroll_step w v"

inductive payroll_reaches :: "world \<Rightarrow> world \<Rightarrow> bool" where
  here: "payroll_reaches w w"
| next_step: "payroll_reaches w v \<Longrightarrow> payroll_step v u \<Longrightarrow> payroll_reaches w u"

subsection \<open>The other requests keep the invariant\<close>

lemma keeps_payroll_split:
  assumes "keeps (\<lambda>w. tables_ok (batches w) (items w) (transactions w) \<and> table_ok e_id (employees w)) m"
    and "\<And>w r v. ikimina_ok w \<Longrightarrow> m w = (r, v) \<Longrightarrow> ikimina_ok v"
  shows "keeps payroll_ok m"
proof (rule keepsI)
  fix w r v
  assume "payroll_ok w" and run: "m w = (r, v)"
  then show "payroll_ok v" using keepsD [OF assms(1) _ run] assms(2) [OF _ run] by (simp add: payroll_ok_def)
qed

lemma ikimina_kept:
  assumes clean: "clean_fail m" and good: "\<And>w a v. ikimina_ok w \<Longrightarrow> m w = (Inr a, v) \<Longrightarrow> ikimina_ok v"
    and "ikimina_ok w" and "m w = (r, v)"
  shows "ikimina_ok v"
proof (cases r)
  case (Inl e)
  with assms(4) have "m w = (Inl e, v)" by simp
  from clean_failD [OF clean this] assms(3) show ?thesis by simp
qed (use assms in blast)

lemma keeps_invalidate: "(\<And>w ks. I (w\<lparr>cache_keys := ks\<rparr>) = I w) \<Longrightarrow> keeps I (invalidateMembershipCaches e)"
  unfolding invalidateMembershipCaches_def cache_del_def by (intro keeps_rules keeps_modify) simp_all

lemma keeps_toBigInt: "keeps I (toBigInt s f)"
  by (rule keeps_readonly) (rule readonly_toBigInt)

lemma keeps_createMembership: "keeps payroll_ok (createMembership en dto actor)"
proof (rule keeps_payroll_split)
  show "keeps (\<lambda>w. tables_ok (batches w) (items w) (transactions w) \<and> table_ok e_id (employees w)) (createMembership en dto actor)"
    unfolding createMembership_def Let_def audit_def
    by (intro keeps_rules keeps_toBigInt keeps_invalidate keeps_atomically keeps_modify keeps_update_ret) simp_all
qed (rule ikimina_kept [OF clean_fail_createMembership ikimina_ok_create])

lemma keeps_updateMembership: "keeps payroll_ok (updateMembership uuid a b actor)"
proof (rule keeps_payroll_split)
  show "keeps (\<lambda>w. tables_ok (batches w) (items w) (transactions w) \<and> table_ok e_id (employees w)) (updateMembership uuid a b actor)"
    unfolding updateMembership_def Let_def audit_def
    by (intro keeps_rules keeps_invalidate keeps_atomically keeps_modify keeps_update_ret) simp_all
qed (rule ikimina_kept [OF clean_fail_updateMembership ikimina_ok_update])

lemma keeps_removeMembership: "keeps payroll_ok (removeMembership uuid actor)"
proof (rule keeps_payroll_split)
  show "keeps (\<lambda>w. tables_ok (batches w) (items w) (transactions w) \<and> table_ok e_id (employees w)) (removeMembership uuid actor)"
    unfolding removeMembership_def Let_def audit_def
    by (intro keeps_rules keeps_invalidate keeps_atomically keeps_modify keeps_update_ret) simp_all
qed (rule ikimina_kept [OF clean_fail_removeMembership ikimina_ok_remove])

lemma keeps_changeStatus: "keeps payroll_ok (changeStatus en uuid st act r actor)"
  unfolding changeStatus_def audit_def clearEmployeeCache_def clear_cached_def cache_del_def broadcast_def
  by (intro keeps_rules keeps_readonly [OF readonly_findEmployee] keeps_atomically keeps_modify)
    (simp_all add: payroll_ok_def ikimina_ok_def table_ok_update)

theorem payroll_ok_request: "keeps payroll_ok (run_request en actor rq)"
  by (cases rq) (auto simp: suspend_def reactivate_def intro!: keeps_discard keeps_createBatch keeps_addBatchAttachments
      keeps_submitBatch keeps_approveItem keeps_rejectItem keeps_approveBatch keeps_rejectBatch
      keeps_createMembership keeps_updateMembership keeps_removeMembership keeps_changeStatus keeps_autoPause_payroll)

lemma payroll_ok_step: "payroll_step w v \<Longrightarrow> payroll_ok w \<Longrightarrow> payroll_ok v"
  by (elim payroll_stepE) (rule keepsD [OF payroll_ok_request])

lemma payroll_ok_reaches: "payroll_reaches w v \<Longrightarrow> payroll_ok w \<Longrightarrow> payroll_ok v"
  by (induction rule: payroll_reaches.induct) (auto intro: payroll_ok_step)

end
