(* ===== verification/Payroll_Watch.thy ===== *)
theory Payroll_Watch
  imports Payroll_Machine
begin

text \<open>
  What the payroll operations can do to the tables, as a contract: a predicate of the world
  that survives each of the elementary writes under the guard the code checks before it is
  kept by every operation.  The contract is instantiated by the batch life cycle (a batch
  only moves along an automaton), by the seal on approved batches, and by the set of
  approved batches, which only a final approval extends.
\<close>

section \<open>The life cycle of a batch\<close>

text \<open>The status and the approval step of a batch, and the moves between them.\<close>

inductive batch_move :: "batch_status \<times> nat \<Rightarrow> batch_status \<times> nat \<Rightarrow> bool" where
  submitted: "s \<in> {DRAFT, REJECTED} \<Longrightarrow> batch_move (s, n) (PENDING, 1)"
| items_decided: "s \<in> {PENDING, IN_REVIEW, MANAGER_APPROVED} \<Longrightarrow> batch_move (s, n) (IN_REVIEW, n)"
| first_approval: "s \<in> {PENDING, IN_REVIEW, MANAGER_APPROVED} \<Longrightarrow> batch_move (s, n) (MANAGER_APPROVED, n + 1)"
| final_approval: "s \<in> {PENDING, IN_REVIEW, MANAGER_APPROVED} \<Longrightarrow> batch_move (s, n) (APPROVED, n)"
| rejected_for_good: "s \<in> {PENDING, IN_REVIEW, MANAGER_APPROVED} \<Longrightarrow> batch_move (s, n) (REJECTED, n)"
| returned: "s \<in> {PENDING, IN_REVIEW, MANAGER_APPROVED} \<Longrightarrow> batch_move (s, n) (DRAFT, 1)"

inductive_simps batch_move_iff: "batch_move (s, n) (t, m)"

definition batch_state :: "batch \<Rightarrow> batch_status \<times> nat" where
  "batch_state b = (b_status b, b_step b)"

definition open_batch :: "batch table \<Rightarrow> nat \<Rightarrow> bool" where
  "open_batch B k \<longleftrightarrow> (\<exists>b \<in> set (rows B). b_id b = k \<and> b_status b \<noteq> APPROVED)"

section \<open>What a split writes\<close>

definition split_batches :: "env \<Rightarrow> world \<Rightarrow> nat \<Rightarrow> batch \<Rightarrow> batch table" where
  "split_batches en w k b = (let bt = totals_of_items (transactions w) (select (\<lambda>i. i_batch i = k \<and> i_status i = REJECTED) (items w)) in
     update_rows (\<lambda>x. b_id x = k) (subtract_totals bt) (insert_row (split_row en b (split_code en w b) bt) (batches w)))"

definition split_items :: "world \<Rightarrow> nat \<Rightarrow> batch_item table" where
  "split_items w k = update_rows (\<lambda>i. i_batch i = k \<and> i_status i = REJECTED)
     (\<lambda>i. i\<lparr>i_batch := next_id (batches w), i_status := PENDING\<rparr>) (items w)"

lemma split_effect:
  assumes key: "table_ok i_id (items w)" and run: "handlePartialRejectionSplit en k actor w = (Inr u, v)"
  shows "(select (\<lambda>i. i_batch i = k \<and> i_status i = REJECTED) (items w) = [] \<and> v = w) \<or>
    (\<exists>b \<in> set (rows (batches w)). b_id b = k \<and> select (\<lambda>i. i_batch i = k \<and> i_status i = REJECTED) (items w) \<noteq> []
      \<and> split_code en w b \<notin> b_code ` set (rows (batches w))
      \<and> batches v = split_batches en w k b \<and> items v = split_items w k \<and> transactions v = transactions w)"
proof (cases "select (\<lambda>i. i_batch i = k \<and> i_status i = REJECTED) (items w) = []")
  case True
  then show ?thesis using run by (simp add: handlePartialRejectionSplit_def)
next
  case False
  define R where R: "R = select (\<lambda>i. i_batch i = k \<and> i_status i = REJECTED) (items w)"
  let ?bt = "totals_of_items (transactions w) R"
  obtain b where b: "find_row (\<lambda>b. b_id b = k) (batches w) = Some b"
    using run False by (cases "find_row (\<lambda>b. b_id b = k) (batches w)")
      (simp_all add: handlePartialRejectionSplit_def)
  obtain nb t where ins: "insert_batch (split_code en w b) (split_row en b (split_code en w b) ?bt) w = (Inr nb, t)"
    and rest: "bind (for_each R (move_item (b_id nb))) (\<lambda>_.
       bind (update_batch k (subtract_totals ?bt)) (\<lambda>_.
       announce_split en b nb (split_code en w b) (length R) actor)) t = (Inr u, v)"
    using run False b by (auto simp: handlePartialRejectionSplit_def R bind_Inr)
  note new = insert_batch_Inr [OF ins]
  have nb: "b_id nb = next_id (batches w)" using new by (simp add: split_row_def)
  have t: "t = w\<lparr>batches := insert_row (split_row en b (split_code en w b) ?bt) (batches w)\<rparr>" using new by blast
  define y where y: "y = w\<lparr>items := split_items w k, batches := split_batches en w k b\<rparr>"
  have send: "announce_split en b nb (split_code en w b) (length R) actor y = (Inr u, v)"
    using rest moved_table [OF key R, of "next_id (batches w)"] unfolding bind_def move_items
    by (simp add: update_batch_def t nb y split_items_def split_batches_def R Let_def)
  let ?I = "\<lambda>x. batches x = split_batches en w k b \<and> items x = split_items w k \<and> transactions x = transactions w"
  have "keeps ?I (announce_split en b nb (split_code en w b) (length R) actor)"
    unfolding announce_split_def discard_def by (intro keeps_rules direct.keeps_send) (simp add: quiet_def)
  from keepsD [OF this _ send] have "?I v" by (simp add: y)
  with False new find_row_Some [OF b] show ?thesis by blast
qed

section \<open>The contract\<close>

locale payroll_watch =
  fixes J :: "world \<Rightarrow> bool"
  assumes frame: "batches v = batches w \<Longrightarrow> items v = items w \<Longrightarrow> transactions v = transactions w \<Longrightarrow> J w \<Longrightarrow> J v"
    and keys: "J w \<Longrightarrow> table_ok b_id (batches w) \<and> table_ok i_id (items w)"
    and insert_draft: "J w \<Longrightarrow> b_id (mk (next_id (batches w))) = next_id (batches w) \<Longrightarrow>
      batch_state (mk (next_id (batches w))) = (DRAFT, 1) \<Longrightarrow> J (w\<lparr>batches := insert_row mk (batches w)\<rparr>)"
    and edit: "J w \<Longrightarrow> open_batch (batches w) k \<Longrightarrow> (\<And>x. b_id (f x) = b_id x \<and> batch_state (f x) = batch_state x) \<Longrightarrow>
      J (w\<lparr>batches := update_rows (\<lambda>x. b_id x = k) f (batches w)\<rparr>)"
    and move: "J w \<Longrightarrow> b \<in> set (rows (batches w)) \<Longrightarrow> (\<And>x. b_id (f x) = b_id x) \<Longrightarrow>
      batch_move (batch_state b) (batch_state (f b)) \<Longrightarrow> b_status (f b) \<noteq> APPROVED \<Longrightarrow>
      J (w\<lparr>batches := update_rows (\<lambda>x. b_id x = b_id b) f (batches w)\<rparr>)"
    and edit_items: "J w \<Longrightarrow> (\<And>i. i \<in> set (rows (items w)) \<Longrightarrow> p i \<Longrightarrow>
        open_batch (batches w) (i_batch i) \<and> open_batch (batches w) (i_batch (g i))) \<Longrightarrow>
      (\<And>i. i_id (g i) = i_id i \<and> i_transaction (g i) = i_transaction i) \<Longrightarrow>
      J (w\<lparr>items := update_rows p g (items w)\<rparr>)"
    and edit_transactions: "J w \<Longrightarrow> (\<And>t. t \<in> set (rows (transactions w)) \<Longrightarrow> q t \<Longrightarrow>
        \<exists>i \<in> set (rows (items w)). i_transaction i = t_id t \<and> open_batch (batches w) (i_batch i)) \<Longrightarrow>
      (\<And>t. t_id (h t) = t_id t) \<Longrightarrow> J (w\<lparr>transactions := update_rows q h (transactions w)\<rparr>)"
    and add: "J w \<Longrightarrow> open_batch (batches w) k \<Longrightarrow> t_id (tr (next_id (transactions w))) = next_id (transactions w) \<Longrightarrow>
      (\<And>n. i_id (it n) = n \<and> i_batch (it n) = k \<and> i_transaction (it n) = next_id (transactions w)) \<Longrightarrow>
      J (w\<lparr>transactions := insert_row tr (transactions w), items := insert_row it (items w)\<rparr>)"
    and clear: "J w \<Longrightarrow> open_batch (batches w) k \<Longrightarrow>
      J (w\<lparr>items := delete_rows (\<lambda>x. i_batch x = k) (items w),
        transactions := delete_rows (\<lambda>t. t_id t \<in> set (map i_transaction (select (\<lambda>x. i_batch x = k) (items w)))) (transactions w)\<rparr>)"
begin

subsection \<open>Operations that leave the tables alone\<close>

lemma J_cong: "batches v = batches w \<Longrightarrow> items v = items w \<Longrightarrow> transactions v = transactions w \<Longrightarrow> J v = J w"
  using frame [of v w] frame [of w v] by metis

lemma quiet_J: "quiet J"
  unfolding quiet_def by (intro allI J_cong) simp_all

lemma J_channels: "J (w\<lparr>cache_keys := k, clients := c, delivered := d\<rparr>) = J w"
  by (rule J_cong) simp_all

lemma keeps_modify_frame:
  "(\<And>w. batches (f w) = batches w \<and> items (f w) = items w \<and> transactions (f w) = transactions w) \<Longrightarrow> keeps J (modify f)"
  by (rule keeps_modify) (metis frame)

lemma keeps_update_frame:
  "(\<And>w. batches (snd (f w)) = batches w \<and> items (snd (f w)) = items w \<and> transactions (snd (f w)) = transactions w) \<Longrightarrow>
    keeps J (update_ret f)"
  by (rule keeps_update_ret) (metis frame)

lemma keeps_clear_cache: "keeps J (clearPayrollCache en)"
  unfolding clearPayrollCache_def clear_cached_def cache_del_def
  by (intro keeps_rules keeps_modify_frame) simp_all

lemma keeps_audit: "keeps J (audit mk)" "keeps J (audit_payroll a e t i ty d ac ol nw ch)"
  unfolding audit_payroll_def audit_def by (intro keeps_modify_frame, simp)+

lemma keeps_sends: "keeps J (create_notification en dto)" "keeps J (notifyAdmins en dto)"
  "keeps J (notifyBranchManager en l dto)" "keeps J (notifyFinalApprovers en dto)"
  by (intro keeps_notify quiet_J)+

lemmas frame_rules = keeps_rules keeps_clear_cache keeps_audit keeps_sends

lemma keeps_membership_ops:
  "keeps J (createMembership en dto actor)" "keeps J (updateMembership uuid a b actor)" "keeps J (removeMembership uuid actor)"
  unfolding createMembership_def updateMembership_def removeMembership_def invalidateMembershipCaches_def cache_del_def Let_def
  by (intro frame_rules keeps_toBigInt keeps_atomically J_channels keeps_modify_frame keeps_update_frame; simp)+

lemma keeps_people_ops:
  "keeps J (changeStatus en uuid st act r actor)" "keeps J (autoPauseExpiredContracts en l)"
  unfolding changeStatus_def autoPauseExpiredContracts_def pause_one_def clearEmployeeCache_def clear_cached_def cache_del_def
    broadcast_def
  by (intro frame_rules keeps_readonly [OF readonly_findEmployee] keeps_atomically J_channels keeps_modify_frame; simp)+

subsection \<open>Found rows\<close>

lemma found_open: "b \<in> set (rows (batches w)) \<Longrightarrow> b_status b \<noteq> APPROVED \<Longrightarrow> open_batch (batches w) (b_id b)"
  by (auto simp: open_batch_def)

lemma edit_found:
  assumes "J w" and "b \<in> set (rows (batches w))" and "b_status b \<noteq> APPROVED"
    and "\<And>x. b_id (f x) = b_id x \<and> batch_state (f x) = batch_state x"
  shows "J (w\<lparr>batches := update_rows (\<lambda>x. b_id x = b_id b) f (batches w)\<rparr>)"
  by (rule edit [OF assms(1) found_open [OF assms(2,3)] assms(4)])

lemma edit_one_item:
  assumes J: "J w" and i: "i \<in> set (rows (items w))" and op: "open_batch (batches w) (i_batch i)"
    and g: "\<And>x. i_id (g x) = i_id x \<and> i_transaction (g x) = i_transaction x \<and> i_batch (g x) = i_batch x"
  shows "J (w\<lparr>items := update_rows (\<lambda>x. i_id x = i_id i) g (items w)\<rparr>)"
proof (rule edit_items [OF J])
  fix x
  assume x: "x \<in> set (rows (items w))" and id: "i_id x = i_id i"
  have "x = i" by (rule table_ok_unique [OF conjunct2 [OF keys [OF J]] x i id])
  with op g show "open_batch (batches w) (i_batch x) \<and> open_batch (batches w) (i_batch (g x))" by simp
qed (use g in simp)

subsection \<open>Attachments and submission\<close>

lemma watch_addBatchAttachments: "keeps J (addBatchAttachments en uuid files actor)"
proof (rule keeps_leads)
  fix w
  assume J: "J w"
  show "leads J (addBatchAttachments en uuid files actor) w"
    unfolding addBatchAttachments_def
  proof (intro leads_atomically leads_guard fail_rules J J_channels frame_rules)
    fix b r v x
    assume find: "findBatchByUuid uuid w = (Inr b, w)"
      and st: "ensure (\<not> (b_status b = APPROVED \<or> b_status b = REJECTED))
         (BadRequest ''Completed payroll batches are read-only and cannot receive new attachments.'') w = (Inr r, w)"
      and run: "write_attachments en b (attachments_of en actor files) actor w = (Inr x, v)"
    have "leads J (write_attachments en b (attachments_of en actor files) actor) w"
      unfolding write_attachments_def Let_def update_batch_def
      by (intro leads_modify frame_rules edit_found [OF J])
        (use findBatchByUuid_Inr [OF find] st in \<open>simp_all add: batch_state_def\<close>)
    from leadsD [OF this run] show "J v" .
  qed
qed

lemma watch_submitBatch: "keeps J (submitBatch en uuid actor)"
proof (rule keeps_leads)
  fix w
  assume J: "J w"
  show "leads J (submitBatch en uuid actor) w"
    unfolding submitBatch_def Let_def
  proof ((rule leads_guard, (rule fail_rules; fail), rule J)+)
    fix b r r' x
    assume find: "findBatchByUuid uuid w = (Inr b, w)"
      and st: "ensure (b_status b \<in> set [DRAFT, REJECTED]) (BadRequest ''Only DRAFT or REJECTED batches can be submitted.'') w = (Inr r', w)"
    have "J (w\<lparr>batches := update_rows (\<lambda>x. b_id x = b_id b) (submit_row en) (batches w)\<rparr>)"
      by (rule move [OF J])
        (use findBatchByUuid_Inr [OF find] st in \<open>auto simp: submit_row_def batch_state_def batch_move_iff\<close>)
    then show "leads J (bind (update_batch (b_id b) (submit_row en)) (\<lambda>_.
        bind (announce_submission en b (submit_row en b) x actor) (\<lambda>_.
        bind (clearPayrollCache en) (\<lambda>_. ret (submit_row en b))))) w"
      unfolding update_batch_def announce_submission_def
      by (intro leads_modify frame_rules keeps_discard)
  qed
qed

subsection \<open>Decisions on an item\<close>

lemma leads_recalculate:
  assumes J: "J w" and b: "b \<in> set (rows (batches w))" "b_status b \<in> {PENDING, IN_REVIEW, MANAGER_APPROVED}"
  shows "leads J (recalculateBatchStatus (b_id b)) w"
proof -
  have "J (w\<lparr>batches := update_rows (\<lambda>x. b_id x = b_id b) (\<lambda>b. b\<lparr>b_status := IN_REVIEW\<rparr>) (batches w)\<rparr>)"
    by (rule move [OF J b(1)]) (use b in \<open>auto simp: batch_state_def batch_move_iff\<close>)
  with J show ?thesis by (simp add: recalculateBatchStatus_def leads_def update_batch_def)
qed

lemma leads_item_approval:
  assumes J: "J w" and i: "i \<in> set (rows (items w))" and b: "b \<in> set (rows (batches w))" "b_id b = i_batch i"
    and st: "b_status b \<in> {PENDING, IN_REVIEW, MANAGER_APPROVED}"
  shows "leads J (write_item_approval en i c actor) w"
proof -
  let ?w = "w\<lparr>items := update_rows (\<lambda>x. i_id x = i_id i) (approve_item_row en actor) (items w)\<rparr>"
  have "open_batch (batches w) (i_batch i)" using found_open [OF b(1)] b st by auto
  then have "J ?w" by (intro edit_one_item [OF J i]) (simp_all add: approve_item_row_def)
  then have "J (?w\<lparr>audit_logs := a\<rparr>)" for a by (rule frame [rotated 3]) simp_all
  then have "leads J (recalculateBatchStatus (b_id b)) (?w\<lparr>audit_logs := a\<rparr>)" for a
    using b st by (intro leads_recalculate) simp_all
  then show ?thesis
    by (simp add: write_item_approval_def leads_def update_item_def audit_payroll_def audit_def b(2))
qed

lemma leads_rejection:
  assumes J: "J w" and i: "i \<in> set (rows (items w))" and b: "b \<in> set (rows (batches w))" "b_id b = i_batch i"
    and st: "b_status b \<in> {PENDING, IN_REVIEW, MANAGER_APPROVED}"
  shows "leads J (write_rejection en i reason actor) w"
proof -
  let ?w = "w\<lparr>items := update_rows (\<lambda>x. i_id x = i_id i) (reject_item_row en reason actor) (items w)\<rparr>"
  let ?v = "?w\<lparr>transactions := update_rows (\<lambda>t. t_id t = i_transaction i) (\<lambda>t. t\<lparr>t_status := TX_REJECTED\<rparr>) (transactions ?w)\<rparr>"
  have op: "open_batch (batches w) (i_batch i)" using found_open [OF b(1)] b st by auto
  then have w: "J ?w" by (intro edit_one_item [OF J i]) (simp_all add: reject_item_row_def)
  have own: "\<exists>x \<in> set (rows (update_rows (\<lambda>x. i_id x = i_id i) (reject_item_row en reason actor) (items w))). i_transaction x = i_transaction i \<and> i_batch x = i_batch i"
    by (rule ex_update_rows) (use i in \<open>auto simp: reject_item_row_def\<close>)
  have "J ?v"
    by (rule edit_transactions [OF w]) (use own op in \<open>auto simp del: rows_update\<close>)
  then have "J (?v\<lparr>audit_logs := a\<rparr>)" for a by (rule frame [rotated 3]) simp_all
  then have "leads J (recalculateBatchStatus (b_id b)) (?v\<lparr>audit_logs := a\<rparr>)" for a
    using b st by (intro leads_recalculate) simp_all
  then show ?thesis
    by (simp add: write_rejection_def leads_def update_item_def update_transaction_def audit_payroll_def audit_def split_def b(2))
qed

lemma watch_approveItem: "keeps J (approveItem en uuid c actor)"
proof (rule keeps_leads)
  fix w
  assume J: "J w"
  show "leads J (approveItem en uuid c actor) w"
    unfolding approveItem_def
  proof (intro leads_guard fail_rules J, simp only: split_def, intro leads_atomically leads_guard fail_rules J
      J_channels frame_rules)
    fix p u x v
    assume "findItemByUuidOrThrow uuid w = (Inr p, w)" and "ensureBatchCanStillBeReviewed (snd p) w = (Inr u, w)"
      and run: "write_item_approval en (fst p) c actor w = (Inr x, v)"
    then have "leads J (write_item_approval en (fst p) c actor) w"
      using findItemByUuid_Inr [of uuid w "fst p" "snd p" w] by (intro leads_item_approval [OF J, of _ "snd p"]) auto
    from leadsD [OF this run] show "J v" .
  qed
qed

lemma watch_rejectItem: "keeps J (rejectItem en uuid reason actor)"
proof (rule keeps_leads)
  fix w
  assume J: "J w"
  show "leads J (rejectItem en uuid reason actor) w"
    unfolding rejectItem_def notify_item_rejection_def
  proof (intro leads_guard fail_rules J, simp only: split_def, intro leads_atomically leads_guard fail_rules J
      J_channels frame_rules keeps_discard)
    fix p u x v
    assume "findItemByUuidOrThrow uuid w = (Inr p, w)" and "ensureBatchCanStillBeReviewed (snd p) w = (Inr u, w)"
      and run: "write_rejection en (fst p) reason actor w = (Inr x, v)"
    then have "leads J (write_rejection en (fst p) reason actor) w"
      using findItemByUuid_Inr [of uuid w "fst p" "snd p" w] by (intro leads_rejection [OF J, of _ "snd p"]) auto
    from leadsD [OF this run] show "J v" .
  qed
qed

subsection \<open>Decisions on a batch\<close>

lemma leads_batch_rejection:
  assumes J: "J w" and b: "b \<in> set (rows (batches w))" and st: "b_status b \<in> {PENDING, IN_REVIEW, MANAGER_APPROVED}"
  shows "leads J (write_batch_rejection en b reason actor) w"
proof -
  have op: "open_batch (batches w) (b_id b)" using b st by (intro found_open) auto
  have acted: "J (w\<lparr>batch_actions := c\<rparr>)" for c using J by (rule frame [rotated 3]) simp_all
  show ?thesis
  proof (cases "''SUPER_ADMIN'' \<in> set (cu_roles actor)")
    case True
    have "J (w\<lparr>batch_actions := c, batches := update_rows (\<lambda>x. b_id x = b_id b) (terminal_row en reason actor)
        (batches (w\<lparr>batch_actions := c\<rparr>))\<rparr>)" for c
      by (rule move [OF acted]) (use b st in \<open>auto simp: terminal_row_def batch_state_def batch_move_iff\<close>)
    then show ?thesis
      using True keeps_audit(2) unfolding write_batch_rejection_def record_action_def update_batch_def
      by (simp add: leads_def keeps_def bind_def [of "audit_payroll _ _ _ _ _ _ _ _ _ _"] split: prod.splits sum.splits)
        (metis snd_conv)
  next
    case False
    have its: "J (w\<lparr>batch_actions := c, items := update_rows (\<lambda>i. i_batch i = b_id b)
        (\<lambda>i. i\<lparr>i_status := PENDING, i_rejection_reason := None\<rparr>) (items (w\<lparr>batch_actions := c\<rparr>))\<rparr>)" for c
      by (rule edit_items [OF acted]) (use op in simp_all)
    have "J (w\<lparr>batch_actions := c, items := update_rows (\<lambda>i. i_batch i = b_id b)
        (\<lambda>i. i\<lparr>i_status := PENDING, i_rejection_reason := None\<rparr>) (items w),
        batches := update_rows (\<lambda>x. b_id x = b_id b) (returned_row reason) (batches w)\<rparr>)" for c
      using move [OF its [of c], where b = b and f = "returned_row reason"] b st
      by (auto simp: returned_row_def batch_state_def batch_move_iff)
    then show ?thesis
      using False keeps_audit(2) unfolding write_batch_rejection_def record_action_def update_batch_def
      by (simp add: leads_def keeps_def bind_def [of "audit_payroll _ _ _ _ _ _ _ _ _ _"] split: prod.splits sum.splits)
        (metis snd_conv)
  qed
qed

lemma watch_rejectBatch: "keeps J (rejectBatch en uuid reason actor)"
proof (rule keeps_leads)
  fix w
  assume J: "J w"
  show "leads J (rejectBatch en uuid reason actor) w"
    unfolding rejectBatch_def Let_def
  proof (intro leads_atomically leads_guard fail_rules J J_channels frame_rules keeps_discard)
    fix b r u v
    assume find: "findBatchByUuid uuid w = (Inr b, w)" and rev: "ensureBatchCanStillBeReviewed b w = (Inr r, w)"
      and run: "write_batch_rejection en b reason actor w = (Inr u, v)"
    have "leads J (write_batch_rejection en b reason actor) w"
      by (rule leads_batch_rejection [OF J]) (use findBatchByUuid_Inr [OF find] rev in auto)
    from leadsD [OF this run] show "J v" .
  qed
qed

text \<open>The state of batch \<open>k\<close> is \<open>p\<close>, in a world the contract holds of.\<close>

lemma watch_split:
  assumes J: "J w" and b: "b \<in> set (rows (batches w))" "b_status b \<noteq> APPROVED"
    and run: "handlePartialRejectionSplit en (b_id b) actor w = (Inr u, v)"
  shows "J v \<and> (\<exists>x \<in> set (rows (batches v)). b_id x = b_id b \<and> batch_state x = batch_state b)"
proof -
  let ?p = "\<lambda>i. i_batch i = b_id b \<and> i_status i = REJECTED"
  consider "v = w" | c where "c \<in> set (rows (batches w))" "b_id c = b_id b" "batches v = split_batches en w (b_id b) c"
      "items v = split_items w (b_id b)" "transactions v = transactions w"
    using split_effect [OF conjunct2 [OF keys [OF J]] run] by blast
  then show ?thesis
  proof cases
    case 1
    then show ?thesis using J b by blast
  next
    case 2
    define bt where "bt = totals_of_items (transactions w) (select ?p (items w))"
    define mk where "mk = split_row en c (split_code en w c) bt"
    have t: "J (w\<lparr>batches := insert_row mk (batches w)\<rparr>)"
      by (rule insert_draft [OF J]) (simp_all add: mk_def split_row_def batch_state_def)
    have op: "open_batch (insert_row mk (batches w)) (b_id b)" "open_batch (insert_row mk (batches w)) (next_id (batches w))"
      using b by (auto simp: open_batch_def mk_def split_row_def)
    have "J (w\<lparr>batches := insert_row mk (batches w), items := update_rows ?p
        (\<lambda>i. i\<lparr>i_batch := next_id (batches w), i_status := PENDING\<rparr>) (items (w\<lparr>batches := insert_row mk (batches w)\<rparr>))\<rparr>)"
      by (rule edit_items [OF t]) (use op in auto)
    then have "J (w\<lparr>batches := insert_row mk (batches w), items := split_items w (b_id b)\<rparr>)"
      by (simp add: split_items_def)
    from edit [OF this, of "b_id b" "subtract_totals bt"] op
    have "J (w\<lparr>items := split_items w (b_id b), batches := split_batches en w (b_id b) c\<rparr>)"
      by (simp add: split_batches_def mk_def bt_def Let_def subtract_totals_def batch_state_def)
    then have "J v" by (rule frame [rotated 3]) (use 2 in simp_all)
    moreover have "\<exists>x \<in> set (rows (batches v)). b_id x = b_id b \<and> batch_state x = batch_state b"
      unfolding 2(3) split_batches_def Let_def
      by (rule ex_update_rows) (use b in \<open>auto simp: subtract_totals_def batch_state_def\<close>)
    ultimately show ?thesis ..
  qed
qed

lemma watch_pay_items:
  assumes J: "J w" and k: "open_batch (batches w) k" and run: "pay_items en k actor w = (Inr u, v)"
  shows "J v \<and> batches v = batches w"
proof -
  let ?p = "\<lambda>i. i_batch i = k \<and> i_status i \<noteq> REJECTED"
  let ?g = "\<lambda>i. i\<lparr>i_status := APPROVED, i_approved_by := Some (cu_id actor), i_approved_at := Some (now en)\<rparr>"
  let ?h = "\<lambda>t. t\<lparr>t_status := TX_PAID, t_approved_by := Some (cu_id actor)\<rparr>"
  let ?paid = "i_transaction ` set (select ?p (items w))"
  have I: "J (w\<lparr>items := update_rows ?p ?g (items w)\<rparr>)"
    by (rule edit_items [OF J]) (use k in auto)
  have own: "\<exists>i \<in> set (rows (update_rows ?p ?g (items w))). i_transaction i = n \<and> i_batch i = k" if "n \<in> ?paid" for n
    by (rule ex_update_rows) (use that in auto)
  have "J (w\<lparr>items := update_rows ?p ?g (items w), transactions := update_rows (\<lambda>t. t_id t \<in> ?paid) ?h
      (transactions (w\<lparr>items := update_rows ?p ?g (items w)\<rparr>))\<rparr>)"
    by (rule edit_transactions [OF I]) (use own k in \<open>auto simp del: rows_update set_select\<close>)
  moreover have "v = w\<lparr>items := update_rows ?p ?g (items w), transactions := update_rows (\<lambda>t. t_id t \<in> ?paid) ?h (transactions w)\<rparr>"
    using run by (simp add: pay_items_def)
  ultimately show ?thesis by simp
qed

lemma watch_write_approval:
  assumes J: "J w" and b: "b \<in> set (rows (batches w))" "b_status b \<in> {PENDING, IN_REVIEW, MANAGER_APPROVED}"
    and finish: "\<And>w x f. isFinal \<Longrightarrow> J w \<Longrightarrow> x \<in> set (rows (batches w)) \<Longrightarrow> b_id x = b_id b \<Longrightarrow> batch_state x = batch_state b \<Longrightarrow>
      (\<And>x. b_id (f x) = b_id x) \<Longrightarrow> batch_state (f x) = (APPROVED, b_step b) \<Longrightarrow>
      J (w\<lparr>batches := update_rows (\<lambda>y. b_id y = b_id x) f (batches w)\<rparr>)"
    and run: "write_approval en b isFinal m actor w = (Inr u, v)"
  shows "J v"
proof -
  let ?f = "approve_row en actor (b_step b) isFinal"
  obtain t x where split: "handlePartialRejectionSplit en (b_id b) actor w = (Inr (), t)"
    and pay: "when_op isFinal (pay_items en (b_id b) actor) t = (Inr (), x)"
    and v: "batches v = update_rows (\<lambda>y. b_id y = b_id b) ?f (batches x)" "items v = items x" "transactions v = transactions x"
    using run by (auto simp: write_approval_def op_success record_action_def update_batch_def audit_payroll_def)
  have st: "b_status b \<noteq> APPROVED" using b(2) by auto
  obtain y where t: "J t" and y: "y \<in> set (rows (batches t))" "b_id y = b_id b" "batch_state y = batch_state b"
    using watch_split [OF J b(1) st split] by blast
  have op: "open_batch (batches t) (b_id b)"
    using found_open [OF y(1)] y(2,3) st by (simp add: batch_state_def)
  have x: "J x \<and> batches x = batches t"
  proof (cases isFinal)
    case True
    with pay have "pay_items en (b_id b) actor t = (Inr (), x)" by simp
    from watch_pay_items [OF t op this] show ?thesis .
  qed (use pay t in simp)
  have "J (x\<lparr>batches := update_rows (\<lambda>z. b_id z = b_id y) ?f (batches x)\<rparr>)"
  proof (cases isFinal)
    case True
    show ?thesis
      by (rule finish [OF True]) (use x y True in \<open>auto simp: approve_row_def batch_state_def\<close>)
  next
    case False
    show ?thesis
      by (rule move) (use x y b(2) False in \<open>auto simp: approve_row_def batch_state_def batch_move_iff\<close>)
  qed
  then show ?thesis by (rule frame [rotated 3]) (use v y in simp_all)
qed

lemma watch_first_approval:
  assumes J: "J w" and find: "findBatchByUuid uuid w = (Inr b, w)" and fin: "\<not> is_final_step w b"
  shows "leads J (approveBatch en uuid m actor) w"
  unfolding approveBatch_def announce_approval_def
proof (intro leads_atomically leads_guard fail_rules J J_channels frame_rules keeps_discard)
  fix b' r fin' u v
  assume find': "findBatchByUuid uuid w = (Inr b', w)" and rev: "ensureBatchCanStillBeReviewed b' w = (Inr r, w)"
    and fin': "reads (\<lambda>w. is_final_step w b') w = (Inr fin', w)" and run: "write_approval en b' fin' m actor w = (Inr u, v)"
  have "b' = b" "\<not> fin'" using find find' fin fin' by auto
  then show "J v"
    by (intro watch_write_approval [OF J _ _ _ run]) (use findBatchByUuid_Inr [OF find] rev in auto)
qed

subsection \<open>Creating a batch\<close>

lemma keeps_open_add_item: "keeps (\<lambda>w. J w \<and> open_batch (batches w) k) (add_item en dto loc k c)"
proof -
  have one: "keeps (\<lambda>w. J w \<and> open_batch (batches w) k)
      (bind (insert_transaction (transaction_row en dto loc c)) (\<lambda>tid.
        modify (\<lambda>w. w\<lparr>items := insert_row (item_row en k (pc_employee c) tid) (items w)\<rparr>)))"
  proof (rule keepsI)
    fix w r v
    assume J: "J w \<and> open_batch (batches w) k"
      and run: "bind (insert_transaction (transaction_row en dto loc c)) (\<lambda>tid.
        modify (\<lambda>w. w\<lparr>items := insert_row (item_row en k (pc_employee c) tid) (items w)\<rparr>)) w = (r, v)"
    then have v: "v = w\<lparr>transactions := insert_row (transaction_row en dto loc c) (transactions w),
        items := insert_row (item_row en k (pc_employee c) (next_id (transactions w))) (items w)\<rparr>"
      by (simp add: insert_transaction_def bind_update_ret)
    have "J v" unfolding v
      by (rule add [OF conjunct1 [OF J] conjunct2 [OF J]]) (simp_all add: transaction_row_def item_row_def)
    with J v show "J v \<and> open_batch (batches v) k" by simp
  qed
  have "keeps (\<lambda>w. J w \<and> open_batch (batches w) k) (modify (\<lambda>w. w\<lparr>employees := f w\<rparr>))" for f
    by (rule keeps_modify) (auto elim: frame [rotated 3])
  then show ?thesis
    unfolding add_item_def set_phone_def by (intro keeps_rules one)
qed

lemma keeps_open_deductions: "keeps (\<lambda>w. J w \<and> open_batch (batches w) k) (apply_deductions k ds cs)"
proof (induction ds arbitrary: cs)
  case (Cons d ds)
  have "keeps (\<lambda>w. J w \<and> open_batch (batches w) k) (modify (\<lambda>w. w\<lparr>transactions := update_rows (\<lambda>t. list_ex (\<lambda>i. i_transaction i = t_id t
      \<and> i_batch i = k \<and> i_employee i = fst d) (rows (items w))) (\<lambda>t. t\<lparr>t_deductions := a, t_net := n\<rparr>) (transactions w)\<rparr>))" for a n
  proof (rule keeps_modify, elim conjE, intro conjI)
    fix w
    assume J: "J w" and op: "open_batch (batches w) k"
    show "J (w\<lparr>transactions := update_rows (\<lambda>t. list_ex (\<lambda>i. i_transaction i = t_id t \<and> i_batch i = k \<and> i_employee i = fst d)
        (rows (items w))) (\<lambda>t. t\<lparr>t_deductions := a, t_net := n\<rparr>) (transactions w)\<rparr>)"
      by (rule edit_transactions [OF J]) (use op in \<open>auto simp: list_ex_iff\<close>)
  qed simp
  with Cons show ?case
    by (auto simp: apply_deduction_def Let_def intro!: keeps_rules)
qed (simp add: keeps_ret)

lemma keeps_open_savings: "keeps (\<lambda>w. J w \<and> open_batch (batches w) k) (adjust_for_savings en k cs)"
proof -
  have "keeps (\<lambda>w. J w \<and> open_batch (batches w) k) (update_batch k (\<lambda>b. b\<lparr>b_total_deductions := a, b_total_amount := n\<rparr>))" for a n
    unfolding update_batch_def
  proof (rule keeps_modify, elim conjE, intro conjI)
    fix w
    assume J: "J w" and op: "open_batch (batches w) k"
    show "J (w\<lparr>batches := update_rows (\<lambda>b. b_id b = k) (\<lambda>b. b\<lparr>b_total_deductions := a, b_total_amount := n\<rparr>) (batches w)\<rparr>)"
      by (rule edit [OF J op]) (simp add: batch_state_def)
    show "open_batch (batches (w\<lparr>batches := update_rows (\<lambda>b. b_id b = k) (\<lambda>b. b\<lparr>b_total_deductions := a, b_total_amount := n\<rparr>) (batches w)\<rparr>)) k"
      using op unfolding open_batch_def by (simp del: rows_update) (rule ex_update_rows, simp_all)
  qed
  moreover have "keeps (\<lambda>w. J w \<and> open_batch (batches w) k) (deductForBatch en k es)" for es
    by (rule ledger.keeps_deduct) (auto elim: frame [rotated 3])
  ultimately show ?thesis
    unfolding adjust_for_savings_def by (intro keeps_rules keeps_open_deductions)
qed

lemma watch_target_batch:
  assumes J: "J w" and draft: "\<And>d. draft = Some d \<Longrightarrow> d \<in> set (rows (batches w)) \<and> b_status d = DRAFT"
    and run: "target_batch en dto loc by draft bt w = (Inr b, v)"
  shows "J v \<and> open_batch (batches v) (b_id b)"
proof (cases draft)
  case None
  let ?mk = "new_draft en dto loc by bt"
  from run None have "insert_batch (batch_code_for en dto) ?mk w = (Inr b, v)" by (simp add: target_batch_def)
  note new = insert_batch_Inr [OF this]
  have "J (w\<lparr>batches := insert_row ?mk (batches w)\<rparr>)"
    by (rule insert_draft [OF J]) (simp_all add: new_draft_def batch_state_def)
  with new show ?thesis by (auto simp: open_batch_def new_draft_def)
next
  case (Some d)
  let ?f = "\<lambda>b. (set_totals bt b)\<lparr>b_description := batch_description dto, b_submitted_at := Some (now en)\<rparr>"
  have op: "open_batch (batches w) (b_id d)" using draft [OF Some] by (intro found_open) auto
  note cleared = clear [OF J op]
  have v: "v = w\<lparr>items := delete_rows (\<lambda>x. i_batch x = b_id d) (items w),
      transactions := delete_rows (\<lambda>t. t_id t \<in> set (map i_transaction (select (\<lambda>x. i_batch x = b_id d) (items w)))) (transactions w),
      batches := update_rows (\<lambda>x. b_id x = b_id d) ?f (batches w)\<rparr>" and b: "b_id b = b_id d"
    using run Some by (auto simp: target_batch_def Let_def clear_draft_def update_batch_def bind_assoc set_totals_def)
  have "J v"
    using edit [OF cleared, of "b_id d" ?f] op by (simp add: v set_totals_def batch_state_def)
  moreover have "open_batch (batches v) (b_id d)"
    using op unfolding open_batch_def v by (simp del: rows_update) (rule ex_update_rows, simp_all add: set_totals_def)
  ultimately show ?thesis by (simp add: b)
qed

lemma watch_write_batch:
  assumes J: "J w" and draft: "\<And>d. draft = Some d \<Longrightarrow> d \<in> set (rows (batches w)) \<and> b_status d = DRAFT"
    and run: "write_batch en dto actor loc draft cs w = (Inr b, v)"
  shows "J v"
proof -
  obtain x t where target: "target_batch en dto loc (cu_id actor) draft (totals_of cs) w = (Inr x, t)"
    and rest: "bind (for_each cs (add_item en dto loc (b_id x))) (\<lambda>_.
     bind (adjust_for_savings en (b_id x) cs) (\<lambda>cs'.
     bind (audit_payroll actor None ''payment_batches'' (b_id x) AT_CREATE
       (if draft \<noteq> None then ''Updated payroll batch.'' else ''Created payroll batch.'') AU_CREATED JNull
       (batch_audit_values x loc dto (totals_of cs) cs') []) (\<lambda>_.
     bind (reads (\<lambda>w. find_row (\<lambda>b. b_id b = b_id x) (batches w))) (\<lambda>saved.
     the_or (NotFound ''No payment_batches found'') saved)))) t = (Inr b, v)"
    using run unfolding write_batch_def bind_Inr [of "target_batch _ _ _ _ _ _"] by blast
  have "keeps (\<lambda>w. J w \<and> open_batch (batches w) k) (audit_payroll a e t i ty d ac ol nw ch)" for k a e t i ty d ac ol nw ch
    unfolding audit_payroll_def audit_def by (rule keeps_modify) (auto elim: frame [rotated 3])
  then have "keeps (\<lambda>w. J w \<and> open_batch (batches w) (b_id x)) (bind (for_each cs (add_item en dto loc (b_id x))) (\<lambda>_.
     bind (adjust_for_savings en (b_id x) cs) (\<lambda>cs'.
     bind (audit_payroll actor None ''payment_batches'' (b_id x) AT_CREATE
       (if draft \<noteq> None then ''Updated payroll batch.'' else ''Created payroll batch.'') AU_CREATED JNull
       (batch_audit_values x loc dto (totals_of cs) cs') []) (\<lambda>_.
     bind (reads (\<lambda>w. find_row (\<lambda>b. b_id b = b_id x) (batches w))) (\<lambda>saved.
     the_or (NotFound ''No payment_batches found'') saved)))))"
    by (intro keeps_rules keeps_open_add_item keeps_open_savings)
  from keepsD [OF this watch_target_batch [OF J draft target] rest] show ?thesis by blast
qed

lemma watch_createBatch: "keeps J (createBatch en dto actor)"
proof -
  have commit: "keeps J (commit_batch en dto actor loc)" for loc
  proof (rule keeps_leads)
    fix w
    assume J: "J w"
    show "leads J (commit_batch en dto actor loc) w"
      unfolding commit_batch_def
    proof (intro leads_guard readonly_reads J readonly_of_result)
      fix plan p
      assume "reads (plan_batch en dto loc) w = (Inr plan, w)" and "of_result plan w = (Inr p, w)"
      then have "plan_batch en dto loc w = Inr (fst p, snd p)"
        by (cases plan) (simp_all add: of_result_def)
      then have "fst p = find_draft w loc dto"
        by (auto simp: plan_batch_def Let_def split: if_splits sum.splits)
      then have draft: "\<And>d. fst p = Some d \<Longrightarrow> d \<in> set (rows (batches w)) \<and> b_status d = DRAFT"
        using find_draft_Some by metis
      show "leads J (case p of (draft, cs) \<Rightarrow>
         bind (atomically (write_batch en dto actor loc draft cs)) (\<lambda>batch.
         bind (clearPayrollCache en) (\<lambda>_.
         bind (when_op (b_status batch \<noteq> DRAFT)
           (bind (notifyBranchManager en loc \<lparr>no_user = None, no_sender = Some (cu_id actor),
              no_title = ''Payroll Batch Submitted'', no_message = b_code batch @ '' is awaiting manager approval.'',
              no_type = ''PAYROLL_APPROVAL_REQUEST'', no_reference = Some (b_uuid batch),
              no_metadata = JObj (batch_metadata batch ''BRANCH_MANAGER''), no_push = []\<rparr>) (\<lambda>_. ret ()))) (\<lambda>_.
         ret batch)))) w"
        unfolding split_def
      proof (rule leads_atomically [OF J_channels J])
        fix b v
        assume run: "write_batch en dto actor loc (fst p) (snd p) w = (Inr b, v)"
        show "J v" by (rule watch_write_batch [OF J _ run]) (rule draft)
      qed (intro frame_rules)
    qed
  qed
  show ?thesis
    unfolding createBatch_def by (intro keeps_bind commit keeps_people_ops keeps_readonly fail_rules)
qed

text \<open>Every request but a final approval.\<close>

lemma watch_other_requests:
  assumes "\<And>uuid m. rq \<noteq> ApproveBatch uuid m"
  shows "keeps J (run_request en actor rq)"
  using assms by (cases rq) (auto simp: suspend_def reactivate_def intro!: keeps_discard watch_createBatch
      watch_addBatchAttachments watch_submitBatch watch_approveItem watch_rejectItem watch_rejectBatch
      keeps_membership_ops keeps_people_ops)

end

text \<open>With a law for the final approval, the contract covers every request.\<close>

locale payroll_life = payroll_watch +
  assumes finish: "J w \<Longrightarrow> b \<in> set (rows (batches w)) \<Longrightarrow> b_status b \<in> {PENDING, IN_REVIEW, MANAGER_APPROVED} \<Longrightarrow>
      (\<And>x. b_id (f x) = b_id x) \<Longrightarrow> batch_state (f b) = (APPROVED, b_step b) \<Longrightarrow>
      J (w\<lparr>batches := update_rows (\<lambda>x. b_id x = b_id b) f (batches w)\<rparr>)"
begin

lemma watch_approveBatch: "keeps J (approveBatch en uuid m actor)"
proof (rule keeps_leads)
  fix w
  assume J: "J w"
  show "leads J (approveBatch en uuid m actor) w"
    unfolding approveBatch_def announce_approval_def
  proof (intro leads_atomically leads_guard fail_rules J J_channels frame_rules keeps_discard)
    fix b r fin u v
    assume find: "findBatchByUuid uuid w = (Inr b, w)" and rev: "ensureBatchCanStillBeReviewed b w = (Inr r, w)"
      and run: "write_approval en b fin m actor w = (Inr u, v)"
    have st: "b_status b \<in> {PENDING, IN_REVIEW, MANAGER_APPROVED}" using rev by simp
    show "J v"
    proof (rule watch_write_approval [OF J _ st _ run])
      show "b \<in> set (rows (batches w))" using findBatchByUuid_Inr [OF find] by blast
    next
      fix w x f
      assume "J w" and x: "x \<in> set (rows (batches w))" and "\<And>x. b_id (f x) = b_id x"
        and same: "batch_state x = batch_state b" and app: "batch_state (f x) = (APPROVED, b_step b)"
      then show "J (w\<lparr>batches := update_rows (\<lambda>y. b_id y = b_id x) f (batches w)\<rparr>)"
        using st by (intro finish) (simp_all add: batch_state_def)
    qed
  qed
qed

lemma watch_request: "keeps J (run_request en actor rq)"
  by (cases rq) (auto intro: keeps_discard watch_approveBatch watch_other_requests
      simp del: run_request.simps, auto intro: keeps_discard watch_approveBatch)

lemma watch_step: "payroll_step w v \<Longrightarrow> J w \<Longrightarrow> J v"
  by (elim payroll_stepE) (rule keepsD [OF watch_request])

lemma watch_reaches: "payroll_reaches w v \<Longrightarrow> J w \<Longrightarrow> J v"
  by (induction rule: payroll_reaches.induct) (auto intro: watch_step)

end

section \<open>Batches move along the automaton\<close>

definition lifeline :: "nat \<Rightarrow> batch_status \<times> nat \<Rightarrow> world \<Rightarrow> bool" where
  "lifeline k p w \<longleftrightarrow> table_ok b_id (batches w) \<and> table_ok i_id (items w) \<and> k < next_id (batches w)
     \<and> (\<exists>b \<in> set (rows (batches w)). b_id b = k \<and> batch_move\<^sup>*\<^sup>* p (batch_state b))"

lemma lifeline_edit:
  assumes life: "lifeline k p w" and id: "\<And>x. b_id (f x) = b_id x"
    and st: "\<And>x. x \<in> set (rows (batches w)) \<Longrightarrow> b_id x = j \<Longrightarrow> batch_move\<^sup>*\<^sup>* (batch_state x) (batch_state (f x))"
  shows "lifeline k p (w\<lparr>batches := update_rows (\<lambda>x. b_id x = j) f (batches w)\<rparr>)"
proof -
  obtain b where b: "b \<in> set (rows (batches w))" "b_id b = k" "batch_move\<^sup>*\<^sup>* p (batch_state b)"
    using life by (auto simp: lifeline_def)
  let ?b = "if b_id b = j then f b else b"
  have "?b \<in> set (rows (update_rows (\<lambda>x. b_id x = j) f (batches w)))" using b(1) by auto
  moreover have "b_id ?b = k" using b id by simp
  moreover have "batch_move\<^sup>*\<^sup>* p (batch_state ?b)" using b st by (auto intro: rtranclp_trans)
  ultimately have "\<exists>x \<in> set (rows (update_rows (\<lambda>x. b_id x = j) f (batches w))). b_id x = k \<and> batch_move\<^sup>*\<^sup>* p (batch_state x)"
    by blast
  then show ?thesis using life id by (simp add: lifeline_def table_ok_update del: rows_update)
qed

interpretation life: payroll_life "lifeline k p" for k p
proof unfold_locales
  show "lifeline k p (w\<lparr>batches := insert_row mk (batches w)\<rparr>)"
    if "lifeline k p w" "b_id (mk (next_id (batches w))) = next_id (batches w)"
      "batch_state (mk (next_id (batches w))) = (DRAFT, 1)" for w mk
    using that by (auto simp: lifeline_def table_ok_insert)
  show "lifeline k p (w\<lparr>batches := update_rows (\<lambda>x. b_id x = j) f (batches w)\<rparr>)"
    if "lifeline k p w" "open_batch (batches w) j" "\<And>x. b_id (f x) = b_id x \<and> batch_state (f x) = batch_state x" for w j f
    by (rule lifeline_edit [OF that(1)]) (use that(3) in simp_all)
  have step: "lifeline k p (w\<lparr>batches := update_rows (\<lambda>x. b_id x = b_id b) f (batches w)\<rparr>)"
    if "lifeline k p w" "b \<in> set (rows (batches w))" "\<And>x. b_id (f x) = b_id x"
      "batch_move (batch_state b) (batch_state (f b))" for w b f
  proof (rule lifeline_edit [OF that(1,3)])
    fix x assume "x \<in> set (rows (batches w))" "b_id x = b_id b"
    then have "x = b" using table_ok_unique that(1,2) unfolding lifeline_def by metis
    with that(4) show "batch_move\<^sup>*\<^sup>* (batch_state x) (batch_state (f x))" by simp
  qed
  show "lifeline k p (w\<lparr>batches := update_rows (\<lambda>x. b_id x = b_id b) f (batches w)\<rparr>)"
    if "lifeline k p w" "b \<in> set (rows (batches w))" "\<And>x. b_id (f x) = b_id x"
      "batch_move (batch_state b) (batch_state (f b))" "b_status (f b) \<noteq> APPROVED" for w b f
    using that by (intro step)
  show "lifeline k p (w\<lparr>batches := update_rows (\<lambda>x. b_id x = b_id b) f (batches w)\<rparr>)"
    if "lifeline k p w" "b \<in> set (rows (batches w))" "b_status b \<in> {PENDING, IN_REVIEW, MANAGER_APPROVED}"
      "\<And>x. b_id (f x) = b_id x" "batch_state (f b) = (APPROVED, b_step b)" for w b f
    using that by (intro step) (auto simp: batch_state_def batch_move_iff)
qed (auto simp: lifeline_def table_ok_update table_ok_insert table_ok_delete)

lemma batch_follows_automaton:
  assumes run: "payroll_reaches w v" and ok: "payroll_ok w" and b: "b \<in> set (rows (batches w))"
  shows "\<exists>b' \<in> set (rows (batches v)). b_id b' = b_id b \<and> batch_move\<^sup>*\<^sup>* (batch_state b) (batch_state b')"
proof -
  have "b_id b < next_id (batches w)" using payroll_okD(2) [OF ok] b by (auto simp: table_ok_def)
  then have "lifeline (b_id b) (batch_state b) w" using payroll_okD [OF ok] b by (auto simp: lifeline_def)
  from life.watch_reaches [OF run this] show ?thesis by (simp add: lifeline_def)
qed

text \<open>New batches are drafts at their first step, so every batch of a reachable world is on the automaton.\<close>

definition descends :: "batch set \<Rightarrow> nat \<Rightarrow> batch_status \<times> nat \<Rightarrow> bool" where
  "descends B0 k s \<longleftrightarrow> batch_move\<^sup>*\<^sup>* (DRAFT, 1) s \<or> (\<exists>b0 \<in> B0. b_id b0 = k \<and> batch_move\<^sup>*\<^sup>* (batch_state b0) s)"

definition all_born :: "batch set \<Rightarrow> world \<Rightarrow> bool" where
  "all_born B0 w \<longleftrightarrow> table_ok b_id (batches w) \<and> table_ok i_id (items w)
     \<and> (\<forall>b \<in> set (rows (batches w)). descends B0 (b_id b) (batch_state b))"

lemma descends_step: "descends B0 k s \<Longrightarrow> batch_move\<^sup>*\<^sup>* s t \<Longrightarrow> descends B0 k t"
  unfolding descends_def by (meson rtranclp_trans)

lemma all_born_edit:
  assumes born: "all_born B0 w" and id: "\<And>x. b_id (f x) = b_id x"
    and st: "\<And>x. x \<in> set (rows (batches w)) \<Longrightarrow> b_id x = j \<Longrightarrow> batch_move\<^sup>*\<^sup>* (batch_state x) (batch_state (f x))"
  shows "all_born B0 (w\<lparr>batches := update_rows (\<lambda>x. b_id x = j) f (batches w)\<rparr>)"
proof -
  have "\<forall>b \<in> set (rows (update_rows (\<lambda>x. b_id x = j) f (batches w))). descends B0 (b_id b) (batch_state b)"
    unfolding ball_update_rows using born st id by (auto simp: all_born_def intro: descends_step)
  then show ?thesis using born id by (simp add: all_born_def table_ok_update del: rows_update)
qed

interpretation born: payroll_life "all_born B0" for B0
proof unfold_locales
  show "all_born B0 (w\<lparr>batches := insert_row mk (batches w)\<rparr>)"
    if "all_born B0 w" "b_id (mk (next_id (batches w))) = next_id (batches w)"
      "batch_state (mk (next_id (batches w))) = (DRAFT, 1)" for w mk
    using that by (auto simp: all_born_def table_ok_insert descends_def)
  show "all_born B0 (w\<lparr>batches := update_rows (\<lambda>x. b_id x = j) f (batches w)\<rparr>)"
    if "all_born B0 w" "open_batch (batches w) j" "\<And>x. b_id (f x) = b_id x \<and> batch_state (f x) = batch_state x" for w j f
    by (rule all_born_edit [OF that(1)]) (use that(3) in simp_all)
  have step: "all_born B0 (w\<lparr>batches := update_rows (\<lambda>x. b_id x = b_id b) f (batches w)\<rparr>)"
    if "all_born B0 w" "b \<in> set (rows (batches w))" "\<And>x. b_id (f x) = b_id x"
      "batch_move (batch_state b) (batch_state (f b))" for w b f
  proof (rule all_born_edit [OF that(1,3)])
    fix x assume "x \<in> set (rows (batches w))" "b_id x = b_id b"
    then have "x = b" using table_ok_unique that(1,2) unfolding all_born_def by metis
    with that(4) show "batch_move\<^sup>*\<^sup>* (batch_state x) (batch_state (f x))" by simp
  qed
  show "all_born B0 (w\<lparr>batches := update_rows (\<lambda>x. b_id x = b_id b) f (batches w)\<rparr>)"
    if "all_born B0 w" "b \<in> set (rows (batches w))" "\<And>x. b_id (f x) = b_id x"
      "batch_move (batch_state b) (batch_state (f b))" "b_status (f b) \<noteq> APPROVED" for w b f
    using that by (intro step)
  show "all_born B0 (w\<lparr>batches := update_rows (\<lambda>x. b_id x = b_id b) f (batches w)\<rparr>)"
    if "all_born B0 w" "b \<in> set (rows (batches w))" "b_status b \<in> {PENDING, IN_REVIEW, MANAGER_APPROVED}"
      "\<And>x. b_id (f x) = b_id x" "batch_state (f b) = (APPROVED, b_step b)" for w b f
    using that by (intro step) (auto simp: batch_state_def batch_move_iff)
qed (auto simp: all_born_def table_ok_update table_ok_insert table_ok_delete)

lemma batch_came_from:
  assumes run: "payroll_reaches w v" and ok: "payroll_ok w" and b: "b \<in> set (rows (batches v))"
  shows "batch_move\<^sup>*\<^sup>* (DRAFT, 1) (batch_state b)
    \<or> (\<exists>b0 \<in> set (rows (batches w)). b_id b0 = b_id b \<and> batch_move\<^sup>*\<^sup>* (batch_state b0) (batch_state b))"
proof -
  have "all_born (set (rows (batches w))) w" using payroll_okD [OF ok] by (auto simp: all_born_def descends_def)
  from born.watch_reaches [OF run this] b show ?thesis by (auto simp: all_born_def descends_def)
qed

section \<open>An approved batch is sealed\<close>

text \<open>
  The batch, its items and their transactions stay as they are.  The other conditions make
  the predicate self-contained: the batch has its id to itself, and so do its transactions.
\<close>

definition sealed :: "batch \<Rightarrow> batch_item list \<Rightarrow> transaction list \<Rightarrow> world \<Rightarrow> bool" where
  "sealed b its ts w \<longleftrightarrow> b_status b = APPROVED \<and> b \<in> set (rows (batches w))
     \<and> batch_items (items w) (b_id b) = its
     \<and> select (\<lambda>t. t_id t \<in> i_transaction ` set its) (transactions w) = ts
     \<and> table_ok b_id (batches w) \<and> table_ok i_id (items w)
     \<and> (\<forall>i \<in> set its. i_transaction i < next_id (transactions w))
     \<and> (\<forall>i \<in> set (rows (items w)). i_batch i \<noteq> b_id b \<longrightarrow> i_transaction i \<notin> i_transaction ` set its)"

lemma sealed_open: "sealed b its ts w \<Longrightarrow> open_batch (batches w) k \<Longrightarrow> k \<noteq> b_id b"
  unfolding sealed_def open_batch_def by (metis table_ok_unique)

lemma sealed_batches:
  assumes "sealed b its ts w" and "j \<noteq> b_id b" and "\<And>x. b_id (f x) = b_id x"
  shows "sealed b its ts (w\<lparr>batches := update_rows (\<lambda>x. b_id x = j) f (batches w)\<rparr>)"
  using assms by (auto simp: sealed_def table_ok_update intro!: rev_image_eqI)

lemma select_update_outside:
  assumes "\<And>r. r \<in> set (rows t) \<Longrightarrow> q r \<Longrightarrow> \<not> p r \<and> \<not> p (f r)"
  shows "select p (update_rows q f t) = select p t"
proof -
  have "(\<And>r. r \<in> set xs \<Longrightarrow> q r \<Longrightarrow> \<not> p r \<and> \<not> p (f r)) \<Longrightarrow>
      filter p (map (\<lambda>r. if q r then f r else r) xs) = filter p xs" for xs
    by (induction xs) auto
  then show ?thesis using assms by (simp add: select_def)
qed

interpretation seal: payroll_life "sealed b its ts" for b its ts
proof unfold_locales
  show "sealed b its ts (w\<lparr>batches := update_rows (\<lambda>x. b_id x = j) f (batches w)\<rparr>)"
    if "sealed b its ts w" "open_batch (batches w) j" "\<And>x. b_id (f x) = b_id x \<and> batch_state (f x) = batch_state x" for w j f
    using that sealed_open [OF that(1,2)] by (intro sealed_batches) simp_all
  have step: "sealed b its ts (w\<lparr>batches := update_rows (\<lambda>x. b_id x = b_id c) f (batches w)\<rparr>)"
    if s: "sealed b its ts w" and c: "c \<in> set (rows (batches w))" "b_status c \<noteq> APPROVED" and f: "\<And>x. b_id (f x) = b_id x" for w c f
  proof (rule sealed_batches [OF s _ f])
    show "b_id c \<noteq> b_id b" using sealed_open [OF s] c by (auto simp: open_batch_def)
  qed
  show "sealed b its ts (w\<lparr>batches := update_rows (\<lambda>x. b_id x = b_id c) f (batches w)\<rparr>)"
    if "sealed b its ts w" "c \<in> set (rows (batches w))" "\<And>x. b_id (f x) = b_id x"
      "batch_move (batch_state c) (batch_state (f c))" "b_status (f c) \<noteq> APPROVED" for w c f
    using that by (intro step) (auto simp: batch_state_def batch_move_iff)
  show "sealed b its ts (w\<lparr>batches := update_rows (\<lambda>x. b_id x = b_id c) f (batches w)\<rparr>)"
    if "sealed b its ts w" "c \<in> set (rows (batches w))" "b_status c \<in> {PENDING, IN_REVIEW, MANAGER_APPROVED}"
      "\<And>x. b_id (f x) = b_id x" "batch_state (f c) = (APPROVED, b_step c)" for w c f
    using that by (intro step) auto
  show "sealed b its ts (w\<lparr>items := update_rows p g (items w)\<rparr>)"
    if s: "sealed b its ts w" and p: "\<And>i. i \<in> set (rows (items w)) \<Longrightarrow> p i \<Longrightarrow>
        open_batch (batches w) (i_batch i) \<and> open_batch (batches w) (i_batch (g i))"
      and g: "\<And>i. i_id (g i) = i_id i \<and> i_transaction (g i) = i_transaction i" for w p g
  proof -
    have out: "i_batch i \<noteq> b_id b \<and> i_batch (g i) \<noteq> b_id b" if "i \<in> set (rows (items w))" "p i" for i
      using p [OF that] sealed_open [OF s] by blast
    have "batch_items (update_rows p g (items w)) (b_id b) = batch_items (items w) (b_id b)"
      unfolding batch_items_def by (rule select_update_outside) (use out in blast)
    moreover have "\<forall>i \<in> set (rows (update_rows p g (items w))). i_batch i \<noteq> b_id b \<longrightarrow> i_transaction i \<notin> i_transaction ` set its"
      unfolding ball_update_rows using s out g by (simp add: sealed_def)
    ultimately show ?thesis using s g by (simp add: sealed_def table_ok_update del: rows_update)
  qed
  show "sealed b its ts (w\<lparr>transactions := update_rows q h (transactions w)\<rparr>)"
    if s: "sealed b its ts w" and q: "\<And>t. t \<in> set (rows (transactions w)) \<Longrightarrow> q t \<Longrightarrow>
        \<exists>i \<in> set (rows (items w)). i_transaction i = t_id t \<and> open_batch (batches w) (i_batch i)"
      and h: "\<And>t. t_id (h t) = t_id t" for w q h
  proof -
    have "t_id t \<notin> i_transaction ` set its" if "t \<in> set (rows (transactions w))" "q t" for t
      using q [OF that] sealed_open [OF s] s unfolding sealed_def by metis
    then have "select (\<lambda>t. t_id t \<in> i_transaction ` set its) (update_rows q h (transactions w))
        = select (\<lambda>t. t_id t \<in> i_transaction ` set its) (transactions w)"
      by (intro select_update_outside) (simp add: h)
    then show ?thesis using s by (simp add: sealed_def)
  qed
  show "sealed b its ts (w\<lparr>transactions := insert_row tr (transactions w), items := insert_row it (items w)\<rparr>)"
    if s: "sealed b its ts w" and k: "open_batch (batches w) k"
      and tr: "t_id (tr (next_id (transactions w))) = next_id (transactions w)"
      and it: "\<And>n. i_id (it n) = n \<and> i_batch (it n) = k \<and> i_transaction (it n) = next_id (transactions w)" for w k tr it
    using s sealed_open [OF s k] tr it
    by (auto simp: sealed_def batch_items_def table_ok_insert less_Suc_eq)
  show "sealed b its ts (w\<lparr>items := delete_rows (\<lambda>x. i_batch x = k) (items w),
      transactions := delete_rows (\<lambda>t. t_id t \<in> set (map i_transaction (select (\<lambda>x. i_batch x = k) (items w)))) (transactions w)\<rparr>)"
    if s: "sealed b its ts w" and k: "open_batch (batches w) k" for w k
  proof -
    have kb: "k \<noteq> b_id b" by (rule sealed_open [OF s k])
    have "filter (\<lambda>i. i_batch i = b_id b) (filter (\<lambda>i. i_batch i \<noteq> k) xs) = filter (\<lambda>i. i_batch i = b_id b) xs" for xs
      using kb by (induction xs) auto
    then have "batch_items (delete_rows (\<lambda>x. i_batch x = k) (items w)) (b_id b) = batch_items (items w) (b_id b)"
      by (simp add: batch_items_def select_def)
    moreover have "select (\<lambda>t. t_id t \<in> i_transaction ` set its)
        (delete_rows (\<lambda>t. t_id t \<in> set (map i_transaction (select (\<lambda>x. i_batch x = k) (items w)))) (transactions w))
      = select (\<lambda>t. t_id t \<in> i_transaction ` set its) (transactions w)"
    proof -
      have "i_transaction x \<notin> i_transaction ` set its" if "x \<in> set (rows (items w))" "i_batch x = k" for x
        using s kb that by (simp add: sealed_def)
      then have "n \<in> i_transaction ` set its \<Longrightarrow> n \<notin> set (map i_transaction (select (\<lambda>x. i_batch x = k) (items w)))" for n
        unfolding set_map set_select by blast
      then show ?thesis
        unfolding select_delete by (simp add: select_def) (rule filter_cong; blast)
    qed
    ultimately show ?thesis
      using s unfolding sealed_def by (simp add: table_ok_delete del: set_map)
  qed
qed (auto simp: sealed_def table_ok_insert)

lemma approved_is_sealed:
  assumes ok: "payroll_ok w" and b: "b \<in> set (rows (batches w))" "b_status b = APPROVED"
  shows "sealed b (batch_items (items w) (b_id b))
    (select (\<lambda>t. t_id t \<in> i_transaction ` set (batch_items (items w) (b_id b))) (transactions w)) w"
proof -
  have links: "links_ok (batches w) (items w) (transactions w)"
    using ok by (simp add: payroll_ok_def tables_ok_def core_ok_def)
  have "i_transaction i < next_id (transactions w)" if "i \<in> set (rows (items w))" for i
    using links that unfolding links_ok_def table_ok_def by metis
  moreover have "i = j" if "i \<in> set (rows (items w))" "j \<in> set (rows (items w))" "i_transaction i = i_transaction j" for i j
    using links that by (auto simp: links_ok_def distinct_map inj_on_def)
  ultimately show ?thesis
    using b payroll_okD [OF ok] by (auto simp: sealed_def batch_items_def)
qed

lemma approved_batch_frozen:
  assumes "payroll_reaches w v" and "payroll_ok w" and "b \<in> set (rows (batches w))" and "b_status b = APPROVED"
  shows "b \<in> set (rows (batches v)) \<and> batch_items (items v) (b_id b) = batch_items (items w) (b_id b)
    \<and> select (\<lambda>t. t_id t \<in> i_transaction ` set (batch_items (items w) (b_id b))) (transactions v)
      = select (\<lambda>t. t_id t \<in> i_transaction ` set (batch_items (items w) (b_id b))) (transactions w)"
  using seal.watch_reaches [OF assms(1) approved_is_sealed [OF assms(2-4)]] by (simp add: sealed_def)

section \<open>Who approves\<close>

definition approved_within :: "nat set \<Rightarrow> world \<Rightarrow> bool" where
  "approved_within A w \<longleftrightarrow> table_ok b_id (batches w) \<and> table_ok i_id (items w)
     \<and> (\<forall>b \<in> set (rows (batches w)). b_status b = APPROVED \<longrightarrow> b_id b \<in> A)"

lemma approved_within_edit:
  assumes "approved_within A w" and "\<And>x. b_id (f x) = b_id x"
    and "\<And>x. x \<in> set (rows (batches w)) \<Longrightarrow> b_id x = j \<Longrightarrow> b_status (f x) = APPROVED \<Longrightarrow> b_status x = APPROVED \<or> j \<in> A"
  shows "approved_within A (w\<lparr>batches := update_rows (\<lambda>x. b_id x = j) f (batches w)\<rparr>)"
proof -
  have "\<forall>b \<in> set (rows (update_rows (\<lambda>x. b_id x = j) f (batches w))). b_status b = APPROVED \<longrightarrow> b_id b \<in> A"
    unfolding ball_update_rows using assms by (auto simp: approved_within_def)
  then show ?thesis using assms(1,2) by (simp add: approved_within_def table_ok_update del: rows_update)
qed

interpretation authority: payroll_watch "approved_within A" for A
proof unfold_locales
  show "approved_within A (w\<lparr>batches := update_rows (\<lambda>x. b_id x = j) f (batches w)\<rparr>)"
    if "approved_within A w" "open_batch (batches w) j" "\<And>x. b_id (f x) = b_id x \<and> batch_state (f x) = batch_state x" for w j f
    using that by (intro approved_within_edit) (auto simp: batch_state_def)
  show "approved_within A (w\<lparr>batches := update_rows (\<lambda>x. b_id x = b_id c) f (batches w)\<rparr>)"
    if "approved_within A w" "c \<in> set (rows (batches w))" "\<And>x. b_id (f x) = b_id x"
      "batch_move (batch_state c) (batch_state (f c))" "b_status (f c) \<noteq> APPROVED" for w c f
  proof (rule approved_within_edit [OF that(1,3)])
    fix x assume "x \<in> set (rows (batches w))" "b_id x = b_id c" and app: "b_status (f x) = APPROVED"
    then have "x = c" using table_ok_unique that(1,2) unfolding approved_within_def by metis
    with app that(5) show "b_status x = APPROVED \<or> b_id c \<in> A" by simp
  qed
qed (auto simp: approved_within_def table_ok_update table_ok_insert table_ok_delete batch_state_def)

lemma final_approval_authority:
  assumes ok: "payroll_ok w" and run: "run_request en actor rq w = (r, v)"
    and b': "b' \<in> set (rows (batches v))" "b_status b' = APPROVED" and new: "\<not> approved_in (batches w) (b_id b')"
  shows "\<exists>uuid m b. rq = ApproveBatch uuid m \<and> b \<in> set (rows (batches w)) \<and> b_uuid b = uuid \<and> b_id b = b_id b'
    \<and> is_final_step w b \<and> may_decide w actor b"
proof -
  let ?A = "{b_id b | b. b \<in> set (rows (batches w)) \<and> b_status b = APPROVED}"
  have start: "approved_within (A \<union> ?A) w" for A using payroll_okD [OF ok] by (auto simp: approved_within_def)
  have out: "b_id b' \<notin> ?A" using new by (auto simp: approved_in_def)
  have no: False if "approved_within ?A v"
    using that b' out by (auto simp: approved_within_def)
  show ?thesis
  proof (cases "\<exists>uuid m. rq = ApproveBatch uuid m")
    case False
    from keepsD [OF authority.watch_other_requests start run] False have "approved_within ({} \<union> ?A) v" by blast
    then show ?thesis using no by simp
  next
    case True
    then obtain uuid m where rq: "rq = ApproveBatch uuid m" by blast
    obtain r' where run': "approveBatch en uuid m actor w = (r', v)"
      using run by (cases "approveBatch en uuid m actor w")
        (auto simp: rq discard_def bind_def split: sum.splits)
    show ?thesis
    proof (cases "\<exists>b. findBatchByUuid uuid w = (Inr b, w) \<and> is_final_step w b \<and> may_decide w actor b")
      case True
      then obtain b where find: "findBatchByUuid uuid w = (Inr b, w)" and fin: "is_final_step w b" "may_decide w actor b" by blast
      note b = findBatchByUuid_Inr [OF find]
      have "leads (approved_within (insert (b_id b) ?A)) (approveBatch en uuid m actor) w"
        unfolding approveBatch_def announce_approval_def
      proof (intro leads_atomically leads_guard fail_rules authority.J_channels authority.frame_rules keeps_discard)
        fix c q fin' u v
        assume find': "findBatchByUuid uuid w = (Inr c, w)" and rev: "ensureBatchCanStillBeReviewed c w = (Inr q, w)"
          and run: "write_approval en c fin' m actor w = (Inr u, v)"
        have c: "c = b" using find find' by simp
        show "approved_within (insert (b_id b) ?A) v"
        proof (rule authority.watch_write_approval [OF _ _ _ _ run])
          fix w' :: world and x :: batch and f :: "batch \<Rightarrow> batch"
          assume "approved_within (insert (b_id b) ?A) w'" "b_id x = b_id c" "\<And>x. b_id (f x) = b_id x"
          then show "approved_within (insert (b_id b) ?A) (w'\<lparr>batches := update_rows (\<lambda>y. b_id y = b_id x) f (batches w')\<rparr>)"
            by (intro approved_within_edit) (simp_all add: c)
        qed (use start [of "{b_id b}"] b c rev in simp_all)
      qed (use start [of "{b_id b}"] in simp_all)
      from leadsD [OF this run'] have "b_id b = b_id b'" using b' out by (auto simp: approved_within_def)
      with rq b fin show ?thesis by blast
    next
      case False
      have "leads (approved_within ?A) (approveBatch en uuid m actor) w"
        unfolding approveBatch_def announce_approval_def
      proof (intro leads_atomically leads_guard fail_rules authority.J_channels authority.frame_rules keeps_discard)
        fix c q q' fin' u v
        assume find: "findBatchByUuid uuid w = (Inr c, w)" and rev: "ensureBatchCanStillBeReviewed c w = (Inr q, w)"
          and may: "ensureActorCanApproveBatch actor c w = (Inr q', w)"
          and fin: "reads (\<lambda>w. is_final_step w c) w = (Inr fin', w)" and run: "write_approval en c fin' m actor w = (Inr u, v)"
        have "\<not> fin'" using False find may fin by auto
        then show "approved_within ?A v"
          by (intro authority.watch_write_approval [OF _ _ _ _ run])
            (use findBatchByUuid_Inr [OF find] rev start [of "{}"] in auto)
      qed (use start [of "{}"] in simp_all)
      from leadsD [OF this run'] show ?thesis using no by simp
    qed
  qed
qed

lemma final_approver:
  assumes "payroll_ok w" and b: "b \<in> set (rows (batches w))" and fin: "is_final_step w b" and may: "may_decide w actor b"
  shows "isSystemAdmin actor \<or> (\<exists>hq. hq_location w = Some hq \<and> hasActiveHrAt w (w_id hq) \<and> ''HR'' \<in> set (cu_roles actor)
      \<and> cu_location actor = Some (show_nat (w_id hq))
      \<and> (hasEffectivePermission actor ''payroll.approve_final'' \<or> hasEffectivePermission actor ''payroll.approve''))"
proof -
  have "b_step b \<in> {1, 2}" using payroll_okD(5) [OF assms(1) b] .
  then have "\<not> (b_step b = 1 \<and> hasInitialApprover w (b_loc b))"
    using fin by (auto simp: is_final_step_def Let_def)
  then show ?thesis using may canFinalApprove_iff [of actor w] by (auto simp: may_decide_def)
qed

end
