(* ===== verification/Attendance.thy ===== *)
theory Attendance
  imports Employees "HOL-Library.List_Lexorder" "HOL-Library.Product_Lexorder"
begin

text \<open>
  Attendance (\<open>time-records/time-records.service.ts\<close>): one record per employee and day,
  written one at a time or by an import that accepts all of its rows or none, corrected,
  approved, listed, and searched for missing days.  The contract is a map from employee
  and day to status and overtime; \<open>attendance_ok\<close> is what makes the map well defined.
\<close>

section \<open>Who may reach an employee's attendance\<close>

definition attendance_scope_where :: "current_user \<Rightarrow> employee \<Rightarrow> bool" where
  "attendance_scope_where actor e =
     (if isSystemAdmin actor then True
      else if hasEffectivePermission actor ''attendance.read_all'' then True
      else (truthy (cu_location actor) \<longrightarrow> e_loc e = Some (read_nat (the (cu_location actor))))
        \<and> (\<not> isDepartmentScopeExempt actor \<and> truthy (cu_department actor)
            \<longrightarrow> e_department e = Some (read_nat (the (cu_department actor)))))"

text \<open>The message of the exception \<open>ensureActorCanAccessEmployee\<close> throws, if it throws.\<close>

definition attendance_refusal :: "current_user \<Rightarrow> employee \<Rightarrow> string option" where
  "attendance_refusal actor e =
     (if isSystemAdmin actor then None
      else if truthy (cu_location actor) \<and> map_option show_nat (e_loc e) \<noteq> cu_location actor
        then Some ''You can only manage attendance in your working location.''
      else if \<not> isDepartmentScopeExempt actor \<and> truthy (cu_department actor)
          \<and> map_option show_nat (e_department e) \<noteq> cu_department actor
        then Some ''You can only manage attendance for your department.''
      else None)"

definition attendance_access :: "current_user \<Rightarrow> employee \<Rightarrow> unit service" where
  "attendance_access actor e = (case attendance_refusal actor e of None \<Rightarrow> ret () | Some m \<Rightarrow> throw (Forbidden m))"

definition attendance_read_access :: "current_user \<Rightarrow> employee \<Rightarrow> unit service" where
  "attendance_read_access actor e =
     (if isSystemAdmin actor then ret ()
      else if hasEffectivePermission actor ''attendance.read_all'' then ret ()
      else attendance_access actor e)"

section \<open>Single records\<close>

definition normalizeHours :: "attendance_status \<Rightarrow> rat option \<Rightarrow> rat" where
  "normalizeHours status hours = (if status = ABSENT then 0 else case hours of None \<Rightarrow> 0 | Some h \<Rightarrow> h)"

definition ensureEmployee :: "nat \<Rightarrow> employee service" where
  "ensureEmployee eid = bind (reads (\<lambda>w. find_row (\<lambda>e. e_id e = eid \<and> \<not> e_deleted e) (employees w))) (\<lambda>e.
     the_or (BadRequest ''Employee does not exist.'') e)"

definition attendance_status_name :: "attendance_status \<Rightarrow> string" where
  "attendance_status_name s = (case s of PRESENT \<Rightarrow> ''PRESENT'' | ABSENT \<Rightarrow> ''ABSENT'')"

record create_record_dto =
  cr_employee :: string
  cr_date :: string
  cr_overtime :: "rat option"
  cr_status :: "attendance_status option"

definition record_row :: "env \<Rightarrow> employee \<Rightarrow> int \<Rightarrow> attendance_status \<Rightarrow> rat \<Rightarrow> nat \<Rightarrow> time_record" where
  "record_row en e d status hours n = \<lparr>r_id = n, r_uuid = gen_uuid en ''time_records'' n, r_employee = e_id e,
     r_date = d, r_overtime = hours, r_status = status, r_approved_by = None, r_loc = e_loc e,
     r_department = e_department e\<rparr>"

text \<open>A write that breaks the unique index on employee and date.\<close>

definition duplicate_record :: error where
  "duplicate_record = UniqueIndex ''Time_records_employee_id_attendance_date_key''"

definition insert_record :: "nat \<Rightarrow> int \<Rightarrow> (nat \<Rightarrow> time_record) \<Rightarrow> time_record service" where
  "insert_record eid d mk =
     bind (reads (\<lambda>w. list_ex (\<lambda>r. r_employee r = eid \<and> r_date r = d) (rows (time_records w)))) (\<lambda>taken.
     bind (ensure (\<not> taken) duplicate_record) (\<lambda>_.
     update_ret (\<lambda>w. (mk (next_id (time_records w)), w\<lparr>time_records := insert_row mk (time_records w)\<rparr>))))"

definition announce_attendance :: "unit service" where
  "announce_attendance = bind (modify (broadcast (NamedEvent ''attendance_updated''))) (\<lambda>_.
     modify (broadcast (NamedEvent ''employees_updated'')))"

definition createRecord :: "env \<Rightarrow> create_record_dto \<Rightarrow> current_user \<Rightarrow> time_record service" where
  "createRecord en dto actor =
     bind (toBigInt (cr_employee dto) ''employee id'') (\<lambda>employeeId.
     bind (ensureEmployee employeeId) (\<lambda>e.
     bind (attendance_access actor e) (\<lambda>_.
     bind (the_or InvalidQuery (parse_date en (cr_date dto))) (\<lambda>t.
     let d = to_date en t; status = (case cr_status dto of None \<Rightarrow> PRESENT | Some s \<Rightarrow> s) in
     bind (reads (\<lambda>w. list_ex (\<lambda>r. r_employee r = employeeId \<and> r_date r = d) (rows (time_records w)))) (\<lambda>existing.
     bind (ensure (\<not> existing) (Conflict ''Time record already exists for this employee and date.'')) (\<lambda>_.
     bind (atomically (
       bind (insert_record employeeId d (record_row en e d status (normalizeHours status (cr_overtime dto)))) (\<lambda>r.
       bind (audit (\<lambda>n. \<lparr>a_id = n, a_user = cu_id actor, a_employee = Some employeeId, a_table = ''time_records'',
         a_entity = r_id r, a_module = ''ATTENDANCE'', a_type = AT_CREATE,
         a_description = ''Created attendance record.'', a_action = AU_CREATED, a_old = JNull,
         a_new = JObj [(''employee_id'', JStr (show_nat employeeId)), (''attendance_date'', JStr (iso_instant t))],
         a_changed = []\<rparr>)) (\<lambda>_. ret r)))) (\<lambda>r.
     bind announce_attendance (\<lambda>_. ret r))))))))"

definition find_record :: "string \<Rightarrow> (time_record \<times> employee) service" where
  "find_record uuid = bind (reads (\<lambda>w. w)) (\<lambda>w.
     bind (the_or (NotFound ''Time record not found.'') (find_row (\<lambda>r. r_uuid r = uuid) (time_records w))) (\<lambda>r.
     bind (the_or (NotFound ''Time record not found.'') (find_row (\<lambda>e. e_id e = r_employee r) (employees w))) (\<lambda>e.
     ret (r, e))))"

definition update_record :: "nat \<Rightarrow> (time_record \<Rightarrow> time_record) \<Rightarrow> unit service" where
  "update_record k f = modify (\<lambda>w. w\<lparr>time_records := update_rows (\<lambda>r. r_id r = k) f (time_records w)\<rparr>)"

record update_record_dto =
  ur_overtime :: "rat option"
  ur_status :: "attendance_status option"

definition corrected :: "update_record_dto \<Rightarrow> time_record \<Rightarrow> time_record \<Rightarrow> time_record" where
  "corrected dto old r =
     (let status = (case ur_status dto of None \<Rightarrow> r_status old | Some s \<Rightarrow> s);
          hours = normalizeHours status (Some (case ur_overtime dto of None \<Rightarrow> r_overtime old | Some h \<Rightarrow> h))
      in r\<lparr>r_overtime := hours, r_status := (case ur_status dto of None \<Rightarrow> r_status r | Some s \<Rightarrow> s)\<rparr>)"

definition audit_record :: "current_user \<Rightarrow> time_record \<Rightarrow> string \<Rightarrow> audit_action \<Rightarrow> json \<Rightarrow> string list \<Rightarrow> unit service" where
  "audit_record actor r description action new changed = audit (\<lambda>n. \<lparr>a_id = n, a_user = cu_id actor,
     a_employee = Some (r_employee r), a_table = ''time_records'', a_entity = r_id r, a_module = ''ATTENDANCE'',
     a_type = AT_UPDATE, a_description = description, a_action = action, a_old = JNull, a_new = new,
     a_changed = changed\<rparr>)"

definition updateRecord :: "string \<Rightarrow> update_record_dto \<Rightarrow> current_user \<Rightarrow> time_record service" where
  "updateRecord uuid dto actor =
     bind (find_record uuid) (\<lambda>(r, e).
     bind (attendance_access actor e) (\<lambda>_.
     bind (attendance_access actor e) (\<lambda>_.
     bind (atomically (
       bind (update_record (r_id r) (corrected dto r)) (\<lambda>_.
       audit_record actor r ''Updated attendance record.'' AU_UPDATED
         (JObj ((''overtime_hours'', JNum (r_overtime (corrected dto r r)))
           # (case ur_status dto of None \<Rightarrow> [] | Some s \<Rightarrow> [(''attendance_status'', JStr (attendance_status_name s))])))
         [''overtime_hours'', ''attendance_status'']))) (\<lambda>_.
     ret (corrected dto r r)))))"

definition approveRecord :: "string \<Rightarrow> string option \<Rightarrow> current_user \<Rightarrow> time_record service" where
  "approveRecord uuid comment actor =
     bind (find_record uuid) (\<lambda>(r, e).
     bind (attendance_access actor e) (\<lambda>_.
     bind (atomically (
       bind (update_record (r_id r) (\<lambda>r. r\<lparr>r_approved_by := Some (cu_id actor)\<rparr>)) (\<lambda>_.
       audit_record actor r
         (if truthy comment then ''Approved attendance record: '' @ the comment else ''Approved attendance record.'')
         AU_APPROVED (JObj [(''approved_by'', JStr (show_nat (cu_id actor)))]) [''approved_by'']))) (\<lambda>_.
     ret (r\<lparr>r_approved_by := Some (cu_id actor)\<rparr>))))"

section \<open>Import\<close>

record bulk_record =
  br_employee :: string
  br_date :: string
  br_overtime :: "rat option"
  br_status :: string

record bulk_dto =
  bk_location :: "string option"
  bk_department :: "string option"
  bk_from :: "string option"
  bk_to :: "string option"
  bk_records :: "bulk_record list"

text \<open>The range of the import; a bound that is not a date compares as false, like \<open>NaN\<close>.\<close>

definition before :: "int option \<Rightarrow> int option \<Rightarrow> bool" where
  "before a b = (case (a, b) of (Some x, Some y) \<Rightarrow> x < y | _ \<Rightarrow> False)"

definition bulk_range :: "env \<Rightarrow> bulk_dto \<Rightarrow> (int option \<times> int option) service" where
  "bulk_range en dto =
     (if truthy (bk_from dto) \<and> truthy (bk_to dto)
      then ret (parse_date en (the (bk_from dto)), parse_date en (the (bk_to dto)))
      else (let ds = List.map_filter (\<lambda>r. parse_date en (br_date r)) (bk_records dto) in
        if ds = [] then throw (BadRequest ''No valid attendance_date values found in records.'')
        else ret (Some (Min (set ds)), Some (Max (set ds)))))"

definition quoted :: "string \<Rightarrow> string" where
  "quoted s = CHR 0x22 # s @ [CHR 0x22]"

definition bulk_location :: "bulk_dto \<Rightarrow> nat option service" where
  "bulk_location dto =
     (if truthy (bk_location dto)
      then bind (reads (\<lambda>w. find_row (\<lambda>l. w_name l = the (bk_location dto) \<and> \<not> w_deleted l) (locations w))) (\<lambda>l.
        bind (the_or (BadRequest (''Working location '' @ quoted (the (bk_location dto)) @ '' not found.'')) l) (\<lambda>l.
        ret (Some (w_id l))))
      else ret None)"

definition bulk_department :: "bulk_dto \<Rightarrow> nat option service" where
  "bulk_department dto =
     (if truthy (bk_department dto)
      then bind (reads (\<lambda>w. find_row (\<lambda>d. d_name d = the (bk_department dto)) (departments w))) (\<lambda>d.
        bind (the_or (BadRequest (''Department '' @ quoted (the (bk_department dto)) @ '' not found.'')) d) (\<lambda>d.
        ret (Some (d_id d))))
      else ret None)"

text \<open>The employees of the import, by the text of their id.\<close>

definition bulk_employee :: "world \<Rightarrow> string \<Rightarrow> employee option" where
  "bulk_employee w key = find_row (\<lambda>e. show_nat (e_id e) = key \<and> \<not> e_deleted e) (employees w)"

definition range_text :: "string option \<Rightarrow> int option \<Rightarrow> string" where
  "range_text given t = (if truthy given then the given else case t of None \<Rightarrow> [] | Some x \<Rightarrow> iso_date (utc_date x))"

text \<open>The checks of a row whose employee is known and in scope; all problems are reported.\<close>

definition row_problems :: "env \<Rightarrow> bulk_dto \<Rightarrow> int option \<times> int option \<Rightarrow> current_user \<Rightarrow> employee \<Rightarrow> bulk_record \<Rightarrow> string list" where
  "row_problems en dto rg actor e r =
     (case attendance_refusal actor e of None \<Rightarrow> [] | Some m \<Rightarrow> [m])
     @ (if br_status r = [] then [''attendance_status is required'']
        else if br_status r \<notin> set [''PRESENT'', ''ABSENT''] then [''attendance_status must be exactly PRESENT or ABSENT'']
        else [])
     @ (if br_status r = ''ABSENT'' \<and> (case br_overtime r of None \<Rightarrow> False | Some h \<Rightarrow> 0 < h)
        then [''overtime_hours must be 0 when attendance_status is ABSENT''] else [])
     @ (if br_date r = [] then [''attendance_date is required'']
        else case parse_date en (br_date r) of
          None \<Rightarrow> [''attendance_date must be a valid date'']
        | Some t \<Rightarrow>
            if before (Some t) (fst rg) \<or> before (snd rg) (Some t)
            then [''attendance_date must be within the range ['' @ range_text (bk_from dto) (fst rg) @ '', ''
              @ range_text (bk_to dto) (snd rg) @ '']'']
            else [])"

definition outside :: "nat option \<Rightarrow> nat option \<Rightarrow> bool" where
  "outside scope x = (case scope of None \<Rightarrow> False | Some n \<Rightarrow> n \<noteq> 0 \<and> x \<noteq> Some n)"

definition row_errors :: "env \<Rightarrow> bulk_dto \<Rightarrow> int option \<times> int option \<Rightarrow> nat option \<Rightarrow> nat option \<Rightarrow> current_user \<Rightarrow>
    world \<Rightarrow> nat \<times> bulk_record \<Rightarrow> row_error list" where
  "row_errors en dto rg loc dep actor w = (\<lambda>(row, r).
     if br_employee r = [] then [\<lparr>re_row = row, re_employee = None, re_message = ''employee_id is required''\<rparr>]
     else map (\<lambda>m. \<lparr>re_row = row, re_employee = Some (br_employee r), re_message = m\<rparr>)
       (if \<not> isNumericId (br_employee r) then [''employee_id must be a numeric ID'']
        else case bulk_employee w (br_employee r) of
          None \<Rightarrow> [''Employee does not exist'']
        | Some e \<Rightarrow>
            if outside loc (e_loc e)
            then [''Employee does not belong to working location '' @ quoted (the (bk_location dto))]
            else if outside dep (e_department e)
            then [''Employee does not belong to department '' @ quoted (the (bk_department dto))]
            else row_problems en dto rg actor e r))"

definition bulk_errors :: "env \<Rightarrow> bulk_dto \<Rightarrow> int option \<times> int option \<Rightarrow> nat option \<Rightarrow> nat option \<Rightarrow> current_user \<Rightarrow>
    world \<Rightarrow> row_error list" where
  "bulk_errors en dto rg loc dep actor w =
     concat (map (row_errors en dto rg loc dep actor w) (enumerate 1 (bk_records dto)))"

definition read_status :: "string \<Rightarrow> attendance_status" where
  "read_status s = (if s = ''ABSENT'' then ABSENT else PRESENT)"

text \<open>\<open>tx.time_records.upsert\<close> on the unique index of employee and date.\<close>

definition upsert_record :: "env \<Rightarrow> employee \<Rightarrow> int \<Rightarrow> attendance_status \<Rightarrow> rat \<Rightarrow> time_record table \<Rightarrow> time_record table" where
  "upsert_record en e d status hours t =
     (if list_ex (\<lambda>r. r_employee r = e_id e \<and> r_date r = d) (rows t)
      then update_rows (\<lambda>r. r_employee r = e_id e \<and> r_date r = d) (\<lambda>r. r\<lparr>r_status := status, r_overtime := hours\<rparr>) t
      else insert_row (record_row en e d status hours) t)"

definition upsert_row :: "env \<Rightarrow> (string \<Rightarrow> employee option) \<Rightarrow> bulk_record \<Rightarrow> unit service" where
  "upsert_row en lookup r =
     bind (the_or InvalidQuery (parse_date en (br_date r))) (\<lambda>t.
     bind (the_or InvalidQuery (lookup (br_employee r))) (\<lambda>e.
     let status = read_status (br_status r) in
     modify (\<lambda>w. w\<lparr>time_records := upsert_record en e (to_date en t) status (normalizeHours status (br_overtime r))
       (time_records w)\<rparr>)))"

definition bulkCreate :: "env \<Rightarrow> bulk_dto \<Rightarrow> current_user \<Rightarrow> nat service" where
  "bulkCreate en dto actor =
     bind (ensure (bk_records dto \<noteq> []) (BadRequest ''No records to import.'')) (\<lambda>_.
     bind (bulk_range en dto) (\<lambda>rg.
     bind (ensure (\<not> before (snd rg) (fst rg)) (BadRequest ''date_to must be greater than or equal to date_from.'')) (\<lambda>_.
     bind (bulk_location dto) (\<lambda>loc.
     bind (bulk_department dto) (\<lambda>dep.
     bind (reads (\<lambda>w. w)) (\<lambda>w.
     let errors = bulk_errors en dto rg loc dep actor w in
     bind (ensure (errors = []) (BadRows errors)) (\<lambda>_.
     bind (atomically (for_each (bk_records dto) (upsert_row en (bulk_employee w)))) (\<lambda>_.
     bind announce_attendance (\<lambda>_.
     ret (length (bk_records dto)))))))))))"

section \<open>Lists\<close>

record record_filters =
  rf_from :: "string option"
  rf_to :: "string option"
  rf_location :: "string option"
  rf_employee :: "string option"

text \<open>A bound of the filter as the value the database compares with; an invalid one is refused.\<close>

definition filter_date :: "env \<Rightarrow> string option \<Rightarrow> int option service" where
  "filter_date en given = (if truthy given
     then bind (the_or InvalidQuery (parse_date en (the given))) (\<lambda>t. ret (Some (to_date en t))) else ret None)"

definition in_period :: "int option \<Rightarrow> int option \<Rightarrow> int \<Rightarrow> bool" where
  "in_period a b d = ((case a of None \<Rightarrow> True | Some x \<Rightarrow> x \<le> d) \<and> (case b of None \<Rightarrow> True | Some y \<Rightarrow> d \<le> y))"

definition attendance_location :: "world \<Rightarrow> string \<Rightarrow> nat option" where
  "attendance_location w value =
     (if isNumericId value then Some (read_nat value)
      else case find_row (\<lambda>l. w_uuid l = value) (locations w) of
        Some l \<Rightarrow> Some (w_id l)
      | None \<Rightarrow> map_option w_id (find_row (\<lambda>l. w_name l = value \<and> \<not> w_deleted l) (locations w)))"

definition newest_first :: "time_record list \<Rightarrow> time_record list" where
  "newest_first = sort_key (\<lambda>r. - r_date r)"

text \<open>
  The filter object spreads the actor's scope and then sets the requested location over
  the one of the scope.
\<close>

definition listed_employee :: "current_user \<Rightarrow> nat option \<Rightarrow> employee \<Rightarrow> bool" where
  "listed_employee actor loc e \<longleftrightarrow> \<not> e_deleted e \<and>
     (case loc of None \<Rightarrow> attendance_scope_where actor e
      | Some l \<Rightarrow> e_loc e = Some l
          \<and> (isSystemAdmin actor \<or> hasEffectivePermission actor ''attendance.read_all''
             \<or> (\<not> isDepartmentScopeExempt actor \<and> truthy (cu_department actor)
                 \<longrightarrow> e_department e = Some (read_nat (the (cu_department actor))))))"

definition findRecords :: "env \<Rightarrow> current_user \<Rightarrow> record_filters \<Rightarrow> time_record list service" where
  "findRecords en actor f =
     bind (if truthy (rf_employee f) then bind (toBigInt (the (rf_employee f)) ''employee id'') (\<lambda>n. ret (Some n)) else ret None) (\<lambda>eid.
     bind (reads (\<lambda>w. if truthy (rf_location f) then Some (attendance_location w (the (rf_location f))) else None)) (\<lambda>loc.
     if loc = Some None then ret []
     else bind (filter_date en (rf_from f)) (\<lambda>a. bind (filter_date en (rf_to f)) (\<lambda>b.
       reads (\<lambda>w. newest_first (select (\<lambda>r. in_period a b (r_date r)
         \<and> (case eid of None \<Rightarrow> True | Some n \<Rightarrow> r_employee r = n)
         \<and> list_ex (\<lambda>e. e_id e = r_employee r \<and> listed_employee actor (Option.bind loc id) e) (rows (employees w)))
         (time_records w)))))))"

definition findRecordsByEmployee :: "env \<Rightarrow> string \<Rightarrow> current_user \<Rightarrow> string option \<Rightarrow> string option \<Rightarrow> time_record list service" where
  "findRecordsByEmployee en input actor start_date end_date =
     bind (toBigInt input ''employee id'') (\<lambda>eid.
     bind (ensureEmployee eid) (\<lambda>e.
     bind (attendance_read_access actor e) (\<lambda>_.
     bind (filter_date en start_date) (\<lambda>a. bind (filter_date en end_date) (\<lambda>b.
     reads (\<lambda>w. newest_first (select (\<lambda>r. r_employee r = eid \<and> in_period a b (r_date r)) (time_records w))))))))"

section \<open>Missing days\<close>

text \<open>Days and midnights of the server's time zone; \<open>setHours(0, 0, 0, 0)\<close> goes back to midnight.\<close>

definition local_day :: "env \<Rightarrow> int \<Rightarrow> int" where
  "local_day en t = (t + tz_offset en) div day_ms"

definition midnight :: "env \<Rightarrow> int \<Rightarrow> int" where
  "midnight en d = d * day_ms - tz_offset en"

definition dateKey :: "env \<Rightarrow> int \<Rightarrow> string" where
  "dateKey en t = iso_date (local_day en t)"

definition resolvePendingPeriod :: "env \<Rightarrow> string option \<Rightarrow> string option \<Rightarrow> error + int \<times> int" where
  "resolvePendingPeriod en startInput endInput =
     (let today = local_day en (now en);
          start = (if truthy startInput then map_option (local_day en) (parse_date en (the startInput))
            else (case civil today of (y, m, _) \<Rightarrow> Some (month_first y m)));
          finish = (if truthy endInput then map_option (local_day en) (parse_date en (the endInput)) else Some today)
      in case (start, finish) of
        (Some s, Some f) \<Rightarrow> if midnight en f < midnight en s
          then Inl (BadRequest ''end_date must be greater than or equal to start_date.'')
          else Inr (midnight en s, midnight en f)
      | _ \<Rightarrow> Inl (BadRequest ''Please choose a valid attendance date range.''))"

text \<open>The cursor moves by \<open>setDate(getDate() + 1)\<close>, one day in a zone of fixed offset.\<close>

function enumerateDateKeys :: "env \<Rightarrow> int \<Rightarrow> int \<Rightarrow> string list" where
  "enumerateDateKeys en cursor finish =
     (if cursor \<le> finish then dateKey en cursor # enumerateDateKeys en (cursor + day_ms) finish else [])"
  by auto

termination by (relation "measure (\<lambda>(en, cursor, finish). nat (finish + 1 - cursor))") (simp_all add: day_ms_def)

declare enumerateDateKeys.simps [simp del]

record pending_filters =
  pf_from :: "string option"
  pf_to :: "string option"
  pf_location :: "string option"
  pf_category :: "string option"

record pending_row =
  pd_employee :: string
  pd_uuid :: string
  pd_name :: string
  pd_loc :: "string option"
  pd_location :: "(string \<times> string) option"
  pd_department :: "string option"
  pd_department_name :: "(string \<times> string) option"
  pd_position :: "(string \<times> string \<times> frequency option) option"
  pd_missing :: "string list"
  pd_count :: nat

record pending_report =
  pr_start :: string
  pr_end :: string
  pr_employees :: nat
  pr_entries :: nat
  pr_rows :: "pending_row list"

definition emptyPendingResponse :: "env \<Rightarrow> int \<times> int \<Rightarrow> pending_report" where
  "emptyPendingResponse en p = \<lparr>pr_start = dateKey en (fst p), pr_end = dateKey en (snd p), pr_employees = 0,
     pr_entries = 0, pr_rows = []\<rparr>"

definition normalizeCategoryName :: "string \<Rightarrow> string" where
  "normalizeCategoryName category = (case to_lower (js_trim category) of [] \<Rightarrow> [] | c # cs \<Rightarrow> upper_char c # cs)"

text \<open>The stored date of a record comes back as midnight in UTC.\<close>

definition recorded_keys :: "env \<Rightarrow> world \<Rightarrow> int \<times> int \<Rightarrow> nat \<Rightarrow> string list" where
  "recorded_keys en w p eid = map (\<lambda>r. dateKey en (r_date r * day_ms))
     (select (\<lambda>r. r_employee r = eid \<and> to_date en (fst p) \<le> r_date r \<and> r_date r \<le> to_date en (snd p)) (time_records w))"

definition missing_dates :: "env \<Rightarrow> world \<Rightarrow> int \<times> int \<Rightarrow> nat \<Rightarrow> string list" where
  "missing_dates en w p eid =
     filter (\<lambda>d. d \<notin> set (recorded_keys en w p eid)) (enumerateDateKeys en (fst p) (snd p))"

definition pending_of :: "env \<Rightarrow> world \<Rightarrow> int \<times> int \<Rightarrow> employee \<Rightarrow> pending_row" where
  "pending_of en w p e =
     (let dates = missing_dates en w p (e_id e) in
      \<lparr>pd_employee = show_nat (e_id e), pd_uuid = e_uuid e,
       pd_name = js_trim (e_first_name e @ '' '' @ e_last_name e), pd_loc = map_option show_nat (e_loc e),
       pd_location = Option.bind (e_loc e) (\<lambda>n. map_option (\<lambda>l. (w_uuid l, w_name l))
         (find_row (\<lambda>l. w_id l = n) (locations w))),
       pd_department = map_option show_nat (e_department e),
       pd_department_name = Option.bind (e_department e) (\<lambda>n. map_option (\<lambda>d. (d_uuid d, d_name d))
         (find_row (\<lambda>d. d_id d = n) (departments w))),
       pd_position = Option.bind (e_position e) (\<lambda>n. map_option (\<lambda>x. (p_uuid x, p_name x,
         map_option c_frequency (category_of w e))) (find_row (\<lambda>x. p_id x = n) (positions w))),
       pd_missing = dates, pd_count = length dates\<rparr>)"

definition by_name :: "employee list \<Rightarrow> employee list" where
  "by_name = sort_key (\<lambda>e. (to_lower (e_first_name e), to_lower (e_last_name e)))"

definition pending_employees :: "world \<Rightarrow> current_user \<Rightarrow> nat option \<Rightarrow> string option \<Rightarrow> employee list" where
  "pending_employees w actor loc category = by_name (select (\<lambda>e. e_status e = P_ACTIVE \<and> \<not> e_deleted e
     \<and> (case loc of None \<Rightarrow> attendance_scope_where actor e
        | Some l \<Rightarrow> listed_employee actor (Some l) e)
     \<and> (case category of None \<Rightarrow> True | Some c \<Rightarrow> js_trim c \<noteq> [] \<and> to_upper (js_trim c) \<noteq> ''ALL''
          \<longrightarrow> map_option c_name (category_of w e) = Some (normalizeCategoryName (js_trim c)))) (employees w))"

definition pending_report_of :: "env \<Rightarrow> world \<Rightarrow> int \<times> int \<Rightarrow> employee list \<Rightarrow> pending_report" where
  "pending_report_of en w p es =
     (let pending = filter (\<lambda>r. pd_count r > 0) (map (pending_of en w p) es)
      in \<lparr>pr_start = dateKey en (fst p), pr_end = dateKey en (snd p), pr_employees = length pending,
          pr_entries = sum_list (map pd_count pending), pr_rows = pending\<rparr>)"

definition findPending :: "env \<Rightarrow> current_user \<Rightarrow> pending_filters \<Rightarrow> pending_report service" where
  "findPending en actor f =
     (case resolvePendingPeriod en (pf_from f) (pf_to f) of Inl e \<Rightarrow> throw e | Inr p \<Rightarrow>
       bind (reads (\<lambda>w. w)) (\<lambda>w.
       let loc = (if truthy (pf_location f) then Some (attendance_location w (the (pf_location f))) else None) in
       case loc of
         Some None \<Rightarrow> ret (emptyPendingResponse en p)
       | _ \<Rightarrow>
         bind (ensure (case loc of Some (Some l) \<Rightarrow> isSystemAdmin actor
             \<or> hasEffectivePermission actor ''attendance.read_all'' \<or> cu_location actor = Some (show_nat l) | _ \<Rightarrow> True)
           (Forbidden ''You can only view pending attendance in your working location.'')) (\<lambda>_.
         let es = pending_employees w actor (Option.bind loc id) (pf_category f) in
         ret (if es = [] then emptyPendingResponse en p else pending_report_of en w p es))))"

end
