(* ===== verification/Attendance_Ledger.thy ===== *)
theory Attendance_Ledger
  imports Attendance Payroll_Calculation
begin

text \<open>
  The contract of attendance.  A table is read as a map from employee and day to status and
  overtime; each operation is an update of that map, an import the update by all of its
  rows.  The search for missing days is compared with what is recorded.
\<close>

section \<open>Dates as text\<close>

lemma month_first_next:
  assumes "1 \<le> m"
  shows "month_first y (Suc m) = month_first y m + month_len y m"
proof -
  have "[1..<Suc m] = [1..<m] @ [m]" using assms by simp
  then show ?thesis by (simp add: month_first_def)
qed

lemma month_of_position: "1 \<le> m \<Longrightarrow> month_of y n m k = (m', k') \<Longrightarrow> month_first y m' + k' = month_first y m + k"
proof (induction y n m k rule: month_of.induct)
  case (2 y n m k)
  then show ?case by (cases "k < month_len y m") (auto simp: month_first_next)
qed simp

lemma day_number_civil: "civil z = (y, m, d) \<Longrightarrow> day_number y m d = z"
proof -
  assume c: "civil z = (y, m, d)"
  obtain k where "month_of y 11 1 (z - year_first y) = (m, k)" "d = k + 1"
    using c by (auto simp: civil_def Let_def split: prod.splits)
  then show ?thesis using month_of_position [of 1 y 11 "z - year_first y" m k]
    by (simp add: day_number_def month_first_def)
qed

lemma year_of_lower: "y0 \<le> year_of y0 z"
  by (induction y0 z rule: year_of.induct) (subst year_of.simps, auto)

lemma month_of_bounds: "month_of y n m k = (m', k') \<Longrightarrow> 0 \<le> k \<Longrightarrow> 0 \<le> k'"
  by (induction y n m k rule: month_of.induct) (auto split: if_splits)

lemma year_of_before: "year_first y0 \<le> z \<Longrightarrow> year_first (year_of y0 z) \<le> z"
  by (induction y0 z rule: year_of.induct) (subst year_of.simps, auto)

lemma civil_bounds:
  assumes "0 \<le> z" and "civil z = (y, m, d)"
  shows "1970 \<le> y \<and> 1 \<le> d"
proof -
  have "year_first 1970 = 0" by (simp add: year_first_def)
  with assms(1) have "year_first (year_of 1970 z) \<le> z" by (intro year_of_before) simp
  with assms(2) show ?thesis using year_of_lower [of 1970 z] month_of_bounds
    by (fastforce simp: civil_def Let_def split: prod.splits)
qed

lemma no_dash: "CHR ''-'' \<notin> set (show_nat n)"
  using show_nat_digits [of n] by (auto simp: list_all_iff is_digit_def)

lemma split_dash:
  assumes "xs @ CHR ''-'' # as = ys @ CHR ''-'' # bs" and "CHR ''-'' \<notin> set xs" and "CHR ''-'' \<notin> set ys"
  shows "xs = ys \<and> as = bs"
  using assms
proof (induction xs arbitrary: ys)
  case Nil
  then show ?case by (cases ys) auto
next
  case (Cons x xs)
  then show ?case by (cases ys) auto
qed

lemma read_pad2: "read_nat (pad2 (show_nat n)) = n"
proof -
  have "read_nat (CHR ''0'' # s) = read_nat s" for s
    by (simp add: read_nat_def digit_val_def)
  then have "read_nat (replicate k CHR ''0'' @ s) = read_nat s" for k s by (induction k) simp_all
  then show ?thesis by (simp add: pad2_def)
qed

lemma pad2_no_dash: "CHR ''-'' \<notin> set (pad2 (show_nat n))"
  using no_dash [of n] by (simp add: pad2_def)

lemma iso_date_inject:
  assumes "0 \<le> a" and "0 \<le> b" and "iso_date a = iso_date b"
  shows "a = b"
proof -
  obtain y m d y' m' d' where c: "civil a = (y, m, d)" "civil b = (y', m', d')" by (meson prod_cases3)
  have pos: "1970 \<le> y" "1 \<le> d" "1970 \<le> y'" "1 \<le> d'" using civil_bounds assms(1,2) c by blast+
  have eq: "show_nat (nat y) @ CHR ''-'' # pad2 (show_nat m) @ CHR ''-'' # pad2 (show_nat (nat d))
      = show_nat (nat y') @ CHR ''-'' # pad2 (show_nat m') @ CHR ''-'' # pad2 (show_nat (nat d'))"
    using assms(3) pos c by (simp add: iso_date_def show_int_def)
  from split_dash [OF this no_dash no_dash] have y: "nat y = nat y'"
    and rest: "pad2 (show_nat m) @ CHR ''-'' # pad2 (show_nat (nat d)) = pad2 (show_nat m') @ CHR ''-'' # pad2 (show_nat (nat d'))"
    by simp_all
  from split_dash [OF rest pad2_no_dash pad2_no_dash] have "m = m'" "nat d = nat d'"
    by (metis read_pad2)+
  with y pos have "(y, m, d) = (y', m', d')" by auto
  with c day_number_civil show ?thesis by metis
qed

section \<open>The table as a map\<close>

definition attendance_map :: "time_record table \<Rightarrow> nat \<times> int \<Rightarrow> (attendance_status \<times> rat) option" where
  "attendance_map t k = map_option (\<lambda>r. (r_status r, r_overtime r))
     (find_row (\<lambda>r. r_employee r = fst k \<and> r_date r = snd k) t)"

text \<open>Overtime of an absence is never kept.\<close>

definition hours_ok :: "attendance_status \<times> rat \<Rightarrow> bool" where
  "hours_ok v \<longleftrightarrow> (fst v = ABSENT \<longrightarrow> snd v = 0)"

definition attendance_ok :: "time_record table \<Rightarrow> bool" where
  "attendance_ok t \<longleftrightarrow> table_ok r_id t \<and> distinct (map (\<lambda>r. (r_employee r, r_date r)) (rows t))
     \<and> (\<forall>r \<in> set (rows t). hours_ok (r_status r, r_overtime r))"

lemma hours_ok_normalized [simp]: "hours_ok (s, normalizeHours s h)"
  by (simp add: hours_ok_def normalizeHours_def)

lemma attendance_map_None: "attendance_map t (e, d) = None \<longleftrightarrow> (\<forall>r \<in> set (rows t). \<not> (r_employee r = e \<and> r_date r = d))"
  by (simp add: attendance_map_def find_row_None)

lemma attendance_key:
  assumes "attendance_ok t" and "r \<in> set (rows t)" and "r' \<in> set (rows t)"
    and "r_employee r = r_employee r'" and "r_date r = r_date r'"
  shows "r = r'"
  using assms by (auto simp: attendance_ok_def distinct_map inj_on_def)

lemma attendance_map_row:
  assumes "attendance_ok t" and "r \<in> set (rows t)"
  shows "attendance_map t (r_employee r, r_date r) = Some (r_status r, r_overtime r)"
proof -
  obtain r' where r': "find_row (\<lambda>x. r_employee x = r_employee r \<and> r_date x = r_date r) t = Some r'"
    using assms(2) by (metis (mono_tags, lifting) find_row_None not_None_eq)
  then have "r' = r" using find_row_Some [OF r'] attendance_key [OF assms(1) _ assms(2)] by blast
  with r' show ?thesis by (simp add: attendance_map_def)
qed

lemma record_row_simps [simp]:
  "r_id (record_row en e d s h n) = n" "r_employee (record_row en e d s h n) = e_id e" "r_date (record_row en e d s h n) = d"
  "r_status (record_row en e d s h n) = s" "r_overtime (record_row en e d s h n) = h" "r_loc (record_row en e d s h n) = e_loc e"
  by (simp_all add: record_row_def)

lemma insert_attendance:
  assumes "attendance_ok t" and "attendance_map t (e_id e, d) = None" and "hours_ok (s, h)"
  shows "attendance_ok (insert_row (record_row en e d s h) t)
    \<and> attendance_map (insert_row (record_row en e d s h) t) = (attendance_map t)((e_id e, d) \<mapsto> (s, h))"
proof
  show "attendance_ok (insert_row (record_row en e d s h) t)"
    using assms by (auto simp: attendance_ok_def attendance_map_None intro!: table_ok_insert)
  show "attendance_map (insert_row (record_row en e d s h) t) = (attendance_map t)((e_id e, d) \<mapsto> (s, h))"
    using assms(2) by (auto simp: fun_eq_iff attendance_map_def find_row_insert split: option.splits)
qed

lemma attendance_ok_update:
  assumes "attendance_ok t" and "\<And>r. r_id (f r) = r_id r \<and> r_employee (f r) = r_employee r \<and> r_date (f r) = r_date r"
    and "\<And>r. r \<in> set (rows t) \<Longrightarrow> p r \<Longrightarrow> hours_ok (r_status (f r), r_overtime (f r))"
  shows "attendance_ok (update_rows p f t)"
proof -
  have "map (\<lambda>r. (r_employee r, r_date r)) (rows (update_rows p f t)) = map (\<lambda>r. (r_employee r, r_date r)) (rows t)"
    using assms(2) by simp
  moreover have "\<forall>r \<in> set (rows (update_rows p f t)). hours_ok (r_status r, r_overtime r)"
    using assms(1,3) unfolding ball_update_rows by (simp add: attendance_ok_def)
  ultimately show ?thesis using assms(1,2) table_ok_update [of r_id t f p] by (simp add: attendance_ok_def del: rows_update)
qed

lemma attendance_map_update:
  assumes "\<And>r. r_employee (f r) = r_employee r \<and> r_date (f r) = r_date r"
  shows "attendance_map (update_rows p f t) k = map_option (\<lambda>r. if p r then (r_status (f r), r_overtime (f r)) else (r_status r, r_overtime r))
    (find_row (\<lambda>r. r_employee r = fst k \<and> r_date r = snd k) t)"
  using assms by (simp add: attendance_map_def find_row_update option.map_comp o_def if_distrib cong: if_cong option.map_cong)

lemma upsert_attendance:
  assumes "attendance_ok t" and hours: "hours_ok (s, h)"
  shows "attendance_ok (upsert_record en e d s h t)
    \<and> attendance_map (upsert_record en e d s h t) = (attendance_map t)((e_id e, d) \<mapsto> (s, h))"
proof (cases "attendance_map t (e_id e, d)")
  case None
  then have "\<not> list_ex (\<lambda>r. r_employee r = e_id e \<and> r_date r = d) (rows t)"
    by (auto simp: attendance_map_None list_ex_iff)
  with insert_attendance [OF assms(1) None hours] show ?thesis by (simp add: upsert_record_def)
next
  case (Some v)
  then have there: "list_ex (\<lambda>r. r_employee r = e_id e \<and> r_date r = d) (rows t)"
    using attendance_map_None [of t "e_id e" d] by (auto simp: list_ex_iff)
  let ?f = "\<lambda>r. r\<lparr>r_status := s, r_overtime := h\<rparr>"
  have "attendance_map (update_rows (\<lambda>r. r_employee r = e_id e \<and> r_date r = d) ?f t) k = ((attendance_map t)((e_id e, d) \<mapsto> (s, h))) k" for k
  proof (cases "k = (e_id e, d)")
    case True
    then show ?thesis using Some by (subst attendance_map_update) (auto simp: attendance_map_def dest: find_row_Some)
  next
    case False
    then show ?thesis by (subst attendance_map_update)
        (auto simp: attendance_map_def prod_eq_iff intro!: option.map_cong dest: find_row_Some)
  qed
  with there show ?thesis using attendance_ok_update [OF assms(1), of ?f] hours by (simp add: upsert_record_def fun_eq_iff)
qed

section \<open>A store that is written key by key\<close>

text \<open>
  What an import needs of its store: a write sets one key and keeps the store well formed.
  Then a sequence of writes is the update by the list of its entries, the last entry of a
  key wins, and writing the same list again changes nothing.
\<close>

definition put_all :: "('a \<Rightarrow> 't \<Rightarrow> 't) \<Rightarrow> 'a list \<Rightarrow> 't \<Rightarrow> 't" where
  "put_all put as t = foldl (\<lambda>u a. put a u) t as"

lemma put_all_simps [simp]: "put_all put [] t = t" "put_all put (a # as) t = put_all put as (put a t)"
  by (simp_all add: put_all_def)

locale keyed_store =
  fixes good :: "'t \<Rightarrow> bool" and fit :: "'a \<Rightarrow> bool" and view :: "'t \<Rightarrow> 'k \<Rightarrow> 'v option" and put :: "'a \<Rightarrow> 't \<Rightarrow> 't"
    and key :: "'a \<Rightarrow> 'k" and val :: "'a \<Rightarrow> 'v"
  assumes put_good: "good t \<Longrightarrow> fit a \<Longrightarrow> good (put a t)"
    and put_view: "good t \<Longrightarrow> fit a \<Longrightarrow> view (put a t) = (view t)(key a \<mapsto> val a)"
begin

lemma put_all_spec:
  "good t \<Longrightarrow> list_all fit as \<Longrightarrow> good (put_all put as t) \<and> view (put_all put as t) = view t ++ map_of (rev (map (\<lambda>a. (key a, val a)) as))"
proof (induction as arbitrary: t)
  case Nil
  then show ?case by simp
next
  case (Cons a as)
  then have "good (put a t)" using put_good by simp
  from Cons.IH [OF this] put_view [of t a] Cons.prems show ?case
    by (simp add: map_of_append fun_eq_iff map_add_def split: option.splits)
qed

lemma put_all_again: "good t \<Longrightarrow> list_all fit as \<Longrightarrow> view (put_all put as (put_all put as t)) = view (put_all put as t)"
  using put_all_spec [of "put_all put as t" as] put_all_spec [of t as]
  by (auto simp: fun_eq_iff map_add_def split: option.splits)

end

definition put_record :: "env \<Rightarrow> employee \<times> int \<times> attendance_status \<times> rat \<Rightarrow> time_record table \<Rightarrow> time_record table" where
  "put_record en = (\<lambda>(e, d, s, h) t. upsert_record en e d s h t)"

definition entry_key :: "employee \<times> int \<times> attendance_status \<times> rat \<Rightarrow> nat \<times> int" where
  "entry_key = (\<lambda>(e, d, s, h). (e_id e, d))"

definition entry_value :: "employee \<times> int \<times> attendance_status \<times> rat \<Rightarrow> attendance_status \<times> rat" where
  "entry_value = (\<lambda>(e, d, s, h). (s, h))"

definition entry_fit :: "employee \<times> int \<times> attendance_status \<times> rat \<Rightarrow> bool" where
  "entry_fit = (\<lambda>(e, d, s, h). hours_ok (s, h))"

interpretation roll: keyed_store attendance_ok entry_fit attendance_map "put_record en" entry_key entry_value for en
  by unfold_locales (auto simp: put_record_def entry_key_def entry_value_def entry_fit_def upsert_attendance split: prod.splits)

section \<open>The import\<close>

definition bulk_entry :: "env \<Rightarrow> world \<Rightarrow> bulk_record \<Rightarrow> employee \<times> int \<times> attendance_status \<times> rat" where
  "bulk_entry en w r = (the (bulk_employee w (br_employee r)), to_date en (the (parse_date en (br_date r))),
     read_status (br_status r), normalizeHours (read_status (br_status r)) (br_overtime r))"

lemma entries_fit: "list_all entry_fit (map (bulk_entry en w) rs)"
  by (simp add: list_all_iff bulk_entry_def entry_fit_def)

definition readable_row :: "env \<Rightarrow> world \<Rightarrow> bulk_record \<Rightarrow> bool" where
  "readable_row en w r \<longleftrightarrow> parse_date en (br_date r) \<noteq> None \<and> bulk_employee w (br_employee r) \<noteq> None"

lemma upsert_row_run:
  "readable_row en w0 r \<Longrightarrow> upsert_row en (bulk_employee w0) r w
    = (Inr (), w\<lparr>time_records := put_record en (bulk_entry en w0 r) (time_records w)\<rparr>)"
  by (auto simp: readable_row_def upsert_row_def put_record_def bulk_entry_def Let_def bind_the_or)

lemma upsert_rows_run:
  "list_all (readable_row en w0) rs \<Longrightarrow> for_each rs (upsert_row en (bulk_employee w0)) w
    = (Inr (), w\<lparr>time_records := put_all (put_record en) (map (bulk_entry en w0) rs) (time_records w)\<rparr>)"
proof (induction rs arbitrary: w)
  case (Cons r rs)
  then have "upsert_row en (bulk_employee w0) r w = (Inr (), w\<lparr>time_records := put_record en (bulk_entry en w0 r) (time_records w)\<rparr>)"
    by (simp add: upsert_row_run)
  then show ?case using Cons by (simp add: bind_def)
qed simp

text \<open>What the checks of a row leave.\<close>

definition fine_row :: "env \<Rightarrow> current_user \<Rightarrow> world \<Rightarrow> bulk_record \<Rightarrow> bool" where
  "fine_row en actor w r \<longleftrightarrow> readable_row en w r \<and> attendance_refusal actor (the (bulk_employee w (br_employee r))) = None
     \<and> br_status r \<in> {''PRESENT'', ''ABSENT''}"

lemma row_problems_Nil: "row_problems en dto rg actor e r = [] \<Longrightarrow>
    parse_date en (br_date r) \<noteq> None \<and> attendance_refusal actor e = None \<and> br_status r \<in> {''PRESENT'', ''ABSENT''}"
  unfolding row_problems_def append_is_Nil_conv
  by (intro conjI; elim conjE) (simp_all split: option.splits if_splits)

lemma row_errors_Nil: "row_errors en dto rg loc dep actor w (i, r) = [] \<Longrightarrow> fine_row en actor w r"
  unfolding row_errors_def prod.case fine_row_def readable_row_def
  by (cases "bulk_employee w (br_employee r)") (auto split: if_splits dest: row_problems_Nil)

lemma bulk_errors_Nil:
  assumes "bulk_errors en dto rg loc dep actor w = []"
  shows "list_all (fine_row en actor w) (bk_records dto)"
proof -
  have "fine_row en actor w r" if r: "r \<in> set (bk_records dto)" for r
  proof -
    obtain i where i: "i < length (bk_records dto)" "bk_records dto ! i = r" using r by (auto simp: in_set_conv_nth)
    then have "(Suc i, r) \<in> set (enumerate 1 (bk_records dto))" by (simp add: in_set_enumerate_eq)
    with assms have "row_errors en dto rg loc dep actor w (Suc i, r) = []" by (auto simp: bulk_errors_def)
    then show ?thesis by (rule row_errors_Nil)
  qed
  then show ?thesis by (simp add: list_all_iff)
qed

lemma readonly_bulk [fail_rules]: "readonly (bulk_range en dto)" "readonly (bulk_location dto)" "readonly (bulk_department dto)"
  unfolding bulk_range_def bulk_location_def bulk_department_def Let_def by (intro fail_rules)+

lemma announce_app: "announce_attendance w
    = (Inr (), broadcast (NamedEvent ''employees_updated'') (broadcast (NamedEvent ''attendance_updated'') w))"
  by (simp add: announce_attendance_def)

lemma broadcast_tables [simp]: "time_records (broadcast p w) = time_records w" "employees (broadcast p w) = employees w"
  "locations (broadcast p w) = locations w" "departments (broadcast p w) = departments w"
  by (simp_all add: broadcast_def)

definition bulk_result :: "env \<Rightarrow> bulk_dto \<Rightarrow> current_user \<Rightarrow> world \<Rightarrow> (error + nat) \<times> world \<Rightarrow> bool" where
  "bulk_result en dto actor w = (\<lambda>(r, v). case r of Inl e \<Rightarrow> v = w
     | Inr n \<Rightarrow> n = length (bk_records dto) \<and> list_all (fine_row en actor w) (bk_records dto)
         \<and> time_records v = put_all (put_record en) (map (bulk_entry en w) (bk_records dto)) (time_records w)
         \<and> employees v = employees w \<and> locations v = locations w \<and> departments v = departments w)"

lemma bulk_commit:
  assumes "bulk_errors en dto rg loc dep actor w = []"
  shows "bulk_result en dto actor w (bind (atomically (for_each (bk_records dto) (upsert_row en (bulk_employee w))))
    (\<lambda>_. bind announce_attendance (\<lambda>_. ret (length (bk_records dto)))) w)"
proof -
  have fine: "list_all (fine_row en actor w) (bk_records dto)" using assms by (rule bulk_errors_Nil)
  then have "list_all (readable_row en w) (bk_records dto)" by (auto simp: list_all_iff fine_row_def)
  from upsert_rows_run [OF this, of w] fine show ?thesis
    by (simp add: atomically_bind bind_def [of announce_attendance] announce_app bulk_result_def)
qed

lemma bulk_outcome: "bulk_result en dto actor w (bulkCreate en dto actor w)"
  unfolding bulkCreate_def Let_def
  by ((rule guard_cases [where P = "bulk_result en dto actor w"], (intro fail_rules)[1], simp add: bulk_result_def)+)
    (simp add: bulk_commit)

lemma import_kept:
  assumes "attendance_ok (time_records w)" and "bulkCreate en dto actor w = (r, v)"
  shows "attendance_ok (time_records v)"
  using bulk_outcome [of en dto actor w] assms roll.put_all_spec [OF assms(1) entries_fit, of en en w "bk_records dto"]
  by (cases r) (auto simp: bulk_result_def)

text \<open>The entries of an import as updates of the map, the last one of a key winning.\<close>

definition import_entries :: "env \<Rightarrow> world \<Rightarrow> bulk_record list \<Rightarrow> ((nat \<times> int) \<times> attendance_status \<times> rat) list" where
  "import_entries en w rs = map (\<lambda>r. (entry_key (bulk_entry en w r), entry_value (bulk_entry en w r))) rs"

lemma import_effect:
  assumes "attendance_ok (time_records w)" and "bulkCreate en dto actor w = (Inr n, v)"
  shows "n = length (bk_records dto) \<and> attendance_map (time_records v)
    = attendance_map (time_records w) ++ map_of (rev (import_entries en w (bk_records dto)))"
  using bulk_outcome [of en dto actor w] assms(2)
    roll.put_all_spec [OF assms(1) entries_fit, of en en w "bk_records dto"]
  by (simp add: bulk_result_def import_entries_def o_def)

text \<open>The checks read tables that the import leaves alone, so it can be repeated.\<close>

lemma bulk_checks_frame:
  assumes "employees v = employees w" and "locations v = locations w" and "departments v = departments w"
  shows "bulk_errors en dto rg loc dep actor v = bulk_errors en dto rg loc dep actor w"
    and "bulk_employee v = bulk_employee w"
    and "fst (bulk_range en dto v) = fst (bulk_range en dto w)"
    and "fst (bulk_location dto v) = fst (bulk_location dto w)"
    and "fst (bulk_department dto v) = fst (bulk_department dto w)"
proof -
  show e: "bulk_employee v = bulk_employee w" using assms by (simp add: fun_eq_iff bulk_employee_def)
  show "bulk_errors en dto rg loc dep actor v = bulk_errors en dto rg loc dep actor w"
    unfolding bulk_errors_def row_errors_def e by (rule refl)
  show "fst (bulk_range en dto v) = fst (bulk_range en dto w)" by (simp add: bulk_range_def Let_def)
  show "fst (bulk_location dto v) = fst (bulk_location dto w)"
    using assms by (simp add: bulk_location_def bind_the_or split: option.splits)
  show "fst (bulk_department dto v) = fst (bulk_department dto w)"
    using assms by (simp add: bulk_department_def bind_the_or split: option.splits)
qed

lemma import_answer:
  assumes "employees v = employees w" and "locations v = locations w" and "departments v = departments w"
  shows "fst (bulkCreate en dto actor v) = fst (bulkCreate en dto actor w)"
proof -
  note frame = bulk_checks_frame [OF assms]
  have last: "fst (bind (ensure (bulk_errors en dto rg loc dep actor w = []) (BadRows (bulk_errors en dto rg loc dep actor w)))
      (\<lambda>_. bind (atomically (for_each (bk_records dto) (upsert_row en (bulk_employee w))))
      (\<lambda>_. bind announce_attendance (\<lambda>_. ret (length (bk_records dto))))) u)
    = (if bulk_errors en dto rg loc dep actor w = [] then Inr (length (bk_records dto))
       else Inl (BadRows (bulk_errors en dto rg loc dep actor w)))" for rg loc dep u
  proof (cases "bulk_errors en dto rg loc dep actor w = []")
    case True
    from bulk_errors_Nil [OF this] have "list_all (readable_row en w) (bk_records dto)" by (auto simp: list_all_iff fine_row_def)
    from upsert_rows_run [OF this, of u] True show ?thesis
      by (simp add: atomically_bind bind_def [of announce_attendance] announce_app)
  qed simp
  show ?thesis
    unfolding bulkCreate_def Let_def
    by ((rule same_answer, (intro fail_rules)[1], (simp add: frame ensure_def; fail))+)
      (simp only: bind_reads frame(1,2) last)
qed

text \<open>An import that is repeated succeeds again and changes no entry.\<close>

lemma import_again:
  assumes "attendance_ok (time_records w)" and "bulkCreate en dto actor w = (Inr n, v)"
  shows "\<exists>u. bulkCreate en dto actor v = (Inr n, u) \<and> attendance_map (time_records u) = attendance_map (time_records v)"
proof -
  have kept: "employees v = employees w" "locations v = locations w" "departments v = departments w"
    using bulk_outcome [of en dto actor w] assms(2) by (simp_all add: bulk_result_def)
  obtain u where u: "bulkCreate en dto actor v = (Inr n, u)"
    using import_answer [OF kept, of en dto actor] assms(2) by (metis fst_conv prod.collapse)
  have entries: "import_entries en v (bk_records dto) = import_entries en w (bk_records dto)"
    by (simp add: import_entries_def bulk_entry_def bulk_checks_frame(2) [OF kept])
  have "attendance_map (time_records u) = attendance_map (time_records v) ++ map_of (rev (import_entries en w (bk_records dto)))"
    using import_effect [OF import_kept [OF assms] u] entries by simp
  moreover have "attendance_map (time_records v) = attendance_map (time_records w) ++ map_of (rev (import_entries en w (bk_records dto)))"
    using import_effect [OF assms] by simp
  ultimately have "attendance_map (time_records u) = attendance_map (time_records v)"
    by (simp add: map_add_assoc [symmetric] map_add_subsumed1)
  with u show ?thesis by blast
qed

section \<open>Single records\<close>

lemma create_outcome:
  assumes "createRecord en dto actor w = (Inr r, v)"
  shows "\<exists>e t. find_row (\<lambda>e. e_id e = read_nat (cr_employee dto) \<and> \<not> e_deleted e) (employees w) = Some e
    \<and> attendance_refusal actor e = None \<and> parse_date en (cr_date dto) = Some t
    \<and> attendance_map (time_records w) (e_id e, to_date en t) = None
    \<and> time_records v = insert_row (record_row en e (to_date en t) (case cr_status dto of None \<Rightarrow> PRESENT | Some s \<Rightarrow> s)
        (normalizeHours (case cr_status dto of None \<Rightarrow> PRESENT | Some s \<Rightarrow> s) (cr_overtime dto))) (time_records w)"
proof -
  obtain e t where "find_row (\<lambda>e. e_id e = read_nat (cr_employee dto) \<and> \<not> e_deleted e) (employees w) = Some e"
    "attendance_refusal actor e = None" "parse_date en (cr_date dto) = Some t"
    "\<not> list_ex (\<lambda>r. r_employee r = read_nat (cr_employee dto) \<and> r_date r = to_date en t) (rows (time_records w))"
    "time_records v = insert_row (record_row en e (to_date en t) (case cr_status dto of None \<Rightarrow> PRESENT | Some s \<Rightarrow> s)
        (normalizeHours (case cr_status dto of None \<Rightarrow> PRESENT | Some s \<Rightarrow> s) (cr_overtime dto))) (time_records w)"
    using assms by (auto simp: createRecord_def Let_def toBigInt_def ensureEmployee_def attendance_access_def insert_record_def
        op_success announce_app split: if_splits option.splits)
  moreover from this(1) have "e_id e = read_nat (cr_employee dto)" using find_row_Some by fastforce
  ultimately show ?thesis by (auto simp: attendance_map_None list_ex_iff)
qed

lemma find_record_run: "find_record uuid w = (Inr (r, e), v) \<longleftrightarrow> v = w \<and> find_row (\<lambda>r. r_uuid r = uuid) (time_records w) = Some r
    \<and> find_row (\<lambda>e. e_id e = r_employee r) (employees w) = Some e"
  by (auto simp: find_record_def op_success)

lemma update_outcome:
  assumes "updateRecord uuid dto actor w = (Inr x, v)"
  shows "\<exists>r e. find_row (\<lambda>r. r_uuid r = uuid) (time_records w) = Some r \<and> find_row (\<lambda>e. e_id e = r_employee r) (employees w) = Some e
    \<and> attendance_refusal actor e = None
    \<and> time_records v = update_rows (\<lambda>y. r_id y = r_id r) (corrected dto r) (time_records w)"
  using assms by (auto simp: updateRecord_def bind_Inr find_record_run attendance_access_def update_record_def audit_record_def
      split: option.splits)

lemma approve_outcome:
  assumes "approveRecord uuid comment actor w = (Inr x, v)"
  shows "\<exists>r e n. find_row (\<lambda>r. r_uuid r = uuid) (time_records w) = Some r \<and> find_row (\<lambda>e. e_id e = r_employee r) (employees w) = Some e
    \<and> attendance_refusal actor e = None
    \<and> v = w\<lparr>time_records := update_rows (\<lambda>y. r_id y = r_id r) (\<lambda>y. y\<lparr>r_approved_by := Some (cu_id actor)\<rparr>) (time_records w),
        audit_logs := n\<rparr>"
  using assms by (auto simp: approveRecord_def bind_Inr find_record_run attendance_access_def update_record_def audit_record_def
      split: option.splits)

section \<open>What the operations do to the map\<close>

lemma create_effect:
  assumes "attendance_ok (time_records w)" and "createRecord en dto actor w = (Inr r, v)"
  shows "attendance_ok (time_records v) \<and> (\<exists>e d h. attendance_map (time_records w) (e, d) = None
    \<and> attendance_map (time_records v) = (attendance_map (time_records w))((e, d) \<mapsto>
        (case cr_status dto of None \<Rightarrow> PRESENT | Some s \<Rightarrow> s, h)))"
  using create_outcome [OF assms(2)] insert_attendance [OF assms(1)] by fastforce

lemma row_by_uuid:
  assumes "attendance_ok t" and "find_row (\<lambda>r. r_uuid r = uuid) t = Some r" and "y \<in> set (rows t)" and "r_id y = r_id r"
  shows "y = r"
  using assms find_row_Some [OF assms(2)] table_ok_unique [of r_id t y r] by (simp add: attendance_ok_def)

lemma corrected_simps [simp]: "r_id (corrected dto r y) = r_id y" "r_employee (corrected dto r y) = r_employee y"
  "r_date (corrected dto r y) = r_date y" "hours_ok (r_status (corrected dto r r), r_overtime (corrected dto r r))"
  by (simp_all add: corrected_def Let_def hours_ok_def normalizeHours_def split: option.splits)

lemma update_by_id:
  assumes ok: "attendance_ok t" and r: "r \<in> set (rows t)"
    and same: "\<And>y. r_id (f y) = r_id y \<and> r_employee (f y) = r_employee y \<and> r_date (f y) = r_date y"
    and hours: "hours_ok (r_status (f r), r_overtime (f r))"
  shows "attendance_ok (update_rows (\<lambda>y. r_id y = r_id r) f t)
    \<and> attendance_map (update_rows (\<lambda>y. r_id y = r_id r) f t)
      = (attendance_map t)((r_employee r, r_date r) \<mapsto> (r_status (f r), r_overtime (f r)))"
proof
  have tab: "table_ok r_id t" using ok unfolding attendance_ok_def by blast
  have only: "y = r" if "y \<in> set (rows t)" "r_id y = r_id r" for y
    by (rule table_ok_unique [OF tab that(1) r that(2)])
  then show "attendance_ok (update_rows (\<lambda>y. r_id y = r_id r) f t)"
    using hours by (intro attendance_ok_update [OF ok same]) auto
  show "attendance_map (update_rows (\<lambda>y. r_id y = r_id r) f t)
      = (attendance_map t)((r_employee r, r_date r) \<mapsto> (r_status (f r), r_overtime (f r)))"
  proof
    fix k :: "nat \<times> int"
    have "attendance_map (update_rows (\<lambda>y. r_id y = r_id r) f t) k = map_option (\<lambda>y. if r_id y = r_id r
        then (r_status (f y), r_overtime (f y)) else (r_status y, r_overtime y)) (find_row (\<lambda>r. r_employee r = fst k \<and> r_date r = snd k) t)"
      using same by (intro attendance_map_update) simp
    moreover have "find_row (\<lambda>r. r_employee r = fst k \<and> r_date r = snd k) t = Some r" if key: "k = (r_employee r, r_date r)"
    proof (cases "find_row (\<lambda>r. r_employee r = fst k \<and> r_date r = snd k) t")
      case None
      with r key show ?thesis by (auto simp: find_row_None)
    next
      case (Some y)
      with attendance_key [OF ok _ r] key find_row_Some [OF Some] show ?thesis by simp
    qed
    moreover have "r_id z \<noteq> r_id r" if "find_row (\<lambda>r. r_employee r = fst k \<and> r_date r = snd k) t = Some z"
        "k \<noteq> (r_employee r, r_date r)" for z
      using find_row_Some [OF that(1)] only [of z] that(2) by (auto simp: prod_eq_iff)
    ultimately show "attendance_map (update_rows (\<lambda>y. r_id y = r_id r) f t) k
      = ((attendance_map t)((r_employee r, r_date r) \<mapsto> (r_status (f r), r_overtime (f r)))) k"
      by (cases "k = (r_employee r, r_date r)"; cases "find_row (\<lambda>r. r_employee r = fst k \<and> r_date r = snd k) t")
        (simp_all add: attendance_map_def)
  qed
qed

lemma update_effect:
  assumes "attendance_ok (time_records w)" and "updateRecord uuid dto actor w = (Inr x, v)"
  shows "attendance_ok (time_records v) \<and> (\<exists>r \<in> set (rows (time_records w)). r_uuid r = uuid
    \<and> attendance_map (time_records v) = (attendance_map (time_records w))((r_employee r, r_date r) \<mapsto>
        (r_status (corrected dto r r), r_overtime (corrected dto r r))))"
proof -
  obtain r where r: "find_row (\<lambda>r. r_uuid r = uuid) (time_records w) = Some r"
    "time_records v = update_rows (\<lambda>y. r_id y = r_id r) (corrected dto r) (time_records w)"
    using update_outcome [OF assms(2)] by blast
  then show ?thesis using update_by_id [OF assms(1), of r "corrected dto r"] find_row_Some [OF r(1)] by auto
qed

lemma approve_effect:
  assumes "attendance_ok (time_records w)" and "approveRecord uuid comment actor w = (Inr x, v)"
  shows "attendance_ok (time_records v) \<and> attendance_map (time_records v) = attendance_map (time_records w)"
proof -
  obtain r where r: "find_row (\<lambda>r. r_uuid r = uuid) (time_records w) = Some r"
    "time_records v = update_rows (\<lambda>y. r_id y = r_id r) (\<lambda>y. y\<lparr>r_approved_by := Some (cu_id actor)\<rparr>) (time_records w)"
    using approve_outcome [OF assms(2)] by auto
  let ?f = "\<lambda>y. y\<lparr>r_approved_by := Some (cu_id actor)\<rparr>"
  have row: "r \<in> set (rows (time_records w))" using find_row_Some [OF r(1)] by simp
  then have hours: "hours_ok (r_status r, r_overtime r)" using assms(1) by (simp add: attendance_ok_def)
  have "attendance_ok (time_records v) \<and> attendance_map (time_records v)
      = (attendance_map (time_records w))((r_employee r, r_date r) \<mapsto> (r_status (?f r), r_overtime (?f r)))"
    unfolding r(2) using hours by (intro update_by_id [OF assms(1) row]) simp_all
  then show ?thesis using attendance_map_row [OF assms(1) row] by (simp add: fun_upd_idem)
qed

text \<open>The invariant survives a failed request as well.\<close>

lemma clean_fail_pair: "(\<And>a b. clean_fail (f a b)) \<Longrightarrow> clean_fail (case p of (a, b) \<Rightarrow> f a b)"
  by (simp split: prod.splits)

lemma readonly_attendance [fail_rules]: "readonly (attendance_access actor e)" "readonly (find_record uuid)"
  unfolding attendance_access_def find_record_def by (intro fail_rules)+

lemma create_keeps: "keeps (\<lambda>w. attendance_ok (time_records w)) (createRecord en dto actor)"
proof (rule keepsI)
  fix w :: world and r v
  assume ok: "attendance_ok (time_records w)" and run: "createRecord en dto actor w = (r, v)"
  show "attendance_ok (time_records v)"
  proof (cases r)
    case (Inl e)
    have "time_records v = time_records w"
      using run Inl by (auto simp: createRecord_def Let_def bind_Inl toBigInt_def ensureEmployee_def attendance_access_def
          announce_app split: if_splits option.splits dest!: atomically_Inl)
    with ok show ?thesis by simp
  next
    case (Inr x)
    with create_effect [OF ok] run show ?thesis by blast
  qed
qed

lemma update_keeps: "keeps (\<lambda>w. attendance_ok (time_records w)) (updateRecord uuid dto actor)"
proof (rule keepsI)
  fix w :: world and r v
  assume ok: "attendance_ok (time_records w)" and run: "updateRecord uuid dto actor w = (r, v)"
  have "clean_fail (updateRecord uuid dto actor)"
    unfolding updateRecord_def update_record_def audit_record_def by (intro clean_fail_bind clean_fail_pair clean_fail_never fail_rules)
  with ok run update_effect [OF ok] show "attendance_ok (time_records v)" by (cases r) (blast dest: clean_failD)+
qed

lemma approve_keeps: "keeps (\<lambda>w. attendance_ok (time_records w)) (approveRecord uuid comment actor)"
proof (rule keepsI)
  fix w :: world and r v
  assume ok: "attendance_ok (time_records w)" and run: "approveRecord uuid comment actor w = (r, v)"
  have "clean_fail (approveRecord uuid comment actor)"
    unfolding approveRecord_def update_record_def audit_record_def by (intro clean_fail_bind clean_fail_pair clean_fail_never fail_rules)
  with ok run approve_effect [OF ok] show "attendance_ok (time_records v)" by (cases r) (blast dest: clean_failD)+
qed

lemma import_keeps: "keeps (\<lambda>w. attendance_ok (time_records w)) (bulkCreate en dto actor)"
  by (rule keepsI) (rule import_kept)

section \<open>Missing days\<close>

lemma day_ms_pos: "0 < day_ms"
  by (simp add: day_ms_def)

lemma local_day_midnight [simp]: "local_day en (midnight en d) = d"
  using day_ms_pos by (simp add: local_day_def midnight_def)

lemma midnight_next: "midnight en d + day_ms = midnight en (d + 1)"
  by (simp add: midnight_def algebra_simps)

lemma midnight_le: "midnight en a \<le> midnight en b \<longleftrightarrow> a \<le> b"
  using day_ms_pos by (simp add: midnight_def)

text \<open>The loop visits every day of the period once, in order.\<close>

lemma enumerate_days: "enumerateDateKeys en (midnight en s) (midnight en f) = map iso_date [s..f]"
proof (induction "nat (f + 1 - s)" arbitrary: s)
  case 0
  then have "\<not> s \<le> f" by simp
  then show ?case by (subst enumerateDateKeys.simps) (simp add: midnight_le)
next
  case (Suc n)
  then have "s \<le> f" "n = nat (f + 1 - (s + 1))" by simp_all
  from Suc(1) [OF this(2)] \<open>s \<le> f\<close> show ?case
    by (subst enumerateDateKeys.simps) (simp add: midnight_le midnight_next dateKey_def upto_rec1)
qed

lemma pending_period_midnights:
  assumes "resolvePendingPeriod en a b = Inr p"
  shows "\<exists>s f. s \<le> f \<and> p = (midnight en s, midnight en f)"
  using assms by (auto simp: resolvePendingPeriod_def Let_def midnight_le not_less split: option.splits if_splits prod.splits)

definition recorded :: "world \<Rightarrow> nat \<Rightarrow> int \<Rightarrow> bool" where
  "recorded w eid d \<longleftrightarrow> attendance_map (time_records w) (eid, d) \<noteq> None"

lemma recorded_iff: "recorded w eid d \<longleftrightarrow> (\<exists>r \<in> set (rows (time_records w)). r_employee r = eid \<and> r_date r = d)"
  using attendance_map_None [of "time_records w" eid d] by (auto simp: recorded_def)

text \<open>On a server in UTC the missing days are those without a record.\<close>

lemma missing_in_utc:
  assumes "tz_offset en = 0" and "to_date en = utc_date" and "0 \<le> s"
  shows "missing_dates en w (midnight en s, midnight en f) eid = map iso_date (filter (\<lambda>d. \<not> recorded w eid d) [s..f])"
proof -
  have key: "dateKey en (d * day_ms) = iso_date d" for d
    using assms(1) day_ms_pos by (simp add: dateKey_def local_day_def)
  have bound: "to_date en (midnight en d) = d" for d
    using assms(1,2) day_ms_pos by (simp add: midnight_def utc_date_def)
  have "iso_date d \<in> set (recorded_keys en w (midnight en s, midnight en f) eid) \<longleftrightarrow> recorded w eid d" if "d \<in> set [s..f]" for d
    using that assms(3) iso_date_inject [of d]
    by (auto simp: recorded_keys_def recorded_iff key bound image_iff) (metis order_trans)
  then have "filter (\<lambda>d. iso_date d \<notin> set (recorded_keys en w (midnight en s, midnight en f) eid)) [s..f]
      = filter (\<lambda>d. \<not> recorded w eid d) [s..f]"
    by (intro filter_cong refl) blast
  then show ?thesis by (simp add: missing_dates_def enumerate_days filter_map o_def)
qed

text \<open>Ahead of UTC, as Kigali is, the last day counts as missing whatever is recorded.\<close>

lemma missing_ahead_of_utc:
  assumes "0 < tz_offset en" and "tz_offset en < day_ms" and "to_date en = utc_date" and "0 \<le> s" and "s \<le> f"
    and dates: "\<forall>r \<in> set (rows (time_records w)). 0 \<le> r_date r"
  shows "iso_date f \<in> set (missing_dates en w (midnight en s, midnight en f) eid)"
proof -
  have key: "dateKey en (d * day_ms) = iso_date d" for d
    using assms(1,2) by (simp add: dateKey_def local_day_def)
  have bound: "to_date en (midnight en d) = d - 1" for d
  proof -
    have "(d * day_ms - tz_offset en) div day_ms = ((day_ms - tz_offset en) + (d - 1) * day_ms) div day_ms" by (simp add: algebra_simps)
    also have "\<dots> = d - 1" using assms(1,2) by (subst div_mult_self1) (simp_all add: day_ms_def)
    finally show ?thesis using assms(3) by (simp add: midnight_def utc_date_def)
  qed
  have "iso_date f \<notin> set (recorded_keys en w (midnight en s, midnight en f) eid)"
  proof
    assume "iso_date f \<in> set (recorded_keys en w (midnight en s, midnight en f) eid)"
    then obtain r where r: "r \<in> set (rows (time_records w))" "r_date r \<le> f - 1" "iso_date f = iso_date (r_date r)"
      by (auto simp: recorded_keys_def key bound)
    with iso_date_inject [of f "r_date r"] dates assms(4,5) show False by fastforce
  qed
  with assms(5) show ?thesis by (simp add: missing_dates_def enumerate_days)
qed

section \<open>Lists\<close>

text \<open>
  With a location in the filter, an actor who is not confined to a department reads the
  records of that location, whatever location the actor belongs to.
\<close>

lemma location_filter:
  assumes "isDepartmentScopeExempt actor \<or> \<not> truthy (cu_department actor)" and "isNumericId l"
  shows "findRecords en actor \<lparr>rf_from = None, rf_to = None, rf_location = Some l, rf_employee = None\<rparr> w
    = (Inr (newest_first (select (\<lambda>r. list_ex (\<lambda>e. e_id e = r_employee r \<and> \<not> e_deleted e \<and> e_loc e = Some (read_nat l))
        (rows (employees w))) (time_records w))), w)"
proof -
  have "l \<noteq> []" using assms(2) by (auto simp: isNumericId_def)
  then show ?thesis using assms
    by (auto simp: findRecords_def attendance_location_def filter_date_def listed_employee_def in_period_def)
qed

section \<open>Attendance and pay\<close>

text \<open>The calculation reads status, day and hours of the records, never their approval.\<close>

definition approved_by :: "nat \<Rightarrow> nat \<Rightarrow> time_record \<Rightarrow> time_record" where
  "approved_by k uid r = (if r_id r = k then r\<lparr>r_approved_by := Some uid\<rparr> else r)"

lemma approved_by_simps [simp]: "r_status (approved_by k uid r) = r_status r" "r_overtime (approved_by k uid r) = r_overtime r"
  "r_employee (approved_by k uid r) = r_employee r" "r_date (approved_by k uid r) = r_date r"
  by (simp_all add: approved_by_def)

lemma approved_period:
  assumes "time_records v = update_rows (\<lambda>y. r_id y = k) (\<lambda>y. y\<lparr>r_approved_by := Some uid\<rparr>) (time_records w)"
  shows "period_attendance en v eid dto = map (approved_by k uid) (period_attendance en w eid dto)"
proof -
  have "rows (time_records v) = map (approved_by k uid) (rows (time_records w))"
    unfolding assms by (simp add: approved_by_def)
  then show ?thesis by (simp add: period_attendance_def select_def filter_map o_def)
qed

lemma approved_attendance [simp]: "present_days (map (approved_by k uid) rs) = present_days rs"
  "overtime_hours (map (approved_by k uid) rs) = overtime_hours rs" "overtime_days (map (approved_by k uid) rs) = overtime_days rs"
  by (simp_all add: present_days_def overtime_hours_def overtime_days_def filter_map o_def)

lemma approval_same_pay:
  assumes "approveRecord uuid comment actor w = (Inr x, v)"
  shows "calculateEmployeePayroll en v dto e = calculateEmployeePayroll en w dto e"
proof -
  obtain k n where v: "v = w\<lparr>time_records := update_rows (\<lambda>y. r_id y = k) (\<lambda>y. y\<lparr>r_approved_by := Some (cu_id actor)\<rparr>) (time_records w),
        audit_logs := n\<rparr>"
    using approve_outcome [OF assms] by blast
  then have att: "period_attendance en v eid dto = map (approved_by k (cu_id actor)) (period_attendance en w eid dto)" for eid
    by (intro approved_period) simp
  have tables: "getOvertimeBonusPerDay v = getOvertimeBonusPerDay w"
    "findMonthlyTaxesAtDate en t v = findMonthlyTaxesAtDate en t w"
    "findEmployeeAssignedMonthlyTaxesAtDate en t v = findEmployeeAssignedMonthlyTaxesAtDate en t w"
    "period_deduction_types en v eid dto = period_deduction_types en w eid dto"
    "active_allowances v eid = active_allowances w eid"
    "find_pay_structure en v eid dto = find_pay_structure en w eid dto" for t eid
    by (simp_all add: v getOvertimeBonusPerDay_def findMonthlyTaxesAtDate_def findEmployeeAssignedMonthlyTaxesAtDate_def
        taxes_at_def period_deduction_types_def active_allowances_def find_pay_structure_def findByKey_def)
  have pay: "pay_of en v e dto s = pay_of en w e dto s" for s
    unfolding pay_of_def Let_def att tables approved_attendance by (rule refl)
  have "calculation_of en v e dto s = calculation_of en w e dto s" for s
    unfolding calculation_of_def Let_def att tables approved_attendance pay by (rule refl)
  then show ?thesis by (simp add: calculateEmployeePayroll_def tables cong: option.case_cong)
qed

end
