(* ===== verification/Department_Admin.thy ===== *)
theory Department_Admin
  imports Departments "HOL-Library.List_Lexorder"
begin

text \<open>
  The administration of departments (\<open>departments/department.service.ts\<close>): creation at every
  location the actor may write to, listing, renaming, deletion (an archive that waits while
  employees are assigned), re-enabling at a location, and the archive that suspends whoever
  is left.  \<open>Departments\<close> holds the automatic archive these share.
\<close>

section \<open>Who may write where\<close>

definition canReadAllBranches :: "current_user option \<Rightarrow> bool" where
  "canReadAllBranches actor = (case actor of None \<Rightarrow> False
     | Some a \<Rightarrow> ''SUPER_ADMIN'' \<in> set (cu_roles a) \<or> hasEffectivePermission a ''branches.read_all'')"

definition department_location :: "string \<Rightarrow> nat service" where
  "department_location value =
     bind (requireUuidOrNumeric value ''working_location_id'') (\<lambda>_.
     bind (reads (\<lambda>w. find_location w value)) (\<lambda>l.
     bind (the_or (NotFound ''Working location not found.'') l) (\<lambda>l. ret (w_id l))))"

definition resolveDepartmentWriteLocations :: "current_user \<Rightarrow> nat list service" where
  "resolveDepartmentWriteLocations actor =
     (if \<not> canReadAllBranches (Some actor)
      then bind (ensure (truthy (cu_location actor)) (BadRequest ''Your account has no working location assigned.'')) (\<lambda>_.
        ret [read_nat (the (cu_location actor))])
      else bind (reads (\<lambda>w. map w_id (select (\<lambda>l. \<not> w_deleted l) (locations w)))) (\<lambda>ls.
        bind (ensure (ls \<noteq> []) (BadRequest ''Create a working location before creating departments.'')) (\<lambda>_. ret ls)))"

definition ensureActorCanManageDepartment :: "current_user \<Rightarrow> nat \<Rightarrow> unit service" where
  "ensureActorCanManageDepartment actor loc =
     (if canReadAllBranches (Some actor) then ret ()
      else if truthy (cu_location actor) \<and> cu_location actor = Some (show_nat loc) then ret ()
      else throw (BadRequest ''You can only manage departments in your working location.''))"

text \<open>The first active department, of those with \<open>p\<close>, whose name is the same up to case, spaces, underscores and hyphens.\<close>

definition name_clash :: "(department \<Rightarrow> bool) \<Rightarrow> string \<Rightarrow> department table \<Rightarrow> department option" where
  "name_clash p name t = List.find (\<lambda>d. normalizeEntityName (d_name d) = normalizeEntityName name)
     (select (\<lambda>d. d_active d \<and> p d) t)"

definition no_name_clash :: "(department \<Rightarrow> bool) \<Rightarrow> string \<Rightarrow> string \<Rightarrow> unit service" where
  "no_name_clash p name suffix = bind (reads (\<lambda>w. name_clash p name (departments w))) (\<lambda>c. case c of
     None \<Rightarrow> ret ()
   | Some d \<Rightarrow> throw (BadRequest (''A department named '' @ [CHR 0x27] @ d_name d @ [CHR 0x27] @ '' already exists'' @ suffix)))"

definition audit_department :: "current_user \<Rightarrow> nat \<Rightarrow> activity_type \<Rightarrow> string \<Rightarrow> audit_action \<Rightarrow> json \<Rightarrow> json \<Rightarrow> unit service" where
  "audit_department actor entity type description action old new = audit (\<lambda>n. \<lparr>a_id = n, a_user = cu_id actor,
     a_employee = None, a_table = ''departments'', a_entity = entity, a_module = ''DEPARTMENTS'', a_type = type,
     a_description = description, a_action = action, a_old = old, a_new = new, a_changed = []\<rparr>)"

definition departments_changed :: "unit service" where
  "departments_changed = bind (cache_del ''working_locations'') (\<lambda>_.
     modify (broadcast (NamedEvent ''departments_updated'')))"

section \<open>Creation\<close>

record department_dto =
  cd_code :: string
  cd_name :: string
  cd_description :: "string option"

definition department_row :: "env \<Rightarrow> nat \<Rightarrow> string \<Rightarrow> string \<Rightarrow> string option \<Rightarrow> nat \<Rightarrow> department" where
  "department_row en loc code name description n = \<lparr>d_id = n, d_uuid = gen_uuid en ''departments'' n, d_loc = loc,
     d_name = name, d_active = True, d_code = code, d_description = description, d_created_at = now en\<rparr>"

text \<open>\<open>createMany\<close> with \<open>skipDuplicates\<close>: a location with that code or that name is passed over.\<close>

definition taken_at :: "nat \<Rightarrow> string \<Rightarrow> string \<Rightarrow> department table \<Rightarrow> bool" where
  "taken_at loc code name t = list_ex (\<lambda>d. d_loc d = loc \<and> (d_code d = code \<or> d_name d = name)) (rows t)"

definition create_at :: "env \<Rightarrow> department_dto \<Rightarrow> department table \<Rightarrow> nat \<Rightarrow> department table" where
  "create_at en dto t loc = (if taken_at loc (cd_code dto) (cd_name dto) t then t
     else insert_row (department_row en loc (cd_code dto) (cd_name dto) (cd_description dto)) t)"

definition createDepartment :: "env \<Rightarrow> department_dto \<Rightarrow> current_user \<Rightarrow> department list service" where
  "createDepartment en dto actor =
     bind (ensure (cd_code dto \<noteq> [] \<and> cd_name dto \<noteq> []) (BadRequest ''Department code and name are required.'')) (\<lambda>_.
     bind (resolveDepartmentWriteLocations actor) (\<lambda>targets.
     bind (no_name_clash (\<lambda>d. d_loc d \<in> set targets) (cd_name dto) ''.'') (\<lambda>_.
     bind (atomically (
       bind (modify (\<lambda>w. w\<lparr>departments := foldl (create_at en dto) (departments w) targets\<rparr>)) (\<lambda>_.
       bind (reads (\<lambda>w. sort_key d_loc (select (\<lambda>d. d_code d = cd_code dto \<and> d_loc d \<in> set targets) (departments w)))) (\<lambda>created.
       bind (ensure (created \<noteq> []) (BadRequest ''Department already exists in all working locations.'')) (\<lambda>_.
       bind (audit_department actor (d_id (hd created)) AT_CREATE
         (if canReadAllBranches (Some actor) then ''Created global department across all working locations.''
          else ''Created branch department.'') AU_CREATED JNull
         (JObj [(''code'', JStr (cd_code dto)), (''name'', JStr (cd_name dto)),
           (''description'', jopt JStr (cd_description dto))])) (\<lambda>_.
       ret created)))))) (\<lambda>created.
     bind departments_changed (\<lambda>_. ret created)))))"

section \<open>Listing\<close>

definition findDepartments :: "current_user option \<Rightarrow> string option \<Rightarrow> string option \<Rightarrow> bool \<Rightarrow> department list service" where
  "findDepartments actor locationInput qInput forAssignment =
     bind (if truthy locationInput
       then bind (department_location (the locationInput)) (\<lambda>l.
         bind (ensure (\<not> (case actor of None \<Rightarrow> False | Some a \<Rightarrow> \<not> canReadAllBranches actor
             \<and> truthy (cu_location a) \<and> Some (show_nat l) \<noteq> cu_location a))
           (BadRequest ''You can only access departments in your working location.'')) (\<lambda>_. ret (Some l)))
       else ret (case actor of None \<Rightarrow> None | Some a \<Rightarrow>
         if \<not> canReadAllBranches actor \<and> truthy (cu_location a) then Some (read_nat (the (cu_location a))) else None)) (\<lambda>loc.
     reads (\<lambda>w. let q = normalizeSearch qInput; contains = (\<lambda>s. str_includes (to_lower s) (to_lower (the q))) in
       sort_key (\<lambda>d. to_lower (d_name d)) (select (\<lambda>d. (loc = None \<or> loc = Some (d_loc d))
         \<and> (forAssignment \<longrightarrow> d_active d \<and> pending_deactivation w (d_id d) = None)
         \<and> (truthy q \<longrightarrow> contains (d_name d) \<or> contains (d_code d)
             \<or> (case d_description d of None \<Rightarrow> False | Some s \<Rightarrow> contains s))) (departments w))))"

section \<open>Update\<close>

record department_update =
  du_code :: "string option"
  du_name :: "string option"
  du_description :: "string option"

definition find_department_by_uuid :: "string \<Rightarrow> department service" where
  "find_department_by_uuid uuid = bind (reads (\<lambda>w. find_row (\<lambda>d. d_uuid d = uuid) (departments w))) (\<lambda>d.
     the_or (NotFound ''Department not found.'') d)"

text \<open>An update of one row; the unique indexes on location and code and on location and name are checked.\<close>

definition save_department :: "nat \<Rightarrow> (department \<Rightarrow> department) \<Rightarrow> department \<Rightarrow> unit service" where
  "save_department k f saved =
     bind (reads (\<lambda>w. departments w)) (\<lambda>t.
     bind (ensure (\<not> list_ex (\<lambda>d. d_id d \<noteq> k \<and> d_loc d = d_loc saved \<and> d_code d = d_code saved) (rows t))
       (UniqueIndex ''Departments_working_location_id_code_key'')) (\<lambda>_.
     bind (ensure (\<not> list_ex (\<lambda>d. d_id d \<noteq> k \<and> d_loc d = d_loc saved \<and> d_name d = d_name saved) (rows t))
       (UniqueIndex ''Departments_working_location_id_name_key'')) (\<lambda>_.
     modify (\<lambda>w. w\<lparr>departments := update_rows (\<lambda>d. d_id d = k) f (departments w)\<rparr>))))"

definition renamed :: "department_update \<Rightarrow> department \<Rightarrow> department \<Rightarrow> department" where
  "renamed dto old d = d\<lparr>d_name := value_or (du_name dto) (d_name old), d_code := value_or (du_code dto) (d_code old),
     d_description := (case du_description dto of None \<Rightarrow> d_description old | Some s \<Rightarrow> Some s)\<rparr>"

definition department_values :: "department \<Rightarrow> json" where
  "department_values d = JObj [(''code'', JStr (d_code d)), (''name'', JStr (d_name d)),
     (''description'', jopt JStr (d_description d))]"

definition updateDepartment :: "string \<Rightarrow> department_update \<Rightarrow> current_user \<Rightarrow> department service" where
  "updateDepartment uuid dto actor =
     bind (find_department_by_uuid uuid) (\<lambda>current.
     bind (ensureActorCanManageDepartment actor (d_loc current)) (\<lambda>_.
     let saved = renamed dto current current in
     bind (no_name_clash (\<lambda>d. d_code d \<noteq> d_code current \<and> d_loc d = d_loc current) (d_name saved) ''.'') (\<lambda>_.
     bind (atomically (
       bind (save_department (d_id current) (renamed dto current) saved) (\<lambda>_.
       audit_department actor (d_id saved) AT_UPDATE ''Updated department details.'' AU_UPDATED
         (department_values current) (department_values saved)))) (\<lambda>_.
     bind departments_changed (\<lambda>_. ret saved)))))"

section \<open>Deletion\<close>

datatype removal = Archived department | Waiting nat deactivation_request

definition plural :: "nat \<Rightarrow> string" where
  "plural n = (if n = 1 then '''' else ''s'')"

definition requestDepartmentDeactivation :: "env \<Rightarrow> department \<Rightarrow> current_user \<Rightarrow> nat \<Rightarrow> removal service" where
  "requestDepartmentDeactivation en d actor remaining =
     bind (atomically (
       bind (reads (\<lambda>w. pending_deactivation w (d_id d))) (\<lambda>existing.
       bind (case existing of
           Some p \<Rightarrow> bind (modify (\<lambda>w. w\<lparr>deactivation_requests := update_rows (\<lambda>r. dr_id r = dr_id p)
             (\<lambda>r. r\<lparr>dr_remaining := remaining\<rparr>) (deactivation_requests w)\<rparr>)) (\<lambda>_. ret (p\<lparr>dr_remaining := remaining\<rparr>))
         | None \<Rightarrow> update_ret (\<lambda>w. let mk = (\<lambda>n. \<lparr>dr_id = n, dr_department = d_id d, dr_loc = d_loc d,
             dr_status = DA_PENDING, dr_remaining = remaining, dr_completed_by = None,
             dr_uuid = gen_uuid en ''department_deactivation_requests'' n, dr_requested_by = cu_id actor,
             dr_requested = remaining, dr_created_at = now en\<rparr>)
           in (mk (next_id (deactivation_requests w)),
               w\<lparr>deactivation_requests := insert_row mk (deactivation_requests w)\<rparr>))) (\<lambda>saved.
       bind (audit_department actor (d_id d) AT_UPDATE
         (if existing \<noteq> None then ''Refreshed pending department archive request.''
          else ''Requested department archive pending employee transfers.'') AU_UPDATED
         (JObj [(''status'', JStr (activity_status (d_active d)))])
         (JObj [(''status'', JStr ''PENDING_TRANSFER''), (''remaining_employee_count'', JNum (of_nat remaining))])) (\<lambda>_.
       ret (saved, existing = None)))))) (\<lambda>(saved, created).
     bind (reads (\<lambda>w. location_name w (d_loc d))) (\<lambda>place.
     bind (when_op created (bind (notifyBranchManager en (d_loc d) \<lparr>no_user = None, no_sender = Some (cu_id actor),
         no_title = ''Transfer Employees Before Department Archive'',
         no_message = d_name d @ '' at '' @ place @ '' has '' @ show_nat remaining @ '' employee'' @ plural remaining
           @ '' assigned. Please transfer all employees out of this department; REG Pay will archive it automatically when the department is empty.'',
         no_type = ''DEPARTMENT_DEACTIVATION_REQUIRED'', no_reference = Some (dr_uuid saved),
         no_metadata = JObj [(''department_uuid'', JStr (d_uuid d)), (''department_id'', JStr (show_nat (d_id d))),
           (''working_location_id'', JStr (show_nat (d_loc d))), (''remaining_employee_count'', JNum (of_nat remaining))],
         no_push = []\<rparr>) (\<lambda>_. ret ()))) (\<lambda>_.
     bind departments_changed (\<lambda>_. ret (Waiting remaining saved)))))"

definition deleteDepartment :: "env \<Rightarrow> string \<Rightarrow> current_user \<Rightarrow> removal service" where
  "deleteDepartment en uuid actor =
     bind (find_department_by_uuid uuid) (\<lambda>current.
     bind (ensureActorCanManageDepartment actor (d_loc current)) (\<lambda>_.
     if \<not> d_active current then ret (Archived current)
     else bind (reads (\<lambda>w. countAssignedEmployees w (d_id current))) (\<lambda>remaining.
       if remaining > 0 then requestDepartmentDeactivation en current actor remaining
       else bind (archiveDepartmentNow (d_id current) (cu_id actor) ''Archived empty department for working location.'') (\<lambda>archived.
         ret (Archived archived)))))"

section \<open>Enabling at a location\<close>

record enable_dto =
  en_name :: string
  en_description :: "string option"

text \<open>
  The row that is re-enabled: of those with the code or the name at the location, an
  archived one before an active one (the enumeration is sorted downwards), the oldest first.
\<close>

definition existing_at :: "nat \<Rightarrow> string \<Rightarrow> string \<Rightarrow> department table \<Rightarrow> department option" where
  "existing_at loc code name t =
     (case sort_key d_created_at (select (\<lambda>d. d_loc d = loc \<and> (d_code d = code \<or> d_name d = name) \<and> \<not> d_active d) t)
        @ sort_key d_created_at (select (\<lambda>d. d_loc d = loc \<and> (d_code d = code \<or> d_name d = name) \<and> d_active d) t) of
       [] \<Rightarrow> None | d # _ \<Rightarrow> Some d)"

definition reenabled :: "enable_dto \<Rightarrow> department \<Rightarrow> department" where
  "reenabled dto d = d\<lparr>d_active := True, d_name := en_name dto,
     d_description := (case en_description dto of None \<Rightarrow> d_description d | Some s \<Rightarrow> Some s)\<rparr>"

definition insert_department :: "nat \<Rightarrow> string \<Rightarrow> string \<Rightarrow> (nat \<Rightarrow> department) \<Rightarrow> department service" where
  "insert_department loc code name mk =
     bind (reads departments) (\<lambda>t.
     bind (ensure (\<not> list_ex (\<lambda>d. d_loc d = loc \<and> d_code d = code) (rows t))
       (UniqueIndex ''Departments_working_location_id_code_key'')) (\<lambda>_.
     bind (ensure (\<not> list_ex (\<lambda>d. d_loc d = loc \<and> d_name d = name) (rows t))
       (UniqueIndex ''Departments_working_location_id_name_key'')) (\<lambda>_.
     update_ret (\<lambda>w. (mk (next_id (departments w)), w\<lparr>departments := insert_row mk (departments w)\<rparr>)))))"

definition cancel_pending :: "nat \<Rightarrow> nat \<Rightarrow> unit service" where
  "cancel_pending did uid = modify (\<lambda>w. w\<lparr>deactivation_requests :=
     update_rows (\<lambda>r. dr_department r = did \<and> dr_status r = DA_PENDING)
       (\<lambda>r. r\<lparr>dr_status := DA_CANCELLED, dr_remaining := 0, dr_completed_by := Some uid\<rparr>) (deactivation_requests w)\<rparr>)"

definition enableAtLocation :: "env \<Rightarrow> string \<Rightarrow> string \<Rightarrow> enable_dto \<Rightarrow> current_user \<Rightarrow> department service" where
  "enableAtLocation en code locationInput dto actor =
     bind (ensure (canReadAllBranches (Some actor))
       (Forbidden ''Only Super Admins (or branches.read_all) can assign a department to another working location.'')) (\<lambda>_.
     bind (department_location locationInput) (\<lambda>loc.
     bind (reads (\<lambda>w. existing_at loc code (en_name dto) (departments w))) (\<lambda>existing.
     if (case existing of None \<Rightarrow> False | Some d \<Rightarrow> d_active d) then ret (the existing)
     else
       bind (no_name_clash (\<lambda>d. d_loc d = loc \<and> (case existing of None \<Rightarrow> True | Some x \<Rightarrow> d_id d \<noteq> d_id x))
         (en_name dto) '' at this location.'') (\<lambda>_.
       bind (atomically (
         bind (case existing of
             Some x \<Rightarrow> bind (save_department (d_id x) (reenabled dto) (reenabled dto x)) (\<lambda>_. ret (reenabled dto x))
           | None \<Rightarrow> insert_department loc code (en_name dto)
               (department_row en loc code (en_name dto) (en_description dto))) (\<lambda>saved.
         bind (audit_department actor (d_id saved) (if existing \<noteq> None then AT_UPDATE else AT_CREATE)
           (if existing \<noteq> None then ''Reactivated department for working location.''
            else ''Assigned department to an additional working location.'')
           (if existing \<noteq> None then AU_UPDATED else AU_CREATED)
           (case existing of Some x \<Rightarrow> JObj [(''status'', JStr (activity_status (d_active x)))] | None \<Rightarrow> JNull)
           (JObj [(''status'', JStr ''ACTIVE''), (''code'', JStr (d_code saved)), (''name'', JStr (en_name dto))])) (\<lambda>_.
         bind (cancel_pending (d_id saved) (cu_id actor)) (\<lambda>_.
         ret saved))))) (\<lambda>result.
       bind (cache_del ''working_locations'') (\<lambda>_.
       bind (reads (\<lambda>w. location_name w (d_loc result))) (\<lambda>place.
       bind (notifyBranchManager en loc \<lparr>no_user = None, no_sender = Some (cu_id actor),
           no_title = ''Department Available Again'',
           no_message = d_name result @ '' is now available again at '' @ place @ ''.'',
           no_type = ''DEPARTMENT_REACTIVATED'', no_reference = Some (d_uuid result),
           no_metadata = JObj [(''department_uuid'', JStr (d_uuid result)), (''department_id'', JStr (show_nat (d_id result))),
             (''working_location_id'', JStr (show_nat (d_loc result)))], no_push = []\<rparr>) (\<lambda>_.
       bind (modify (broadcast (NamedEvent ''departments_updated''))) (\<lambda>_.
       ret result)))))))))"

section \<open>Archiving by suspension\<close>

definition em_dash :: string where
  "em_dash = [CHR 0xE2, CHR 0x80, CHR 0x94]"

text \<open>The pending request with the latest creation, as the department is read with its requests.\<close>

definition latest_pending :: "world \<Rightarrow> nat \<Rightarrow> deactivation_request option" where
  "latest_pending w did = (case sort_key (\<lambda>r. - dr_created_at r)
     (select (\<lambda>r. dr_department r = did \<and> dr_status r = DA_PENDING) (deactivation_requests w)) of [] \<Rightarrow> None | r # _ \<Rightarrow> Some r)"

definition assigned_staff :: "world \<Rightarrow> nat \<Rightarrow> nat list \<times> nat list" where
  "assigned_staff w did = (map e_id (select (\<lambda>e. e_department e = Some did \<and> e_status e = P_ACTIVE \<and> \<not> e_deleted e) (employees w)),
     map u_id (select (\<lambda>u. u_department u = Some did \<and> u_status u = P_ACTIVE) (users w)))"

definition suspend_staff :: "nat list \<Rightarrow> nat list \<Rightarrow> unit service" where
  "suspend_staff es us = modify (\<lambda>w. w\<lparr>
     employees := update_rows (\<lambda>e. e_id e \<in> set es)
       (\<lambda>e. e\<lparr>e_status := P_SUSPENDED, e_pause_reason := Some ''Department deactivated.''\<rparr>) (employees w),
     users := update_rows (\<lambda>u. u_id u \<in> set us) (\<lambda>u. u\<lparr>u_status := P_SUSPENDED\<rparr>) (users w),
     sessions := update_rows (\<lambda>s. se_user s \<in> set us \<and> \<not> se_revoked s) (\<lambda>s. s\<lparr>se_revoked := True\<rparr>) (sessions w)\<rparr>)"

definition close_department :: "department \<Rightarrow> deactivation_request \<Rightarrow> current_user \<Rightarrow> (nat \<times> nat list) service" where
  "close_department d pending actor = atomically (
     bind (reads (\<lambda>w. assigned_staff w (d_id d))) (\<lambda>(es, us).
     bind (suspend_staff es us) (\<lambda>_.
     bind (modify (\<lambda>w. w\<lparr>deactivation_requests := update_rows (\<lambda>r. dr_id r = dr_id pending)
       (\<lambda>r. r\<lparr>dr_status := DA_COMPLETED, dr_remaining := 0, dr_completed_by := Some (cu_id actor)\<rparr>) (deactivation_requests w)\<rparr>)) (\<lambda>_.
     bind (modify (\<lambda>w. w\<lparr>departments := update_rows (\<lambda>x. d_id x = d_id d) (\<lambda>x. x\<lparr>d_active := False\<rparr>) (departments w)\<rparr>)) (\<lambda>_.
     bind (audit_department actor (d_id d) AT_UPDATE
       (''Archived department by suspending '' @ show_nat (length es) @ '' employee(s) and '' @ show_nat (length us)
         @ '' user(s) still assigned.'') AU_UPDATED
       (JObj [(''status'', JStr (activity_status (d_active d)))]) (JObj [(''status'', JStr ''INACTIVE'')])) (\<lambda>_.
     ret (length es, us)))))))"

definition closing_notice :: "department \<Rightarrow> string \<Rightarrow> current_user \<Rightarrow> nat \<Rightarrow> nat \<Rightarrow> notice" where
  "closing_notice d place actor es us = \<lparr>no_user = None, no_sender = Some (cu_id actor),
     no_title = ''Department Closed '' @ em_dash @ '' Staff Suspended'',
     no_message = d_name d @ '' at '' @ place @ '' has been closed. '' @ show_nat es @ '' employee(s) and ''
       @ show_nat us @ '' user(s) were suspended as part of the closure.'',
     no_type = ''DEPARTMENT_ARCHIVED'', no_reference = Some (d_uuid d),
     no_metadata = JObj [(''department_uuid'', JStr (d_uuid d)), (''department_id'', JStr (show_nat (d_id d))),
       (''working_location_id'', JStr (show_nat (d_loc d)))], no_push = []\<rparr>"

definition suspended_notice :: "department \<Rightarrow> string \<Rightarrow> current_user \<Rightarrow> nat \<Rightarrow> notice" where
  "suspended_notice d place actor uid = \<lparr>no_user = Some uid, no_sender = Some (cu_id actor),
     no_title = ''Your Account Was Suspended'',
     no_message = d_name d @ '' at '' @ place @ '' has been closed and your account was suspended as part of that closure. Contact your branch manager if you believe this is a mistake.'',
     no_type = ''ACCOUNT_SUSPENDED'', no_reference = Some (d_uuid d), no_metadata = JNull, no_push = []\<rparr>"

definition announce_closure :: "env \<Rightarrow> department \<Rightarrow> string \<Rightarrow> current_user \<Rightarrow> nat \<Rightarrow> nat list \<Rightarrow> unit service" where
  "announce_closure en d place actor es us =
     bind (cache_del ''working_locations'') (\<lambda>_.
     bind (notifyBranchManager en (d_loc d) (closing_notice d place actor es (length us))) (\<lambda>_.
     bind (for_each us (\<lambda>uid. bind (create_notification en (suspended_notice d place actor uid)) (\<lambda>_. ret ()))) (\<lambda>_.
     modify (broadcast (NamedEvent ''departments_updated'')))))"

definition suspendAndArchive :: "env \<Rightarrow> string \<Rightarrow> current_user \<Rightarrow> (nat \<times> nat) service" where
  "suspendAndArchive en uuid actor =
     bind (find_department_by_uuid uuid) (\<lambda>d.
     bind (ensureActorCanManageDepartment actor (d_loc d)) (\<lambda>_.
     bind (reads (\<lambda>w. latest_pending w (d_id d))) (\<lambda>pending.
     bind (ensure (d_active d \<and> pending \<noteq> None)
       (BadRequest ''This department has no pending deactivation to resolve by suspension.'')) (\<lambda>_.
     bind (reads (\<lambda>w. location_name w (d_loc d))) (\<lambda>place.
     bind (close_department d (the pending) actor) (\<lambda>(es, us).
     bind (announce_closure en d place actor es us) (\<lambda>_.
     ret (es, length us))))))))"

end
