(* ===== verification/Department_Rules.thy ===== *)
theory Department_Rules
  imports Department_Admin
begin

text \<open>
  What the administration of departments keeps: at a location no two departments share the
  code or the name, and no two active ones a name that differs only in case, spaces,
  underscores and hyphens; a department waits for at most one deactivation, and only an
  active one waits.  The effect of the archive by suspension and of a creation whose code
  is taken.
\<close>

section \<open>The registry\<close>

definition department_clash :: "department \<Rightarrow> department \<Rightarrow> bool" where
  "department_clash d d' \<longleftrightarrow> d_loc d = d_loc d' \<and> (d_code d = d_code d' \<or> d_name d = d_name d'
     \<or> (d_active d \<and> d_active d' \<and> normalizeEntityName (d_name d) = normalizeEntityName (d_name d')))"

definition closing_clash :: "deactivation_request \<Rightarrow> deactivation_request \<Rightarrow> bool" where
  "closing_clash r r' \<longleftrightarrow> dr_status r = DA_PENDING \<and> dr_status r' = DA_PENDING \<and> dr_department r = dr_department r'"

interpretation names: uniqueness_rule d_id department_clash
  by unfold_locales (auto simp: department_clash_def)

interpretation closings: uniqueness_rule dr_id closing_clash
  by unfold_locales (auto simp: closing_clash_def)

definition registry_ok :: "department table \<Rightarrow> deactivation_request table \<Rightarrow> bool" where
  "registry_ok dt rt \<longleftrightarrow> apart d_id department_clash dt \<and> apart dr_id closing_clash rt
     \<and> (\<forall>r \<in> set (rows rt). dr_status r = DA_PENDING \<longrightarrow> (\<exists>d \<in> set (rows dt). d_id d = dr_department r \<and> d_active d))"

definition administration_ok :: "world \<Rightarrow> bool" where
  "administration_ok w \<longleftrightarrow> registry_ok (departments w) (deactivation_requests w)"

lemma administration_frame [simp]:
  "administration_ok (w\<lparr>audit_logs := a\<rparr>) = administration_ok w"
  "administration_ok (w\<lparr>cache_keys := k\<rparr>) = administration_ok w"
  "administration_ok (w\<lparr>notifications := n\<rparr>) = administration_ok w"
  "administration_ok (w\<lparr>delivered := e\<rparr>) = administration_ok w"
  "administration_ok (w\<lparr>clients := c\<rparr>) = administration_ok w"
  "administration_ok (w\<lparr>employees := m, users := u, sessions := s\<rparr>) = administration_ok w"
  "administration_ok (broadcast p w) = administration_ok w"
  by (simp_all add: administration_ok_def broadcast_def)

lemma quiet_administration: "quiet administration_ok"
  by (simp add: quiet_def)

lemma registry_insert:
  assumes "registry_ok dt rt" and "d_id (mk (next_id dt)) = next_id dt"
    and "\<forall>d \<in> set (rows dt). \<not> department_clash d (mk (next_id dt))"
  shows "registry_ok (insert_row mk dt) rt"
  using assms names.insert_apart [of dt mk] by (auto simp: registry_ok_def)

lemma registry_update:
  assumes ok: "registry_ok dt rt" and d: "d \<in> set (rows dt)" and same: "\<And>x. d_id (f x) = d_id x"
    and on: "\<And>x. d_active x \<Longrightarrow> d_active (f x)"
    and free: "\<And>x. x \<in> set (rows dt) \<Longrightarrow> d_id x \<noteq> d_id d \<Longrightarrow> \<not> department_clash x (f d)"
  shows "registry_ok (update_rows (\<lambda>x. d_id x = d_id d) f dt) rt"
proof -
  have apart: "apart d_id department_clash dt" using ok unfolding registry_ok_def by blast
  have "apart d_id department_clash (update_rows (\<lambda>x. d_id x = d_id d) f dt)"
    by (rule names.update_one_apart [OF apart d same free])
  moreover have "\<exists>y \<in> set (rows (update_rows (\<lambda>x. d_id x = d_id d) f dt)). d_id y = k \<and> d_active y"
    if k: "\<exists>y \<in> set (rows dt). d_id y = k \<and> d_active y" for k
  proof -
    obtain y where "y \<in> set (rows dt)" "d_id y = k" "d_active y" using k by blast
    then show ?thesis using same on by (intro bex_update_rows [of y]) auto
  qed
  ultimately show ?thesis using ok unfolding registry_ok_def by blast
qed

lemma registry_archive:
  assumes ok: "registry_ok dt rt" and f: "f = (\<lambda>d. d\<lparr>d_active := False\<rparr>)"
    and g: "\<And>r. dr_id (g r) = dr_id r \<and> dr_status (g r) \<noteq> DA_PENDING"
    and all: "\<And>r. r \<in> set (rows rt) \<Longrightarrow> dr_department r = k \<Longrightarrow> dr_status r = DA_PENDING \<Longrightarrow> p r"
  shows "registry_ok (update_rows (\<lambda>d. d_id d = k) f dt) (update_rows p g rt)"
proof -
  have "apart d_id department_clash (update_rows (\<lambda>d. d_id d = k) f dt)"
    using ok unfolding registry_ok_def f by (intro names.update_apart) (auto simp: department_clash_def)
  moreover have "apart dr_id closing_clash (update_rows p g rt)"
    using ok g unfolding registry_ok_def by (intro closings.update_apart) (auto simp: closing_clash_def)
  moreover have "\<exists>d \<in> set (rows (update_rows (\<lambda>d. d_id d = k) f dt)). d_id d = dr_department r \<and> d_active d"
    if r: "r \<in> set (rows (update_rows p g rt))" "dr_status r = DA_PENDING" for r
  proof -
    have old: "r \<in> set (rows rt)" "\<not> p r" using r g by (auto split: if_splits)
    with all r(2) have "dr_department r \<noteq> k" by blast
    moreover obtain d where "d \<in> set (rows dt)" "d_id d = dr_department r" "d_active d"
      using ok old r(2) unfolding registry_ok_def by blast
    ultimately show ?thesis by auto
  qed
  ultimately show ?thesis unfolding registry_ok_def by blast
qed

lemma registry_request:
  assumes ok: "registry_ok dt rt" and d: "d \<in> set (rows dt)" "d_active d"
    and mk: "dr_id (mk (next_id rt)) = next_id rt" "dr_department (mk (next_id rt)) = d_id d"
    and none: "\<forall>r \<in> set (rows rt). \<not> (dr_department r = d_id d \<and> dr_status r = DA_PENDING)"
  shows "registry_ok dt (insert_row mk rt)"
  using assms closings.insert_apart [of rt mk] by (auto simp: registry_ok_def closing_clash_def)

lemma registry_recount:
  assumes ok: "registry_ok dt rt"
    and g: "\<And>r. dr_id (g r) = dr_id r \<and> dr_department (g r) = dr_department r"
      "\<And>r. dr_status (g r) = DA_PENDING \<Longrightarrow> dr_status r = DA_PENDING"
  shows "registry_ok dt (update_rows p g rt)"
proof -
  have "apart dr_id closing_clash (update_rows p g rt)"
    using ok g unfolding registry_ok_def by (intro closings.update_apart) (auto simp: closing_clash_def)
  moreover have "\<exists>d \<in> set (rows dt). d_id d = dr_department r \<and> d_active d"
    if r: "r \<in> set (rows (update_rows p g rt))" "dr_status r = DA_PENDING" for r
  proof -
    obtain r' where "r' \<in> set (rows rt)" "r = (if p r' then g r' else r')" using r(1) unfolding rows_update set_map by blast
    moreover from this r(2) g(2) have "dr_status r' = DA_PENDING" by (metis (full_types))
    ultimately show ?thesis using ok g(1) unfolding registry_ok_def by (metis (full_types))
  qed
  ultimately show ?thesis using ok unfolding registry_ok_def by blast
qed

section \<open>Guards\<close>

lemma readonly_departments [fail_rules]:
  "readonly (resolveDepartmentWriteLocations actor)" "readonly (no_name_clash p name s)"
  "readonly (find_department_by_uuid uuid)" "readonly (ensureActorCanManageDepartment actor loc)"
  "readonly (department_location v)"
  unfolding resolveDepartmentWriteLocations_def no_name_clash_def find_department_by_uuid_def
    ensureActorCanManageDepartment_def department_location_def requireUuidOrNumeric_def
  by (intro fail_rules)+

lemma no_name_clash_Inr:
  "no_name_clash p name s w = (Inr u, v) \<Longrightarrow>
    \<forall>d \<in> set (rows (departments w)). d_active d \<and> p d \<longrightarrow> normalizeEntityName (d_name d) \<noteq> normalizeEntityName name"
  by (auto simp: no_name_clash_def name_clash_def find_None_iff split: option.splits)

lemma department_by_uuid:
  "find_department_by_uuid uuid w = (Inr d, v) \<Longrightarrow> d \<in> set (rows (departments w)) \<and> d_uuid d = uuid \<and> v = w"
  by (auto simp: find_department_by_uuid_def bind_the_or dest: find_row_Some split: option.splits)

lemma departments_changed_app: "departments_changed w = (Inr (), broadcast (NamedEvent ''departments_updated'')
    (w\<lparr>cache_keys := cache_keys (snd (cache_del ''working_locations'' w))\<rparr>))"
  by (simp add: departments_changed_def cache_del_def)

lemma keeps_changed: "keeps administration_ok departments_changed"
  by (simp add: keeps_def departments_changed_app)

lemma keeps_cache_broadcast: "keeps administration_ok (cache_del k)" "keeps administration_ok (modify (broadcast p))"
  by (simp_all add: keeps_def cache_del_def)

lemmas keeps_department = keeps_changed keeps_cache_broadcast branch.keeps_send [OF quiet_administration]
  direct.keeps_send [OF quiet_administration]

section \<open>The operations keep it\<close>

text \<open>
  Creation: an active department at a target with the same name up to spelling is refused,
  so along the loop only the department just created has such a name, and it has this name.
\<close>

lemma create_at_ok:
  assumes ok: "registry_ok t rt" and loc: "loc \<in> locs"
    and same: "\<forall>d \<in> set (rows t). d_active d \<and> d_loc d \<in> locs \<and> normalizeEntityName (d_name d) = normalizeEntityName (cd_name dto)
      \<longrightarrow> d_name d = cd_name dto"
  shows "registry_ok (create_at en dto t loc) rt
    \<and> (\<forall>d \<in> set (rows (create_at en dto t loc)). d_active d \<and> d_loc d \<in> locs
        \<and> normalizeEntityName (d_name d) = normalizeEntityName (cd_name dto) \<longrightarrow> d_name d = cd_name dto)"
proof (cases "taken_at loc (cd_code dto) (cd_name dto) t")
  case True
  with ok same show ?thesis by (simp add: create_at_def)
next
  case False
  let ?mk = "department_row en loc (cd_code dto) (cd_name dto) (cd_description dto)"
  have "\<not> department_clash d (?mk (next_id t))" if "d \<in> set (rows t)" for d
    using False that same loc by (auto simp: department_clash_def taken_at_def list_ex_iff department_row_def)
  with False ok same show ?thesis
    by (auto simp: create_at_def department_row_def intro!: registry_insert)
qed

lemma create_all_ok:
  "registry_ok t rt \<Longrightarrow> set ls \<subseteq> locs
    \<Longrightarrow> \<forall>d \<in> set (rows t). d_active d \<and> d_loc d \<in> locs \<and> normalizeEntityName (d_name d) = normalizeEntityName (cd_name dto)
      \<longrightarrow> d_name d = cd_name dto
    \<Longrightarrow> registry_ok (foldl (create_at en dto) t ls) rt"
proof (induction ls arbitrary: t)
  case (Cons l ls)
  with create_at_ok [OF Cons.prems(1) _ Cons.prems(3), of l en] show ?case by simp
qed simp

lemma create_department_keeps: "keeps administration_ok (createDepartment en dto actor)"
proof (rule keeps_leads)
  fix w :: world
  assume ok: "administration_ok w"
  show "leads administration_ok (createDepartment en dto actor) w"
    unfolding createDepartment_def
  proof ((rule leads_guard [where I = administration_ok, OF _ ok], (intro fail_rules)[1])+, rule leads_atomically)
    fix u targets u'
    assume clash: "no_name_clash (\<lambda>d. d_loc d \<in> set targets) (cd_name dto) ''.'' w = (Inr u', w)"
    have "registry_ok (foldl (create_at en dto) (departments w) targets) (deactivation_requests w)"
      using ok no_name_clash_Inr [OF clash] by (intro create_all_ok [where locs = "set targets"]) (auto simp: administration_ok_def)
    note core = this
    fix a v
    assume "bind (modify (\<lambda>w. w\<lparr>departments := foldl (create_at en dto) (departments w) targets\<rparr>)) (\<lambda>_.
       bind (reads (\<lambda>w. sort_key d_loc (select (\<lambda>d. d_code d = cd_code dto \<and> d_loc d \<in> set targets) (departments w)))) (\<lambda>created.
       bind (ensure (created \<noteq> []) (BadRequest ''Department already exists in all working locations.'')) (\<lambda>_.
       bind (audit_department actor (d_id (hd created)) AT_CREATE
         (if canReadAllBranches (Some actor) then ''Created global department across all working locations.''
          else ''Created branch department.'') AU_CREATED JNull
         (JObj [(''code'', JStr (cd_code dto)), (''name'', JStr (cd_name dto)),
           (''description'', jopt JStr (cd_description dto))])) (\<lambda>_.
       ret created)))) w = (Inr a, v)"
    with core show "administration_ok v"
      by (auto simp: bind_ensure audit_department_def bind_def [of "audit _"] administration_ok_def split: if_splits)
  qed (auto simp: ok intro!: keeps_rules keeps_department)
qed

text \<open>A saved row: the unique indexes and the check of the name leave no clash.\<close>

lemma save_department_app:
  "save_department k f saved w = (r, v) \<Longrightarrow> v = (case r of Inl e \<Rightarrow> w
      | Inr u \<Rightarrow> w\<lparr>departments := update_rows (\<lambda>d. d_id d = k) f (departments w)\<rparr>)
    \<and> (\<forall>u. r = Inr u \<longrightarrow> (\<forall>d \<in> set (rows (departments w)). d_id d \<noteq> k \<and> d_loc d = d_loc saved
        \<longrightarrow> d_code d \<noteq> d_code saved \<and> d_name d \<noteq> d_name saved))"
  by (auto simp: save_department_def bind_ensure list_ex_iff split: if_splits)

lemma save_department_ok:
  assumes ok: "administration_ok w" and d: "d \<in> set (rows (departments w))"
    and run: "save_department (d_id d) f (f d) w = (Inr u, v)"
    and f: "\<And>x. d_id (f x) = d_id x" "\<And>x. d_active x \<Longrightarrow> d_active (f x)" "d_loc (f d) = d_loc d"
    and names: "\<And>x. x \<in> set (rows (departments w)) \<Longrightarrow> d_active x \<Longrightarrow> d_loc x = d_loc d \<Longrightarrow> d_id x \<noteq> d_id d
      \<Longrightarrow> normalizeEntityName (d_name x) \<noteq> normalizeEntityName (d_name (f d))"
  shows "administration_ok v"
proof -
  have v: "v = w\<lparr>departments := update_rows (\<lambda>x. d_id x = d_id d) f (departments w)\<rparr>"
    and unique: "\<forall>x \<in> set (rows (departments w)). d_id x \<noteq> d_id d \<and> d_loc x = d_loc (f d)
        \<longrightarrow> d_code x \<noteq> d_code (f d) \<and> d_name x \<noteq> d_name (f d)"
    using save_department_app [OF run] by simp_all
  have "\<not> department_clash x (f d)" if "x \<in> set (rows (departments w))" "d_id x \<noteq> d_id d" for x
    using that unique names [of x] f(3) by (auto simp: department_clash_def)
  then show ?thesis
    using ok d f(1,2) unfolding v administration_ok_def by (auto intro!: registry_update)
qed

lemma renamed_simps [simp]: "d_id (renamed dto old d) = d_id d" "d_loc (renamed dto old d) = d_loc d"
  "d_active (renamed dto old d) = d_active d" "d_name (renamed dto old d) = value_or (du_name dto) (d_name old)"
  by (simp_all add: renamed_def)

lemma update_department_keeps: "keeps administration_ok (updateDepartment uuid dto actor)"
proof (rule keeps_leads)
  fix w :: world
  assume ok: "administration_ok w"
  show "leads administration_ok (updateDepartment uuid dto actor) w"
    unfolding updateDepartment_def Let_def
  proof ((rule leads_guard [where I = administration_ok, OF _ ok], (intro fail_rules)[1])+, rule leads_atomically)
    fix d u u' a v
    assume d: "find_department_by_uuid uuid w = (Inr d, w)"
      and clash: "no_name_clash (\<lambda>x. d_code x \<noteq> d_code d \<and> d_loc x = d_loc d) (d_name (renamed dto d d)) ''.'' w = (Inr u', w)"
      and run: "bind (save_department (d_id d) (renamed dto d) (renamed dto d d)) (\<lambda>_.
         audit_department actor (d_id (renamed dto d d)) AT_UPDATE ''Updated department details.'' AU_UPDATED
         (department_values d) (department_values (renamed dto d d))) w = (Inr a, v)"
    then obtain u1 v1 where save: "save_department (d_id d) (renamed dto d) (renamed dto d d) w = (Inr u1, v1)"
      and v: "v = v1\<lparr>audit_logs := audit_logs v\<rparr>"
      by (auto simp: bind_Inr audit_department_def)
    have row: "d \<in> set (rows (departments w))" using department_by_uuid [OF d] by simp
    have "administration_ok v1"
    proof (rule save_department_ok [OF ok row save])
      fix x
      assume x: "x \<in> set (rows (departments w))" "d_active x" "d_loc x = d_loc d" "d_id x \<noteq> d_id d"
      then have "d_code x \<noteq> d_code d"
        using ok row unfolding administration_ok_def registry_ok_def apart_def department_clash_def by blast
      with no_name_clash_Inr [OF clash] x show "normalizeEntityName (d_name x) \<noteq> normalizeEntityName (d_name (renamed dto d d))" by blast
    qed simp_all
    then show "administration_ok v" by (subst v) simp
  qed (auto simp: ok intro!: keeps_rules keeps_department)
qed

text \<open>The archive of a department and of the requests that waited for it.\<close>

lemma archive_keeps: "keeps administration_ok (archiveDepartmentNow did uid msg)"
proof (rule keepsI)
  fix w :: world and r v
  assume ok: "administration_ok w" and run: "archiveDepartmentNow did uid msg w = (r, v)"
  show "administration_ok v"
  proof (cases "find_department w did")
    case None
    with run have "v = w" by (auto simp: archiveDepartmentNow_def atomically_def bind_def)
    with ok show ?thesis by simp
  next
    case (Some x)
    let ?off = "\<lambda>d. d\<lparr>d_active := False\<rparr>"
    let ?done = "\<lambda>r. r\<lparr>dr_status := DA_COMPLETED, dr_remaining := 0, dr_completed_by := Some uid\<rparr>"
    have x: "x \<in> set (rows (departments w))" "d_id x = did"
      using find_row_Some Some unfolding find_department_def by fastforce+
    have key: "table_ok d_id (departments w)" using ok by (simp add: administration_ok_def registry_ok_def apart_def)
    have "departments v = update_rows (\<lambda>d. d_id d = did) ?off (departments w)"
    proof (cases "d_active x")
      case True
      with archiveDepartmentNow_result [OF Some, of uid msg] run show ?thesis by simp
    next
      case False
      have "?off d = d" if "d \<in> set (rows (departments w))" "d_id d = did" for d
        using table_ok_unique [OF key that(1) x(1)] that(2) x(2) False by simp
      with False archiveDepartmentNow_result [OF Some, of uid msg] run show ?thesis by (simp add: update_rows_id)
    qed
    moreover have "deactivation_requests v = update_rows (\<lambda>r. dr_department r = did \<and> dr_status r = DA_PENDING) ?done (deactivation_requests w)"
      using archiveDepartmentNow_result [OF Some, of uid msg] run by simp
    ultimately show ?thesis using ok unfolding administration_ok_def
      by (auto simp: administration_ok_def intro!: registry_archive)
  qed
qed

lemma pending_deactivation_None: "pending_deactivation w did = None \<longleftrightarrow>
    (\<forall>r \<in> set (rows (deactivation_requests w)). \<not> (dr_department r = did \<and> dr_status r = DA_PENDING))"
  by (simp add: pending_deactivation_def find_row_None)

lemma archive_pending_keeps: "keeps administration_ok (archivePendingDepartmentIfEmpty en did uid)"
  unfolding archivePendingDepartmentIfEmpty_def
  by (intro keeps_rules keeps_department archive_keeps keeps_modify)
    (auto simp: administration_ok_def intro: registry_recount)

text \<open>Waiting: only for an active department that is not waiting yet.\<close>

lemma request_leads:
  assumes ok: "administration_ok w" and d: "d \<in> set (rows (departments w))" "d_active d"
  shows "leads administration_ok (requestDepartmentDeactivation en d actor n) w"
  unfolding requestDepartmentDeactivation_def
proof (rule leads_atomically, goal_cases)
  case (3 a v)
  show ?case
  proof (cases "pending_deactivation w (d_id d)")
    case (Some q)
    with 3 show ?thesis using ok
      by (auto simp: bind_assoc bind_def [of "audit _"] audit_department_def administration_ok_def intro!: registry_recount)
  next
    case None
    with 3 show ?thesis using ok d
      by (auto simp: bind_update_ret Let_def audit_department_def administration_ok_def pending_deactivation_None
          bind_def [of "audit _"] bind_assoc intro!: registry_request)
  qed
qed (auto simp: ok intro!: keeps_rules keeps_department keeps_pair)

lemma delete_department_keeps: "keeps administration_ok (deleteDepartment en uuid actor)"
proof (rule keeps_leads)
  fix w :: world
  assume ok: "administration_ok w"
  show "leads administration_ok (deleteDepartment en uuid actor) w"
    unfolding deleteDepartment_def
  proof ((rule leads_guard [where I = administration_ok, OF _ ok], (intro fail_rules)[1])+)
    fix d u
    assume "find_department_by_uuid uuid w = (Inr d, w)"
    from department_by_uuid [OF this] have d: "d \<in> set (rows (departments w))" by simp
    show "leads administration_ok (if \<not> d_active d then ret (Archived d)
      else bind (reads (\<lambda>w. countAssignedEmployees w (d_id d))) (\<lambda>remaining.
       if remaining > 0 then requestDepartmentDeactivation en d actor remaining
       else bind (archiveDepartmentNow (d_id d) (cu_id actor) ''Archived empty department for working location.'') (\<lambda>archived.
         ret (Archived archived)))) w"
      using request_leads [OF ok d] leads_keeps [OF keeps_bind [OF archive_keeps keeps_ret] ok] ok
      by (auto simp: leads_def)
  qed
qed

lemma existing_at_Some: "existing_at loc code name t = Some x \<Longrightarrow> x \<in> set (rows t) \<and> d_loc x = loc"
proof -
  assume ex: "existing_at loc code name t = Some x"
  define xs where "xs = sort_key d_created_at (select (\<lambda>d. d_loc d = loc \<and> (d_code d = code \<or> d_name d = name) \<and> \<not> d_active d) t)
        @ sort_key d_created_at (select (\<lambda>d. d_loc d = loc \<and> (d_code d = code \<or> d_name d = name) \<and> d_active d) t)"
  have "\<forall>d \<in> set xs. d \<in> set (rows t) \<and> d_loc d = loc" by (auto simp: xs_def)
  moreover have "x \<in> set xs" using ex unfolding existing_at_def xs_def [symmetric] by (cases xs) auto
  ultimately show ?thesis by blast
qed

lemma reenabled_simps [simp]: "d_id (reenabled dto d) = d_id d" "d_loc (reenabled dto d) = d_loc d"
  "d_active (reenabled dto d)" "d_name (reenabled dto d) = en_name dto" "d_code (reenabled dto d) = d_code d"
  by (simp_all add: reenabled_def)

lemma insert_department_ok:
  assumes ok: "administration_ok w"
    and run: "insert_department loc code name (department_row en loc code name desc) w = (Inr d, v)"
    and names: "\<And>x. x \<in> set (rows (departments w)) \<Longrightarrow> d_active x \<Longrightarrow> d_loc x = loc
      \<Longrightarrow> normalizeEntityName (d_name x) \<noteq> normalizeEntityName name"
  shows "administration_ok v"
proof -
  let ?mk = "department_row en loc code name desc"
  have v: "v = w\<lparr>departments := insert_row ?mk (departments w)\<rparr>"
    and unique: "\<forall>x \<in> set (rows (departments w)). d_loc x = loc \<longrightarrow> d_code x \<noteq> code \<and> d_name x \<noteq> name"
    using run by (auto simp: insert_department_def bind_ensure update_ret_app list_ex_iff split: if_splits)
  have "\<not> department_clash x (?mk (next_id (departments w)))" if "x \<in> set (rows (departments w))" for x
    using that unique names [of x] by (auto simp: department_clash_def department_row_def)
  then show ?thesis using ok unfolding v administration_ok_def
    by (auto intro!: registry_insert simp: department_row_def)
qed

lemma enabled_ok:
  assumes ok: "administration_ok w" and x: "existing_at loc code (en_name dto) (departments w) = existing"
    and clash: "no_name_clash (\<lambda>d. d_loc d = loc \<and> (case existing of None \<Rightarrow> True | Some x \<Rightarrow> d_id d \<noteq> d_id x))
         (en_name dto) msg w = (Inr u, w)"
    and run: "(case existing of
             Some x \<Rightarrow> bind (save_department (d_id x) (reenabled dto) (reenabled dto x)) (\<lambda>_. ret (reenabled dto x))
           | None \<Rightarrow> insert_department loc code (en_name dto)
               (department_row en loc code (en_name dto) (en_description dto))) w = (Inr saved, v)"
  shows "administration_ok v"
proof (cases existing)
  case None
  with run no_name_clash_Inr [OF clash] show ?thesis by (auto intro!: insert_department_ok [OF ok])
next
  case (Some y)
  with existing_at_Some x have y: "y \<in> set (rows (departments w))" "d_loc y = loc" by blast+
  obtain u' where "save_department (d_id y) (reenabled dto) (reenabled dto y) w = (Inr u', v)"
    using run Some by (auto simp: bind_Inr)
  then show ?thesis using no_name_clash_Inr [OF clash] Some y
    by (intro save_department_ok [OF ok y(1), where f = "reenabled dto"]) auto
qed

lemma keeps_cancel: "keeps administration_ok (cancel_pending did uid)"
  unfolding cancel_pending_def
  by (intro keeps_modify) (auto simp: administration_ok_def intro!: registry_recount)

lemma keeps_audit_department: "keeps administration_ok (audit_department actor k t m a old new)"
  by (simp add: audit_department_def keeps_def)

lemma enable_department_keeps: "keeps administration_ok (enableAtLocation en code place dto actor)"
proof (rule keeps_leads)
  fix w :: world
  assume ok: "administration_ok w"
  show "leads administration_ok (enableAtLocation en code place dto actor) w"
    unfolding enableAtLocation_def
  proof ((rule leads_guard [where I = administration_ok, OF _ ok], (intro fail_rules)[1])+, goal_cases)
    case (1 u loc existing)
    show ?case
    proof (cases "case existing of None \<Rightarrow> False | Some d \<Rightarrow> d_active d")
      case True
      with ok show ?thesis by (simp add: leads_def)
    next
      case False
      show ?thesis unfolding if_not_P [OF False]
      proof (rule leads_guard [where I = administration_ok, OF _ ok], goal_cases)
        case 1
        show ?case by (rule fail_rules)
      next
        case (2 u')
        show ?case
        proof (rule leads_atomically, goal_cases)
          case (3 a v)
          obtain saved v1 where run: "(case existing of
             Some x \<Rightarrow> bind (save_department (d_id x) (reenabled dto) (reenabled dto x)) (\<lambda>_. ret (reenabled dto x))
           | None \<Rightarrow> insert_department loc code (en_name dto)
               (department_row en loc code (en_name dto) (en_description dto))) w = (Inr saved, v1)"
            and rest: "bind (audit_department actor (d_id saved) (if existing \<noteq> None then AT_UPDATE else AT_CREATE)
           (if existing \<noteq> None then ''Reactivated department for working location.''
            else ''Assigned department to an additional working location.'')
           (if existing \<noteq> None then AU_UPDATED else AU_CREATED)
           (case existing of Some x \<Rightarrow> JObj [(''status'', JStr (activity_status (d_active x)))] | None \<Rightarrow> JNull)
           (JObj [(''status'', JStr ''ACTIVE''), (''code'', JStr (d_code saved)), (''name'', JStr (en_name dto))])) (\<lambda>_.
         bind (cancel_pending (d_id saved) (cu_id actor)) (\<lambda>_. ret saved)) v1 = (Inr a, v)"
            using 3 unfolding bind_Inr [of _ _ w] by blast
          have ok1: "administration_ok v1" using 1(3) by (intro enabled_ok [OF ok _ 2 run]) simp
          have after: "keeps administration_ok (bind (audit_department actor k t m c old new) (\<lambda>_.
              bind (cancel_pending (d_id saved) (cu_id actor)) (\<lambda>_. ret saved)))" for k t m c old new
            by (intro keeps_rules keeps_cancel keeps_audit_department)
          show ?case by (rule keepsD [OF after, OF ok1, OF rest])
        qed (auto simp: ok intro!: keeps_rules keeps_department)
      qed
    qed
  qed
qed

text \<open>The archive by suspension.\<close>

lemma latest_pending_Some: "latest_pending w did = Some p \<Longrightarrow>
    p \<in> set (rows (deactivation_requests w)) \<and> dr_department p = did \<and> dr_status p = DA_PENDING"
proof -
  assume pending: "latest_pending w did = Some p"
  define ps where "ps = sort_key (\<lambda>r. - dr_created_at r) (select (\<lambda>r. dr_department r = did \<and> dr_status r = DA_PENDING) (deactivation_requests w))"
  have "p \<in> set ps" using pending unfolding latest_pending_def ps_def [symmetric] by (cases ps) auto
  then show ?thesis by (auto simp: ps_def)
qed

definition closed_world :: "department \<Rightarrow> deactivation_request \<Rightarrow> current_user \<Rightarrow> world \<Rightarrow> world" where
  "closed_world d pending actor w = (snd (suspend_staff (fst (assigned_staff w (d_id d))) (snd (assigned_staff w (d_id d))) w))
     \<lparr>deactivation_requests := update_rows (\<lambda>r. dr_id r = dr_id pending)
       (\<lambda>r. r\<lparr>dr_status := DA_COMPLETED, dr_remaining := 0, dr_completed_by := Some (cu_id actor)\<rparr>) (deactivation_requests w),
      departments := update_rows (\<lambda>x. d_id x = d_id d) (\<lambda>x. x\<lparr>d_active := False\<rparr>) (departments w)\<rparr>"

lemma close_department_app: "\<exists>a. close_department d pending actor w
    = (Inr (length (fst (assigned_staff w (d_id d))), snd (assigned_staff w (d_id d))), (closed_world d pending actor w)\<lparr>audit_logs := a\<rparr>)"
  by (cases "assigned_staff w (d_id d)")
    (auto simp: close_department_def atomically_def closed_world_def suspend_staff_def audit_department_def bind_def [of "audit _"])

lemma closed_world_ok:
  assumes ok: "administration_ok w" and p: "latest_pending w (d_id d) = Some p"
  shows "administration_ok (closed_world d p actor w)"
proof -
  have "dr_id r = dr_id p" if "r \<in> set (rows (deactivation_requests w))" "dr_department r = d_id d" "dr_status r = DA_PENDING" for r
    using ok that latest_pending_Some [OF p] unfolding administration_ok_def registry_ok_def
    by (auto intro: apartD simp: closing_clash_def)
  then show ?thesis using ok unfolding administration_ok_def closed_world_def suspend_staff_def
    by (auto intro!: registry_archive)
qed

lemma suspend_and_archive_keeps: "keeps administration_ok (suspendAndArchive en uuid actor)"
proof (rule keeps_leads)
  fix w :: world
  assume ok: "administration_ok w"
  show "leads administration_ok (suspendAndArchive en uuid actor) w"
    unfolding suspendAndArchive_def
  proof ((rule leads_guard [where I = administration_ok, OF _ ok], (intro fail_rules)[1])+, rule leads_then, goal_cases)
    case (1 d u pending u' place r v)
    then have "latest_pending w (d_id d) = Some (the pending)" by auto
    from closed_world_ok [OF ok this] close_department_app [of d "the pending" actor w] 1 show ?case by auto
  qed (auto simp: announce_closure_def intro!: keeps_rules keeps_department keeps_pair)
qed

section \<open>Sequences of requests\<close>

datatype department_request =
    CreateDepartment department_dto
  | UpdateDepartment string department_update
  | DeleteDepartment string
  | EnableDepartment string string enable_dto
  | SuspendDepartment string

definition run_department :: "env \<Rightarrow> current_user \<Rightarrow> department_request \<Rightarrow> unit service" where
  "run_department en actor q = (case q of
       CreateDepartment dto \<Rightarrow> bind (createDepartment en dto actor) (\<lambda>_. ret ())
     | UpdateDepartment uuid dto \<Rightarrow> bind (updateDepartment uuid dto actor) (\<lambda>_. ret ())
     | DeleteDepartment uuid \<Rightarrow> bind (deleteDepartment en uuid actor) (\<lambda>_. ret ())
     | EnableDepartment code place dto \<Rightarrow> bind (enableAtLocation en code place dto actor) (\<lambda>_. ret ())
     | SuspendDepartment uuid \<Rightarrow> bind (suspendAndArchive en uuid actor) (\<lambda>_. ret ()))"

text \<open>Between requests, a transfer may empty a department that waits.\<close>

inductive department_reaches :: "world \<Rightarrow> world \<Rightarrow> bool" where
  start: "department_reaches w w"
| request: "department_reaches w v \<Longrightarrow> run_department en actor q v = (r, u) \<Longrightarrow> department_reaches w u"
| emptied: "department_reaches w v \<Longrightarrow> archivePendingDepartmentIfEmpty en did uid v = (r', u) \<Longrightarrow> department_reaches w u"

lemma run_department_keeps: "keeps administration_ok (run_department en actor q)"
  unfolding run_department_def
  by (cases q) (auto intro!: keeps_rules create_department_keeps update_department_keeps delete_department_keeps
      enable_department_keeps suspend_and_archive_keeps)

lemma administration_reaches: "department_reaches w v \<Longrightarrow> administration_ok w \<Longrightarrow> administration_ok v"
  by (induction rule: department_reaches.induct)
    (blast intro: keepsD [OF run_department_keeps] keepsD [OF archive_pending_keeps])+

section \<open>Who is suspended\<close>

definition staff_of :: "nat \<Rightarrow> employee \<Rightarrow> bool" where
  "staff_of did e \<longleftrightarrow> e_department e = Some did \<and> e_status e = P_ACTIVE \<and> \<not> e_deleted e"

definition account_of :: "nat \<Rightarrow> user \<Rightarrow> bool" where
  "account_of did u \<longleftrightarrow> u_department u = Some did \<and> u_status u = P_ACTIVE"

definition people_and_places :: "world \<Rightarrow> world \<Rightarrow> bool" where
  "people_and_places v w \<longleftrightarrow> employees w = employees v \<and> users w = users v \<and> sessions w = sessions v
     \<and> departments w = departments v \<and> deactivation_requests w = deactivation_requests v"

lemma keeps_people: "quiet (people_and_places v)" "keeps (people_and_places v) (cache_del k)"
  "keeps (people_and_places v) (modify (broadcast p))"
  by (simp_all add: quiet_def people_and_places_def keeps_def cache_del_def broadcast_def)

lemma suspended_rows:
  assumes "table_ok key t"
  shows "update_rows (\<lambda>r. key r \<in> set (map key (select p t))) f t = update_rows p f t"
  using table_ok_unique [OF assms] by (intro update_rows_cong) auto

lemma suspension_effect:
  assumes run: "suspendAndArchive en uuid actor w = (Inr (n, m), v)"
    and keys: "table_ok e_id (employees w)" "table_ok u_id (users w)"
  shows "\<exists>d p. d \<in> set (rows (departments w)) \<and> d_uuid d = uuid \<and> d_active d \<and> latest_pending w (d_id d) = Some p
    \<and> n = length (select (staff_of (d_id d)) (employees w)) \<and> m = length (select (account_of (d_id d)) (users w))
    \<and> people_and_places (closed_world d p actor w) v
    \<and> employees v = update_rows (staff_of (d_id d))
        (\<lambda>e. e\<lparr>e_status := P_SUSPENDED, e_pause_reason := Some ''Department deactivated.''\<rparr>) (employees w)
    \<and> users v = update_rows (account_of (d_id d)) (\<lambda>u. u\<lparr>u_status := P_SUSPENDED\<rparr>) (users w)"
proof -
  obtain d where d: "find_department_by_uuid uuid w = (Inr d, w)"
    and rest: "bind (ensureActorCanManageDepartment actor (d_loc d)) (\<lambda>_.
     bind (reads (\<lambda>w. latest_pending w (d_id d))) (\<lambda>pending.
     bind (ensure (d_active d \<and> pending \<noteq> None)
       (BadRequest ''This department has no pending deactivation to resolve by suspension.'')) (\<lambda>_.
     bind (reads (\<lambda>w. location_name w (d_loc d))) (\<lambda>place.
     bind (close_department d (the pending) actor) (\<lambda>(es, us).
     bind (announce_closure en d place actor es us) (\<lambda>_. ret (es, length us))))))) w = (Inr (n, m), v)"
    using run readonlyD [OF readonly_departments(3)] unfolding suspendAndArchive_def bind_Inr by blast
  from rest obtain p where p: "latest_pending w (d_id d) = Some p" and on: "d_active d"
    and close: "bind (close_department d p actor) (\<lambda>(es, us).
      bind (announce_closure en d (location_name w (d_loc d)) actor es us) (\<lambda>_. ret (es, length us))) w = (Inr (n, m), v)"
    by (auto simp: bind_Inr [of "ensureActorCanManageDepartment actor (d_loc d)"] bind_ensure
        dest!: readonlyD [OF readonly_departments(4)] split: if_splits)
  let ?es = "fst (assigned_staff w (d_id d))" and ?us = "snd (assigned_staff w (d_id d))"
  obtain a where core: "close_department d p actor w = (Inr (length ?es, ?us), (closed_world d p actor w)\<lparr>audit_logs := a\<rparr>)"
    using close_department_app by blast
  let ?tell = "announce_closure en d (location_name w (d_loc d)) actor (length ?es) ?us"
  define w1 where "w1 = (closed_world d p actor w)\<lparr>audit_logs := a\<rparr>"
  have "bind ?tell (\<lambda>_. ret (length ?es, length ?us)) w1 = (Inr (n, m), v)"
    using close core by (simp add: bind_def [of "close_department d p actor"] w1_def)
  then obtain u where tell: "?tell w1 = (Inr u, v)" and count: "n = length ?es" "m = length ?us"
    unfolding bind_Inr ret_app by blast
  have "keeps (people_and_places (closed_world d p actor w)) ?tell"
    unfolding announce_closure_def by (intro keeps_rules keeps_people keeps_notify)
  from keepsD [OF this _ tell] have kept: "people_and_places (closed_world d p actor w) v"
    by (simp add: people_and_places_def w1_def)
  have "staff_of (d_id d) = (\<lambda>e. e_department e = Some (d_id d) \<and> e_status e = P_ACTIVE \<and> \<not> e_deleted e)"
    "account_of (d_id d) = (\<lambda>u. u_department u = Some (d_id d) \<and> u_status u = P_ACTIVE)"
    by (simp_all add: staff_of_def account_of_def fun_eq_iff)
  then have staff: "?es = map e_id (select (staff_of (d_id d)) (employees w))" "?us = map u_id (select (account_of (d_id d)) (users w))"
    by (simp_all add: assigned_staff_def)
  have "employees v = update_rows (\<lambda>e. e_id e \<in> set ?es) (\<lambda>e. e\<lparr>e_status := P_SUSPENDED, e_pause_reason := Some ''Department deactivated.''\<rparr>) (employees w)"
    "users v = update_rows (\<lambda>u. u_id u \<in> set ?us) (\<lambda>u. u\<lparr>u_status := P_SUSPENDED\<rparr>) (users w)"
    using kept by (simp_all add: people_and_places_def closed_world_def suspend_staff_def)
  then have "employees v = update_rows (staff_of (d_id d)) (\<lambda>e. e\<lparr>e_status := P_SUSPENDED, e_pause_reason := Some ''Department deactivated.''\<rparr>) (employees w)"
    "users v = update_rows (account_of (d_id d)) (\<lambda>u. u\<lparr>u_status := P_SUSPENDED\<rparr>) (users w)"
    unfolding staff suspended_rows [OF keys(1)] suspended_rows [OF keys(2)] .
  with department_by_uuid [OF d] p on kept count staff show ?thesis by auto
qed

section \<open>A code that exists\<close>

lemma create_at_taken: "\<forall>l \<in> set ls. taken_at l (cd_code dto) (cd_name dto) t \<Longrightarrow> foldl (create_at en dto) t ls = t"
  by (induction ls) (auto simp: create_at_def)

lemma resolve_targets: "resolveDepartmentWriteLocations actor w = (Inr targets, w) \<Longrightarrow> targets \<noteq> []"
  by (auto simp: resolveDepartmentWriteLocations_def bind_ensure split: if_splits)

lemma create_taken_code:
  assumes targets: "resolveDepartmentWriteLocations actor w = (Inr targets, w)"
    and taken: "\<forall>l \<in> set targets. \<exists>d \<in> set (rows (departments w)). d_loc d = l \<and> d_code d = cd_code dto"
    and fresh: "\<forall>d \<in> set (rows (departments w)). d_active d \<and> d_loc d \<in> set targets
      \<longrightarrow> normalizeEntityName (d_name d) \<noteq> normalizeEntityName (cd_name dto)"
    and given: "cd_code dto \<noteq> []" "cd_name dto \<noteq> []"
  shows "\<exists>ds v row. createDepartment en dto actor w = (Inr ds, v) \<and> ds \<noteq> [] \<and> departments v = departments w
    \<and> (\<forall>d \<in> set ds. d \<in> set (rows (departments w)))
    \<and> rows (audit_logs v) = rows (audit_logs w) @ [row] \<and> a_action row = AU_CREATED \<and> a_table row = ''departments''"
proof -
  have all: "foldl (create_at en dto) (departments w) targets = departments w"
    using taken by (intro create_at_taken) (auto simp: taken_at_def list_ex_iff)
  have "no_name_clash (\<lambda>d. d_loc d \<in> set targets) (cd_name dto) ''.'' w = (Inr (), w)"
    using fresh by (auto simp: no_name_clash_def name_clash_def find_None_iff split: option.split dest!: find_SomeD)
  moreover define created where "created = sort_key d_loc (select (\<lambda>d. d_code d = cd_code dto \<and> d_loc d \<in> set targets) (departments w))"
  moreover have "created \<noteq> []"
  proof -
    from resolve_targets [OF targets] obtain l where "l \<in> set targets" by (cases targets) auto
    with taken have "set created \<noteq> {}" by (auto simp: created_def)
    then show ?thesis by auto
  qed
  moreover have "\<forall>d \<in> set created. d \<in> set (rows (departments w))" by (auto simp: created_def)
  ultimately show ?thesis using targets given
    by (simp add: createDepartment_def bind_def [of "resolveDepartmentWriteLocations actor"] bind_def [of "no_name_clash _ _ _"]
        bind_def [of "atomically _"] audit_department_def)
      (simp add: atomically_def bind_ensure all bind_def [of "audit _"] departments_changed_app bind_def [of departments_changed] broadcast_def)
qed

end
