(* ===== verification/Permission_Catalogue.thy ===== *)
theory Permission_Catalogue
  imports Permissions
begin

text \<open>
  The registry of permissions (\<open>common/constants/permissions.constants.ts\<close>): every key with
  its name, by module.  The descriptions, shown by the administration pages, are left out.
\<close>

definition PERMISSION_MODULES :: "(string \<times> (string \<times> string) list) list" where
  "PERMISSION_MODULES = [
     (''USER_MANAGEMENT'', [(''users.read'', ''View Users''),
       (''users.read_all'', ''View Users (All Branches)''),
       (''users.create'', ''Add New User''),
       (''users.approve'', ''Approve User Registration''),
       (''users.update'', ''Edit User Details''),
       (''users.suspend'', ''Suspend/Deactivate User''),
       (''users.transfer'', ''Transfer User'')]),
     (''RBAC'', [(''roles.manage'', ''Manage Roles & Permissions (All)''),
       (''roles.manage_own_location'', ''Manage Roles (Own Branch Only)''),
       (''permissions.read'', ''View Permission Settings''),
       (''permissions.assign'', ''Assign Permissions to Users/Roles'')]),
     (''ORGANIZATION'', [(''branches.manage'', ''Manage Branches/Locations''),
       (''branches.read_all'', ''View All Branches''),
       (''departments.manage'', ''Manage Departments''),
       (''branch-manager.manage'', ''Assign/Remove Branch Managers'')]),
     (''EMPLOYEES'', [(''employees.create'', ''Add New Employee''),
       (''employees.read'', ''View Employees List''),
       (''employees.read_all'', ''View Employees (All Branches)''),
       (''employees.update'', ''Edit Employee Details''),
       (''employees.approve'', ''Approve Employee Registration''),
       (''employees.transfer'', ''Transfer Employee''),
       (''employees.transfer_approve'', ''Approve Employee Transfer''),
       (''employees.suspend'', ''Suspend/Deactivate Employee'')]),
     (''ATTENDANCE'', [(''attendance.create'', ''Log Attendance / Bulk Import''),
       (''attendance.read'', ''View Attendance Records''),
       (''attendance.read_all'', ''View Attendance (All Branches)''),
       (''attendance.update'', ''Edit Attendance Records''),
       (''attendance.approve'', ''Approve Attendance'')]),
     (''PAYMENT_STRUCTURES'', [(''payment-structures.create'', ''Create Pay Rates / Scales''),
       (''payment-structures.read'', ''View Pay Rates & Scales''),
       (''payment-structures.read_all'', ''View Pay Rates (All Branches)''),
       (''payment-structures.update'', ''Edit Pay Rates / Scales''),
       (''payment-structures.delete'', ''Delete Pay Rates / Scales''),
       (''allowances.manage'', ''Manage Allowances''),
       (''deductions.manage'', ''Assign Employee Deductions / Taxes'')]),
     (''PAYROLL'', [(''payroll.create'', ''Generate Payroll Batch''),
       (''payroll.read'', ''View Payroll Batches''),
       (''payroll.read_all'', ''View Payroll (All Branches)''),
       (''payroll.manage'', ''Run Payroll Calculation''),
       (''payroll.approve'', ''Approve/Reject Payroll (Both Steps)''),
       (''payroll.approve_initial'', ''Initial Payroll Approval''),
       (''payroll.approve_final'', ''Final Payroll Approval''),
       (''payroll.reports'', ''View Payroll Reports'')]),
     (''NOTIFICATIONS'', [(''notifications.read'', ''View Notifications''),
       (''notifications.manage'', ''Manage Notification Settings'')]),
     (''AUDIT'', [(''audit.view'', ''View Audit Logs''),
       (''audit.read_all'', ''View Audit Logs (All Branches)'')]),
     (''IKIMINA'', [(''ikimina.manage'', ''Register/Edit Savings Plan''),
       (''ikimina.read'', ''View Savings Plans & Stats''),
       (''ikimina.read_all'', ''View Savings (All Branches)'')]),
     (''SYSTEM_CONFIG'', [(''system-config.manage'', ''Manage System Settings'')]),
     (''POSITIONS'', [(''positions.read'', ''View Positions''),
       (''positions.manage'', ''Manage Positions'')])]"

definition ALL_PERMISSION_KEYS :: "string list" where
  "ALL_PERMISSION_KEYS = List.maps (\<lambda>(m, ps). map fst ps) PERMISSION_MODULES"

section \<open>Names and modules\<close>

text \<open>\<open>key.split('.').map(capitalise).join(' ')\<close>\<close>

fun words_of :: "string \<Rightarrow> string list" where
  "words_of [] = [[]]"
| "words_of (c # cs) = (if c = CHR ''.'' then [] # words_of cs
     else (case words_of cs of [] \<Rightarrow> [[c]] | w # ws \<Rightarrow> (c # w) # ws))"

definition capitalised :: "string \<Rightarrow> string" where
  "capitalised s = (case s of [] \<Rightarrow> [] | c # cs \<Rightarrow> upper_char c # cs)"

definition key_title :: "string \<Rightarrow> string" where
  "key_title key = join_with '' '' (map capitalised (words_of key))"

text \<open>The catalogue entry of a key: its name and module.\<close>

definition catalogue_entry :: "string \<Rightarrow> (string \<times> string) option" where
  "catalogue_entry key = (case List.find (\<lambda>(m, ps). key \<in> fst ` set ps) PERMISSION_MODULES of
       None \<Rightarrow> None
     | Some (m, ps) \<Rightarrow> map_option (\<lambda>n. (n, m)) (map_of ps key))"

definition named_permission :: "string \<Rightarrow> string \<times> string" where
  "named_permission key = (case catalogue_entry key of None \<Rightarrow> (key_title key, ''SYSTEM'') | Some e \<Rightarrow> e)"

end
