(* ===== verification/User_Accounts.thy ===== *)
theory User_Accounts
  imports Permission_Catalogue Employees "HOL-Library.List_Lexorder"
begin

text \<open>
  User accounts (\<open>users/users.service.ts\<close>): creation by an administrator or by registration,
  listing within the actor's scope, approval, assignment, rejection, suspension, roles,
  permission overrides and the transfer of a user.  Hashes and random values come from
  \<open>env\<close>; mails and uploaded pictures are left to their services.
\<close>

section \<open>Checks\<close>

definition isBranchManager :: "current_user \<Rightarrow> bool" where
  "isBranchManager actor = list_ex (\<lambda>r. r \<in> set [''BRANCH_MANAGER'']) (cu_roles actor)"

definition findUserByUuidOrThrow :: "string \<Rightarrow> user service" where
  "findUserByUuidOrThrow uuid = bind (reads (\<lambda>w. user_by_uuid w uuid)) (\<lambda>u.
     bind (the_or (NotFound ''User not found.'') u) (\<lambda>u.
     bind (ensure (\<not> u_deleted u) (NotFound ''User not found.'')) (\<lambda>_. ret u)))"

definition ensureWorkingLocationExists :: "nat \<Rightarrow> unit service" where
  "ensureWorkingLocationExists k = bind (reads (\<lambda>w. find_row (\<lambda>l. w_id l = k) (locations w))) (\<lambda>l.
     ensure (l \<noteq> None) (BadRequest ''Working location does not exist.''))"

definition getDefaultWorkingLocationId :: "nat service" where
  "getDefaultWorkingLocationId = bind (reads (\<lambda>w.
       sort_key (\<lambda>l. to_lower (w_name l)) (select (\<lambda>l. w_type l = HQ \<and> \<not> w_deleted l) (locations w))
       @ sort_key (\<lambda>l. to_lower (w_name l)) (select (\<lambda>l. w_type l = BRANCH \<and> \<not> w_deleted l) (locations w)))) (\<lambda>ls.
     case ls of [] \<Rightarrow> throw (BadRequest ''Create a working location before approving users.'') | l # _ \<Rightarrow> ret (w_id l))"

definition getDefaultDepartmentId :: "nat \<Rightarrow> nat service" where
  "getDefaultDepartmentId loc = bind (reads (\<lambda>w.
       sort_key (\<lambda>d. to_lower (d_name d)) (select (\<lambda>d. d_loc d = loc \<and> d_active d) (departments w)))) (\<lambda>ds.
     case ds of [] \<Rightarrow> throw (BadRequest ''Create a department before approving users.'') | d # _ \<Rightarrow> ret (d_id d))"

definition getDefaultRoleId :: "nat service" where
  "getDefaultRoleId = bind (reads (\<lambda>w.
       sort_key ro_created_at (select (\<lambda>r. ro_name r \<in> set [''USER'', ''EMPLOYEE'', ''STAFF'']) (roles w)))) (\<lambda>rs.
     case rs of [] \<Rightarrow> throw (BadRequest ''Create a default USER role before approving users.'') | r # _ \<Rightarrow> ret (ro_id r))"

definition ensureDepartmentExists :: "nat \<Rightarrow> nat \<Rightarrow> unit service" where
  "ensureDepartmentExists k loc =
     bind (reads (\<lambda>w. find_row (\<lambda>d. d_id d = k \<and> d_loc d = loc \<and> d_active d) (departments w))) (\<lambda>d.
     ensure (d \<noteq> None) (BadRequest ''Department does not exist for the selected working location.''))"

definition ensureRolesExist :: "nat list \<Rightarrow> bool \<Rightarrow> unit service" where
  "ensureRolesExist roleIds requireAtLeastOne =
     bind (ensure (\<not> (roleIds = [] \<and> requireAtLeastOne)) (BadRequest ''At least one role is required for activation.'')) (\<lambda>_.
     if roleIds = [] then ret ()
     else bind (reads (\<lambda>w. select (\<lambda>r. ro_id r \<in> set roleIds) (roles w))) (\<lambda>rs.
       ensure (length rs = length roleIds) (BadRequest ''One or more roles do not exist.'')))"

definition resolvePermissionIds :: "string list \<Rightarrow> string list service" where
  "resolvePermissionIds values = bind (ensure (list_all (\<lambda>k. k \<in> set ALL_PERMISSION_KEYS) values)
     (BadRequest ''Please choose valid permissions before saving this user.'')) (\<lambda>_. ret values)"

definition ensurePermissionsExist :: "string list \<Rightarrow> unit service" where
  "ensurePermissionsExist keys = ensure (list_all (\<lambda>k. k \<in> set ALL_PERMISSION_KEYS) keys)
     (BadRequest ''One or more permissions do not exist.'')"

text \<open>A role is named by its id, its uuid or its name.\<close>

definition role_matches :: "string \<Rightarrow> role \<Rightarrow> bool" where
  "role_matches value r = (if isNumericId value then ro_id r = read_nat value
     else if isUuid value then ro_uuid r = value else ro_name r = value)"

definition resolveRoleIds :: "string list \<Rightarrow> nat list service" where
  "resolveRoleIds values =
     bind (reads (\<lambda>w. select (\<lambda>r. list_ex (\<lambda>v. role_matches v r) values) (roles w))) (\<lambda>rs.
     bind (ensure (length rs = length values) (BadRequest ''Please choose a valid role before saving this user.'')) (\<lambda>_.
     ret (map ro_id rs)))"

definition role_refusal :: "current_user \<Rightarrow> role \<Rightarrow> error option" where
  "role_refusal actor r =
     (if isBranchManager actor \<and> ro_name r \<in> set [''BRANCH_MANAGER'', ''SUPER_ADMIN'']
      then Some (BadRequest ''Branch managers cannot assign Branch Manager or Super Admin roles.'')
      else if (case ro_loc r of None \<Rightarrow> False | Some l \<Rightarrow> l \<noteq> 0 \<and> (\<not> truthy (cu_location actor) \<or> l \<noteq> read_nat (the (cu_location actor))))
      then Some (BadRequest (''The role \"'' @ ro_name r @ ''\" belongs to a different branch and cannot be assigned from here.''))
      else None)"

definition ensureActorCanAssignRoles :: "current_user \<Rightarrow> nat list \<Rightarrow> unit service" where
  "ensureActorCanAssignRoles actor roleIds =
     (if isSystemAdmin actor \<or> roleIds = [] then ret ()
      else bind (reads (\<lambda>w. select (\<lambda>r. ro_id r \<in> set roleIds) (roles w))) (\<lambda>rs.
        for_each rs (\<lambda>r. case role_refusal actor r of None \<Rightarrow> ret () | Some e \<Rightarrow> throw e)))"

definition ensureActorCanManageUser :: "current_user \<Rightarrow> nat option \<Rightarrow> unit service" where
  "ensureActorCanManageUser actor loc =
     (if isSystemAdmin actor then ret ()
      else if isBranchManager actor \<and> truthy (cu_location actor) \<and> map_option show_nat loc = cu_location actor then ret ()
      else throw (BadRequest ''You can only manage users in your working location.''))"

definition clearUserCaches :: "env \<Rightarrow> unit service" where
  "clearUserCaches en = bind (clear_cached en ''users:all'') (\<lambda>_. clear_cached en ''users:pending'')"

section \<open>What is shown of a user\<close>

record permission_view =
  pv_key :: string
  pv_name :: string
  pv_module :: "string option"
  pv_source :: string

text \<open>A JavaScript \<open>Map\<close> from keys to entries: a known key keeps its place.\<close>

definition map_set :: "permission_view list \<Rightarrow> permission_view \<Rightarrow> permission_view list" where
  "map_set m p = (if list_ex (\<lambda>q. pv_key q = pv_key p) m
     then map (\<lambda>q. if pv_key q = pv_key p then p else q) m else m @ [p])"

definition shown_key :: "string \<Rightarrow> string \<Rightarrow> permission_view" where
  "shown_key source key = (case named_permission key of (name, m) \<Rightarrow>
     \<lparr>pv_key = key, pv_name = name, pv_module = Some m, pv_source = source\<rparr>)"

definition add_implied :: "permission_view list \<Rightarrow> string \<Rightarrow> permission_view list" where
  "add_implied m key = (if list_ex (\<lambda>q. pv_key q = key) m then m
     else m @ [\<lparr>pv_key = key, pv_name = key_title key, pv_module = None, pv_source = ''implied''\<rparr>])"

definition shown_override :: "permission_view list \<Rightarrow> user_override \<Rightarrow> permission_view list" where
  "shown_override m ov = (if uo_key ov = [] then m
     else if uo_allowed ov then map_set m (shown_key ''override'' (uo_key ov))
     else filter (\<lambda>q. pv_key q \<noteq> uo_key ov) m)"

definition serializeEffectivePermissions :: "world \<Rightarrow> nat \<Rightarrow> permission_view list" where
  "serializeEffectivePermissions w uid =
     (let of_roles = foldl (\<lambda>m r. foldl map_set m (map (shown_key ''role'') (ro_keys r))) [] (roles_of w uid);
          initial = foldl map_set of_roles (map (shown_key ''direct'') (direct_keys w uid));
          expanded = foldl (\<lambda>m p. foldl add_implied m (implied (pv_key p))) initial initial
      in foldl shown_override expanded (select (\<lambda>ov. uo_user ov = uid) (user_overrides w)))"

record user_view =
  uv_row :: user
  uv_roles :: "(nat \<times> nat \<times> string option) list"
  uv_permissions :: "permission_view list"
  uv_overrides :: "user_override list"

definition serializeUser :: "world \<Rightarrow> user \<Rightarrow> user_view" where
  "serializeUser w u = \<lparr>uv_row = u,
     uv_roles = map (\<lambda>ur. (ur_id ur, ur_role ur, map_option ro_name (find_row (\<lambda>r. ro_id r = ur_role ur) (roles w))))
       (select (\<lambda>ur. ur_user ur = u_id u) (user_roles w)),
     uv_permissions = serializeEffectivePermissions w (u_id u),
     uv_overrides = select (\<lambda>ov. uo_user ov = u_id u) (user_overrides w)\<rparr>"

text \<open>The row of a user as it is after a write, with its roles and permissions.\<close>

definition show_user :: "nat \<Rightarrow> user_view service" where
  "show_user k = bind (reads (\<lambda>w. map_option (serializeUser w) (find_row (\<lambda>u. u_id u = k) (users w)))) (\<lambda>v.
     the_or (NotFound ''No users found'') v)"

section \<open>Roles and direct permissions\<close>

text \<open>\<open>createMany\<close> with \<open>skipDuplicates\<close>.\<close>

definition add_role :: "nat \<Rightarrow> user_role table \<Rightarrow> nat \<Rightarrow> user_role table" where
  "add_role uid t rid = (if list_ex (\<lambda>ur. ur_user ur = uid \<and> ur_role ur = rid) (rows t) then t
     else insert_row (\<lambda>n. \<lparr>ur_id = n, ur_user = uid, ur_role = rid\<rparr>) t)"

definition add_permission :: "nat \<Rightarrow> user_permission table \<Rightarrow> string \<Rightarrow> user_permission table" where
  "add_permission uid t key = (if list_ex (\<lambda>up. up_user up = uid \<and> up_key up = key) (rows t) then t
     else insert_row (\<lambda>n. \<lparr>up_id = n, up_user = uid, up_key = key\<rparr>) t)"

definition grant :: "nat \<Rightarrow> nat list \<Rightarrow> string list \<Rightarrow> unit service" where
  "grant uid roleIds keys = modify (\<lambda>w. w\<lparr>user_roles := foldl (add_role uid) (user_roles w) roleIds,
     user_permissions := foldl (add_permission uid) (user_permissions w) keys\<rparr>)"

definition drop_roles :: "nat \<Rightarrow> unit service" where
  "drop_roles uid = modify (\<lambda>w. w\<lparr>user_roles := delete_rows (\<lambda>ur. ur_user ur = uid) (user_roles w)\<rparr>)"

definition drop_permissions :: "nat \<Rightarrow> unit service" where
  "drop_permissions uid = modify (\<lambda>w. w\<lparr>user_permissions := delete_rows (\<lambda>up. up_user up = uid) (user_permissions w),
     user_overrides := delete_rows (\<lambda>ov. uo_user ov = uid) (user_overrides w)\<rparr>)"

definition audit_user :: "current_user \<Rightarrow> nat \<Rightarrow> activity_type \<Rightarrow> string \<Rightarrow> audit_action \<Rightarrow> json \<Rightarrow> json \<Rightarrow> string list \<Rightarrow> unit service" where
  "audit_user actor entity type description action old new changed = audit (\<lambda>n. \<lparr>a_id = n, a_user = cu_id actor,
     a_employee = None, a_table = ''users'', a_entity = entity, a_module = ''USER_MANAGEMENT'', a_type = type,
     a_description = description, a_action = action, a_old = old, a_new = new, a_changed = changed\<rparr>)"

definition update_user :: "nat \<Rightarrow> (user \<Rightarrow> user) \<Rightarrow> unit service" where
  "update_user k f = modify (\<lambda>w. w\<lparr>users := update_rows (\<lambda>u. u_id u = k) f (users w)\<rparr>)"

definition hashPassword :: "env \<Rightarrow> string \<Rightarrow> string" where
  "hashPassword en plain = hash_of en ''bcrypt'' (hash_of en ''sha512'' plain)"

definition hashToken :: "env \<Rightarrow> string \<Rightarrow> string" where
  "hashToken en token = hash_of en ''sha256'' token"

section \<open>Creation\<close>

record user_dto =
  nu_first :: string
  nu_last :: string
  nu_email :: string
  nu_phone :: string
  nu_location :: "string option"
  nu_department :: "string option"
  nu_roles :: "string list"
  nu_permissions :: "string list"
  nu_password :: "string option"

definition user_row :: "env \<Rightarrow> user_dto \<Rightarrow> bool \<Rightarrow> string \<Rightarrow> nat option \<Rightarrow> nat option \<Rightarrow> nat \<Rightarrow> user" where
  "user_row en dto by_actor password loc dep n = \<lparr>u_id = n, u_uuid = gen_uuid en ''users'' n, u_loc = loc, u_department = dep,
     u_status = (if by_actor then P_ACTIVE else P_INACTIVE), u_deleted = False, u_first = nu_first dto, u_last = nu_last dto,
     u_email = nu_email dto, u_phone = nu_phone dto, u_password = hashPassword en password,
     u_reset = (if by_actor then Some (gen_uuid en ''reset_password_token'' n, now en + 60 * 60 * 1000) else None),
     u_verified = by_actor, u_code = None, u_created_at = now en\<rparr>"

text \<open>The working location: the one asked for, else the actor's own.\<close>

definition new_user_location :: "user_dto \<Rightarrow> current_user option \<Rightarrow> nat option service" where
  "new_user_location dto actor =
     (if truthy (nu_location dto) then bind (resolveWorkingLocationId (the (nu_location dto))) (\<lambda>l. ret (Some l))
      else ret (case actor of None \<Rightarrow> None
        | Some a \<Rightarrow> if truthy (cu_location a) then Some (read_nat (the (cu_location a))) else None))"

definition insert_user :: "env \<Rightarrow> user_dto \<Rightarrow> current_user option \<Rightarrow> string \<Rightarrow> nat option \<Rightarrow> nat option \<Rightarrow> nat list \<Rightarrow> string list \<Rightarrow> user_view service" where
  "insert_user en dto actor password loc dep roleIds keys = atomically (
     bind (update_ret (\<lambda>w. (next_id (users w),
       w\<lparr>users := insert_row (user_row en dto (actor \<noteq> None) password loc dep) (users w)\<rparr>))) (\<lambda>k.
     bind (grant k roleIds keys) (\<lambda>_.
     bind (case actor of None \<Rightarrow> ret ()
       | Some a \<Rightarrow> audit_user a k AT_CREATE ''Created active user account.'' AU_CREATED JNull
           (JObj [(''status'', JStr ''ACTIVE''), (''working_location_id'', jopt (\<lambda>l. JStr (show_nat l)) loc),
             (''department_id'', jopt (\<lambda>d. JStr (show_nat d)) dep), (''role_ids'', JArr (map (\<lambda>r. JStr (show_nat r)) roleIds)),
             (''permission_ids'', JArr (map JStr keys)), (''password_setup_required'', JBool True),
             (''reset_password_expires'', JStr (iso_instant (now en + 60 * 60 * 1000)))]) []) (\<lambda>_.
     show_user k))))"

definition createUser :: "env \<Rightarrow> user_dto \<Rightarrow> current_user option \<Rightarrow> user_view service" where
  "createUser en dto actor =
     bind (reads (\<lambda>w. find_row (\<lambda>u. u_email u = nu_email dto \<or> u_phone u = nu_phone dto) (users w))) (\<lambda>existing.
     bind (ensure (existing = None) (BadRequest ''User already exists'')) (\<lambda>_.
     bind (new_user_location dto actor) (\<lambda>loc.
     bind (if truthy (nu_department dto) then bind (resolveDepartmentId (the (nu_department dto)) loc) (\<lambda>d. ret (Some d)) else ret None) (\<lambda>dep.
     bind (if nu_roles dto \<noteq> [] then resolveRoleIds (nu_roles dto) else ret []) (\<lambda>roleIds.
     bind (ensure (\<not> (actor \<noteq> None \<and> roleIds = [])) (BadRequest ''Choose at least one role before creating a user.'')) (\<lambda>_.
     bind (if nu_permissions dto \<noteq> [] then resolvePermissionIds (nu_permissions dto) else ret []) (\<lambda>keys.
     bind (case actor of None \<Rightarrow> ret () | Some a \<Rightarrow> ensureActorCanAssignRoles a roleIds) (\<lambda>_.
     bind (if set_somewhere loc then ensureWorkingLocationExists (the loc) else ret ()) (\<lambda>_.
     bind (if set_somewhere dep then
         bind (ensure (set_somewhere loc) (BadRequest ''working_location_id is required with department_id.'')) (\<lambda>_.
         ensureDepartmentExists (the dep) (the loc)) else ret ()) (\<lambda>_.
     bind (case actor of None \<Rightarrow> ret () | Some a \<Rightarrow> ensureActorCanManageUser a loc) (\<lambda>_.
     bind (ensureRolesExist roleIds False) (\<lambda>_.
     bind (ensurePermissionsExist keys) (\<lambda>_.
     bind (the_or (BadRequest ''Password is required for registration.'')
       (if actor \<noteq> None then Some (random_text en ''password'') else if truthy (nu_password dto) then nu_password dto else None)) (\<lambda>password.
     bind (insert_user en dto actor password loc dep roleIds keys) (\<lambda>user.
     bind (clearUserCaches en) (\<lambda>_. ret user))))))))))))))))"

section \<open>Lists\<close>

text \<open>
  The filter of a list query as the object the code spreads together: the columns it
  constrains.  A column set later replaces the one set before.
\<close>

record user_where =
  uw_no_admin :: bool
  uw_loc :: "nat option"
  uw_id :: "nat option"

definition userScopeWhere :: "current_user \<Rightarrow> user_where" where
  "userScopeWhere actor =
     (if isSystemAdmin actor then \<lparr>uw_no_admin = False, uw_loc = None, uw_id = None\<rparr>
      else if hasEffectivePermission actor ''users.read_all'' then \<lparr>uw_no_admin = True, uw_loc = None, uw_id = None\<rparr>
      else if isBranchManager actor \<and> truthy (cu_location actor)
      then \<lparr>uw_no_admin = True, uw_loc = Some (read_nat (the (cu_location actor))), uw_id = None\<rparr>
      else \<lparr>uw_no_admin = True, uw_loc = None, uw_id = Some (cu_id actor)\<rparr>)"

definition where_holds :: "world \<Rightarrow> user_where \<Rightarrow> user \<Rightarrow> bool" where
  "where_holds w wh u \<longleftrightarrow>
     (uw_no_admin wh \<longrightarrow> \<not> list_ex (\<lambda>r. ro_name r \<in> set [''SUPER_ADMIN'']) (roles_of w (u_id u)))
     \<and> (case uw_loc wh of None \<Rightarrow> True | Some l \<Rightarrow> u_loc u = Some l)
     \<and> (case uw_id wh of None \<Rightarrow> True | Some k \<Rightarrow> u_id u = k)"

definition user_contains :: "string option \<Rightarrow> user \<Rightarrow> bool" where
  "user_contains q u = (truthy q \<longrightarrow> list_ex (\<lambda>s. str_includes (to_lower s) (to_lower (the q)))
     [u_first u, u_last u, u_email u, u_phone u])"

definition newest_users :: "user list \<Rightarrow> user list" where
  "newest_users = sort_key (\<lambda>u. - u_created_at u)"

definition user_statuses :: "string list" where
  "user_statuses = map status_name [P_ACTIVE, P_INACTIVE, P_SUSPENDED, P_PENDING, P_REJECTED, P_PAUSED]"

record user_filters =
  uf_q :: "string option"
  uf_status :: "string option"
  uf_location :: "string option"
  uf_department :: "string option"

text \<open>\<open>None\<close> stands for an answer from the cache.\<close>

definition cached_or :: "string \<Rightarrow> 'a service \<Rightarrow> 'a option service" where
  "cached_or key m = bind (reads (\<lambda>w. key \<in> set (cache_keys w))) (\<lambda>hit.
     if hit then ret None
     else bind m (\<lambda>result. bind (cache_put key) (\<lambda>_. ret (Some result))))"

definition or_empty :: "string option \<Rightarrow> string" where
  "or_empty x = (case x of None \<Rightarrow> [] | Some s \<Rightarrow> s)"

definition list_users :: "current_user \<Rightarrow> user_filters \<Rightarrow> user_view list service" where
  "list_users actor f =
     bind (ensure (truthy (uf_status f) \<longrightarrow> the (uf_status f) \<in> set user_statuses) InvalidQuery) (\<lambda>_.
     reads (\<lambda>w. let scope = userScopeWhere actor;
         numeric = (\<lambda>x. truthy x \<and> isNumericId (the x));
         wh = (if numeric (uf_location f) then scope\<lparr>uw_loc := Some (read_nat (the (uf_location f)))\<rparr> else scope) in
       map (serializeUser w) (newest_users (select (\<lambda>u. \<not> u_deleted u \<and> where_holds w wh u
         \<and> (numeric (uf_department f) \<longrightarrow> u_department u = Some (read_nat (the (uf_department f))))
         \<and> (truthy (uf_status f) \<longrightarrow> status_name (u_status u) = the (uf_status f))
         \<and> user_contains (normalizeSearch (uf_q f)) u) (users w)))))"

definition findAllUsers :: "current_user \<Rightarrow> user_filters \<Rightarrow> user_view list option service" where
  "findAllUsers actor f = cached_or (''users:all:'' @ show_nat (cu_id actor) @ '':'' @ or_empty (uf_status f) @ '':''
       @ or_empty (uf_location f) @ '':'' @ or_empty (uf_department f) @ '':'' @ or_empty (normalizeSearch (uf_q f)))
     (list_users actor f)"

definition findPendingApproval :: "current_user \<Rightarrow> string option \<Rightarrow> user_view list option service" where
  "findPendingApproval actor qInput = cached_or (''users:pending:'' @ show_nat (cu_id actor) @ '':'' @ or_empty (normalizeSearch qInput))
     (reads (\<lambda>w. map (serializeUser w) (newest_users (select (\<lambda>u. u_status u \<in> set [P_PENDING, P_INACTIVE] \<and> \<not> u_deleted u
       \<and> where_holds w (userScopeWhere actor) u \<and> user_contains (normalizeSearch qInput) u) (users w)))))"

section \<open>Approval\<close>

record approve_dto =
  ap_location :: "string option"
  ap_department :: "string option"
  ap_roles :: "string list"
  ap_permissions :: "string list"

definition roles_to_approve :: "approve_dto \<Rightarrow> user \<Rightarrow> nat list service" where
  "roles_to_approve dto user =
     (if ap_roles dto \<noteq> [] then resolveRoleIds (ap_roles dto)
      else bind (reads (\<lambda>w. map ur_role (select (\<lambda>ur. ur_user ur = u_id user) (user_roles w)))) (\<lambda>existing.
        if existing \<noteq> [] then ret existing else bind getDefaultRoleId (\<lambda>r. ret [r])))"

definition ensureOnlyOneBranchManager :: "nat \<Rightarrow> nat \<Rightarrow> unit service" where
  "ensureOnlyOneBranchManager loc uid =
     bind (reads (\<lambda>w. map_option (\<lambda>b. find_row (\<lambda>u. u_id u = bm_user b) (users w))
       (find_row (\<lambda>b. bm_loc b = loc \<and> bm_active b \<and> bm_user b \<noteq> uid) (branch_managers w)))) (\<lambda>existing.
     case existing of None \<Rightarrow> ret ()
     | Some u \<Rightarrow> throw (BadRequest (''This branch already has an active Branch Manager: ''
         @ (case u of None \<Rightarrow> ''undefined undefined'' | Some x \<Rightarrow> u_first x @ '' '' @ u_last x) @ ''. Only one is allowed.'')))"

definition appoint :: "nat \<Rightarrow> nat \<Rightarrow> unit service" where
  "appoint loc uid = modify (\<lambda>w. w\<lparr>branch_managers :=
     (case find_row (\<lambda>b. bm_loc b = loc \<and> bm_user b = uid) (branch_managers w) of
        Some x \<Rightarrow> update_rows (\<lambda>b. bm_id b = bm_id x) (\<lambda>b. b\<lparr>bm_active := True\<rparr>) (branch_managers w)
      | None \<Rightarrow> insert_row (\<lambda>n. \<lparr>bm_id = n, bm_loc = loc, bm_user = uid, bm_active = True\<rparr>) (branch_managers w))\<rparr>)"

definition mark_registration_read :: "user \<Rightarrow> unit service" where
  "mark_registration_read user = modify (\<lambda>w. w\<lparr>notifications := update_rows
     (\<lambda>n. n_reference n = Some (u_uuid user) \<and> n_type n = ''REGISTRATION_REQUEST'' \<and> \<not> n_read n)
     (\<lambda>n. n\<lparr>n_read := True\<rparr>) (notifications w)\<rparr>)"

definition activate :: "env \<Rightarrow> user \<Rightarrow> current_user \<Rightarrow> nat \<Rightarrow> nat option \<Rightarrow> nat list \<Rightarrow> string list \<Rightarrow> bool \<Rightarrow> user_view service" where
  "activate en user actor loc dep roleIds keys as_manager = atomically (
     bind (update_user (u_id user) (\<lambda>u. u\<lparr>u_loc := Some loc, u_department := dep, u_status := P_ACTIVE, u_verified := False,
       u_code := Some (hashToken en (random_text en ''verification_code''), now en + 30 * 60 * 1000)\<rparr>)) (\<lambda>_.
     bind (drop_roles (u_id user)) (\<lambda>_.
     bind (grant (u_id user) roleIds []) (\<lambda>_.
     bind (drop_permissions (u_id user)) (\<lambda>_.
     bind (grant (u_id user) [] keys) (\<lambda>_.
     bind (when_op as_manager (appoint loc (u_id user))) (\<lambda>_.
     bind (mark_registration_read user) (\<lambda>_.
     bind (audit_user actor (u_id user) AT_UPDATE ''User account approved and activated.'' AU_APPROVED JNull JNull []) (\<lambda>_.
     show_user (u_id user))))))))))"

definition approveUser :: "env \<Rightarrow> string \<Rightarrow> approve_dto \<Rightarrow> current_user \<Rightarrow> user_view service" where
  "approveUser en uuid dto actor =
     bind (findUserByUuidOrThrow uuid) (\<lambda>user.
     bind (if truthy (ap_location dto) then resolveWorkingLocationId (the (ap_location dto))
       else case u_loc user of Some l \<Rightarrow> ret l | None \<Rightarrow> getDefaultWorkingLocationId) (\<lambda>loc.
     bind (roles_to_approve dto user) (\<lambda>roleIds.
     bind (if ap_permissions dto \<noteq> [] then resolvePermissionIds (ap_permissions dto) else ret []) (\<lambda>keys.
     bind (ensureRolesExist roleIds True) (\<lambda>_.
     bind (ensureActorCanAssignRoles actor roleIds) (\<lambda>_.
     bind (ensurePermissionsExist keys) (\<lambda>_.
     bind (ensureActorCanManageUser actor (Some (case u_loc user of Some l \<Rightarrow> l | None \<Rightarrow> loc))) (\<lambda>_.
     bind (reads (\<lambda>w. map ro_name (select (\<lambda>r. ro_id r \<in> set roleIds) (roles w)))) (\<lambda>names.
     bind (ensure (\<not> (''BRANCH_MANAGER'' \<in> set (cu_roles actor) \<and> ''SUPER_ADMIN'' \<notin> set (cu_roles actor)
         \<and> list_ex (\<lambda>n. n \<in> set [''BRANCH_MANAGER'', ''SUPER_ADMIN'']) names))
       (BadRequest ''Branch managers cannot assign Branch Manager or Super Admin roles.'')) (\<lambda>_.
     let as_manager = list_ex (\<lambda>n. n \<in> set [''BRANCH_MANAGER'']) names in
     bind (if as_manager then ret None
       else if truthy (ap_department dto) then bind (resolveDepartmentId (the (ap_department dto)) (Some loc)) (\<lambda>d. ret (Some d))
       else case u_department user of Some d \<Rightarrow> ret (Some d)
         | None \<Rightarrow> bind (getDefaultDepartmentId loc) (\<lambda>d. ret (Some d))) (\<lambda>dep.
     bind (ensureWorkingLocationExists loc) (\<lambda>_.
     bind (if set_somewhere dep then ensureDepartmentExists (the dep) loc else ret ()) (\<lambda>_.
     bind (if as_manager then ensureOnlyOneBranchManager loc (u_id user) else ret ()) (\<lambda>_.
     bind (activate en user actor loc dep roleIds keys as_manager) (\<lambda>result.
     bind (create_notification en \<lparr>no_user = Some (u_id user), no_sender = Some (cu_id actor),
       no_title = ''Your account has been approved'',
       no_message = ''Welcome aboard! Your account has been approved. Check your email for a verification code to finish signing in.'',
       no_type = ''ACCOUNT_APPROVED'', no_reference = Some (u_uuid user), no_metadata = JNull, no_push = []\<rparr>) (\<lambda>_.
     bind (clearUserCaches en) (\<lambda>_. ret result)))))))))))))))))"

section \<open>Assignment\<close>

text \<open>A department of \<open>None\<close> was not sent, one of \<open>Some None\<close> is cleared.\<close>

record update_user_dto =
  uu_location :: "string option"
  uu_department :: "string option option"

definition updateUser :: "env \<Rightarrow> string \<Rightarrow> update_user_dto \<Rightarrow> current_user \<Rightarrow> user_view service" where
  "updateUser en uuid dto actor =
     bind (findUserByUuidOrThrow uuid) (\<lambda>user.
     bind (if truthy (uu_location dto) then bind (resolveWorkingLocationId (the (uu_location dto))) (\<lambda>l. ret (Some l))
       else ret (u_loc user)) (\<lambda>loc.
     let wanted = (case uu_department dto of None \<Rightarrow> None | Some d \<Rightarrow> d) in
     bind (ensure (\<not> (truthy wanted \<and> \<not> set_somewhere loc)) (BadRequest ''Choose a working location before assigning a department.'')) (\<lambda>_.
     bind (if set_somewhere loc then ensureWorkingLocationExists (the loc) else ret ()) (\<lambda>_.
     bind (ensureActorCanManageUser actor (case u_loc user of Some l \<Rightarrow> Some l | None \<Rightarrow> loc)) (\<lambda>_.
     bind (ensureActorCanManageUser actor loc) (\<lambda>_.
     bind (if uu_department dto \<noteq> None
       then if truthy wanted then bind (resolveDepartmentId (the wanted) loc) (\<lambda>d. ret (Some d)) else ret None
       else ret (u_department user)) (\<lambda>dep.
     bind (if set_somewhere dep \<and> set_somewhere loc then ensureDepartmentExists (the dep) (the loc) else ret ()) (\<lambda>_.
     let changed = (if u_loc user \<noteq> loc then [''working_location''] else []) @ (if u_department user \<noteq> dep then [''department''] else []) in
     if changed = [] then show_user (u_id user)
     else
       bind (reads (\<lambda>w. w)) (\<lambda>w.
       let place = (\<lambda>k. case k of None \<Rightarrow> None | Some l \<Rightarrow> map_option w_name (find_row (\<lambda>x. w_id x = l) (locations w)));
           unit_name = (\<lambda>k. case k of None \<Rightarrow> None | Some d \<Rightarrow> map_option d_name (find_department w d));
           values = (\<lambda>l d. JObj [(''working_location'', jopt JStr (place l)), (''department'', jopt JStr (unit_name d))]) in
       bind (atomically (
         bind (update_user (u_id user) (\<lambda>u. u\<lparr>u_loc := loc, u_department := dep\<rparr>)) (\<lambda>_.
         bind (show_user (u_id user)) (\<lambda>saved.
         bind (audit_user actor (u_id user) AT_UPDATE ''Updated user branch or department assignment.'' AU_UPDATED
           (values (u_loc user) (u_department user)) (values loc dep) changed) (\<lambda>_. ret saved))))) (\<lambda>saved.
       bind (clearUserCaches en) (\<lambda>_.
       bind (modify (broadcast (NamedEvent ''permissions_updated''))) (\<lambda>_. ret saved))))))))))))"

section \<open>Rejection, suspension, reactivation\<close>

definition revoke_sessions :: "nat \<Rightarrow> unit service" where
  "revoke_sessions uid = modify (\<lambda>w. w\<lparr>sessions := update_rows (\<lambda>s. se_user s = uid \<and> \<not> se_revoked s)
     (\<lambda>s. s\<lparr>se_revoked := True\<rparr>) (sessions w)\<rparr>)"

definition rejectUser :: "env \<Rightarrow> string \<Rightarrow> string \<Rightarrow> current_user \<Rightarrow> unit service" where
  "rejectUser en uuid reason actor =
     bind (findUserByUuidOrThrow uuid) (\<lambda>user.
     bind (atomically (
       bind (revoke_sessions (u_id user)) (\<lambda>_.
       bind (update_user (u_id user) (\<lambda>u. u\<lparr>u_deleted := True, u_status := P_REJECTED\<rparr>)) (\<lambda>_.
       bind (mark_registration_read user) (\<lambda>_.
       audit_user actor (u_id user) AT_DELETE (''User rejected: '' @ reason) AU_DENIED JNull JNull []))))) (\<lambda>_.
     bind (create_notification en \<lparr>no_user = Some (u_id user), no_sender = Some (cu_id actor),
       no_title = ''Your account registration was rejected'',
       no_message = (if reason \<noteq> [] then reason else ''Your account registration was not approved.''),
       no_type = ''ACCOUNT_REJECTED'', no_reference = Some (u_uuid user), no_metadata = JNull, no_push = []\<rparr>) (\<lambda>_.
     clearUserCaches en)))"

definition suspendUser :: "env \<Rightarrow> string \<Rightarrow> user_view service" where
  "suspendUser en uuid =
     bind (findUserByUuidOrThrow uuid) (\<lambda>user.
     bind (atomically (
       bind (revoke_sessions (u_id user)) (\<lambda>_.
       bind (update_user (u_id user) (\<lambda>u. u\<lparr>u_status := P_SUSPENDED\<rparr>)) (\<lambda>_.
       show_user (u_id user))))) (\<lambda>saved.
     bind (clearUserCaches en) (\<lambda>_. ret saved)))"

definition reactivateUser :: "env \<Rightarrow> string \<Rightarrow> user_view service" where
  "reactivateUser en uuid =
     bind (findUserByUuidOrThrow uuid) (\<lambda>user.
     bind (update_user (u_id user) (\<lambda>u. u\<lparr>u_status := P_ACTIVE\<rparr>)) (\<lambda>_.
     bind (show_user (u_id user)) (\<lambda>saved.
     bind (clearUserCaches en) (\<lambda>_. ret saved))))"

section \<open>Roles and overrides\<close>

definition assignRoles :: "env \<Rightarrow> string \<Rightarrow> string list \<Rightarrow> current_user \<Rightarrow> user_view service" where
  "assignRoles en uuid roleIdsInput actor =
     bind (findUserByUuidOrThrow uuid) (\<lambda>user.
     bind (resolveRoleIds roleIdsInput) (\<lambda>roleIds.
     bind (ensureRolesExist roleIds True) (\<lambda>_.
     bind (ensureActorCanAssignRoles actor roleIds) (\<lambda>_.
     bind (atomically (
       bind (drop_roles (u_id user)) (\<lambda>_.
       bind (grant (u_id user) roleIds []) (\<lambda>_.
       show_user (u_id user))))) (\<lambda>saved.
     bind (clearUserCaches en) (\<lambda>_.
     bind (modify (broadcast (NamedEvent ''permissions_updated''))) (\<lambda>_. ret saved)))))))"

definition resolvePermission :: "string \<Rightarrow> (string \<times> string) service" where
  "resolvePermission value = bind (ensure (value \<in> set ALL_PERMISSION_KEYS) (BadRequest ''Permission does not exist.'')) (\<lambda>_.
     ret (named_permission value))"

definition put_override :: "nat \<Rightarrow> string \<Rightarrow> bool \<Rightarrow> user_override table \<Rightarrow> user_override table" where
  "put_override uid key allowed t =
     (if list_ex (\<lambda>ov. uo_user ov = uid \<and> uo_key ov = key) (rows t)
      then update_rows (\<lambda>ov. uo_user ov = uid \<and> uo_key ov = key) (\<lambda>ov. ov\<lparr>uo_allowed := allowed\<rparr>) t
      else insert_row (\<lambda>n. \<lparr>uo_id = n, uo_user = uid, uo_key = key, uo_allowed = allowed\<rparr>) t)"

definition updatePermissionOverride :: "env \<Rightarrow> string \<Rightarrow> string \<Rightarrow> bool \<Rightarrow> current_user \<Rightarrow> user_view service" where
  "updatePermissionOverride en uuid key allowed actor =
     bind (findUserByUuidOrThrow uuid) (\<lambda>user.
     bind (resolvePermission key) (\<lambda>(name, m).
     bind (reads (\<lambda>w. find_row (\<lambda>ov. uo_user ov = u_id user \<and> uo_key ov = key) (user_overrides w))) (\<lambda>existing.
     bind (atomically (
       bind (modify (\<lambda>w. w\<lparr>user_overrides := put_override (u_id user) key allowed (user_overrides w)\<rparr>)) (\<lambda>_.
       bind (audit (\<lambda>n. \<lparr>a_id = n, a_user = cu_id actor, a_employee = None, a_table = ''user_permission_overrides'',
         a_entity = u_id user, a_module = ''USER_MANAGEMENT'', a_type = AT_UPDATE,
         a_description = (if allowed then ''Activated user permission: '' else ''Deactivated user permission: '') @ key @ ''.'',
         a_action = AU_UPDATED, a_old = JObj [(''is_allowed'', jopt (\<lambda>ov. JBool (uo_allowed ov)) existing)],
         a_new = JObj [(''is_allowed'', JBool allowed)], a_changed = [''is_allowed'']\<rparr>)) (\<lambda>_.
       bind (modify (\<lambda>w. w\<lparr>notifications := insert_row (\<lambda>n. \<lparr>n_id = n, n_uuid = gen_uuid en ''notifications'' n,
         n_user = Some (u_id user), n_sender = Some (cu_id actor), n_target_role = None, n_target_department = None,
         n_title = ''Permission updated'',
         n_message = (if allowed then ''You can now use '' @ name @ ''.'' else ''Your access to '' @ name @ '' has been removed.''),
         n_type = ''PERMISSION_UPDATED'', n_reference = Some key,
         n_metadata = JObj [(''permission_key'', JStr key), (''permission_name'', JStr name), (''is_allowed'', JBool allowed),
           (''read_only'', JBool True)], n_read = False\<rparr>) (notifications w)\<rparr>)) (\<lambda>_.
       show_user (u_id user)))))) (\<lambda>saved.
     bind (clearUserCaches en) (\<lambda>_.
     bind (modify (broadcast (NamedEvent ''permissions_updated''))) (\<lambda>_. ret saved))))))"

section \<open>Transfer of a user\<close>

definition user_transfer_row :: "env \<Rightarrow> user \<Rightarrow> nat \<Rightarrow> nat option \<Rightarrow> string option \<Rightarrow> nat \<Rightarrow> nat \<Rightarrow> transfer_request" where
  "user_transfer_row en u loc dep reason by n = \<lparr>q_id = n, q_uuid = gen_uuid en ''transfer_requests'' n,
     q_subject = SUBJECT_USER, q_employee = None, q_old_loc = u_loc u, q_new_loc = loc,
     q_old_department = u_department u, q_new_department = dep, q_status = RQ_PENDING,
     q_level = ''BRANCH_MANAGER'', q_reason = reason, q_rejection_reason = None, q_history = [],
     q_requested_by = by, q_approved_by = None, q_approved_at = None, q_user = Some (u_id u)\<rparr>"

definition user_transfer_notice :: "user \<Rightarrow> transfer_request \<Rightarrow> nat \<Rightarrow> string \<Rightarrow> notice" where
  "user_transfer_notice u q sender level = \<lparr>no_user = None, no_sender = Some sender, no_title = ''User Transfer Request'',
     no_message = ''A transfer request has been initiated for '' @ u_first u @ '' '' @ u_last u @ ''.'',
     no_type = ''TRANSFER_REQUEST'', no_reference = Some (q_uuid q),
     no_metadata = JObj [(''level'', JStr level)], no_push = []\<rparr>"

definition requestTransfer :: "env \<Rightarrow> string \<Rightarrow> string \<Rightarrow> string option \<Rightarrow> string option \<Rightarrow> current_user \<Rightarrow> transfer_request service" where
  "requestTransfer en uuid location department reason actor =
     bind (findUserByUuidOrThrow uuid) (\<lambda>user.
     bind (toBigInt location (field_label ''working_location_id'')) (\<lambda>loc.
     bind (if truthy department then bind (toBigInt (the department) (field_label ''department_id'')) (\<lambda>d. ret (Some d)) else ret None) (\<lambda>dep.
     bind (ensureWorkingLocationExists loc) (\<lambda>_.
     bind (if set_somewhere dep then ensureDepartmentExists (the dep) loc else ret ()) (\<lambda>_.
     bind (update_ret (\<lambda>w. let q = user_transfer_row en user loc dep reason (cu_id actor) in
       (q (next_id (transfer_requests w)), w\<lparr>transfer_requests := insert_row q (transfer_requests w)\<rparr>))) (\<lambda>request.
     bind (if set_somewhere (u_loc user)
           then bind (notifyBranchManager en (the (u_loc user)) (user_transfer_notice user request (cu_id actor) ''BRANCH_MANAGER'')) (\<lambda>_. ret ())
           else bind (notifyAdmins en (user_transfer_notice user request (cu_id actor) ''SUPER_ADMIN'')) (\<lambda>_.
             update_request (q_id request) (\<lambda>q. q\<lparr>q_level := ''SUPER_ADMIN''\<rparr>))) (\<lambda>_.
     ret request)))))))"

definition findUserTransferOrThrow :: "string \<Rightarrow> transfer_request service" where
  "findUserTransferOrThrow uuid =
     bind (reads (\<lambda>w. find_row (\<lambda>q. q_uuid q = uuid \<and> q_subject q = SUBJECT_USER \<and> q_status q = RQ_PENDING)
       (transfer_requests w))) (\<lambda>q. the_or (NotFound ''Pending transfer request not found.'') q)"

definition finalize_user_transfer :: "env \<Rightarrow> transfer_request \<Rightarrow> nat \<Rightarrow> current_user \<Rightarrow> unit service" where
  "finalize_user_transfer en request uid actor = atomically (
     bind (reads (\<lambda>w. find_row (\<lambda>u. u_id u = uid) (users w))) (\<lambda>u.
     bind (ensure (u \<noteq> None) (NotFound ''Record to update not found.'')) (\<lambda>_.
     bind (update_user uid (\<lambda>u. u\<lparr>u_loc := Some (q_new_loc request), u_department := q_new_department request\<rparr>)) (\<lambda>_.
     update_request (q_id request) (\<lambda>q. q\<lparr>q_status := RQ_APPROVED, q_approved_by := Some (cu_id actor),
       q_approved_at := Some (now en), q_level := ''FINALIZED'',
       q_history := q_history request @ [\<lparr>ts_level = ''SUPER_ADMIN'', ts_action = ''APPROVED'', ts_by = cu_id actor,
         ts_at = now en, ts_reason = None\<rparr>]\<rparr>)))))"

definition approveUserTransfer :: "env \<Rightarrow> string \<Rightarrow> current_user \<Rightarrow> unit service" where
  "approveUserTransfer en requestUuid actor =
     bind (findUserTransferOrThrow requestUuid) (\<lambda>request.
     if \<not> set_somewhere (q_user request) then throw (BadRequest ''Transfer request has no user.'')
     else if q_level request = ''BRANCH_MANAGER'' then
       bind (ensure (isBranchManager actor \<or> isSystemAdmin actor)
         (Forbidden ''Only a Branch Manager can approve this at this level.'')) (\<lambda>_.
       bind (update_request (q_id request) (\<lambda>q. q\<lparr>q_level := ''SUPER_ADMIN'',
         q_history := q_history request @ [\<lparr>ts_level = ''BRANCH_MANAGER'', ts_action = ''APPROVED'', ts_by = cu_id actor,
           ts_at = now en, ts_reason = None\<rparr>]\<rparr>)) (\<lambda>_.
       bind (notifyAdmins en \<lparr>no_user = None, no_sender = Some (cu_id actor),
         no_title = ''Transfer Request Awaiting Admin Approval'',
         no_message = ''A transfer request has been approved by the Branch Manager and requires final admin approval.'',
         no_type = ''TRANSFER_REQUEST'', no_reference = Some (q_uuid request),
         no_metadata = JObj [(''level'', JStr ''SUPER_ADMIN'')], no_push = []\<rparr>) (\<lambda>_. ret ())))
     else if q_level request = ''SUPER_ADMIN'' then
       bind (ensure (isSystemAdmin actor) (Forbidden ''Only an Admin can finalize this transfer.'')) (\<lambda>_.
       bind (finalize_user_transfer en request (the (q_user request)) actor) (\<lambda>_.
       bind (create_notification en \<lparr>no_user = Some (q_requested_by request), no_sender = Some (cu_id actor),
         no_title = ''Transfer Request Finalized'',
         no_message = ''Your transfer request has been fully approved and finalized.'',
         no_type = ''TRANSFER_APPROVED'', no_reference = Some (q_uuid request), no_metadata = JNull, no_push = []\<rparr>) (\<lambda>_. ret ())))
     else throw (BadRequest ''Invalid transfer request level.''))"

definition rejectUserTransfer :: "env \<Rightarrow> string \<Rightarrow> string \<Rightarrow> current_user \<Rightarrow> unit service" where
  "rejectUserTransfer en requestUuid reason actor =
     bind (findUserTransferOrThrow requestUuid) (\<lambda>request.
     bind (update_request (q_id request) (\<lambda>q. q\<lparr>q_status := RQ_REJECTED, q_rejection_reason := Some reason,
       q_approved_by := Some (cu_id actor), q_approved_at := Some (now en), q_level := ''REJECTED'',
       q_history := q_history request @ [\<lparr>ts_level = q_level request, ts_action = ''REJECTED'', ts_by = cu_id actor,
         ts_at = now en, ts_reason = Some reason\<rparr>]\<rparr>)) (\<lambda>_.
     bind (create_notification en \<lparr>no_user = Some (q_requested_by request), no_sender = Some (cu_id actor),
       no_title = ''Transfer Request Rejected'',
       no_message = ''Your transfer request was rejected. Reason: '' @ reason, no_type = ''TRANSFER_REJECTED'',
       no_reference = Some (q_uuid request), no_metadata = JNull, no_push = []\<rparr>) (\<lambda>_. ret ())))"

end
