(* ===== verification/Role_Admin.thy ===== *)
theory Role_Admin
  imports User_Accounts
begin

text \<open>
  The administration of roles (\<open>roles/roles.service.ts\<close>) and of the keys a role or a user
  holds (\<open>permissions/permissions.service.ts\<close>).  A manager confined to a branch works on the
  roles of that branch only.
\<close>

section \<open>Shared checks\<close>

definition isLocationScopedRoleManager :: "current_user \<Rightarrow> bool" where
  "isLocationScopedRoleManager actor \<longleftrightarrow> \<not> isSystemAdmin actor \<and> ''roles.manage'' \<notin> set (cu_permissions actor)
     \<and> ''roles.manage_own_location'' \<in> set (cu_permissions actor)"

definition own_location :: "current_user \<Rightarrow> nat option" where
  "own_location actor = (if truthy (cu_location actor) then Some (read_nat (the (cu_location actor))) else None)"

definition role_location :: "string \<Rightarrow> nat service" where
  "role_location value = bind (reads (\<lambda>w. find_location w value)) (\<lambda>l.
     bind (the_or (BadRequest ''Selected branch does not exist.'') l) (\<lambda>l. ret (w_id l)))"

definition alnum :: "char \<Rightarrow> bool" where
  "alnum c = (is_digit c \<or> (let n = (of_char c :: nat) in 65 \<le> n \<and> n \<le> 90 \<or> 97 \<le> n \<and> n \<le> 122))"

text \<open>Every run of other characters becomes one underscore; those at the ends go.\<close>

fun squeeze :: "bool \<Rightarrow> string \<Rightarrow> string" where
  "squeeze gap [] = []"
| "squeeze gap (c # cs) = (if alnum c then c # squeeze False cs
     else if gap then squeeze True cs else CHR ''_'' # squeeze True cs)"

definition strip_underscores :: "string \<Rightarrow> string" where
  "strip_underscores s = rev (dropWhile (\<lambda>c. c = CHR ''_'') (rev (dropWhile (\<lambda>c. c = CHR ''_'') s)))"

definition normalized_role_name :: "string \<Rightarrow> string" where
  "normalized_role_name name = strip_underscores (squeeze False (to_upper (js_trim name)))"

definition normalizeRoleName :: "string \<Rightarrow> string service" where
  "normalizeRoleName name = bind (ensure (normalized_role_name name \<noteq> []) (BadRequest ''Role name is required.'')) (\<lambda>_.
     ret (normalized_role_name name))"

definition normalizeRoleDuplicateKey :: "string \<Rightarrow> string" where
  "normalizeRoleDuplicateKey name = filter alnum (to_lower (js_trim name))"

definition ensureRoleNameIsAvailable :: "string \<Rightarrow> nat option \<Rightarrow> nat option \<Rightarrow> unit service" where
  "ensureRoleNameIsAvailable name loc excluded =
     (let wanted = normalizeRoleDuplicateKey name in
      bind (ensure (wanted \<noteq> []) (BadRequest ''Role name is required.'')) (\<lambda>_.
      bind (reads (\<lambda>w. List.find (\<lambda>r. normalizeRoleDuplicateKey (ro_name r) = wanted)
        (select (\<lambda>r. ro_loc r = loc \<and> (case excluded of None \<Rightarrow> True | Some k \<Rightarrow> k = 0 \<or> ro_id r \<noteq> k)) (roles w)))) (\<lambda>duplicate.
      case duplicate of None \<Rightarrow> ret ()
      | Some r \<Rightarrow> throw (Conflict (if set_somewhere loc
          then ''A role matching '' @ [CHR 0x27] @ ro_name r @ [CHR 0x27] @ '' already exists for this branch.''
          else ''A global role matching '' @ [CHR 0x27] @ ro_name r @ [CHR 0x27] @ '' already exists.'')))))"

definition invalid_key :: "string list \<Rightarrow> string option" where
  "invalid_key keys = List.find (\<lambda>k. k \<notin> set ALL_PERMISSION_KEYS) keys"

definition ensureValidKeys :: "string list \<Rightarrow> unit service" where
  "ensureValidKeys keys = (case invalid_key keys of None \<Rightarrow> ret ()
     | Some k \<Rightarrow> throw (BadRequest (''Permission key \"'' @ k @ ''\" is not a valid system permission.'')))"

text \<open>The keys that lose their cached answer; \<open>places\<close> are the branches concerned.\<close>

definition clearRbacCaches :: "env \<Rightarrow> string list \<Rightarrow> string list \<Rightarrow> unit service" where
  "clearRbacCaches en fixed places = modify (\<lambda>w. w\<lparr>cache_keys := filter (\<lambda>k.
     \<not> (k \<in> set fixed \<or> k \<in> set (map (\<lambda>p. ''roles:branch:'' @ p) places)
        \<or> (store_keys en \<and> (starts_with k ''users:all'' \<or> starts_with k ''users:pending'' \<or> starts_with k ''roles:branch:''))))
     (cache_keys w)\<rparr>)"

definition rbac_caches :: "string list" where
  "rbac_caches = [''roles:all'', ''permissions:all'', ''users:all'', ''users:pending'']"

definition show_role :: "nat \<Rightarrow> role service" where
  "show_role k = bind (reads (\<lambda>w. find_row (\<lambda>r. ro_id r = k) (roles w))) (\<lambda>r. the_or (NotFound ''No roles found'') r)"

definition audit_role :: "current_user \<Rightarrow> nat \<Rightarrow> activity_type \<Rightarrow> string \<Rightarrow> audit_action \<Rightarrow> json \<Rightarrow> unit service" where
  "audit_role actor entity type description action new = audit (\<lambda>n. \<lparr>a_id = n, a_user = cu_id actor, a_employee = None,
     a_table = ''roles'', a_entity = entity, a_module = ''RBAC'', a_type = type, a_description = description,
     a_action = action, a_old = JNull, a_new = new, a_changed = []\<rparr>)"

section \<open>Roles\<close>

text \<open>
  Without a working location the clause on it is empty and does not restrict the list.
  Roles without a level come first.
\<close>

definition listed_roles :: "current_user option \<Rightarrow> world \<Rightarrow> role list" where
  "listed_roles actor w =
     (let scoped = (case actor of None \<Rightarrow> False | Some a \<Rightarrow> isLocationScopedRoleManager a);
          visible = (\<lambda>r. \<not> scoped \<or> ro_loc r = None \<or> own_location (the actor) = None \<or> ro_loc r = own_location (the actor))
      in select (\<lambda>r. visible r \<and> ro_level r = None) (roles w)
         @ sort_key (\<lambda>r. the (ro_level r)) (select (\<lambda>r. visible r \<and> ro_level r \<noteq> None) (roles w)))"

definition findAllRoles :: "current_user option \<Rightarrow> role list option service" where
  "findAllRoles actor = cached_or (case actor of None \<Rightarrow> ''roles:all''
       | Some a \<Rightarrow> if isLocationScopedRoleManager a then ''roles:branch:'' @ (case cu_location a of None \<Rightarrow> ''null'' | Some l \<Rightarrow> l)
         else ''roles:all'')
     (reads (listed_roles actor))"

record role_dto =
  rd_name :: string
  rd_description :: "string option"
  rd_keys :: "string list option"
  rd_location :: "string option"

definition trimmed_or_none :: "string option \<Rightarrow> string option" where
  "trimmed_or_none x = (case x of None \<Rightarrow> None | Some s \<Rightarrow> if js_trim s = [] then None else Some (js_trim s))"

definition role_scope :: "role_dto \<Rightarrow> current_user \<Rightarrow> nat option service" where
  "role_scope dto actor =
     (if isLocationScopedRoleManager actor then
        bind (ensure (truthy (cu_location actor))
          (Forbidden ''Your account has no branch assigned, so you cannot create a branch-scoped role. Ask an administrator to assign you to a branch first.'')) (\<lambda>_.
        ret (own_location actor))
      else if truthy (rd_location dto) then bind (role_location (the (rd_location dto))) (\<lambda>l. ret (Some l))
      else ret None)"

definition role_row :: "env \<Rightarrow> string \<Rightarrow> string option \<Rightarrow> string list \<Rightarrow> nat option \<Rightarrow> nat \<Rightarrow> role" where
  "role_row en name description keys loc n = \<lparr>ro_id = n, ro_name = name, ro_keys = keys, ro_uuid = gen_uuid en ''roles'' n,
     ro_loc = loc, ro_description = description, ro_system = False, ro_level = None, ro_created_at = now en\<rparr>"

definition createRole :: "env \<Rightarrow> role_dto \<Rightarrow> current_user \<Rightarrow> role service" where
  "createRole en dto actor =
     (let keys = (case rd_keys dto of None \<Rightarrow> [] | Some ks \<Rightarrow> ks) in
     bind (normalizeRoleName (rd_name dto)) (\<lambda>name.
     bind (ensureValidKeys keys) (\<lambda>_.
     bind (role_scope dto actor) (\<lambda>loc.
     bind (ensureRoleNameIsAvailable (rd_name dto) loc None) (\<lambda>_.
     bind (atomically (
       bind (update_ret (\<lambda>w. (next_id (roles w),
         w\<lparr>roles := insert_row (role_row en name (trimmed_or_none (rd_description dto)) keys loc) (roles w)\<rparr>))) (\<lambda>k.
       bind (audit_role actor k AT_CREATE (if set_somewhere loc then ''Created branch-scoped role.'' else ''Created role.'') AU_CREATED
         (JObj [(''name'', JStr name), (''permission_keys'', JArr (map JStr keys)),
           (''working_location_id'', jopt (\<lambda>l. JStr (show_nat l)) loc)])) (\<lambda>_.
       ret k)))) (\<lambda>k.
     bind (clearRbacCaches en rbac_caches (case loc of None \<Rightarrow> [] | Some l \<Rightarrow> [show_nat l])) (\<lambda>_.
     show_role k)))))))"

record role_update =
  ru_name :: "string option"
  ru_description :: "string option"
  ru_keys :: "string list option"

definition ensureOwnRole :: "current_user \<Rightarrow> role \<Rightarrow> string \<Rightarrow> unit service" where
  "ensureOwnRole actor r message =
     (if isLocationScopedRoleManager actor
      then ensure (set_somewhere (ro_loc r) \<and> set_somewhere (own_location actor) \<and> ro_loc r = own_location actor) (Forbidden message)
      else ret ())"

definition renamed_role :: "role_update \<Rightarrow> string option \<Rightarrow> role \<Rightarrow> role" where
  "renamed_role dto name r = r\<lparr>ro_name := value_or name (ro_name r),
     ro_description := (case ru_description dto of None \<Rightarrow> ro_description r | Some s \<Rightarrow> trimmed_or_none (Some s)),
     ro_keys := value_or (ru_keys dto) (ro_keys r)\<rparr>"

definition role_changes :: "role_update \<Rightarrow> string option \<Rightarrow> json" where
  "role_changes dto name = JObj ((case name of None \<Rightarrow> [] | Some n \<Rightarrow> [(''name'', JStr n)])
     @ (case ru_description dto of None \<Rightarrow> [] | Some s \<Rightarrow> [(''description'', jopt JStr (trimmed_or_none (Some s)))])
     @ (case ru_keys dto of None \<Rightarrow> [] | Some ks \<Rightarrow> [(''permission_keys'', JArr (map JStr ks))]))"

definition notifyUsersWithRole :: "nat \<Rightarrow> unit service" where
  "notifyUsersWithRole k = modify (\<lambda>w. notifyUsers (map ur_user (select (\<lambda>ur. ur_role ur = k) (user_roles w)))
     (NamedEvent ''permissions_updated'') w)"

definition updateRole :: "env \<Rightarrow> string \<Rightarrow> role_update \<Rightarrow> current_user \<Rightarrow> role service" where
  "updateRole en roleInput dto actor =
     bind (toBigInt roleInput ''role'') (\<lambda>k.
     bind (reads (\<lambda>w. find_row (\<lambda>r. ro_id r = k) (roles w))) (\<lambda>found.
     bind (the_or (NotFound ''Role not found.'') found) (\<lambda>r.
     bind (ensureOwnRole actor r ''You can only edit roles that belong to your own branch.'') (\<lambda>_.
     bind (case ru_name dto of None \<Rightarrow> ret None
       | Some n \<Rightarrow> bind (ensure (\<not> ro_system r) (BadRequest ''System role names cannot be changed.'')) (\<lambda>_.
           bind (ensureRoleNameIsAvailable n (ro_loc r) (Some k)) (\<lambda>_.
           bind (normalizeRoleName n) (\<lambda>m. ret (Some m))))) (\<lambda>name.
     bind (ensureValidKeys (value_or (ru_keys dto) [])) (\<lambda>_.
     bind (atomically (
       bind (modify (\<lambda>w. w\<lparr>roles := update_rows (\<lambda>x. ro_id x = k) (renamed_role dto name) (roles w)\<rparr>)) (\<lambda>_.
       audit_role actor k AT_UPDATE ''Updated role permissions.'' AU_UPDATED (role_changes dto name)))) (\<lambda>_.
     bind (when_op (ru_keys dto \<noteq> None) (notifyUsersWithRole k)) (\<lambda>_.
     bind (clearRbacCaches en rbac_caches ((case cu_location actor of None \<Rightarrow> [] | Some l \<Rightarrow> [l])
       @ (case ro_loc r of None \<Rightarrow> [] | Some l \<Rightarrow> [show_nat l]))) (\<lambda>_.
     show_role k)))))))))"

section \<open>Keys of roles and users\<close>

definition role_caches :: "string list" where
  "role_caches = [''roles:all'', ''users:all'', ''users:pending'']"

definition set_keys :: "nat \<Rightarrow> string list \<Rightarrow> unit service" where
  "set_keys k keys = modify (\<lambda>w. w\<lparr>roles := update_rows (\<lambda>r. ro_id r = k) (\<lambda>r. r\<lparr>ro_keys := keys\<rparr>) (roles w)\<rparr>)"

definition after_key_change :: "env \<Rightarrow> role \<Rightarrow> unit service" where
  "after_key_change en r = bind (notifyUsersWithRole (ro_id r)) (\<lambda>_.
     clearRbacCaches en role_caches (if set_somewhere (ro_loc r) then [show_nat (the (ro_loc r))] else []))"

definition assignToRole :: "env \<Rightarrow> string \<Rightarrow> string \<Rightarrow> current_user \<Rightarrow> unit service" where
  "assignToRole en roleInput key actor =
     bind (toBigInt roleInput (field_label ''role_id'')) (\<lambda>k.
     bind (reads (\<lambda>w. find_row (\<lambda>r. ro_id r = k) (roles w))) (\<lambda>found.
     bind (the_or (BadRequest ''Role does not exist.'') found) (\<lambda>r.
     bind (ensureValidKeys [key]) (\<lambda>_.
     bind (ensureOwnRole actor r ''You can only assign or revoke permissions on roles that belong to your own branch.'') (\<lambda>_.
     bind (when_op (key \<notin> set (ro_keys r)) (set_keys k (ro_keys r @ [key]))) (\<lambda>_.
     after_key_change en r))))))"

definition removeFromRole :: "env \<Rightarrow> string \<Rightarrow> string \<Rightarrow> current_user \<Rightarrow> unit service" where
  "removeFromRole en roleInput key actor =
     bind (toBigInt roleInput (field_label ''role_id'')) (\<lambda>k.
     bind (reads (\<lambda>w. find_row (\<lambda>r. ro_id r = k) (roles w))) (\<lambda>found.
     bind (the_or (NotFound ''Role not found.'') found) (\<lambda>r.
     bind (ensureOwnRole actor r ''You can only assign or revoke permissions on roles that belong to your own branch.'') (\<lambda>_.
     bind (when_op (key \<in> set (ro_keys r)) (set_keys k (filter (\<lambda>x. x \<noteq> key) (ro_keys r)))) (\<lambda>_.
     after_key_change en r)))))"

definition ensureActorCanGrantUserPermission :: "current_user \<Rightarrow> nat \<Rightarrow> unit service" where
  "ensureActorCanGrantUserPermission actor uid =
     (if isSystemAdmin actor then ret ()
      else bind (ensure (''BRANCH_MANAGER'' \<in> set (cu_roles actor) \<and> truthy (cu_location actor))
          (BadRequest ''You can only grant permissions as an administrator or branch manager.'')) (\<lambda>_.
        bind (reads (\<lambda>w. find_row (\<lambda>u. u_id u = uid \<and> \<not> u_deleted u \<and> u_loc u = Some (read_nat (the (cu_location actor)))) (users w))) (\<lambda>target.
        ensure (target \<noteq> None) (BadRequest ''Branch managers can only grant permissions within their working location.''))))"

definition audit_grant :: "current_user \<Rightarrow> nat \<Rightarrow> string \<Rightarrow> json \<Rightarrow> json \<Rightarrow> unit service" where
  "audit_grant actor entity description old new = audit (\<lambda>n. \<lparr>a_id = n, a_user = cu_id actor, a_employee = None,
     a_table = ''user_permissions'', a_entity = entity, a_module = ''RBAC'', a_type = AT_UPDATE, a_description = description,
     a_action = AU_UPDATED, a_old = old, a_new = new, a_changed = []\<rparr>)"

definition grant_values :: "nat \<Rightarrow> string \<Rightarrow> json" where
  "grant_values uid key = JObj [(''user_id'', JStr (show_nat uid)), (''permission_key'', JStr key)]"

definition tell_user :: "nat \<Rightarrow> unit service" where
  "tell_user uid = modify (notifyUsers [uid] (NamedEvent ''permissions_updated''))"

definition assignToUser :: "string \<Rightarrow> string \<Rightarrow> current_user \<Rightarrow> user_permission service" where
  "assignToUser userInput key actor =
     bind (toBigInt userInput (field_label ''user_id'')) (\<lambda>uid.
     bind (reads (\<lambda>w. find_row (\<lambda>u. u_id u = uid \<and> \<not> u_deleted u) (users w))) (\<lambda>u.
     bind (ensure (u \<noteq> None) (BadRequest ''User does not exist.'')) (\<lambda>_.
     bind (ensureValidKeys [key]) (\<lambda>_.
     bind (ensureActorCanGrantUserPermission actor uid) (\<lambda>_.
     bind (atomically (
       bind (modify (\<lambda>w. w\<lparr>user_permissions := add_permission uid (user_permissions w) key\<rparr>)) (\<lambda>_.
       bind (reads (\<lambda>w. find_row (\<lambda>up. up_user up = uid \<and> up_key up = key) (user_permissions w))) (\<lambda>created.
       bind (the_or (NotFound ''No user_permissions found'') created) (\<lambda>created.
       bind (audit_grant actor (up_id created) ''Assigned permission directly to user.'' JNull (grant_values uid key)) (\<lambda>_.
       ret created)))))) (\<lambda>assignment.
     bind (tell_user uid) (\<lambda>_. ret assignment)))))))"

definition removeFromUser :: "string \<Rightarrow> string \<Rightarrow> current_user \<Rightarrow> unit service" where
  "removeFromUser userInput key actor =
     bind (toBigInt userInput (field_label ''user_id'')) (\<lambda>uid.
     bind (ensureActorCanGrantUserPermission actor uid) (\<lambda>_.
     bind (reads (\<lambda>w. find_row (\<lambda>up. up_user up = uid \<and> up_key up = key) (user_permissions w))) (\<lambda>existing.
     bind (the_or (NotFound ''User permission assignment not found.'') existing) (\<lambda>up.
     bind (atomically (
       bind (modify (\<lambda>w. w\<lparr>user_permissions := delete_rows (\<lambda>x. up_id x = up_id up) (user_permissions w)\<rparr>)) (\<lambda>_.
       audit_grant actor (up_id up) ''Removed direct permission from user.'' (grant_values uid key) JNull))) (\<lambda>_.
     tell_user uid)))))"

end
