(* ===== verification/User_Rules.thy ===== *)
theory User_Rules
  imports Role_Admin
begin

text \<open>
  What the administration of users and roles keeps: no two accounts share an address or a
  phone number, a user holds a role, a key or an override once, a branch has at most one
  active manager, and no two roles of one place have names equal up to case and
  punctuation.
\<close>

section \<open>The registers\<close>

definition account_clash :: "user \<Rightarrow> user \<Rightarrow> bool" where
  "account_clash u u' \<longleftrightarrow> u_email u = u_email u' \<or> u_phone u = u_phone u'"

definition same_role :: "user_role \<Rightarrow> user_role \<Rightarrow> bool" where
  "same_role r r' \<longleftrightarrow> ur_user r = ur_user r' \<and> ur_role r = ur_role r'"

definition same_grant :: "user_permission \<Rightarrow> user_permission \<Rightarrow> bool" where
  "same_grant p p' \<longleftrightarrow> up_user p = up_user p' \<and> up_key p = up_key p'"

definition same_override :: "user_override \<Rightarrow> user_override \<Rightarrow> bool" where
  "same_override v v' \<longleftrightarrow> uo_user v = uo_user v' \<and> uo_key v = uo_key v'"

definition manager_clash :: "branch_manager \<Rightarrow> branch_manager \<Rightarrow> bool" where
  "manager_clash b b' \<longleftrightarrow> bm_loc b = bm_loc b' \<and> bm_active b \<and> bm_active b' \<and> bm_user b \<noteq> bm_user b'"

definition role_clash :: "role \<Rightarrow> role \<Rightarrow> bool" where
  "role_clash r r' \<longleftrightarrow> ro_loc r = ro_loc r' \<and> normalizeRoleDuplicateKey (ro_name r) = normalizeRoleDuplicateKey (ro_name r')"

interpretation accounts: uniqueness_rule u_id account_clash
  by unfold_locales (auto simp: account_clash_def)

interpretation assignments: uniqueness_rule ur_id same_role
  by unfold_locales (auto simp: same_role_def)

interpretation grants: uniqueness_rule up_id same_grant
  by unfold_locales (auto simp: same_grant_def)

interpretation overrides: uniqueness_rule uo_id same_override
  by unfold_locales (auto simp: same_override_def)

interpretation managers: uniqueness_rule bm_id manager_clash
  by unfold_locales (auto simp: manager_clash_def)

interpretation role_names: uniqueness_rule ro_id role_clash
  by unfold_locales (auto simp: role_clash_def)

definition accounts_ok :: "world \<Rightarrow> bool" where
  "accounts_ok w \<longleftrightarrow> apart u_id account_clash (users w) \<and> apart ur_id same_role (user_roles w)
     \<and> apart up_id same_grant (user_permissions w) \<and> apart uo_id same_override (user_overrides w)
     \<and> apart bm_id manager_clash (branch_managers w) \<and> apart ro_id role_clash (roles w)"

lemma accounts_frame [simp]:
  "accounts_ok (w\<lparr>audit_logs := a\<rparr>) = accounts_ok w"
  "accounts_ok (w\<lparr>cache_keys := k\<rparr>) = accounts_ok w"
  "accounts_ok (w\<lparr>notifications := n\<rparr>) = accounts_ok w"
  "accounts_ok (w\<lparr>delivered := e\<rparr>) = accounts_ok w"
  "accounts_ok (w\<lparr>clients := c\<rparr>) = accounts_ok w"
  "accounts_ok (w\<lparr>sessions := s\<rparr>) = accounts_ok w"
  "accounts_ok (w\<lparr>transfer_requests := t\<rparr>) = accounts_ok w"
  "accounts_ok (broadcast p w) = accounts_ok w"
  by (simp_all add: accounts_ok_def broadcast_def)

lemma accounts_notifyUsers [simp]: "accounts_ok (notifyUsers uids p w) = accounts_ok w"
  using notifyUsers_frame [of uids p w] by auto

section \<open>Writes that keep the registers\<close>

lemma add_role_apart: "apart ur_id same_role t \<Longrightarrow> apart ur_id same_role (add_role uid t rid)"
  by (auto simp: add_role_def list_ex_iff same_role_def intro!: assignments.insert_apart)

lemma add_permission_apart: "apart up_id same_grant t \<Longrightarrow> apart up_id same_grant (add_permission uid t key)"
  by (auto simp: add_permission_def list_ex_iff same_grant_def intro!: grants.insert_apart)

lemma add_roles_apart: "apart ur_id same_role t \<Longrightarrow> apart ur_id same_role (foldl (add_role uid) t rs)"
  by (induction rs arbitrary: t) (auto intro: add_role_apart)

lemma add_permissions_apart: "apart up_id same_grant t \<Longrightarrow> apart up_id same_grant (foldl (add_permission uid) t ks)"
  by (induction ks arbitrary: t) (auto intro: add_permission_apart)

lemma keeps_grant: "keeps accounts_ok (grant uid rs ks)"
  unfolding grant_def by (rule keeps_modify) (simp add: accounts_ok_def add_roles_apart add_permissions_apart)

lemma keeps_drop: "keeps accounts_ok (drop_roles uid)" "keeps accounts_ok (drop_permissions uid)"
  unfolding drop_roles_def drop_permissions_def
  by (auto simp: accounts_ok_def intro!: keeps_modify assignments.delete_apart grants.delete_apart overrides.delete_apart)

lemma put_override_apart: "apart uo_id same_override t \<Longrightarrow> apart uo_id same_override (put_override uid key b t)"
  by (auto simp: put_override_def list_ex_iff same_override_def intro!: overrides.insert_apart overrides.update_apart)

lemma keeps_put_override: "keeps accounts_ok (modify (\<lambda>w. w\<lparr>user_overrides := put_override uid k b (user_overrides w)\<rparr>))"
  by (rule keeps_modify) (simp add: accounts_ok_def put_override_apart)

lemma keeps_update_user:
  "(\<And>u. u_id (f u) = u_id u \<and> u_email (f u) = u_email u \<and> u_phone (f u) = u_phone u) \<Longrightarrow> keeps accounts_ok (update_user k f)"
  unfolding update_user_def
  by (intro keeps_modify) (auto simp: accounts_ok_def account_clash_def intro!: accounts.update_apart)

section \<open>Checks only read\<close>

lemma readonly_for_each [fail_rules]: "(\<And>x. readonly (f x)) \<Longrightarrow> readonly (for_each xs f)"
  by (induction xs) (auto intro!: fail_rules)

lemma readonly_list: "readonly m \<Longrightarrow> (\<And>x xs. readonly (f x xs)) \<Longrightarrow> readonly (case l of [] \<Rightarrow> m | x # xs \<Rightarrow> f x xs)"
  by (simp split: list.split)

lemma readonly_accounts [fail_rules]:
  "readonly (findUserByUuidOrThrow uuid)" "readonly (ensureWorkingLocationExists loc)" "readonly getDefaultWorkingLocationId"
  "readonly (getDefaultDepartmentId loc)" "readonly getDefaultRoleId" "readonly (ensureDepartmentExists dep loc)"
  "readonly (ensureRolesExist ids b)" "readonly (resolvePermissionIds ks)" "readonly (ensurePermissionsExist ks)"
  "readonly (resolveRoleIds vs)" "readonly (ensureActorCanAssignRoles actor ids)" "readonly (ensureActorCanManageUser actor l)"
  "readonly (resolvePermission k)" "readonly (findUserTransferOrThrow uuid)" "readonly (resolveDepartmentId d l)"
  unfolding findUserByUuidOrThrow_def ensureWorkingLocationExists_def getDefaultWorkingLocationId_def getDefaultDepartmentId_def
    getDefaultRoleId_def ensureDepartmentExists_def ensureRolesExist_def resolvePermissionIds_def ensurePermissionsExist_def
    resolveRoleIds_def ensureActorCanAssignRoles_def ensureActorCanManageUser_def resolvePermission_def
    findUserTransferOrThrow_def resolveDepartmentId_def
  by (intro fail_rules readonly_list)+

lemma readonly_new_user [fail_rules]: "readonly (new_user_location dto actor)" "readonly (roles_to_approve d u)"
  "readonly (ensureOnlyOneBranchManager loc uid)" "readonly (show_user k)"
  unfolding new_user_location_def roles_to_approve_def ensureOnlyOneBranchManager_def show_user_def
  by (intro fail_rules)+

lemma readonly_roles [fail_rules]: "readonly (role_location v)" "readonly (normalizeRoleName n)"
  "readonly (ensureRoleNameIsAvailable n l x)" "readonly (ensureValidKeys ks)" "readonly (role_scope dto actor)"
  "readonly (ensureOwnRole actor r m)" "readonly (ensureActorCanGrantUserPermission actor uid)" "readonly (show_role k)"
  unfolding role_location_def normalizeRoleName_def ensureRoleNameIsAvailable_def ensureValidKeys_def role_scope_def
    ensureOwnRole_def ensureActorCanGrantUserPermission_def Let_def show_role_def
  by (intro fail_rules)+

lemmas keeps_checks = readonly_accounts [THEN keeps_readonly] readonly_new_user [THEN keeps_readonly]
  readonly_roles [THEN keeps_readonly] readonly_toBigInt [THEN keeps_readonly]
  readonly_resolveWorkingLocationId [THEN keeps_readonly]

section \<open>What a predicate of the registers needs\<close>

text \<open>
  A predicate that depends on the registers only and survives the elementary writes is kept
  by every operation that adds no account and no role and appoints no manager.
\<close>

locale account_invariant =
  fixes I :: "world \<Rightarrow> bool"
  assumes only: "I w \<Longrightarrow> users v = users w \<Longrightarrow> user_roles v = user_roles w \<Longrightarrow> user_permissions v = user_permissions w
      \<Longrightarrow> user_overrides v = user_overrides w \<Longrightarrow> branch_managers v = branch_managers w \<Longrightarrow> roles v = roles w \<Longrightarrow> I v"
    and updated: "(\<And>u. u_id (f u) = u_id u \<and> u_email (f u) = u_email u \<and> u_phone (f u) = u_phone u
      \<and> (u_deleted u \<longrightarrow> u_deleted (f u))) \<Longrightarrow> keeps I (update_user k f)"
    and granted: "keeps I (grant uid rs ks)"
    and dropped: "keeps I (drop_roles uid)" "keeps I (drop_permissions uid)"
    and overridden: "keeps I (modify (\<lambda>w. w\<lparr>user_overrides := put_override uid key b (user_overrides w)\<rparr>) :: unit service)"
    and keyed: "keeps I (set_keys k ks)"
      "keeps I (modify (\<lambda>w. w\<lparr>user_permissions := add_permission uid (user_permissions w) key\<rparr>) :: unit service)"
      "keeps I (modify (\<lambda>w. w\<lparr>user_permissions := delete_rows p (user_permissions w)\<rparr>) :: unit service)"
begin

lemma keeps_untouched:
  assumes "\<And>w. users (g w) = users w \<and> user_roles (g w) = user_roles w \<and> user_permissions (g w) = user_permissions w
    \<and> user_overrides (g w) = user_overrides w \<and> branch_managers (g w) = branch_managers w \<and> roles (g w) = roles w"
  shows "keeps I (modify g)"
  by (rule keeps_modify, rule only) (use assms in simp_all)

lemma notifyUsers_registers [simp]: "users (notifyUsers us p w) = users w" "user_roles (notifyUsers us p w) = user_roles w"
  "user_permissions (notifyUsers us p w) = user_permissions w" "user_overrides (notifyUsers us p w) = user_overrides w"
  "branch_managers (notifyUsers us p w) = branch_managers w" "roles (notifyUsers us p w) = roles w"
  using notifyUsers_frame [of us p w] by auto

lemma quiet_registers: "quiet I"
  unfolding quiet_def by (intro allI iffI; erule only; simp)

lemma keeps_quiet_writes:
  "keeps I (audit mk)" "keeps I (cache_put key)" "keeps I (revoke_sessions uid)"
  "keeps I (modify (broadcast p))" "keeps I (mark_registration_read u)"
  "keeps I (clear_cached en key)" "keeps I (clearRbacCaches en fixed places)"
  "keeps I (update_request k g)" "keeps I (notifyUsersWithRole k)" "keeps I (tell_user uid)"
  by (auto simp: audit_def cache_put_def revoke_sessions_def mark_registration_read_def clear_cached_def
      cache_del_def clearRbacCaches_def update_request_def notifyUsersWithRole_def tell_user_def broadcast_def
      intro!: keeps_untouched)

lemma keeps_show: "keeps I (show_user k)" "keeps I (show_role k)"
  unfolding show_user_def show_role_def by (intro keeps_rules)+

lemma keeps_audits: "keeps I (audit_user actor k t d a old new ch)" "keeps I (audit_role actor k t d a new)"
  "keeps I (audit_grant actor k d old new)"
  unfolding audit_user_def audit_role_def audit_grant_def by (intro keeps_quiet_writes)+

lemma keeps_atomic: "keeps I m \<Longrightarrow> keeps I (atomically m)"
  by (rule keeps_atomically) (auto intro: only)

lemma keeps_clear_users: "keeps I (clearUserCaches en)"
  unfolding clearUserCaches_def by (intro keeps_rules keeps_quiet_writes)

lemmas keeps_account = keeps_rules granted dropped keeps_quiet_writes keeps_show keeps_audits keeps_atomic
  keeps_clear_users direct.keeps_send [OF quiet_registers] admins.keeps_send [OF quiet_registers]
  branch.keeps_send [OF quiet_registers]

subsection \<open>Operations without a check of their own\<close>

lemma update_user_keeps: "keeps I (updateUser en uuid dto actor)"
  unfolding updateUser_def Let_def by (intro keeps_account keeps_checks updated) simp

lemma reject_user_keeps: "keeps I (rejectUser en uuid reason actor)"
  unfolding rejectUser_def by (intro keeps_account keeps_checks updated) simp

lemma suspend_user_keeps: "keeps I (suspendUser en uuid)"
  unfolding suspendUser_def by (intro keeps_account keeps_checks updated) simp

lemma reactivate_user_keeps: "keeps I (reactivateUser en uuid)"
  unfolding reactivateUser_def by (intro keeps_account keeps_checks updated) simp

lemma assign_roles_keeps: "keeps I (assignRoles en uuid vs actor)"
  unfolding assignRoles_def by (intro keeps_account keeps_checks)

lemma keeps_notify_row: "keeps I (modify (\<lambda>w. w\<lparr>notifications := insert_row mk (notifications w)\<rparr>))"
  by (rule keeps_untouched) simp

lemma keeps_new_request: "keeps I (update_ret (\<lambda>w. let q = mk in (f q w, w\<lparr>transfer_requests := insert_row q (transfer_requests w)\<rparr>)))"
  by (rule keeps_update_ret) (auto simp: Let_def intro: only)

lemma update_override_keeps: "keeps I (updatePermissionOverride en uuid key b actor)"
  unfolding updatePermissionOverride_def
  by (intro keeps_account keeps_checks overridden keeps_notify_row keeps_pair)

lemma request_transfer_keeps: "keeps I (requestTransfer en uuid l d reason actor)"
  unfolding requestTransfer_def by (intro keeps_account keeps_checks keeps_new_request)

lemma finalize_user_transfer_keeps: "keeps I (finalize_user_transfer en q uid actor)"
  unfolding finalize_user_transfer_def by (intro keeps_account updated) simp

lemma user_transfer_keeps: "keeps I (approveUserTransfer en uuid actor)" "keeps I (rejectUserTransfer en uuid reason actor)"
  unfolding approveUserTransfer_def rejectUserTransfer_def
  by (intro keeps_account keeps_checks finalize_user_transfer_keeps)+

lemma role_keys_keep: "keeps I (assignToRole en k key actor)" "keeps I (removeFromRole en k key actor)"
  unfolding assignToRole_def removeFromRole_def after_key_change_def
  by (intro keeps_account keeps_checks keyed)+

lemma user_keys_keep: "keeps I (assignToUser u key actor)" "keeps I (removeFromUser u key actor)"
  unfolding assignToUser_def removeFromUser_def
  by (intro keeps_account keeps_checks keyed)+

end

section \<open>The operations with checks keep the registers\<close>

lemma keeps_set_keys: "keeps accounts_ok (set_keys k ks)"
  unfolding set_keys_def
  by (intro keeps_modify) (auto simp: accounts_ok_def role_clash_def intro!: role_names.update_apart)

lemma keeps_user_keys: "keeps accounts_ok (modify (\<lambda>w. w\<lparr>user_permissions := add_permission uid (user_permissions w) key\<rparr>))"
  "keeps accounts_ok (modify (\<lambda>w. w\<lparr>user_permissions := delete_rows p (user_permissions w)\<rparr>))"
  by (auto simp: accounts_ok_def intro!: keeps_modify add_permission_apart grants.delete_apart)

interpretation registers: account_invariant accounts_ok
proof (unfold_locales, goal_cases)
  case 1
  then show ?case by (simp add: accounts_ok_def)
next
  case (2 f k)
  then show ?case by (intro keeps_update_user) simp
qed (rule keeps_grant keeps_drop keeps_put_override keeps_set_keys keeps_user_keys)+

text \<open>A new account: no row has its address or its phone number.\<close>

lemma insert_user_leads:
  assumes ok: "accounts_ok w" and free: "find_row (\<lambda>u. u_email u = nu_email dto \<or> u_phone u = nu_phone dto) (users w) = None"
  shows "leads accounts_ok (bind (insert_user en dto actor password loc dep rs ks) (\<lambda>u. bind (clearUserCaches en) (\<lambda>_. ret u))) w"
  unfolding insert_user_def
proof (rule leads_atomically, goal_cases)
  case (3 a v)
  let ?w = "w\<lparr>users := insert_row (user_row en dto (actor \<noteq> None) password loc dep) (users w)\<rparr>"
  have row: "\<not> account_clash u (user_row en dto by_actor password loc dep n)" if "u \<in> set (rows (users w))" for u by_actor n
    using that free by (auto simp: find_row_None account_clash_def user_row_def)
  have new: "accounts_ok ?w"
    using ok row by (auto simp: accounts_ok_def user_row_def intro!: accounts.insert_apart)
  have rest: "keeps accounts_ok (bind (grant k rs ks) (\<lambda>_. bind (case actor of None \<Rightarrow> ret () | Some a \<Rightarrow> audit_user a k t d c old new ch) (\<lambda>_. show_user k)))"
    for k t d c old new ch
    by (intro registers.keeps_account)
  from 3 show ?case unfolding bind_update_ret fst_conv snd_conv by (rule keepsD [OF rest, OF new])
qed (auto simp: ok intro!: registers.keeps_account)

lemma create_user_keeps: "keeps accounts_ok (createUser en dto actor)"
proof (rule keeps_leads)
  fix w :: world
  assume ok: "accounts_ok w"
  show "leads accounts_ok (createUser en dto actor) w"
    unfolding createUser_def
  proof ((rule leads_guard [where I = accounts_ok, OF _ ok], (intro fail_rules)[1])+, goal_cases)
    case 1
    then show ?case by (intro insert_user_leads [OF ok]) simp
  qed
qed

text \<open>An appointed manager: the branch has no other active one.\<close>

lemma appoint_leads:
  assumes ok: "accounts_ok w" and alone: "\<forall>b \<in> set (rows (branch_managers w)). bm_loc b = loc \<and> bm_active b \<longrightarrow> bm_user b = uid"
  shows "accounts_ok (snd (appoint loc uid w))"
proof -
  have ap: "apart bm_id manager_clash (branch_managers w)" using ok by (simp add: accounts_ok_def)
  have "apart bm_id manager_clash (branch_managers (snd (appoint loc uid w)))"
  proof (cases "find_row (\<lambda>b. bm_loc b = loc \<and> bm_user b = uid) (branch_managers w)")
    case None
    then have "\<forall>b \<in> set (rows (branch_managers w)). \<not> (bm_loc b = loc \<and> bm_user b = uid)"
      by (simp add: find_row_None)
    with alone have "\<forall>b \<in> set (rows (branch_managers w)). \<not> manager_clash b \<lparr>bm_id = n, bm_loc = loc, bm_user = uid, bm_active = True\<rparr>" for n
      by (auto simp: manager_clash_def)
    with None show ?thesis by (simp add: appoint_def managers.insert_apart [OF ap])
  next
    case (Some x)
    then have x: "x \<in> set (rows (branch_managers w))" "bm_loc x = loc" "bm_user x = uid"
      using find_row_Some by fastforce+
    have "\<not> manager_clash b (x\<lparr>bm_active := True\<rparr>)" if "b \<in> set (rows (branch_managers w))" for b
      using alone that x by (auto simp: manager_clash_def)
    then have "apart bm_id manager_clash (update_rows (\<lambda>b. bm_id b = bm_id x) (\<lambda>b. b\<lparr>bm_active := True\<rparr>) (branch_managers w))"
      by (intro managers.update_one_apart [OF ap x(1)]) simp_all
    with Some show ?thesis by (simp add: appoint_def)
  qed
  with ok show ?thesis by (simp add: accounts_ok_def appoint_def)
qed

definition sole_manager :: "nat \<Rightarrow> nat \<Rightarrow> world \<Rightarrow> bool" where
  "sole_manager loc uid w \<longleftrightarrow> accounts_ok w
     \<and> (\<forall>b \<in> set (rows (branch_managers w)). bm_loc b = loc \<and> bm_active b \<longrightarrow> bm_user b = uid)"

lemma keeps_sole:
  "keeps accounts_ok (update_user k f) \<Longrightarrow> keeps (sole_manager loc uid) (update_user k f)"
  "keeps (sole_manager loc uid) (drop_roles k)" "keeps (sole_manager loc uid) (drop_permissions k)"
  "keeps (sole_manager loc uid) (grant k rs ks)"
  using keeps_grant keeps_drop
  unfolding keeps_def sole_manager_def update_user_def drop_roles_def drop_permissions_def grant_def by simp_all

lemma only_manager: "ensureOnlyOneBranchManager loc uid w = (Inr u, v) \<Longrightarrow>
    \<forall>b \<in> set (rows (branch_managers w)). bm_loc b = loc \<and> bm_active b \<longrightarrow> bm_user b = uid"
  by (auto simp: ensureOnlyOneBranchManager_def find_row_None split: option.splits)

text \<open>A stronger predicate held on the way.\<close>

lemma leads_via:
  assumes "keeps J m" and "J s" and weaker: "\<And>v. J v \<Longrightarrow> I v" and rest: "\<And>a v. J v \<Longrightarrow> leads I (f a) v"
  shows "leads I (bind m f) s"
proof (cases "m s")
  case (Pair r v)
  have J: "J v" by (rule keepsD [OF assms(1,2) Pair])
  have "I v" and "leads I (f a) v" for a by (rule weaker [OF J], rule rest [OF J])
  with Pair show ?thesis by (cases r) (simp_all add: leads_def bind_def)
qed

lemma activate_leads:
  assumes J: "if as_manager then sole_manager loc (u_id user) w else accounts_ok w"
    and after: "\<And>a. keeps accounts_ok (f a)"
  shows "leads accounts_ok (bind (activate en user actor loc dep rs ks as_manager) f) w"
  unfolding activate_def
proof (rule leads_atomically, goal_cases)
  case 2
  show ?case using J by (simp add: sole_manager_def split: if_splits)
next
  case (3 a v)
  let ?set = "\<lambda>u. u\<lparr>u_loc := Some loc, u_department := dep, u_status := P_ACTIVE, u_verified := False,
       u_code := Some (hashToken en (random_text en ''verification_code''), now en + 30 * 60 * 1000)\<rparr>"
  let ?J = "if as_manager then sole_manager loc (u_id user) else accounts_ok"
  have set: "keeps accounts_ok (update_user k ?set)" for k by (rule keeps_update_user) simp
  have weaker: "\<And>v. ?J v \<Longrightarrow> accounts_ok v" by (simp add: sole_manager_def split: if_splits)
  have steps: "keeps ?J (update_user k ?set)" "keeps ?J (drop_roles k)" "keeps ?J (drop_permissions k)" "keeps ?J (grant k xs ys)"
    for k xs ys
    by ((cases as_manager; simp only: if_True if_False keeps_sole set keeps_drop keeps_grant)+)
  have here: "?J w" using J by (cases as_manager) simp_all
  have "leads accounts_ok (bind (when_op as_manager (appoint loc (u_id user))) (\<lambda>_.
     bind (mark_registration_read user) (\<lambda>_.
     bind (audit_user actor (u_id user) AT_UPDATE ''User account approved and activated.'' AU_APPROVED JNull JNull []) (\<lambda>_.
     show_user (u_id user))))) w'" if "?J w'" for w'
  proof (rule leads_then)
    fix r t
    assume "when_op as_manager (appoint loc (u_id user)) w' = (r, t)"
    then show "accounts_ok t" using that appoint_leads [of w' loc "u_id user"] by (cases as_manager) (auto simp: sole_manager_def)
  qed (intro registers.keeps_account)
  note last = this
  have "leads accounts_ok (bind (update_user (u_id user) ?set) (\<lambda>_. bind (drop_roles (u_id user)) (\<lambda>_.
     bind (grant (u_id user) rs []) (\<lambda>_. bind (drop_permissions (u_id user)) (\<lambda>_. bind (grant (u_id user) [] ks) (\<lambda>_.
     bind (when_op as_manager (appoint loc (u_id user))) (\<lambda>_. bind (mark_registration_read user) (\<lambda>_.
     bind (audit_user actor (u_id user) AT_UPDATE ''User account approved and activated.'' AU_APPROVED JNull JNull []) (\<lambda>_.
     show_user (u_id user)))))))))) w"
    by (intro leads_via [where J = ?J and I = accounts_ok] steps here weaker last)
  then show ?case unfolding leads_def 3 snd_conv .
qed (simp_all add: after)

lemma approve_user_keeps: "keeps accounts_ok (approveUser en uuid dto actor)"
proof (rule keeps_leads)
  fix w :: world
  assume ok: "accounts_ok w"
  show "leads accounts_ok (approveUser en uuid dto actor) w"
    unfolding approveUser_def Let_def
  proof ((rule leads_guard [where I = accounts_ok, OF _ ok], (intro fail_rules)[1])+, goal_cases)
    case (1 user loc rs ks _ _ _ _ names)
    let ?as_manager = "list_ex (\<lambda>n. n \<in> set [''BRANCH_MANAGER'']) names"
    have "if ?as_manager then sole_manager loc (u_id user) w else accounts_ok w"
      using 1(14) ok only_manager [of loc "u_id user" w] by (cases ?as_manager) (simp_all add: sole_manager_def)
    then show ?case by (rule activate_leads) (intro registers.keeps_account)
  qed
qed

section \<open>The name of a role\<close>

text \<open>The stored, normalized name has the same key as the name in the request.\<close>

lemma char_code: "(of_char (char_of (n::nat) :: char) :: nat) = n" if "n < 256"
  using that by (simp add: of_char_of)

lemma alnum_case [simp]: "alnum (lower_char c) = alnum c" "alnum (upper_char c) = alnum c"
  by (auto simp: alnum_def is_digit_def lower_char_def upper_char_def Let_def char_code)

lemma lower_upper [simp]: "lower_char (upper_char c) = lower_char c"
  by (auto simp: lower_char_def upper_char_def Let_def char_code)

lemma not_alnum: "is_space c \<Longrightarrow> \<not> alnum c" "\<not> alnum (CHR ''_'')"
  by (auto simp: is_space_def alnum_def is_digit_def Let_def)

lemma filter_dropWhile: "(\<And>c. P c \<Longrightarrow> \<not> Q c) \<Longrightarrow> filter Q (dropWhile P xs) = filter Q xs"
  by (induction xs) auto

lemma alnum_trim [simp]: "filter alnum (js_trim s) = filter alnum s" "filter alnum (strip_underscores s) = filter alnum s"
  unfolding js_trim_def strip_underscores_def rev_filter [symmetric]
  using filter_dropWhile [of is_space alnum] filter_dropWhile [of "\<lambda>c. c = CHR ''_''" alnum] not_alnum
  by (simp_all add: rev_filter)

lemma alnum_squeeze [simp]: "filter alnum (squeeze gap s) = filter alnum s"
  by (induction gap s rule: squeeze.induct) (simp_all add: not_alnum)

lemma filter_mapped: "(\<And>c. P (f c) = P c) \<Longrightarrow> filter P (map f xs) = map f (filter P xs)"
  by (induction xs) auto

lemma duplicate_key: "normalizeRoleDuplicateKey s = map lower_char (filter alnum s)"
  by (simp add: normalizeRoleDuplicateKey_def to_lower_def filter_mapped)

lemma normalized_same_key [simp]: "normalizeRoleDuplicateKey (normalized_role_name s) = normalizeRoleDuplicateKey s"
  by (simp add: duplicate_key normalized_role_name_def to_upper_def filter_mapped)

section \<open>The operations on roles and keys keep the registers\<close>

lemma name_available: "ensureRoleNameIsAvailable name loc excluded w = (Inr u, v) \<Longrightarrow>
    \<forall>r \<in> set (rows (roles w)). ro_loc r = loc \<and> (case excluded of None \<Rightarrow> True | Some k \<Rightarrow> ro_id r \<noteq> k)
      \<longrightarrow> normalizeRoleDuplicateKey (ro_name r) \<noteq> normalizeRoleDuplicateKey name"
  by (fastforce simp: ensureRoleNameIsAvailable_def Let_def bind_ensure find_None_iff split: option.splits if_splits)

lemma create_role_keeps: "keeps accounts_ok (createRole en dto actor)"
proof (rule keeps_leads)
  fix w :: world
  assume ok: "accounts_ok w"
  show "leads accounts_ok (createRole en dto actor) w"
    unfolding createRole_def Let_def
  proof ((rule leads_guard [where I = accounts_ok, OF _ ok], (intro fail_rules)[1])+, rule leads_atomically, goal_cases)
    case (3 name _ loc _ a v)
    have key: "normalizeRoleDuplicateKey name = normalizeRoleDuplicateKey (rd_name dto)"
      using 3(1) by (auto simp: normalizeRoleName_def bind_ensure split: if_splits)
    have "\<not> role_clash r (role_row en name d ks loc n)" if "r \<in> set (rows (roles w))" for r d ks n
      using name_available [OF 3(4)] that key by (auto simp: role_clash_def role_row_def)
    with 3(5) ok show ?case
      by (auto simp: bind_update_ret audit_role_def audit_def accounts_ok_def role_row_def intro!: role_names.insert_apart)
  qed (auto simp: ok intro!: registers.keeps_account)
qed

lemma update_role_keeps: "keeps accounts_ok (updateRole en k dto actor)"
proof (rule keeps_leads)
  fix w :: world
  assume ok: "accounts_ok w"
  show "leads accounts_ok (updateRole en k dto actor) w"
    unfolding updateRole_def
  proof ((rule leads_guard [where I = accounts_ok, OF _ ok], (intro fail_rules)[1])+, rule leads_atomically, goal_cases)
    case (3 n found r _ name _ a v)
    have r: "r \<in> set (rows (roles w))" "ro_id r = n" using 3(2,3) find_row_Some by fastforce+
    have "\<not> role_clash x (renamed_role dto name r)" if x: "x \<in> set (rows (roles w))" "ro_id x \<noteq> ro_id r" for x
    proof (cases "ru_name dto")
      case None
      with 3(5) ok x r show ?thesis by (auto simp: renamed_role_def value_or_def role_clash_def accounts_ok_def apart_def)
    next
      case (Some m)
      with 3(5) have avail: "ensureRoleNameIsAvailable m (ro_loc r) (Some n) w = (Inr (), w)"
        and "name = Some (normalized_role_name m)"
        using readonly_roles(3) [THEN readonlyD]
        by (auto simp: bind_Inr normalizeRoleName_def dest!: readonly_roles(3) [THEN readonlyD])
      with name_available [OF avail] x r show ?thesis by (auto simp: role_clash_def renamed_role_def value_or_def)
    qed
    then have "apart ro_id role_clash (update_rows (\<lambda>x. ro_id x = ro_id r) (renamed_role dto name) (roles w))"
      using ok r by (intro role_names.update_one_apart) (auto simp: accounts_ok_def renamed_role_def)
    with 3(7) ok r show ?case by (auto simp: audit_role_def audit_def accounts_ok_def)
  qed (auto simp: ok intro!: registers.keeps_account)
qed

section \<open>Sequences of requests\<close>

datatype account_request =
    CreateUser user_dto "current_user option"
  | ApproveUser string approve_dto
  | UpdateUser string update_user_dto
  | RejectUser string string
  | SuspendUser string
  | ReactivateUser string
  | AssignRoles string "string list"
  | OverridePermission string string bool
  | TransferUser string string "string option" "string option"
  | ApproveUserTransfer string
  | RejectUserTransfer string string
  | CreateRole role_dto
  | UpdateRole string role_update
  | AssignToRole string string
  | RemoveFromRole string string
  | AssignToUser string string
  | RemoveFromUser string string

definition run_account :: "env \<Rightarrow> current_user \<Rightarrow> account_request \<Rightarrow> unit service" where
  "run_account en actor q = (case q of
       CreateUser dto by \<Rightarrow> bind (createUser en dto by) (\<lambda>_. ret ())
     | ApproveUser u dto \<Rightarrow> bind (approveUser en u dto actor) (\<lambda>_. ret ())
     | UpdateUser u dto \<Rightarrow> bind (updateUser en u dto actor) (\<lambda>_. ret ())
     | RejectUser u reason \<Rightarrow> rejectUser en u reason actor
     | SuspendUser u \<Rightarrow> bind (suspendUser en u) (\<lambda>_. ret ())
     | ReactivateUser u \<Rightarrow> bind (reactivateUser en u) (\<lambda>_. ret ())
     | AssignRoles u rs \<Rightarrow> bind (assignRoles en u rs actor) (\<lambda>_. ret ())
     | OverridePermission u k b \<Rightarrow> bind (updatePermissionOverride en u k b actor) (\<lambda>_. ret ())
     | TransferUser u l d reason \<Rightarrow> bind (requestTransfer en u l d reason actor) (\<lambda>_. ret ())
     | ApproveUserTransfer q \<Rightarrow> approveUserTransfer en q actor
     | RejectUserTransfer q reason \<Rightarrow> rejectUserTransfer en q reason actor
     | CreateRole dto \<Rightarrow> bind (createRole en dto actor) (\<lambda>_. ret ())
     | UpdateRole r dto \<Rightarrow> bind (updateRole en r dto actor) (\<lambda>_. ret ())
     | AssignToRole r k \<Rightarrow> assignToRole en r k actor
     | RemoveFromRole r k \<Rightarrow> removeFromRole en r k actor
     | AssignToUser u k \<Rightarrow> bind (assignToUser u k actor) (\<lambda>_. ret ())
     | RemoveFromUser u k \<Rightarrow> removeFromUser u k actor)"

inductive accounts_reach :: "world \<Rightarrow> world \<Rightarrow> bool" where
  accounts_start: "accounts_reach w w"
| accounts_request: "accounts_reach w v \<Longrightarrow> run_account en actor q v = (r, u) \<Longrightarrow> accounts_reach w u"

lemma run_account_keeps: "keeps accounts_ok (run_account en actor q)"
  unfolding run_account_def
  by (cases q) (auto intro!: keeps_bind keeps_ret create_user_keeps approve_user_keeps registers.update_user_keeps registers.reject_user_keeps
      registers.suspend_user_keeps registers.reactivate_user_keeps registers.assign_roles_keeps registers.update_override_keeps registers.request_transfer_keeps
      registers.user_transfer_keeps create_role_keeps update_role_keeps registers.role_keys_keep registers.user_keys_keep)

lemma accounts_reach_ok: "accounts_reach w v \<Longrightarrow> accounts_ok w \<Longrightarrow> accounts_ok v"
  by (induction rule: accounts_reach.induct) (blast intro: keepsD [OF run_account_keeps])+

section \<open>A deleted account stays deleted\<close>

definition deleted_account :: "nat \<Rightarrow> world \<Rightarrow> bool" where
  "deleted_account uid w \<longleftrightarrow> table_ok u_id (users w) \<and> (\<exists>u \<in> set (rows (users w)). u_id u = uid \<and> u_deleted u)"

lemma deleted_update:
  assumes "\<And>u. u_id (f u) = u_id u \<and> u_email (f u) = u_email u \<and> u_phone (f u) = u_phone u \<and> (u_deleted u \<longrightarrow> u_deleted (f u))"
  shows "keeps (deleted_account uid) (update_user k f)"
  unfolding update_user_def
proof (rule keeps_modify)
  fix w :: world
  assume w: "deleted_account uid w"
  then obtain u where "u \<in> set (rows (users w))" "u_id u = uid" "u_deleted u" unfolding deleted_account_def by blast
  then have "\<exists>x \<in> set (rows (update_rows (\<lambda>u. u_id u = k) f (users w))). u_id x = uid \<and> u_deleted x"
    using assms by (intro bex_update_rows [of u]) auto
  moreover have "table_ok u_id (update_rows (\<lambda>u. u_id u = k) f (users w))"
    using w assms by (intro table_ok_update) (auto simp: deleted_account_def)
  ultimately show "deleted_account uid (w\<lparr>users := update_rows (\<lambda>u. u_id u = k) f (users w)\<rparr>)"
    by (simp add: deleted_account_def)
qed

lemma deleted_untouched: "(\<And>w. users (g w) = users w) \<Longrightarrow> keeps (deleted_account uid) (modify g)"
  by (rule keeps_modify) (simp add: deleted_account_def)

interpretation gone: account_invariant "deleted_account uid" for uid
proof (unfold_locales, goal_cases)
  case 1
  then show ?case by (simp add: deleted_account_def)
next
  case (2 f k)
  then show ?case by (rule deleted_update)
qed (unfold grant_def drop_roles_def drop_permissions_def set_keys_def, (rule deleted_untouched, simp)+)

lemma deleted_create: "keeps (deleted_account uid) (createUser en dto actor)"
  unfolding createUser_def insert_user_def
  by (intro gone.keeps_account keeps_checks keeps_update_ret)
    (auto simp: deleted_account_def user_row_def intro!: table_ok_insert)

lemma deleted_approve: "keeps (deleted_account uid) (approveUser en uuid dto actor)"
  unfolding approveUser_def activate_def Let_def appoint_def
  by (intro gone.keeps_account keeps_checks deleted_update deleted_untouched) simp_all

lemma deleted_roles: "keeps (deleted_account uid) (createRole en dto actor)" "keeps (deleted_account uid) (updateRole en r rdto actor)"
  unfolding createRole_def updateRole_def Let_def
  by (intro gone.keeps_account keeps_checks keeps_update_ret deleted_untouched; simp add: deleted_account_def)+

lemma run_account_deleted: "keeps (deleted_account uid) (run_account en actor q)"
  unfolding run_account_def
  by (cases q) (auto intro!: keeps_bind keeps_ret deleted_create deleted_approve gone.update_user_keeps gone.reject_user_keeps
      gone.suspend_user_keeps gone.reactivate_user_keeps gone.assign_roles_keeps gone.update_override_keeps
      gone.request_transfer_keeps gone.user_transfer_keeps deleted_roles gone.role_keys_keep gone.user_keys_keep)

lemma accounts_reach_deleted: "accounts_reach w v \<Longrightarrow> deleted_account uid w \<Longrightarrow> deleted_account uid v"
  by (induction rule: accounts_reach.induct) (blast intro: keepsD [OF run_account_deleted])+

lemma deleted_no_session:
  assumes "deleted_account uid w"
  shows "jwt_validate (show_nat uid) w = (Inl (Unauthorized ''Your session is no longer valid. Please log in again.''), w)"
proof -
  obtain u where u: "u \<in> set (rows (users w))" "u_id u = uid" "u_deleted u" and ok: "table_ok u_id (users w)"
    using assms unfolding deleted_account_def by blast
  then have "find_row (\<lambda>u. u_id u = uid) (users w) \<noteq> None" by (auto simp: find_row_None)
  then obtain x where x: "find_row (\<lambda>u. u_id u = uid) (users w) = Some x" by blast
  then have "x = u" using find_row_Some [OF x] u table_ok_unique [OF ok] by simp
  with x u(3) show ?thesis by (simp add: jwt_validate_def bind_ensure bind_the_or)
qed

lemma find_user_success: "findUserByUuidOrThrow uuid w = (Inr u, v) \<longleftrightarrow>
    v = w \<and> user_by_uuid w uuid = Some u \<and> \<not> u_deleted u"
  by (auto simp: findUserByUuidOrThrow_def bind_ensure bind_the_or split: option.splits if_splits)

lemma after_bind: "bind m f s = (Inr b, t) \<Longrightarrow> (\<And>a u. m s = (Inr a, u) \<Longrightarrow> I u) \<Longrightarrow> (\<And>a. keeps I (f a)) \<Longrightarrow> I t"
  unfolding bind_Inr by (blast intro: keepsD)

lemma rejection_deletes:
  assumes ok: "table_ok u_id (users w)" and u: "user_by_uuid w uuid = Some u" and run: "rejectUser en uuid reason actor w = (Inr r, v)"
  shows "deleted_account (u_id u) v"
proof -
  let ?m = "bind (mark_registration_read u) (\<lambda>_.
       audit_user actor (u_id u) AT_DELETE (''User rejected: '' @ reason) AU_DENIED JNull JNull [])"
  let ?stored = "bind (revoke_sessions (u_id u)) (\<lambda>_.
       bind (update_user (u_id u) (\<lambda>u. u\<lparr>u_deleted := True, u_status := P_REJECTED\<rparr>)) (\<lambda>_. ?m))"
  have found: "findUserByUuidOrThrow uuid w = (Inr u, w)"
  proof (cases "findUserByUuidOrThrow uuid w")
    case (Pair a t)
    with run u show ?thesis
      unfolding rejectUser_def bind_def [of "findUserByUuidOrThrow uuid"] by (cases a) (simp_all add: find_user_success)
  qed
  have u: "u \<in> set (rows (users w))" using find_row_Some [OF u [unfolded user_by_uuid_def]] by simp
  have written: "deleted_account (u_id u) v'" if "?stored w = (Inr a, v')" for a v'
  proof -
    have run2: "bind (update_user (u_id u) (\<lambda>u. u\<lparr>u_deleted := True, u_status := P_REJECTED\<rparr>)) (\<lambda>_. ?m)
        (snd (revoke_sessions (u_id u) w)) = (Inr a, v')"
      using that by (simp add: revoke_sessions_def)
    show ?thesis
    proof (rule after_bind [where I = "deleted_account (u_id u)", OF run2])
      fix b v1
      assume "update_user (u_id u) (\<lambda>u. u\<lparr>u_deleted := True, u_status := P_REJECTED\<rparr>) (snd (revoke_sessions (u_id u) w)) = (Inr b, v1)"
      then show "deleted_account (u_id u) v1"
        using u ok by (auto simp: deleted_account_def revoke_sessions_def update_user_def simp del: rows_update
            intro!: table_ok_update bex_update_rows [of u])
    qed (intro gone.keeps_account)
  qed
  obtain n where "bind (atomically ?stored) (\<lambda>_. bind (create_notification en n) (\<lambda>_. clearUserCaches en)) w = (Inr r, v)"
    using run unfolding rejectUser_def bind_def [of "findUserByUuidOrThrow uuid"] found prod.case sum.case by blast
  then show ?thesis
    by (rule after_bind) (unfold atomically_Inr, erule written, intro gone.keeps_account)
qed

lemma rejection_runs:
  assumes "user_by_uuid w uuid = Some u" and "\<not> u_deleted u"
  shows "\<exists>v. rejectUser en uuid reason actor w = (Inr (), v)"
proof -
  have found: "findUserByUuidOrThrow uuid w = (Inr u, w)" using assms by (simp add: find_user_success)
  have "never_fails (revoke_sessions k)" "never_fails (update_user k f)" "never_fails (mark_registration_read u)"
    "never_fails (audit_user actor k t d a old new ch)" "never_fails (clearUserCaches en)" for k f t d a old new ch
    unfolding revoke_sessions_def update_user_def mark_registration_read_def audit_user_def clearUserCaches_def
    by (intro fail_rules)+
  note writes = this
  have "never_fails (bind (atomically (bind (revoke_sessions k) (\<lambda>_. bind (update_user k f) (\<lambda>_. bind (mark_registration_read u) (\<lambda>_.
      audit_user actor k t d a old new ch))))) (\<lambda>_. bind (create_notification en n) (\<lambda>_. clearUserCaches en)))" for k f t d a old new ch n
    by (intro fail_rules writes direct.sends)
  then show ?thesis
    unfolding never_fails_def rejectUser_def bind_def [of "findUserByUuidOrThrow uuid"] found prod.case sum.case by simp
qed

section \<open>The permissions shown are the permissions enforced\<close>

lemma keys_map_set [simp]: "pv_key ` set (map_set m p) = insert (pv_key p) (pv_key ` set m)"
  by (auto simp: map_set_def list_ex_iff image_iff split: if_splits)

lemma keys_foldl_set: "pv_key ` set (foldl map_set m ps) = pv_key ` set m \<union> pv_key ` set ps"
  by (induction ps arbitrary: m) auto

lemma shown_key_key [simp]: "pv_key (shown_key s k) = k"
  by (simp add: shown_key_def split: prod.split)

lemma keys_of_roles: "pv_key ` set (foldl (\<lambda>m r. foldl map_set m (map (shown_key s) (ro_keys r))) m rs)
    = pv_key ` set m \<union> (\<Union>r \<in> set rs. set (ro_keys r))"
  by (induction rs arbitrary: m) (auto simp: keys_foldl_set image_image)

lemma keys_add_implied [simp]: "pv_key ` set (add_implied m k) = insert k (pv_key ` set m)"
  by (auto simp: add_implied_def list_ex_iff image_iff split: if_splits)

lemma keys_implied: "pv_key ` set (foldl add_implied m ks) = pv_key ` set m \<union> set ks"
  by (induction ks arbitrary: m) auto

lemma keys_expanded: "pv_key ` set (foldl (\<lambda>m p. foldl add_implied m (implied (pv_key p))) m ps)
    = pv_key ` set m \<union> (\<Union>k \<in> pv_key ` set ps. set (implied k))"
  by (induction ps arbitrary: m) (auto simp: keys_implied)

lemma keys_overridden:
  "p \<noteq> [] \<Longrightarrow> (p \<in> pv_key ` set m \<longleftrightarrow> p \<in> set acc) \<Longrightarrow> p \<in> pv_key ` set (foldl shown_override m ovs) \<longleftrightarrow>
     p \<in> set (foldl apply_override acc (map (\<lambda>ov. \<lparr>ov_key = uo_key ov, ov_allowed = uo_allowed ov\<rparr>) ovs))"
proof (induction ovs arbitrary: m acc)
  case (Cons ov ovs)
  have "p \<in> pv_key ` set (shown_override m ov) \<longleftrightarrow> p \<in> set (apply_override acc \<lparr>ov_key = uo_key ov, ov_allowed = uo_allowed ov\<rparr>)"
    using Cons.prems by (auto simp: shown_override_def apply_override_def)
  with Cons.IH [OF Cons.prems(1)] show ?case by simp
qed simp

lemma shown_keys:
  assumes "jwt_validate sub w = (Inr u, v)" and "p \<noteq> []"
  shows "p \<in> pv_key ` set (serializeEffectivePermissions w (cu_id u)) \<longleftrightarrow> p \<in> set (computeEffectivePermissions (Some u))"
proof -
  have perms: "set (cu_permissions u) = \<Union> (set ` ro_keys ` set (roles_of w (cu_id u))) \<union> set (direct_keys w (cu_id u))"
    using jwt_validate_success [OF assms(1)] by blast
  have ovs: "cu_overrides u = map (\<lambda>ov. \<lparr>ov_key = uo_key ov, ov_allowed = uo_allowed ov\<rparr>)
      (select (\<lambda>ov. uo_user ov = cu_id u) (user_overrides w))"
    using assms(1) by (auto simp: jwt_validate_def op_success dest!: find_row_Some)
  show ?thesis
    unfolding serializeEffectivePermissions_def computeEffectivePermissions_def Let_def option.case ovs
    by (rule keys_overridden [OF assms(2)])
      (auto simp: keys_expanded keys_foldl_set keys_of_roles set_foldl_expand perms image_image)
qed

section \<open>Giving oneself a role\<close>

lemma one_role:
  assumes ok: "table_ok ro_id (roles w)" and r: "r \<in> set (rows (roles w))"
  shows "select (\<lambda>x. ro_id x = ro_id r) (roles w) = [r]"
proof -
  have only: "x = r" if "x \<in> set (rows (roles w))" "ro_id x = ro_id r" for x
    by (rule table_ok_unique [OF ok that(1) r that(2)])
  have "filter (\<lambda>x. ro_id x = ro_id r) xs = [r]" if "distinct (map ro_id xs)" "r \<in> set xs" for xs
    using that
  proof (induction xs)
    case (Cons x xs)
    show ?case
    proof (cases "x = r")
      case True
      have "ro_id y \<noteq> ro_id r" if "y \<in> set xs" for y
        using Cons.prems(1) True that by (metis distinct.simps(2) image_eqI list.simps(9) set_map)
      then have "filter (\<lambda>y. ro_id y = ro_id r) xs = []" by (simp add: filter_empty_conv)
      with True show ?thesis by simp
    next
      case False
      then have "ro_id x \<noteq> ro_id r" using Cons.prems by force
      with False Cons show ?thesis by simp
    qed
  qed simp
  then show ?thesis using ok r by (simp add: select_def table_ok_def)
qed

lemma clear_users_app: "\<exists>ks. clearUserCaches en w = (Inr (), w\<lparr>cache_keys := ks\<rparr>)"
proof -
  obtain k1 where "clear_cached en ''users:all'' w = (Inr (), w\<lparr>cache_keys := k1\<rparr>)" using clear_cached_app by blast
  moreover obtain k2 where "clear_cached en ''users:pending'' (w\<lparr>cache_keys := k1\<rparr>) = (Inr (), w\<lparr>cache_keys := k1, cache_keys := k2\<rparr>)"
    using clear_cached_app by blast
  ultimately show ?thesis by (simp add: clearUserCaches_def bind_def) blast
qed

lemma resolve_one: "table_ok ro_id (roles w) \<Longrightarrow> r \<in> set (rows (roles w)) \<Longrightarrow> resolveRoleIds [show_nat (ro_id r)] w = (Inr [ro_id r], w)"
  by (simp add: resolveRoleIds_def role_matches_def one_role bind_ensure)

lemma roles_exist_one: "table_ok ro_id (roles w) \<Longrightarrow> r \<in> set (rows (roles w)) \<Longrightarrow> ensureRolesExist [ro_id r] True w = (Inr (), w)"
  by (simp add: ensureRolesExist_def one_role)

lemma may_assign_global: "table_ok ro_id (roles w) \<Longrightarrow> r \<in> set (rows (roles w)) \<Longrightarrow> ro_loc r = None \<Longrightarrow> \<not> isBranchManager actor
    \<Longrightarrow> ensureActorCanAssignRoles actor [ro_id r] w = (Inr (), w)"
  by (simp add: ensureActorCanAssignRoles_def one_role role_refusal_def)

definition sole_role :: "nat \<Rightarrow> nat \<Rightarrow> user_role table \<Rightarrow> user_role table" where
  "sole_role uid rid t = insert_row (\<lambda>n. \<lparr>ur_id = n, ur_user = uid, ur_role = rid\<rparr>) (delete_rows (\<lambda>ur. ur_user ur = uid) t)"

lemma sole_role_select: "select (\<lambda>ur. ur_user ur = uid) (sole_role uid rid t)
    = [\<lparr>ur_id = next_id t, ur_user = uid, ur_role = rid\<rparr>]"
  by (simp add: sole_role_def select_delete)

lemma assign_one:
  assumes ok: "table_ok ro_id (roles w)" and r: "r \<in> set (rows (roles w))" "ro_loc r = None" and not: "\<not> isBranchManager actor"
    and u: "user_by_uuid w uuid = Some u" "\<not> u_deleted u"
  shows "\<exists>view v. assignRoles en uuid [show_nat (ro_id r)] actor w = (Inr view, v) \<and> users v = users w \<and> roles v = roles w
    \<and> user_roles v = sole_role (u_id u) (ro_id r) (user_roles w)"
proof -
  let ?t = "sole_role (u_id u) (ro_id r) (user_roles w)"
  have found: "findUserByUuidOrThrow uuid w = (Inr u, w)" using u by (simp add: find_user_success)
  have "find_row (\<lambda>x. u_id x = u_id u) (users w) \<noteq> None"
    using find_row_Some [OF u(1) [unfolded user_by_uuid_def]] by (auto simp: find_row_None)
  then obtain x where x: "find_row (\<lambda>x. u_id x = u_id u) (users w) = Some x" by blast
  have "foldl (add_role (u_id u)) (delete_rows (\<lambda>ur. ur_user ur = u_id u) (user_roles w)) [ro_id r] = ?t"
    by (auto simp: add_role_def sole_role_def list_ex_iff)
  then have writes: "bind (drop_roles (u_id u)) (\<lambda>_. bind (grant (u_id u) [ro_id r] []) (\<lambda>_. show_user (u_id u))) w
      = (Inr (serializeUser (w\<lparr>user_roles := ?t\<rparr>) x), w\<lparr>user_roles := ?t\<rparr>)"
    by (simp add: drop_roles_def grant_def show_user_def x)
  then have at: "atomically (bind (drop_roles (u_id u)) (\<lambda>_. bind (grant (u_id u) [ro_id r] []) (\<lambda>_. show_user (u_id u)))) w
      = (Inr (serializeUser (w\<lparr>user_roles := ?t\<rparr>) x), w\<lparr>user_roles := ?t\<rparr>)"
    by simp
  obtain ks where "clearUserCaches en (w\<lparr>user_roles := ?t\<rparr>) = (Inr (), w\<lparr>user_roles := ?t, cache_keys := ks\<rparr>)"
    using clear_users_app by blast
  then have "assignRoles en uuid [show_nat (ro_id r)] actor w
      = (Inr (serializeUser (w\<lparr>user_roles := ?t\<rparr>) x), broadcast (NamedEvent ''permissions_updated'') (w\<lparr>user_roles := ?t, cache_keys := ks\<rparr>))"
    unfolding assignRoles_def bind_def [of "findUserByUuidOrThrow uuid"] found prod.case sum.case
      bind_def [of "resolveRoleIds _"] resolve_one [OF ok r(1)] bind_def [of "ensureRolesExist _ _"] roles_exist_one [OF ok r(1)]
      bind_def [of "ensureActorCanAssignRoles _ _"] may_assign_global [OF ok r not]
      bind_def [of "atomically _"] at
    by (simp add: bind_def [of "clearUserCaches _"])
  then show ?thesis by (simp add: broadcast_def)
qed

lemma session_of_sole_role:
  assumes users: "users v = users w" "table_ok u_id (users w)" and roles: "roles v = roles w" "table_ok ro_id (roles w)"
    and r: "r \<in> set (rows (roles w))" and u: "u \<in> set (rows (users w))" "\<not> u_deleted u" "u_status u = P_ACTIVE"
    and held: "user_roles v = sole_role (u_id u) (ro_id r) (user_roles w)"
  shows "\<exists>session. jwt_validate (show_nat (u_id u)) v = (Inr session, v) \<and> cu_roles session = filter (\<lambda>n. n \<noteq> []) [ro_name r]"
proof -
  have "find_row (\<lambda>x. u_id x = u_id u) (users w) \<noteq> None" using u by (auto simp: find_row_None)
  then obtain x where x: "find_row (\<lambda>x. u_id x = u_id u) (users w) = Some x" by blast
  then have "x = u" using find_row_Some [OF x] u table_ok_unique [OF users(2)] by simp
  moreover have "roles_of v (u_id u) = [r]"
    using one_role [OF roles(2) r] by (simp add: roles_of_def held sole_role_select roles)
  ultimately show ?thesis using x u by (simp add: jwt_validate_def users bind_ensure bind_the_or)
qed

section \<open>A list outside the scope\<close>

lemma uv_row_serialize [simp]: "uv_row (serializeUser w u) = u"
  by (simp add: serializeUser_def)

lemma list_elsewhere:
  assumes "\<not> isSystemAdmin actor" and "\<not> hasEffectivePermission actor ''users.read_all''" and "isBranchManager actor"
    and "truthy (cu_location actor)"
  shows "\<exists>vs. list_users actor \<lparr>uf_q = None, uf_status = None, uf_location = Some (show_nat l), uf_department = None\<rparr> w = (Inr vs, w)
    \<and> set (map uv_row vs) = {u \<in> set (rows (users w)). \<not> u_deleted u \<and> u_loc u = Some l
      \<and> \<not> list_ex (\<lambda>r. ro_name r = ''SUPER_ADMIN'') (roles_of w (u_id u))}"
proof -
  have nonempty: "truthy (Some (show_nat l))" by (simp add: truthy_def)
  show ?thesis
    using assms nonempty unfolding list_users_def userScopeWhere_def
    by (auto simp: Let_def where_holds_def list_ex_iff newest_users_def user_contains_def normalizeSearch_def image_image)
qed

end
