(* ===== verification/Pay_Structures.thy ===== *)
theory Pay_Structures
  imports Employees Payroll_Calculation "HOL-Library.List_Lexorder"
begin

text \<open>
  \<open>payment-structures/payment-structures.service.ts\<close>: the pay structures of employees, deduction
  types and the deductions of employees, allowances and their types.  Amounts are the values
  of the decimal texts of a request.
\<close>

section \<open>Checks\<close>

definition ensurePayEmployee :: "nat \<Rightarrow> employee service" where
  "ensurePayEmployee k = bind (reads (\<lambda>w. find_row (\<lambda>e. e_id e = k \<and> \<not> e_deleted e) (employees w))) (\<lambda>e.
     the_or (BadRequest ''Employee does not exist.'') e)"

definition ensureActorCanManagePay :: "current_user \<Rightarrow> employee \<Rightarrow> unit service" where
  "ensureActorCanManagePay actor e = ensure (isSystemAdmin actor
       \<or> (truthy (cu_location actor) \<and> map_option show_nat (e_loc e) = cu_location actor))
     (Forbidden ''You can only manage payment structures in your working location.'')"

definition ensureActorCanReadPay :: "current_user \<Rightarrow> employee \<Rightarrow> unit service" where
  "ensureActorCanReadPay actor e =
     (if isSystemAdmin actor then ret ()
      else if hasEffectivePermission actor ''payment-structures.read_all'' then ret ()
      else ensureActorCanManagePay actor e)"

definition managed_employee :: "current_user \<Rightarrow> nat \<Rightarrow> unit service" where
  "managed_employee actor k = bind (ensurePayEmployee k) (ensureActorCanManagePay actor)"

definition readable_employee :: "current_user \<Rightarrow> string \<Rightarrow> nat service" where
  "readable_employee actor input =
     bind (toBigInt input (field_label ''employee_id'')) (\<lambda>k.
     bind (ensurePayEmployee k) (\<lambda>e.
     bind (ensureActorCanReadPay actor e) (\<lambda>_. ret k)))"

text \<open>\<open>new Date(value)\<close> in a query; the database client refuses an invalid date.\<close>

definition date_param :: "env \<Rightarrow> string \<Rightarrow> int service" where
  "date_param en value = the_or InvalidQuery (parse_date en value)"

definition optional_date :: "env \<Rightarrow> string option \<Rightarrow> int option service" where
  "optional_date en value = (if truthy value then bind (date_param en (the value)) (\<lambda>t. ret (Some t)) else ret None)"

definition audit_pay :: "current_user \<Rightarrow> nat option \<Rightarrow> string \<Rightarrow> nat \<Rightarrow> activity_type \<Rightarrow> string \<Rightarrow> audit_action \<Rightarrow> unit service" where
  "audit_pay actor eid table entity type description action = audit (\<lambda>n. \<lparr>a_id = n, a_user = cu_id actor, a_employee = eid,
     a_table = table, a_entity = entity, a_module = ''PAYMENT_STRUCTURES'', a_type = type, a_description = description,
     a_action = action, a_old = JNull, a_new = JNull, a_changed = []\<rparr>)"

section \<open>Pay structures\<close>

definition monthly_daily_rate :: "rat \<Rightarrow> rat" where
  "monthly_daily_rate salary = calculateMonthlyDailyRate salary (of_nat DEFAULT_MONTHLY_WORK_DAYS)"

definition contract_total :: "rat \<Rightarrow> int option \<Rightarrow> int option \<Rightarrow> rat \<Rightarrow> rat" where
  "contract_total daily start finish fallback =
     (case (start, finish) of (Some s, Some t) \<Rightarrow> calculateCustomContractTotal daily s t | _ \<Rightarrow> fallback)"

definition resolveBasicSalary :: "world \<Rightarrow> nat \<Rightarrow> frequency \<Rightarrow> rat \<Rightarrow> rat option \<Rightarrow> rat" where
  "resolveBasicSalary w eid freq daily fallback =
     (if freq \<noteq> CUSTOM then value_or fallback 0
      else case find_row (\<lambda>e. e_id e = eid) (employees w) of
          None \<Rightarrow> value_or fallback 0
        | Some e \<Rightarrow> contract_total daily (e_contract_start e) (e_contract_end e) (value_or fallback 0))"

record structure_dto =
  sd_employee :: string
  sd_frequency :: frequency
  sd_basic_salary :: "rat option"
  sd_daily_rate :: rat
  sd_overtime_rate :: "rat option"
  sd_tax :: rat
  sd_from :: string

text \<open>
  A closed period that contains the first day of the new structure, or an open one that
  starts later.
\<close>

definition overlaps :: "env \<Rightarrow> nat \<Rightarrow> int \<Rightarrow> pay_structure \<Rightarrow> bool" where
  "overlaps en eid from s \<longleftrightarrow> s_employee s = eid \<and>
     (case s_to s of Some t \<Rightarrow> s_from s \<le> to_date en from \<and> from \<le> t | None \<Rightarrow> to_date en from < s_from s)"

definition structure_row :: "env \<Rightarrow> nat \<Rightarrow> frequency \<Rightarrow> rat \<Rightarrow> rat \<Rightarrow> rat \<Rightarrow> rat \<Rightarrow> int \<Rightarrow> nat \<Rightarrow> pay_structure" where
  "structure_row en eid freq basic daily overtime tax from n = \<lparr>s_id = n, s_employee = eid, s_frequency = freq,
     s_basic_salary = basic, s_daily_rate = daily, s_from = to_date en from, s_to = None,
     s_uuid = gen_uuid en ''payment_structures'' n, s_overtime = overtime, s_tax = tax\<rparr>"

definition close_structures :: "nat \<Rightarrow> int \<Rightarrow> pay_structure table \<Rightarrow> pay_structure table" where
  "close_structures eid t = update_rows (\<lambda>s. s_employee s = eid \<and> s_to s = None) (\<lambda>s. s\<lparr>s_to := Some t\<rparr>)"

definition createStructure :: "env \<Rightarrow> structure_dto \<Rightarrow> current_user \<Rightarrow> pay_structure service" where
  "createStructure en dto actor =
     bind (toBigInt (sd_employee dto) (field_label ''employee_id'')) (\<lambda>eid.
     bind (managed_employee actor eid) (\<lambda>_.
     bind (date_param en (sd_from dto)) (\<lambda>from.
     bind (reads (\<lambda>w. find_row (overlaps en eid from) (structures w))) (\<lambda>overlapping.
     bind (ensure (overlapping = None) (BadRequest ''Salary period overlaps an existing structure.'')) (\<lambda>_.
     bind (reads (\<lambda>w. resolveBasicSalary w eid (sd_frequency dto) (sd_daily_rate dto) (sd_basic_salary dto))) (\<lambda>basic.
     let daily = (if sd_frequency dto = MONTHLY then monthly_daily_rate basic else sd_daily_rate dto);
         row = structure_row en eid (sd_frequency dto) basic daily (value_or (sd_overtime_rate dto) 0) (sd_tax dto) from in
     atomically (
       bind (update_ret (\<lambda>w. (row (next_id (structures w)),
         w\<lparr>structures := insert_row row (close_structures eid from (structures w))\<rparr>))) (\<lambda>created.
       bind (audit_pay actor (Some eid) ''payment_structures'' (s_id created) AT_CREATE
         ''Created employee payment structure.'' AU_CREATED) (\<lambda>_.
       ret created)))))))))"

record structure_update =
  su_frequency :: "frequency option"
  su_basic_salary :: "rat option"
  su_daily_rate :: "rat option"
  su_overtime_rate :: "rat option"
  su_tax :: "rat option"
  su_to :: "string option"

definition find_structure :: "string \<Rightarrow> pay_structure service" where
  "find_structure uuid = bind (reads (\<lambda>w. find_row (\<lambda>s. s_uuid s = uuid) (structures w))) (\<lambda>s.
     the_or (NotFound ''Payment structure not found.'') s)"

definition updated_basic :: "world \<Rightarrow> structure_update \<Rightarrow> pay_structure \<Rightarrow> rat option" where
  "updated_basic w dto s = (let freq = value_or (su_frequency dto) (s_frequency s) in
     if freq = CUSTOM then Some (resolveBasicSalary w (s_employee s) freq (value_or (su_daily_rate dto) (s_daily_rate s))
       (Some (value_or (su_basic_salary dto) (s_basic_salary s))))
     else if freq = MONTHLY then Some (value_or (su_basic_salary dto) (s_basic_salary s))
     else su_basic_salary dto)"

definition edited_structure :: "structure_update \<Rightarrow> rat option \<Rightarrow> int option \<Rightarrow> pay_structure \<Rightarrow> pay_structure" where
  "edited_structure dto basic finish s =
     (let freq = value_or (su_frequency dto) (s_frequency s) in
      s\<lparr>s_frequency := freq, s_basic_salary := value_or basic (s_basic_salary s),
        s_daily_rate := value_or (if freq = MONTHLY then Some (monthly_daily_rate (value_or basic (s_basic_salary s)))
          else su_daily_rate dto) (s_daily_rate s),
        s_overtime := value_or (su_overtime_rate dto) (s_overtime s), s_tax := value_or (su_tax dto) (s_tax s),
        s_to := (case finish of None \<Rightarrow> s_to s | Some t \<Rightarrow> Some t)\<rparr>)"

definition updateStructure :: "env \<Rightarrow> string \<Rightarrow> structure_update \<Rightarrow> current_user \<Rightarrow> pay_structure service" where
  "updateStructure en uuid dto actor =
     bind (find_structure uuid) (\<lambda>s.
     bind (managed_employee actor (s_employee s)) (\<lambda>_.
     bind (reads (\<lambda>w. updated_basic w dto s)) (\<lambda>basic.
     bind (optional_date en (su_to dto)) (\<lambda>finish.
     let saved = edited_structure dto basic finish s in
     bind (modify (\<lambda>w. w\<lparr>structures := update_rows (\<lambda>x. s_id x = s_id s) (\<lambda>_. saved) (structures w)\<rparr>)) (\<lambda>_.
     ret saved)))))"

definition findByEmployee :: "string \<Rightarrow> current_user \<Rightarrow> pay_structure list service" where
  "findByEmployee input actor = bind (readable_employee actor input) (\<lambda>k.
     reads (\<lambda>w. sort_key (\<lambda>s. - s_from s) (select (\<lambda>s. s_employee s = k) (structures w))))"

definition findActiveByEmployee :: "string \<Rightarrow> current_user \<Rightarrow> pay_structure service" where
  "findActiveByEmployee input actor = bind (readable_employee actor input) (\<lambda>k.
     bind (reads (\<lambda>w. find_row (\<lambda>s. s_employee s = k \<and> s_to s = None) (structures w))) (\<lambda>s.
     the_or (NotFound ''Active payment structure not found.'') s))"

definition calculatePayeTax :: "rat \<Rightarrow> rat \<times> int \<times> rat" where
  "calculatePayeTax gross = (let tax = calculateRwandaPaye gross in (gross, tax, gross - of_int tax))"

section \<open>Deduction types and the deductions of employees\<close>

record deduction_type_dto =
  td_name :: string
  td_mode :: deduction_mode
  td_amount :: "rat option"
  td_percentage :: "rat option"
  td_mandatory :: "bool option"

text \<open>\<open>Date.UTC(year, month + 1, 1)\<close>, as the value of a \<open>DATE\<close> column.\<close>

definition next_month_start :: "env \<Rightarrow> int" where
  "next_month_start en = (let (y, m, _) = civil (utc_date (now en)); (y', m') = next_month (y, m) in
     to_date en (month_first y' m' * day_ms))"

definition assign_deduction :: "env \<Rightarrow> nat \<Rightarrow> employee \<Rightarrow> unit service" where
  "assign_deduction en type e =
     bind (reads (\<lambda>w. find_row (\<lambda>d. ed_employee d = e_id e \<and> ed_type d = type \<and> ed_active d) (employee_deductions w))) (\<lambda>existing.
     if existing \<noteq> None then ret ()
     else modify (\<lambda>w. w\<lparr>employee_deductions := insert_row (\<lambda>n. \<lparr>ed_id = n, ed_employee = e_id e, ed_type = type,
            ed_start = next_month_start en, ed_end = None, ed_active = True, ed_uuid = gen_uuid en ''employee_deductions'' n,
            ed_created_at = now en\<rparr>) (employee_deductions w)\<rparr>))"

definition applyMandatoryDeductionTypeFromNextMonth :: "env \<Rightarrow> nat \<Rightarrow> unit service" where
  "applyMandatoryDeductionTypeFromNextMonth en type =
     bind (reads (\<lambda>w. select (\<lambda>e. e_status e = P_ACTIVE \<and> \<not> e_deleted e) (employees w))) (\<lambda>es.
     for_each es (assign_deduction en type))"

definition createDeductionType :: "env \<Rightarrow> deduction_type_dto \<Rightarrow> current_user \<Rightarrow> deduction_type service" where
  "createDeductionType en dto actor =
     bind (reads (\<lambda>w. find_row (\<lambda>t. dt_name t = td_name dto) (deduction_types w))) (\<lambda>exists.
     bind (ensure (exists = None) (BadRequest ''Deduction type already exists.'')) (\<lambda>_.
     atomically (
       let row = (\<lambda>n. \<lparr>dt_id = n, dt_name = td_name dto, dt_mode = td_mode dto, dt_amount = value_or (td_amount dto) 0,
         dt_percentage = value_or (td_percentage dto) 0, dt_mandatory = value_or (td_mandatory dto) False,
         dt_uuid = gen_uuid en ''deduction_types'' n, dt_created_at = now en\<rparr>) in
       bind (update_ret (\<lambda>w. (row (next_id (deduction_types w)), w\<lparr>deduction_types := insert_row row (deduction_types w)\<rparr>))) (\<lambda>created.
       bind (when_op (dt_mandatory created) (applyMandatoryDeductionTypeFromNextMonth en (dt_id created))) (\<lambda>_.
       ret created)))))"

definition findDeductionTypes :: "deduction_type list service" where
  "findDeductionTypes = reads (\<lambda>w. sort_key (\<lambda>t. - dt_created_at t) (rows (deduction_types w)))"

record deduction_type_update =
  tu_name :: "string option"
  tu_mode :: "deduction_mode option"
  tu_amount :: "rat option"
  tu_percentage :: "rat option"
  tu_mandatory :: "bool option"

definition edited_type :: "deduction_type_update \<Rightarrow> deduction_type \<Rightarrow> deduction_type" where
  "edited_type dto t = t\<lparr>dt_name := value_or (tu_name dto) (dt_name t), dt_mode := value_or (tu_mode dto) (dt_mode t),
     dt_amount := value_or (tu_amount dto) (dt_amount t), dt_percentage := value_or (tu_percentage dto) (dt_percentage t),
     dt_mandatory := value_or (tu_mandatory dto) (dt_mandatory t)\<rparr>"

definition updateDeductionType :: "env \<Rightarrow> string \<Rightarrow> deduction_type_update \<Rightarrow> current_user \<Rightarrow> deduction_type service" where
  "updateDeductionType en uuid dto actor =
     bind (reads (\<lambda>w. find_row (\<lambda>t. dt_uuid t = uuid) (deduction_types w))) (\<lambda>existing.
     bind (the_or (NotFound ''Deduction type not found.'') existing) (\<lambda>t.
     let saved = edited_type dto t in
     atomically (
       bind (reads (\<lambda>w. find_row (\<lambda>x. dt_id x \<noteq> dt_id t \<and> dt_name x = dt_name saved) (deduction_types w))) (\<lambda>clash.
       bind (ensure (clash = None) (UniqueIndex ''Deduction_types_name_key'')) (\<lambda>_.
       bind (modify (\<lambda>w. w\<lparr>deduction_types := update_rows (\<lambda>x. dt_id x = dt_id t) (\<lambda>_. saved) (deduction_types w)\<rparr>)) (\<lambda>_.
       bind (when_op (tu_mandatory dto = Some True \<and> \<not> dt_mandatory t) (applyMandatoryDeductionTypeFromNextMonth en (dt_id t))) (\<lambda>_.
       ret saved)))))))"

record employee_deduction_dto =
  xd_employee :: string
  xd_type :: string
  xd_start :: string
  xd_end :: "string option"
  xd_active :: "bool option"

definition createEmployeeDeduction :: "env \<Rightarrow> employee_deduction_dto \<Rightarrow> current_user \<Rightarrow> employee_deduction service" where
  "createEmployeeDeduction en dto actor =
     bind (toBigInt (xd_employee dto) (field_label ''employee_id'')) (\<lambda>eid.
     bind (toBigInt (xd_type dto) (field_label ''deduction_type_id'')) (\<lambda>type.
     bind (managed_employee actor eid) (\<lambda>_.
     bind (reads (\<lambda>w. find_row (\<lambda>t. dt_id t = type) (deduction_types w))) (\<lambda>found.
     bind (ensure (found \<noteq> None) (BadRequest ''Deduction type does not exist.'')) (\<lambda>_.
     bind (date_param en (xd_start dto)) (\<lambda>start.
     bind (optional_date en (xd_end dto)) (\<lambda>finish.
     let row = (\<lambda>n. \<lparr>ed_id = n, ed_employee = eid, ed_type = type, ed_start = to_date en start, ed_end = finish,
       ed_active = value_or (xd_active dto) True, ed_uuid = gen_uuid en ''employee_deductions'' n, ed_created_at = now en\<rparr>) in
     update_ret (\<lambda>w. (row (next_id (employee_deductions w)),
       w\<lparr>employee_deductions := insert_row row (employee_deductions w)\<rparr>)))))))))"

definition findEmployeeDeductions :: "string \<Rightarrow> current_user \<Rightarrow> employee_deduction list service" where
  "findEmployeeDeductions input actor = bind (readable_employee actor input) (\<lambda>k.
     reads (\<lambda>w. sort_key (\<lambda>d. - ed_created_at d) (select (\<lambda>d. ed_employee d = k) (employee_deductions w))))"

definition managed_deduction :: "string \<Rightarrow> current_user \<Rightarrow> employee_deduction service" where
  "managed_deduction uuid actor =
     bind (reads (\<lambda>w. find_row (\<lambda>d. ed_uuid d = uuid) (employee_deductions w))) (\<lambda>d.
     bind (the_or (NotFound ''Employee deduction not found.'') d) (\<lambda>d.
     bind (managed_employee actor (ed_employee d)) (\<lambda>_. ret d)))"

record deduction_update =
  xu_start :: "string option"
  xu_end :: "string option"
  xu_active :: "bool option"

definition updateEmployeeDeduction :: "env \<Rightarrow> string \<Rightarrow> deduction_update \<Rightarrow> current_user \<Rightarrow> employee_deduction service" where
  "updateEmployeeDeduction en uuid dto actor =
     bind (managed_deduction uuid actor) (\<lambda>d.
     bind (optional_date en (xu_start dto)) (\<lambda>start.
     bind (optional_date en (xu_end dto)) (\<lambda>finish.
     let saved = d\<lparr>ed_start := (case start of None \<Rightarrow> ed_start d | Some t \<Rightarrow> to_date en t),
       ed_end := (case finish of None \<Rightarrow> ed_end d | Some t \<Rightarrow> Some t), ed_active := value_or (xu_active dto) (ed_active d)\<rparr> in
     bind (modify (\<lambda>w. w\<lparr>employee_deductions := update_rows (\<lambda>x. ed_id x = ed_id d) (\<lambda>_. saved) (employee_deductions w)\<rparr>)) (\<lambda>_.
     bind (audit_pay actor (Some (ed_employee d)) ''employee_deductions'' (ed_id d) AT_UPDATE
       ''Updated employee deduction.'' AU_UPDATED) (\<lambda>_.
     ret saved)))))"

definition deleteEmployeeDeduction :: "env \<Rightarrow> string \<Rightarrow> current_user \<Rightarrow> string service" where
  "deleteEmployeeDeduction en uuid actor =
     bind (managed_deduction uuid actor) (\<lambda>d.
     bind (modify (\<lambda>w. w\<lparr>employee_deductions := update_rows (\<lambda>x. ed_id x = ed_id d)
       (\<lambda>x. x\<lparr>ed_active := False, ed_end := Some (now en)\<rparr>) (employee_deductions w)\<rparr>)) (\<lambda>_.
     bind (audit_pay actor (Some (ed_employee d)) ''employee_deductions'' (ed_id d) AT_DELETE
       ''Deactivated employee deduction.'' AU_DELETED) (\<lambda>_.
     ret ''Employee deduction deactivated successfully.'')))"

section \<open>Allowances\<close>

definition open_structure :: "world \<Rightarrow> nat \<Rightarrow> pay_structure option" where
  "open_structure w eid = (case sort_key (\<lambda>s. - s_from s) (select (\<lambda>s. s_employee s = eid \<and> s_to s = None) (structures w)) of
     [] \<Rightarrow> None | s # _ \<Rightarrow> Some s)"

definition canReceive :: "employee \<Rightarrow> pay_structure \<Rightarrow> bool" where
  "canReceive e s \<longleftrightarrow> s_frequency s = MONTHLY
     \<or> (s_frequency s = CUSTOM \<or> s_frequency s = DAILY) \<and> value_or (contract_days e) 0 > 21"

definition ensureEmployeeCanReceiveAllowance :: "nat \<Rightarrow> unit service" where
  "ensureEmployeeCanReceiveAllowance eid =
     bind (reads (\<lambda>w. find_row (\<lambda>e. e_id e = eid) (employees w))) (\<lambda>found.
     bind (the_or (BadRequest ''Employee not found.'') found) (\<lambda>e.
     bind (ensure (\<not> e_deleted e) (BadRequest ''Employee not found.'')) (\<lambda>_.
     bind (reads (\<lambda>w. open_structure w eid)) (\<lambda>structure.
     bind (the_or (BadRequest ''Create an active payment structure before assigning allowances.'') structure) (\<lambda>s.
     ensure (canReceive e s)
       (BadRequest ''Allowances only apply to monthly employees or custom/daily contracts above 21 days.''))))))"

text \<open>The foreign key: the database refuses a row that names a type that does not exist.\<close>

definition allowance_type_ref :: "string option \<Rightarrow> nat option service" where
  "allowance_type_ref input = (if truthy input
     then bind (toBigInt (the input) (field_label ''allowance_type_id'')) (\<lambda>k.
       bind (reads (\<lambda>w. find_row (\<lambda>t. ty_id t = k) (allowance_types w))) (\<lambda>t.
       bind (ensure (t \<noteq> None) InvalidQuery) (\<lambda>_. ret (Some k))))
     else ret None)"

record allowance_dto =
  ad_employee :: string
  ad_title :: string
  ad_amount :: rat
  ad_description :: "string option"
  ad_type :: "string option"

definition createAllowance :: "env \<Rightarrow> allowance_dto \<Rightarrow> current_user \<Rightarrow> allowance service" where
  "createAllowance en dto actor =
     bind (toBigInt (ad_employee dto) (field_label ''employee_id'')) (\<lambda>eid.
     bind (managed_employee actor eid) (\<lambda>_.
     bind (ensureEmployeeCanReceiveAllowance eid) (\<lambda>_.
     bind (allowance_type_ref (ad_type dto)) (\<lambda>type.
     let row = (\<lambda>n. \<lparr>al_id = n, al_employee = eid, al_title = ad_title dto, al_amount = ad_amount dto, al_active = True,
       al_uuid = gen_uuid en ''allowances'' n, al_type = type, al_description = ad_description dto, al_created_at = now en\<rparr>) in
     bind (update_ret (\<lambda>w. (row (next_id (allowances w)), w\<lparr>allowances := insert_row row (allowances w)\<rparr>))) (\<lambda>created.
     bind (audit_pay actor (Some eid) ''allowances'' (al_id created) AT_CREATE ''Created employee allowance.'' AU_CREATED) (\<lambda>_.
     ret created))))))"

definition findAllowances :: "string \<Rightarrow> current_user \<Rightarrow> allowance list service" where
  "findAllowances input actor = bind (readable_employee actor input) (\<lambda>k.
     reads (\<lambda>w. sort_key (\<lambda>a. - al_created_at a) (select (\<lambda>a. al_employee a = k) (allowances w))))"

definition managed_allowance :: "string \<Rightarrow> current_user \<Rightarrow> allowance service" where
  "managed_allowance uuid actor =
     bind (reads (\<lambda>w. find_row (\<lambda>a. al_uuid a = uuid) (allowances w))) (\<lambda>a.
     bind (the_or (NotFound ''Allowance not found.'') a) (\<lambda>a.
     bind (managed_employee actor (al_employee a)) (\<lambda>_. ret a)))"

definition save_allowance :: "allowance \<Rightarrow> unit service" where
  "save_allowance saved = modify (\<lambda>w. w\<lparr>allowances := update_rows (\<lambda>x. al_id x = al_id saved) (\<lambda>_. saved) (allowances w)\<rparr>)"

definition deactivateAllowance :: "string \<Rightarrow> current_user \<Rightarrow> allowance service" where
  "deactivateAllowance uuid actor =
     bind (managed_allowance uuid actor) (\<lambda>a.
     let saved = a\<lparr>al_active := False\<rparr> in
     bind (save_allowance saved) (\<lambda>_.
     bind (audit_pay actor (Some (al_employee a)) ''allowances'' (al_id a) AT_UPDATE ''Deactivated employee allowance.'' AU_UPDATED) (\<lambda>_.
     ret saved)))"

record allowance_update =
  au_title :: "string option"
  au_amount :: "rat option"
  au_description :: "string option"
  au_type :: "string option"

definition updateAllowance :: "string \<Rightarrow> allowance_update \<Rightarrow> current_user \<Rightarrow> allowance service" where
  "updateAllowance uuid dto actor =
     bind (managed_allowance uuid actor) (\<lambda>a.
     bind (allowance_type_ref (au_type dto)) (\<lambda>type.
     let saved = a\<lparr>al_type := (case type of None \<Rightarrow> al_type a | Some k \<Rightarrow> Some k), al_title := value_or (au_title dto) (al_title a),
       al_amount := value_or (au_amount dto) (al_amount a),
       al_description := (case au_description dto of None \<Rightarrow> al_description a | Some d \<Rightarrow> Some d)\<rparr> in
     bind (save_allowance saved) (\<lambda>_.
     bind (audit_pay actor (Some (al_employee a)) ''allowances'' (al_id a) AT_UPDATE ''Updated employee allowance.'' AU_UPDATED) (\<lambda>_.
     ret saved))))"

section \<open>The catalogue of allowance types\<close>

record allowance_type_dto =
  yd_name :: string
  yd_amount :: rat
  yd_description :: "string option"

definition single_quoted :: "string \<Rightarrow> string" where
  "single_quoted s = CHR 0x27 # s @ [CHR 0x27]"

definition createAllowanceType :: "env \<Rightarrow> allowance_type_dto \<Rightarrow> current_user \<Rightarrow> allowance_type service" where
  "createAllowanceType en dto actor =
     bind (reads (\<lambda>w. find_row (\<lambda>t. ty_name t = yd_name dto) (allowance_types w))) (\<lambda>exists.
     bind (ensure (exists = None) (BadRequest ''Allowance type already exists.'')) (\<lambda>_.
     let row = (\<lambda>n. \<lparr>ty_id = n, ty_uuid = gen_uuid en ''allowance_types'' n, ty_name = yd_name dto, ty_amount = yd_amount dto,
       ty_description = yd_description dto, ty_active = True\<rparr>) in
     bind (update_ret (\<lambda>w. (row (next_id (allowance_types w)), w\<lparr>allowance_types := insert_row row (allowance_types w)\<rparr>))) (\<lambda>created.
     bind (audit_pay actor None ''allowance_types'' (ty_id created) AT_CREATE
       (''Created allowance type '' @ single_quoted (ty_name created) @ ''.'') AU_CREATED) (\<lambda>_.
     ret created))))"

definition findAllowanceTypes :: "bool \<Rightarrow> allowance_type list service" where
  "findAllowanceTypes includeInactive = reads (\<lambda>w. sort_key ty_name (select (\<lambda>t. includeInactive \<or> ty_active t) (allowance_types w)))"

record allowance_type_update =
  yu_name :: "string option"
  yu_amount :: "rat option"
  yu_description :: "string option"
  yu_active :: "bool option"

definition updateAllowanceType :: "string \<Rightarrow> allowance_type_update \<Rightarrow> current_user \<Rightarrow> allowance_type service" where
  "updateAllowanceType uuid dto actor =
     bind (reads (\<lambda>w. find_row (\<lambda>t. ty_uuid t = uuid) (allowance_types w))) (\<lambda>existing.
     bind (the_or (NotFound ''Allowance type not found.'') existing) (\<lambda>t.
     let saved = t\<lparr>ty_name := value_or (yu_name dto) (ty_name t), ty_amount := value_or (yu_amount dto) (ty_amount t),
       ty_description := (case yu_description dto of None \<Rightarrow> ty_description t | Some d \<Rightarrow> Some d),
       ty_active := value_or (yu_active dto) (ty_active t)\<rparr> in
     bind (reads (\<lambda>w. find_row (\<lambda>x. ty_id x \<noteq> ty_id t \<and> ty_name x = ty_name saved) (allowance_types w))) (\<lambda>clash.
     bind (ensure (clash = None) (UniqueIndex ''Allowance_types_name_key'')) (\<lambda>_.
     bind (modify (\<lambda>w. w\<lparr>allowance_types := update_rows (\<lambda>x. ty_id x = ty_id t) (\<lambda>_. saved) (allowance_types w)\<rparr>)) (\<lambda>_.
     bind (audit_pay actor None ''allowance_types'' (ty_id t) AT_UPDATE
       (''Updated allowance type '' @ single_quoted (ty_name t) @ ''.'') AU_UPDATED) (\<lambda>_.
     ret saved))))))"

end
