(* ===== verification/Positions.thy ===== *)
theory Positions
  imports Pay_Structures
begin

text \<open>
  Positions and what they offer (\<open>positions/positions.service.ts\<close>, \<open>position.model.ts\<close>): the
  employment categories with their default pay, the deduction types and the allowance
  templates that an employee hired for the position inherits.
\<close>

section \<open>What is shown of a position\<close>

record position_view =
  px_position :: position
  px_variants :: "(position_variant \<times> category option) list"
  px_types :: "deduction_type list"
  px_templates :: "allowance_template list"

definition serializePosition :: "world \<Rightarrow> position \<Rightarrow> position_view" where
  "serializePosition w p = \<lparr>px_position = p,
     px_variants = map (\<lambda>v. (v, find_row (\<lambda>c. c_id c = vr_category v) (categories w)))
       (select (\<lambda>v. vr_position v = p_id p) (position_variants w)),
     px_types = List.map_filter (\<lambda>l. find_row (\<lambda>t. dt_id t = lk_type l) (deduction_types w))
       (select (\<lambda>l. lk_position l = p_id p) (position_deductions w)),
     px_templates = select (\<lambda>t. tp_position t = p_id p) (allowance_templates w)\<rparr>"

definition position_by_uuid :: "string \<Rightarrow> position service" where
  "position_by_uuid uuid = bind (reads (\<lambda>w. find_row (\<lambda>p. p_uuid p = uuid) (positions w))) (\<lambda>p.
     the_or (NotFound ''Position not found.'') p)"

definition findPositionByUuid :: "string \<Rightarrow> position_view service" where
  "findPositionByUuid uuid = bind (position_by_uuid uuid) (\<lambda>p. reads (\<lambda>w. serializePosition w p))"

definition findEmploymentCategories :: "category list service" where
  "findEmploymentCategories = reads (\<lambda>w. sort_key c_name (select c_active (categories w)))"

text \<open>A status that is not one of the enumeration is refused by the database client.\<close>

definition position_filter :: "string option \<Rightarrow> (position \<Rightarrow> bool) option" where
  "position_filter status = (if \<not> truthy status \<or> status = Some ''ACTIVE'' then Some p_active
     else if status = Some ''INACTIVE'' then Some (\<lambda>p. \<not> p_active p) else None)"

definition findPositions :: "string option \<Rightarrow> position_view list service" where
  "findPositions status = bind (the_or InvalidQuery (position_filter status)) (\<lambda>wanted.
     reads (\<lambda>w. map (serializePosition w) (sort_key p_name (select wanted (positions w)))))"

definition positions_changed :: "unit service" where
  "positions_changed = modify (broadcast (NamedEvent ''positions_updated''))"

definition audit_position :: "current_user \<Rightarrow> nat \<Rightarrow> activity_type \<Rightarrow> string \<Rightarrow> audit_action \<Rightarrow> json \<Rightarrow> json \<Rightarrow> unit service" where
  "audit_position actor entity type description action old new = audit (\<lambda>n. \<lparr>a_id = n, a_user = cu_id actor,
     a_employee = None, a_table = ''positions'', a_entity = entity, a_module = ''POSITIONS'', a_type = type,
     a_description = description, a_action = action, a_old = old, a_new = new, a_changed = []\<rparr>)"

section \<open>The position itself\<close>

record position_dto =
  po_name :: "string option"
  po_description :: "string option"

definition position_named :: "string \<Rightarrow> world \<Rightarrow> position option" where
  "position_named name w = find_row (\<lambda>p. p_name p = name) (positions w)"

definition position_exists :: "string \<Rightarrow> error" where
  "position_exists name = BadRequest (''A position named '' @ single_quoted name @ '' already exists.'')"

definition createPosition :: "env \<Rightarrow> string \<Rightarrow> string option \<Rightarrow> current_user \<Rightarrow> position_view service" where
  "createPosition en name description actor =
     bind (reads (position_named name)) (\<lambda>existing.
     bind (ensure (existing = None) (position_exists name)) (\<lambda>_.
     bind (atomically (
       let row = (\<lambda>n. \<lparr>p_id = n, p_uuid = gen_uuid en ''positions'' n, p_name = name, p_active = True,
         p_description = description\<rparr>) in
       bind (update_ret (\<lambda>w. (row (next_id (positions w)), w\<lparr>positions := insert_row row (positions w)\<rparr>))) (\<lambda>created.
       bind (audit_position actor (p_id created) AT_CREATE (''Created position '' @ single_quoted (p_name created) @ ''.'')
         AU_CREATED JNull (JObj [(''name'', JStr name)])) (\<lambda>_.
       ret created)))) (\<lambda>created.
     bind positions_changed (\<lambda>_.
     reads (\<lambda>w. serializePosition w created)))))"

definition given_field :: "string \<Rightarrow> string option \<Rightarrow> (string \<times> json) list" where
  "given_field key value = (case value of None \<Rightarrow> [] | Some v \<Rightarrow> [(key, JStr v)])"

definition updatePosition :: "string \<Rightarrow> position_dto \<Rightarrow> current_user \<Rightarrow> position_view service" where
  "updatePosition uuid dto actor =
     bind (position_by_uuid uuid) (\<lambda>current.
     bind (when_op (truthy (po_name dto) \<and> normalizeEntityName (the (po_name dto)) \<noteq> normalizeEntityName (p_name current))
       (bind (reads (position_named (the (po_name dto)))) (\<lambda>duplicate.
        ensure (duplicate = None) (position_exists (the (po_name dto)))))) (\<lambda>_.
     let saved = current\<lparr>p_name := value_or (po_name dto) (p_name current),
       p_description := (case po_description dto of None \<Rightarrow> p_description current | Some d \<Rightarrow> Some d)\<rparr> in
     bind (atomically (
       bind (reads (\<lambda>w. find_row (\<lambda>p. p_id p \<noteq> p_id current \<and> p_name p = p_name saved) (positions w))) (\<lambda>clash.
       bind (ensure (clash = None) (UniqueIndex ''Positions_name_key'')) (\<lambda>_.
       bind (modify (\<lambda>w. w\<lparr>positions := update_rows (\<lambda>p. p_id p = p_id current) (\<lambda>_. saved) (positions w)\<rparr>)) (\<lambda>_.
       audit_position actor (p_id saved) AT_UPDATE (''Updated position '' @ single_quoted (p_name saved) @ ''.'') AU_UPDATED JNull
         (JObj (given_field ''name'' (po_name dto) @ given_field ''description'' (po_description dto)))))))) (\<lambda>_.
     bind positions_changed (\<lambda>_.
     reads (\<lambda>w. serializePosition w saved)))))"

definition switch_position :: "bool \<Rightarrow> string \<Rightarrow> string \<Rightarrow> current_user \<Rightarrow> position_view service" where
  "switch_position active uuid message actor =
     bind (position_by_uuid uuid) (\<lambda>current.
     if p_active current = active then reads (\<lambda>w. serializePosition w current)
     else
       bind (atomically (
         bind (modify (\<lambda>w. w\<lparr>positions := update_rows (\<lambda>p. p_id p = p_id current) (\<lambda>p. p\<lparr>p_active := active\<rparr>) (positions w)\<rparr>)) (\<lambda>_.
         audit_position actor (p_id current) AT_UPDATE (message @ '' position '' @ single_quoted (p_name current) @ ''.''
             @ (if active then [] else '' Employees already assigned keep this position; it just no longer appears for new assignments.''))
           AU_UPDATED (JObj [(''status'', JStr (activity_status (p_active current)))])
           (JObj [(''status'', JStr (activity_status active))])))) (\<lambda>_.
       bind positions_changed (\<lambda>_.
       reads (\<lambda>w. serializePosition w (current\<lparr>p_active := active\<rparr>)))))"

definition archivePosition :: "string \<Rightarrow> current_user \<Rightarrow> position_view service" where
  "archivePosition uuid actor = switch_position False uuid ''Archived'' actor"

definition reactivatePosition :: "string \<Rightarrow> current_user \<Rightarrow> position_view service" where
  "reactivatePosition uuid actor = switch_position True uuid ''Reactivated'' actor"

section \<open>The employment categories it offers\<close>

record variant_dto =
  vd_category :: string
  vd_basic_salary :: "rat option"
  vd_daily_rate :: "rat option"
  vd_overtime_rate :: "rat option"
  vd_work_days :: "nat option"

definition resolveEmploymentCategoryId :: "string \<Rightarrow> nat service" where
  "resolveEmploymentCategoryId value =
     bind (reads (\<lambda>w. find_row (\<lambda>c. if isNumericId value then c_id c = read_nat value else c_uuid c = value) (categories w))) (\<lambda>c.
     bind (the_or (BadRequest ''Employment category not found.'') c) (\<lambda>c.
     bind (ensure (c_active c) (BadRequest ''Employment category is inactive.'')) (\<lambda>_. ret (c_id c))))"

definition variant_of :: "nat \<Rightarrow> nat \<Rightarrow> world \<Rightarrow> position_variant option" where
  "variant_of p c w = find_row (\<lambda>v. vr_position v = p \<and> vr_category v = c) (position_variants w)"

definition attachEmploymentCategory :: "env \<Rightarrow> string \<Rightarrow> variant_dto \<Rightarrow> current_user \<Rightarrow> position_view service" where
  "attachEmploymentCategory en uuid dto actor =
     bind (position_by_uuid uuid) (\<lambda>p.
     bind (resolveEmploymentCategoryId (vd_category dto)) (\<lambda>c.
     bind (reads (variant_of (p_id p) c)) (\<lambda>existing.
     bind (ensure (existing = None) (BadRequest
       ''This employment category is already attached to this position. Edit it instead of attaching it again.'')) (\<lambda>_.
     bind (modify (\<lambda>w. w\<lparr>position_variants := insert_row (\<lambda>n. \<lparr>vr_id = n,
       vr_uuid = gen_uuid en ''position_employment_categories'' n, vr_position = p_id p, vr_category = c,
       vr_basic_salary = vd_basic_salary dto, vr_daily_rate = vd_daily_rate dto, vr_overtime_rate = vd_overtime_rate dto,
       vr_work_days = vd_work_days dto\<rparr>) (position_variants w)\<rparr>)) (\<lambda>_.
     bind positions_changed (\<lambda>_.
     findPositionByUuid uuid))))))"

definition or_else :: "'a option \<Rightarrow> 'a option \<Rightarrow> 'a option" where
  "or_else x y = (case x of None \<Rightarrow> y | Some _ \<Rightarrow> x)"

definition edited_variant :: "variant_dto \<Rightarrow> position_variant \<Rightarrow> position_variant" where
  "edited_variant dto v = v\<lparr>vr_basic_salary := or_else (vd_basic_salary dto) (vr_basic_salary v),
     vr_daily_rate := or_else (vd_daily_rate dto) (vr_daily_rate v),
     vr_overtime_rate := or_else (vd_overtime_rate dto) (vr_overtime_rate v),
     vr_work_days := or_else (vd_work_days dto) (vr_work_days v)\<rparr>"

definition updateEmploymentCategory :: "string \<Rightarrow> string \<Rightarrow> variant_dto \<Rightarrow> current_user \<Rightarrow> position_view service" where
  "updateEmploymentCategory uuid variantUuid dto actor =
     bind (position_by_uuid uuid) (\<lambda>p.
     bind (reads (\<lambda>w. find_row (\<lambda>v. vr_uuid v = variantUuid \<and> vr_position v = p_id p) (position_variants w))) (\<lambda>variant.
     bind (the_or (NotFound ''Employment category variant not found on this position.'') variant) (\<lambda>v.
     bind (modify (\<lambda>w. w\<lparr>position_variants := update_rows (\<lambda>x. vr_id x = vr_id v) (edited_variant dto) (position_variants w)\<rparr>)) (\<lambda>_.
     bind positions_changed (\<lambda>_.
     findPositionByUuid uuid)))))"

text \<open>The employees of the position whose category the variant offers.\<close>

definition variant_users :: "nat \<Rightarrow> string \<Rightarrow> world \<Rightarrow> employee list" where
  "variant_users p variantUuid w = (let cs = map vr_category (select (\<lambda>v. vr_uuid v = variantUuid \<and> vr_position v = p) (position_variants w)) in
     select (\<lambda>e. e_position e = Some p \<and> (\<exists>c \<in> set cs. e_category e = Some c) \<and> \<not> e_deleted e) (employees w))"

definition detachEmploymentCategory :: "string \<Rightarrow> string \<Rightarrow> current_user \<Rightarrow> position_view service" where
  "detachEmploymentCategory uuid variantUuid actor =
     bind (position_by_uuid uuid) (\<lambda>p.
     bind (reads (\<lambda>w. length (variant_users (p_id p) variantUuid w))) (\<lambda>inUseCount.
     bind (ensure (inUseCount = 0) (BadRequest (show_nat inUseCount
       @ '' employee(s) are currently assigned to this position with this employment category. Transfer them to a different category first.''))) (\<lambda>_.
     bind (modify (\<lambda>w. w\<lparr>position_variants :=
       delete_rows (\<lambda>v. vr_uuid v = variantUuid \<and> vr_position v = p_id p) (position_variants w)\<rparr>)) (\<lambda>_.
     bind positions_changed (\<lambda>_.
     findPositionByUuid uuid)))))"

section \<open>Deduction types and allowance templates\<close>

definition resolveDeductionTypeId :: "string \<Rightarrow> nat service" where
  "resolveDeductionTypeId value =
     bind (reads (\<lambda>w. find_row (\<lambda>t. if isNumericId value then dt_id t = read_nat value else dt_uuid t = value) (deduction_types w))) (\<lambda>t.
     bind (the_or (BadRequest ''Deduction type not found.'') t) (\<lambda>t. ret (dt_id t)))"

definition attachDeductionType :: "env \<Rightarrow> string \<Rightarrow> string \<Rightarrow> current_user \<Rightarrow> position_view service" where
  "attachDeductionType en uuid value actor =
     bind (position_by_uuid uuid) (\<lambda>p.
     bind (resolveDeductionTypeId value) (\<lambda>t.
     bind (reads (\<lambda>w. find_row (\<lambda>l. lk_position l = p_id p \<and> lk_type l = t) (position_deductions w))) (\<lambda>existing.
     bind (when_op (existing = None) (modify (\<lambda>w. w\<lparr>position_deductions := insert_row (\<lambda>n. \<lparr>lk_id = n,
       lk_uuid = gen_uuid en ''position_deduction_types'' n, lk_position = p_id p, lk_type = t\<rparr>) (position_deductions w)\<rparr>))) (\<lambda>_.
     bind positions_changed (\<lambda>_.
     findPositionByUuid uuid)))))"

definition detachDeductionType :: "string \<Rightarrow> string \<Rightarrow> current_user \<Rightarrow> position_view service" where
  "detachDeductionType uuid value actor =
     bind (position_by_uuid uuid) (\<lambda>p.
     bind (resolveDeductionTypeId value) (\<lambda>t.
     bind (modify (\<lambda>w. w\<lparr>position_deductions := delete_rows (\<lambda>l. lk_position l = p_id p \<and> lk_type l = t) (position_deductions w)\<rparr>)) (\<lambda>_.
     bind positions_changed (\<lambda>_.
     findPositionByUuid uuid))))"

record template_dto =
  pt_title :: string
  pt_amount :: rat
  pt_description :: "string option"
  pt_type :: "string option"

text \<open>A type that is not a number is passed over; a number must name a type (the foreign key).\<close>

definition template_type :: "string option \<Rightarrow> nat option service" where
  "template_type value = (if truthy value \<and> isNumericId (the value)
     then bind (reads (\<lambda>w. find_row (\<lambda>t. ty_id t = read_nat (the value)) (allowance_types w))) (\<lambda>t.
       bind (ensure (t \<noteq> None) InvalidQuery) (\<lambda>_. ret (Some (read_nat (the value)))))
     else ret None)"

definition addAllowanceTemplate :: "env \<Rightarrow> string \<Rightarrow> template_dto \<Rightarrow> current_user \<Rightarrow> position_view service" where
  "addAllowanceTemplate en uuid dto actor =
     bind (position_by_uuid uuid) (\<lambda>p.
     bind (template_type (pt_type dto)) (\<lambda>type.
     bind (modify (\<lambda>w. w\<lparr>allowance_templates := insert_row (\<lambda>n. \<lparr>tp_id = n,
       tp_uuid = gen_uuid en ''position_allowance_templates'' n, tp_position = p_id p, tp_type = type, tp_title = pt_title dto,
       tp_amount = pt_amount dto, tp_description = pt_description dto\<rparr>) (allowance_templates w)\<rparr>)) (\<lambda>_.
     bind positions_changed (\<lambda>_.
     findPositionByUuid uuid))))"

definition updateAllowanceTemplate :: "string \<Rightarrow> string \<Rightarrow> template_dto \<Rightarrow> current_user \<Rightarrow> position_view service" where
  "updateAllowanceTemplate uuid templateUuid dto actor =
     bind (position_by_uuid uuid) (\<lambda>p.
     bind (reads (\<lambda>w. find_row (\<lambda>t. tp_uuid t = templateUuid \<and> tp_position t = p_id p) (allowance_templates w))) (\<lambda>template.
     bind (the_or (NotFound ''Allowance template not found.'') template) (\<lambda>t.
     bind (template_type (pt_type dto)) (\<lambda>type.
     bind (modify (\<lambda>w. w\<lparr>allowance_templates := update_rows (\<lambda>x. tp_id x = tp_id t) (\<lambda>x. x\<lparr>tp_type := or_else type (tp_type x),
       tp_title := pt_title dto, tp_amount := pt_amount dto, tp_description := or_else (pt_description dto) (tp_description x)\<rparr>)
       (allowance_templates w)\<rparr>)) (\<lambda>_.
     bind positions_changed (\<lambda>_.
     findPositionByUuid uuid))))))"

definition removeAllowanceTemplate :: "string \<Rightarrow> string \<Rightarrow> current_user \<Rightarrow> position_view service" where
  "removeAllowanceTemplate uuid templateUuid actor =
     bind (position_by_uuid uuid) (\<lambda>p.
     bind (modify (\<lambda>w. w\<lparr>allowance_templates :=
       delete_rows (\<lambda>t. tp_uuid t = templateUuid \<and> tp_position t = p_id p) (allowance_templates w)\<rparr>)) (\<lambda>_.
     bind positions_changed (\<lambda>_.
     findPositionByUuid uuid)))"

end
