(* ===== verification/Employee_Records.thy ===== *)
theory Employee_Records
  imports Positions Attendance
begin

text \<open>
  The records of employees in \<open>employees/employees.service.ts\<close>: creation with salary and
  inherited benefits, the bulk import that keeps the good rows, the list and the single
  record with the attendance they show, and the unified update of profile, salary and
  allowance.
\<close>

section \<open>Requests\<close>

text \<open>
  A field that the request does not have is \<open>None\<close>; \<open>null\<close> and the empty text of a date are
  \<open>Some []\<close>.
\<close>

record employee_dto =
  ne_first :: "string option"
  ne_last :: "string option"
  ne_email :: "string option"
  ne_phone :: "string option"
  ne_national_id :: "string option"
  ne_gender :: "string option"
  ne_hired :: "string option"
  ne_start :: "string option"
  ne_end :: "string option"
  ne_department :: "string option"
  ne_location :: "string option"
  ne_position :: "string option"
  ne_category :: "string option"
  ne_basic_salary :: "rat option"
  ne_daily_rate :: "rat option"
  ne_tax :: "rat option"
  ne_allowance_title :: "string option"
  ne_allowance_amount :: "rat option"

section \<open>Contract dates\<close>

text \<open>\<open>/^\d{4}-\d{2}-\d{2}$/\<close>\<close>

definition is_system_date :: "string \<Rightarrow> bool" where
  "is_system_date s \<longleftrightarrow> length s = 10 \<and> s ! 4 = CHR ''-'' \<and> s ! 7 = CHR ''-''
     \<and> list_all (\<lambda>k. is_digit (s ! k)) [0, 1, 2, 3, 5, 6, 8, 9]"

definition parseContractDate :: "env \<Rightarrow> string option \<Rightarrow> string \<Rightarrow> int option service" where
  "parseContractDate en value fieldName = (if \<not> truthy value then ret None
     else let s = the value in
       case parse_date en s of
         Some t \<Rightarrow> if is_system_date s then ret (Some t) else throw (BadRequest (fieldName @ '' '' @ quoted s
           @ '' is not in the format our system uses. Our system only accepts dates as YYYY-MM-DD (e.g. 2026-01-31).''))
       | None \<Rightarrow> throw (BadRequest (fieldName @ '' '' @ quoted s
           @ '' is not in the format our system uses. Our system only accepts dates as YYYY-MM-DD (e.g. 2026-01-31).'')))"

definition day_of :: "int \<Rightarrow> string" where
  "day_of t = iso_date (utc_date t)"

definition assertContractDatesValid :: "int option \<Rightarrow> int option \<Rightarrow> int option \<Rightarrow> unit service" where
  "assertContractDatesValid start finish previousEnd =
     bind (case (start, finish) of
         (Some s, Some t) \<Rightarrow> ensure (t > s) (BadRequest (''The contract end date ('' @ day_of t
           @ '') must be later than the contract start date ('' @ day_of s @ '').''))
       | _ \<Rightarrow> ret ()) (\<lambda>_.
     case (previousEnd, start) of
         (Some p, Some s) \<Rightarrow> ensure (s > p) (BadRequest (''The new contract start date ('' @ day_of s
           @ '') must be after the previous contract'' @ [CHR 0x27] @ ''s end date ('' @ day_of p @ '').''))
       | _ \<Rightarrow> ret ())"

section \<open>Position and category\<close>

definition variant_with_category :: "nat \<Rightarrow> nat \<Rightarrow> (position_variant \<times> category) service" where
  "variant_with_category p c =
     bind (reads (variant_of p c)) (\<lambda>v.
     bind (the_or (BadRequest ''This position does not offer the selected employment category. Choose one of the employment-category variants configured on this position.'') v) (\<lambda>v.
     bind (reads (\<lambda>w. find_row (\<lambda>x. c_id x = vr_category v) (categories w))) (\<lambda>cat.
     bind (the_or InvalidQuery cat) (\<lambda>cat. ret (v, cat)))))"

definition resolvePositionEmploymentCategory :: "nat option \<Rightarrow> nat option \<Rightarrow> (position_variant \<times> category) option service" where
  "resolvePositionEmploymentCategory pos cat =
     (if \<not> set_somewhere pos \<and> \<not> set_somewhere cat then ret None
      else bind (ensure (set_somewhere pos \<and> set_somewhere cat) (BadRequest
          ''Both position_id and employment_category_id must be provided together when assigning an employee to a position.'')) (\<lambda>_.
        bind (variant_with_category (the pos) (the cat)) (\<lambda>v. ret (Some v))))"

definition optional_id :: "string option \<Rightarrow> string \<Rightarrow> nat option service" where
  "optional_id value fieldName = (if truthy value
     then bind (toBigInt (the value) (field_label fieldName)) (\<lambda>k. ret (Some k)) else ret None)"

definition optional_department :: "string option \<Rightarrow> nat option \<Rightarrow> nat option service" where
  "optional_department value loc = (if truthy value
     then bind (resolveDepartmentId (the value) loc) (\<lambda>d. ret (Some d)) else ret None)"

definition optional_location :: "string option \<Rightarrow> nat option service" where
  "optional_location value = (if truthy value
     then bind (resolveWorkingLocationId (the value)) (\<lambda>l. ret (Some l)) else ret None)"

text \<open>A branch manager hires for the own location, whatever the request says.\<close>

definition managed_location :: "current_user option \<Rightarrow> string option \<Rightarrow> string option" where
  "managed_location actor requested = (case actor of None \<Rightarrow> requested
     | Some a \<Rightarrow> if ''BRANCH_MANAGER'' \<in> set (cu_roles a) \<and> \<not> isSystemAdmin a \<and> truthy (cu_location a) then cu_location a else requested)"

record placement =
  pl_loc :: "nat option"
  pl_department :: "nat option"
  pl_position :: "nat option"
  pl_category :: "nat option"
  pl_variant :: "(position_variant \<times> category) option"

definition resolve_placement :: "env \<Rightarrow> employee_dto \<Rightarrow> current_user option \<Rightarrow> string \<Rightarrow> placement service" where
  "resolve_placement en dto actor action =
     bind (parseContractDate en (ne_start dto) ''contract_start_date'') (\<lambda>start.
     bind (parseContractDate en (ne_end dto) ''contract_end_date'') (\<lambda>finish.
     bind (assertContractDatesValid start finish None) (\<lambda>_.
     bind (optional_location (managed_location actor (ne_location dto))) (\<lambda>loc.
     bind (optional_department (ne_department dto) loc) (\<lambda>dep.
     bind (optional_id (ne_position dto) ''position_id'') (\<lambda>pos.
     bind (optional_id (ne_category dto) ''employment_category_id'') (\<lambda>cat.
     bind (when_op (set_somewhere dep) (ensureDepartmentCanReceiveEmployees (the dep))) (\<lambda>_.
     bind (when_op (set_somewhere loc \<and> set_somewhere dep) (ensureOrganization (the loc) (the dep))) (\<lambda>_.
     bind (resolvePositionEmploymentCategory pos cat) (\<lambda>variant.
     bind (ensureActorCanUseScope actor loc dep action) (\<lambda>_.
     ret \<lparr>pl_loc = loc, pl_department = dep, pl_position = pos, pl_category = cat, pl_variant = variant\<rparr>)))))))))))"

section \<open>One person, one record\<close>

definition identity_free :: "nat option \<Rightarrow> string \<Rightarrow> string \<Rightarrow> (employee \<Rightarrow> string option) \<Rightarrow> string option \<Rightarrow> unit service" where
  "identity_free self who what field value = (if \<not> truthy value then ret ()
     else bind (reads (\<lambda>w. find_row (\<lambda>e. field e = value \<and> \<not> e_deleted e \<and> Some (e_id e) \<noteq> self) (employees w))) (\<lambda>existing.
       case existing of None \<Rightarrow> ret ()
       | Some e \<Rightarrow> throw (BadRequest (who @ '' employee with '' @ what @ '' '' @ quoted (the value)
           @ '' already exists (uuid: '' @ e_uuid e @ '').''))))"

definition identities_free :: "nat option \<Rightarrow> string \<Rightarrow> employee_dto \<Rightarrow> unit service" where
  "identities_free self who dto =
     bind (identity_free self who ''email'' e_email (ne_email dto)) (\<lambda>_.
     bind (identity_free self who ''phone number'' e_phone (ne_phone dto)) (\<lambda>_.
     identity_free self who ''national ID'' e_national_id (ne_national_id dto)))"

definition same_name_and_place :: "employee \<Rightarrow> employee \<Rightarrow> bool" where
  "same_name_and_place e x \<longleftrightarrow> e_first_name e = e_first_name x \<and> e_last_name e = e_last_name x
     \<and> e_loc e \<noteq> None \<and> e_loc e = e_loc x \<and> e_department e \<noteq> None \<and> e_department e = e_department x"

text \<open>The unique indexes, over every other row, and the foreign keys of the row.\<close>

definition employee_indexes :: "nat option \<Rightarrow> employee \<Rightarrow> unit service" where
  "employee_indexes self e =
     bind (reads (\<lambda>w. select (\<lambda>x. Some (e_id x) \<noteq> self) (employees w))) (\<lambda>others.
     bind (ensure (\<not> list_ex (\<lambda>x. e_email e \<noteq> None \<and> e_email x = e_email e) others) (UniqueIndex ''Employees_email_key'')) (\<lambda>_.
     bind (ensure (\<not> list_ex (\<lambda>x. e_phone e \<noteq> None \<and> e_phone x = e_phone e) others) (UniqueIndex ''Employees_phone_number_key'')) (\<lambda>_.
     bind (ensure (\<not> list_ex (\<lambda>x. e_national_id e \<noteq> None \<and> e_national_id x = e_national_id e) others)
       (UniqueIndex ''Employees_national_id_key'')) (\<lambda>_.
     bind (ensure (\<not> list_ex (same_name_and_place e) others)
       (UniqueIndex ''Employees_first_name_last_name_working_location_id_departmen_key'')) (\<lambda>_.
     bind (reads (\<lambda>w. (e_position e = None \<or> list_ex (\<lambda>p. Some (p_id p) = e_position e) (rows (positions w)))
       \<and> (e_category e = None \<or> list_ex (\<lambda>c. Some (c_id c) = e_category e) (rows (categories w))))) (\<lambda>known.
     ensure known InvalidQuery))))))"

definition optional_day :: "env \<Rightarrow> string option \<Rightarrow> int option service" where
  "optional_day en value = bind (optional_date en value) (\<lambda>t. ret (map_option (to_date en) t))"

definition employee_row :: "env \<Rightarrow> employee_dto \<Rightarrow> placement \<Rightarrow> int option \<Rightarrow> int option \<Rightarrow> int option \<Rightarrow> nat \<Rightarrow> employee" where
  "employee_row en dto pl hired start finish n = \<lparr>e_id = n, e_uuid = gen_uuid en ''employees'' n, e_first_name = the (ne_first dto),
     e_last_name = the (ne_last dto), e_phone = ne_phone dto, e_contract_start = start, e_contract_end = finish,
     e_department = pl_department pl, e_loc = pl_loc pl, e_position = pl_position pl, e_category = pl_category pl,
     e_status = P_ACTIVE, e_pause_reason = None, e_deleted = False, e_email = ne_email dto, e_national_id = ne_national_id dto,
     e_gender = ne_gender dto, e_hired = hired, e_created_at = now en\<rparr>"

definition insert_employee :: "env \<Rightarrow> employee_dto \<Rightarrow> placement \<Rightarrow> string option \<Rightarrow> employee service" where
  "insert_employee en dto pl hire_date =
     bind (optional_day en hire_date) (\<lambda>hired.
     bind (optional_day en (ne_start dto)) (\<lambda>start.
     bind (optional_day en (ne_end dto)) (\<lambda>finish.
     let row = employee_row en dto pl hired start finish in
     bind (reads (\<lambda>w. row (next_id (employees w)))) (\<lambda>e.
     bind (employee_indexes None e) (\<lambda>_.
     update_ret (\<lambda>w. (row (next_id (employees w)), w\<lparr>employees := insert_row row (employees w)\<rparr>)))))))"

section \<open>Salary and benefits\<close>

definition custom_basic_salary :: "rat \<Rightarrow> int option \<Rightarrow> int option \<Rightarrow> rat \<Rightarrow> rat" where
  "custom_basic_salary daily start finish fallback = contract_total daily start finish fallback"

text \<open>Basic salary and daily rate of a new employee, from the request and the defaults of the variant.\<close>

definition starting_pay :: "employee_dto \<Rightarrow> position_variant \<Rightarrow> frequency \<Rightarrow> employee \<Rightarrow> rat \<times> rat" where
  "starting_pay dto v freq e =
     (let monthly = value_or (or_else (ne_basic_salary dto) (vr_basic_salary v)) 150000;
          daily = (if freq = MONTHLY then monthly_daily_rate monthly
            else value_or (or_else (ne_daily_rate dto) (vr_daily_rate v)) 3000) in
      (if freq = MONTHLY then monthly
       else if freq = CUSTOM then custom_basic_salary daily (e_contract_start e) (e_contract_end e) (value_or (ne_basic_salary dto) 0)
       else 0, daily))"

definition insert_structure :: "(nat \<Rightarrow> pay_structure) \<Rightarrow> unit service" where
  "insert_structure row = modify (\<lambda>w. w\<lparr>structures := insert_row row (structures w)\<rparr>)"

definition create_salary :: "env \<Rightarrow> employee_dto \<Rightarrow> (position_variant \<times> category) option \<Rightarrow> employee \<Rightarrow> unit service" where
  "create_salary en dto variant e = (case variant of None \<Rightarrow> ret ()
     | Some (v, cat) \<Rightarrow>
         if ne_basic_salary dto = None \<and> ne_daily_rate dto = None then ret ()
         else (case starting_pay dto v (c_frequency cat) e of (basic, daily) \<Rightarrow>
           insert_structure (structure_row en (e_id e) (c_frequency cat) basic daily (value_or (vr_overtime_rate v) 0)
             (value_or (ne_tax dto) 0) (now en))))"

definition template_allowance :: "env \<Rightarrow> nat \<Rightarrow> allowance_template \<Rightarrow> nat \<Rightarrow> allowance" where
  "template_allowance en eid t n = \<lparr>al_id = n, al_employee = eid, al_title = tp_title t, al_amount = tp_amount t, al_active = True,
     al_uuid = gen_uuid en ''allowances'' n, al_type = tp_type t, al_description = tp_description t, al_created_at = now en\<rparr>"

definition linked_deduction :: "env \<Rightarrow> employee \<Rightarrow> position_deduction \<Rightarrow> nat \<Rightarrow> employee_deduction" where
  "linked_deduction en e l n = \<lparr>ed_id = n, ed_employee = e_id e, ed_type = lk_type l,
     ed_start = value_or (e_hired e) (to_date en (now en)), ed_end = None, ed_active = True,
     ed_uuid = gen_uuid en ''employee_deductions'' n, ed_created_at = now en\<rparr>"

definition inherit_benefits :: "env \<Rightarrow> nat option \<Rightarrow> employee \<Rightarrow> unit service" where
  "inherit_benefits en pos e = (if \<not> set_somewhere pos then ret ()
     else bind (reads (\<lambda>w. (select (\<lambda>t. tp_position t = the pos) (allowance_templates w),
         select (\<lambda>l. lk_position l = the pos) (position_deductions w)))) (\<lambda>(templates, links).
       modify (\<lambda>w. w\<lparr>allowances := foldl (\<lambda>t x. insert_row (template_allowance en (e_id e) x) t) (allowances w) templates,
         employee_deductions := foldl (\<lambda>t x. insert_row (linked_deduction en e x) t) (employee_deductions w) links\<rparr>)))"

section \<open>What is shown\<close>

record employee_view =
  ev_employee :: employee
  ev_structure :: "pay_structure option"
  ev_deductions :: "employee_deduction list"
  ev_rate :: int
  ev_last :: "(attendance_status \<times> int) option"
  ev_records :: nat

text \<open>The latest attendance row; the counts come from the caller when it has them.\<close>

definition latest_record :: "world \<Rightarrow> nat \<Rightarrow> time_record option" where
  "latest_record w eid = (case sort_key (\<lambda>r. - r_date r) (select (\<lambda>r. r_employee r = eid) (time_records w)) of
     [] \<Rightarrow> None | r # _ \<Rightarrow> Some r)"

definition included_stats :: "time_record option \<Rightarrow> nat \<times> nat" where
  "included_stats r = (case r of None \<Rightarrow> (0, 0) | Some r \<Rightarrow> (if r_status r = PRESENT then 1 else 0, 1))"

definition serializeEmployee :: "world \<Rightarrow> employee \<Rightarrow> (nat \<times> nat) option \<Rightarrow> employee_view" where
  "serializeEmployee w e stats =
     (let latest = latest_record w (e_id e); (present, total) = value_or stats (included_stats latest) in
      \<lparr>ev_employee = e, ev_structure = latest_structure w (e_id e),
       ev_deductions = sort_key (\<lambda>d. - ed_created_at d) (select (\<lambda>d. ed_employee d = e_id e \<and> ed_active d) (employee_deductions w)),
       ev_rate = (if total \<noteq> 0 then math_round (of_nat present / of_nat total * 100) else 0),
       ev_last = map_option (\<lambda>r. (r_status r, r_date r)) latest, ev_records = total\<rparr>)"

definition getAttendanceStatsByEmployee :: "world \<Rightarrow> nat \<Rightarrow> (nat \<times> nat) option" where
  "getAttendanceStatsByEmployee w eid = (let rs = select (\<lambda>r. r_employee r = eid) (time_records w) in
     if rs = [] then None else Some (length (filter (\<lambda>r. r_status r = PRESENT) rs), length rs))"

section \<open>Creation and import\<close>

definition placement_values :: "placement \<Rightarrow> json" where
  "placement_values pl = (let key = jopt (\<lambda>n. JStr (show_nat n)) in
     JObj [(''working_location_id'', key (pl_loc pl)), (''department_id'', key (pl_department pl)), (''position_id'', key (pl_position pl))])"

definition audit_created :: "nat \<Rightarrow> employee \<Rightarrow> string \<Rightarrow> placement \<Rightarrow> unit service" where
  "audit_created by e description pl = audit (\<lambda>n. \<lparr>a_id = n, a_user = by, a_employee = Some (e_id e), a_table = ''employees'',
     a_entity = e_id e, a_module = ''EMPLOYEES'', a_type = AT_CREATE, a_description = description, a_action = AU_CREATED,
     a_old = JNull, a_new = placement_values pl, a_changed = []\<rparr>)"

definition employees_changed :: "env \<Rightarrow> unit service" where
  "employees_changed en = bind (clearEmployeeCache en) (\<lambda>_. modify (broadcast (NamedEvent ''employees_updated'')))"

definition names_given :: "employee_dto \<Rightarrow> bool" where
  "names_given dto \<longleftrightarrow> truthy (ne_first dto) \<and> truthy (ne_last dto)"

definition createEmployee :: "env \<Rightarrow> employee_dto \<Rightarrow> current_user option \<Rightarrow> employee_view service" where
  "createEmployee en dto actor =
     bind (ensure (names_given dto) (BadRequest ''First name and last name are required to create an employee.'')) (\<lambda>_.
     bind (resolve_placement en dto actor ''create employees'') (\<lambda>pl.
     bind (atomically (
       bind (identities_free None ''An'' dto) (\<lambda>_.
       bind (insert_employee en dto pl (ne_hired dto)) (\<lambda>e.
       bind (reads (\<lambda>w. serializeEmployee w e None)) (\<lambda>view.
       bind (create_salary en dto (pl_variant pl) e) (\<lambda>_.
       bind (inherit_benefits en (pl_position pl) e) (\<lambda>_.
       bind (case actor of None \<Rightarrow> ret ()
         | Some a \<Rightarrow> audit_created (cu_id a) e ''Created employee profile with salary and benefits.'' pl) (\<lambda>_.
       ret view)))))))) (\<lambda>view.
     bind (employees_changed en) (\<lambda>_. ret view))))"

definition import_employee :: "env \<Rightarrow> current_user \<Rightarrow> employee_dto \<Rightarrow> employee_view service" where
  "import_employee en actor dto =
     bind (ensure (names_given dto) (BadRequest ''First name and last name are required.'')) (\<lambda>_.
     bind (resolve_placement en dto (Some actor) ''bulk import employees'') (\<lambda>pl.
     atomically (
       bind (identities_free None ''An'' dto) (\<lambda>_.
       bind (insert_employee en dto pl None) (\<lambda>e.
       bind (reads (\<lambda>w. serializeEmployee w e None)) (\<lambda>view.
       bind (create_salary en dto (pl_variant pl) e) (\<lambda>_.
       bind (audit_created (cu_id actor) e ''Bulk imported employee profile.'' pl) (\<lambda>_.
       ret view))))))))"

text \<open>The rows one after the other; a row that throws is reported with its number and error.\<close>

fun import_rows :: "env \<Rightarrow> current_user \<Rightarrow> nat \<Rightarrow> employee_dto list \<Rightarrow> (employee_view list \<times> (nat \<times> error) list) service" where
  "import_rows en actor n [] = ret ([], [])"
| "import_rows en actor n (x # xs) = (\<lambda>w. case import_employee en actor x w of
     (Inl e, v) \<Rightarrow> bind (import_rows en actor (Suc n) xs) (\<lambda>(done_rows, errs). ret (done_rows, (n, e) # errs)) v
   | (Inr view, v) \<Rightarrow> bind (import_rows en actor (Suc n) xs) (\<lambda>(done_rows, errs). ret (view # done_rows, errs)) v)"

record import_result =
  im_imported :: nat
  im_total :: nat
  im_employees :: "employee_view list"
  im_errors :: "(nat \<times> error) list"

definition bulkImport :: "env \<Rightarrow> employee_dto list \<Rightarrow> current_user \<Rightarrow> import_result service" where
  "bulkImport en xs actor =
     bind (ensure (xs \<noteq> []) (BadRequest ''No employees provided for bulk import.'')) (\<lambda>_.
     bind (ensure (length xs \<le> 500) (BadRequest ''Maximum 500 employees allowed per bulk import.'')) (\<lambda>_.
     bind (import_rows en actor 1 xs) (\<lambda>(done_rows, errs).
     bind (employees_changed en) (\<lambda>_.
     ret \<lparr>im_imported = length done_rows, im_total = length xs, im_employees = done_rows, im_errors = errs\<rparr>))))"

end
