(* ===== verification/Employee_Profile.thy ===== *)
theory Employee_Profile
  imports Employee_Records
begin

text \<open>
  Reading and editing employees (\<open>employees/employees.service.ts\<close>): the cached list with its
  filters and pages, the single record, and the update of profile, salary and allowance in
  one transaction.
\<close>

section \<open>The list\<close>

record employee_query =
  eq_text :: "string option"
  eq_department :: "string option"
  eq_location :: "string option"
  eq_page :: "nat option"
  eq_limit :: "nat option"

definition is_paginated :: "employee_query \<Rightarrow> bool" where
  "is_paginated q \<longleftrightarrow> eq_page q \<noteq> None \<or> eq_limit q \<noteq> None"

definition positive_or :: "nat option \<Rightarrow> nat \<Rightarrow> nat" where
  "positive_or x d = (case x of Some n \<Rightarrow> if n > 0 then n else d | None \<Rightarrow> d)"

definition employees_key :: "current_user \<Rightarrow> employee_query \<Rightarrow> string" where
  "employees_key actor q = ''employees:all:'' @ show_nat (cu_id actor) @ '':'' @ value_or (cu_location actor) [] @ '':''
     @ value_or (eq_department q) [] @ '':'' @ value_or (eq_location q) [] @ '':'' @ value_or (normalizeSearch (eq_text q)) [] @ '':''
     @ (if is_paginated q then show_nat (positive_or (eq_page q) 1) @ '':'' @ show_nat (positive_or (eq_limit q) 20) else ''all'')"

text \<open>
  \<open>...(condition ? { key: value } : {})\<close>: a filter of the request replaces the same key of
  the actor's scope.
\<close>

definition numeric_filter :: "string option \<Rightarrow> nat option" where
  "numeric_filter value = (if truthy value \<and> isNumericId (the value) then Some (read_nat (the value)) else None)"

definition sees_all_employees :: "current_user \<Rightarrow> bool" where
  "sees_all_employees actor \<longleftrightarrow> isSystemAdmin actor \<or> hasEffectivePermission actor ''employees.read_all''"

definition list_location :: "current_user \<Rightarrow> employee_query \<Rightarrow> nat option" where
  "list_location actor q = or_else (numeric_filter (eq_location q))
     (if \<not> sees_all_employees actor \<and> truthy (cu_location actor) then Some (read_nat (the (cu_location actor))) else None)"

definition list_department :: "current_user \<Rightarrow> employee_query \<Rightarrow> nat option" where
  "list_department actor q = or_else (numeric_filter (eq_department q))
     (if \<not> sees_all_employees actor \<and> \<not> isDepartmentScopeExempt actor \<and> truthy (cu_department actor)
      then Some (read_nat (the (cu_department actor))) else None)"

definition matches_text :: "string option \<Rightarrow> employee \<Rightarrow> bool" where
  "matches_text q e = (truthy q \<longrightarrow> (\<exists>s \<in> set (e_first_name e # e_last_name e # List.map_filter (\<lambda>x. x) [e_email e, e_phone e, e_national_id e]).
     str_includes (to_lower s) (to_lower (the q))))"

definition employees_where :: "current_user \<Rightarrow> employee_query \<Rightarrow> employee \<Rightarrow> bool" where
  "employees_where actor q e \<longleftrightarrow> \<not> e_deleted e
     \<and> (list_location actor q \<noteq> None \<longrightarrow> e_loc e = list_location actor q)
     \<and> (list_department actor q \<noteq> None \<longrightarrow> e_department e = list_department actor q)
     \<and> matches_text (normalizeSearch (eq_text q)) e"

record employee_page =
  ep_employees :: "employee_view list"
  ep_total :: nat
  ep_page :: nat
  ep_limit :: nat
  ep_pages :: nat

definition page_of :: "employee_query \<Rightarrow> 'a list \<Rightarrow> 'a list" where
  "page_of q xs = (if is_paginated q
     then take (positive_or (eq_limit q) 20) (drop ((positive_or (eq_page q) 1 - 1) * positive_or (eq_limit q) 20) xs) else xs)"

definition employees_page :: "current_user \<Rightarrow> employee_query \<Rightarrow> world \<Rightarrow> employee_page" where
  "employees_page actor q w =
     (let found = sort_key (\<lambda>e. - e_created_at e) (select (employees_where actor q) (employees w)); total = length found;
          limit = positive_or (eq_limit q) 20 in
      \<lparr>ep_employees = map (\<lambda>e. serializeEmployee w e (getAttendanceStatsByEmployee w (e_id e))) (page_of q found),
       ep_total = total, ep_page = (if is_paginated q then positive_or (eq_page q) 1 else 1),
       ep_limit = (if is_paginated q then limit else total),
       ep_pages = (if is_paginated q then (total + limit - 1) div limit else 1)\<rparr>)"

text \<open>\<open>None\<close> stands for a response served from the cache.\<close>

definition findAll :: "current_user \<Rightarrow> employee_query \<Rightarrow> employee_page option service" where
  "findAll actor q = bind (reads (\<lambda>w. w)) (\<lambda>w.
     if employees_key actor q \<in> set (cache_keys w) then ret None
     else bind (cache_put (employees_key actor q)) (\<lambda>_. ret (Some (employees_page actor q w))))"

definition findOne :: "string \<Rightarrow> current_user \<Rightarrow> employee_view service" where
  "findOne uuid actor =
     bind (findEmployeeByUuidOrThrow uuid) (\<lambda>e.
     bind (ensureActorCanReadEmployee actor e) (\<lambda>_.
     reads (\<lambda>w. serializeEmployee w e None)))"

section \<open>The update of the profile\<close>

text \<open>The dates after the update; those on file are midnights.\<close>

definition contract_after :: "env \<Rightarrow> string option \<Rightarrow> string \<Rightarrow> int option \<Rightarrow> int option service" where
  "contract_after en value fieldName stored =
     (if value \<noteq> None then parseContractDate en value fieldName else ret (map_option (\<lambda>d. d * day_ms) stored))"

definition new_day :: "env \<Rightarrow> string option \<Rightarrow> int option \<Rightarrow> int option service" where
  "new_day en value stored = (if value \<noteq> None then optional_day en value else ret stored)"

definition new_hired :: "env \<Rightarrow> string option \<Rightarrow> int option \<Rightarrow> int option service" where
  "new_hired en value stored = (case value of None \<Rightarrow> ret stored
     | Some s \<Rightarrow> bind (date_param en s) (\<lambda>t. ret (Some (to_date en t))))"

definition edited_employee :: "employee_dto \<Rightarrow> placement \<Rightarrow> int option \<Rightarrow> int option \<Rightarrow> int option \<Rightarrow> employee \<Rightarrow> employee" where
  "edited_employee dto pl hired start finish e = e\<lparr>e_first_name := value_or (ne_first dto) (e_first_name e),
     e_last_name := value_or (ne_last dto) (e_last_name e), e_email := or_else (ne_email dto) (e_email e),
     e_phone := or_else (ne_phone dto) (e_phone e), e_national_id := or_else (ne_national_id dto) (e_national_id e),
     e_gender := or_else (ne_gender dto) (e_gender e), e_hired := hired, e_contract_start := start, e_contract_end := finish,
     e_department := or_else (pl_department pl) (e_department e), e_loc := or_else (pl_loc pl) (e_loc e),
     e_position := or_else (pl_position pl) (e_position e), e_category := or_else (pl_category pl) (e_category e)\<rparr>"

definition save_profile :: "env \<Rightarrow> employee_dto \<Rightarrow> placement \<Rightarrow> employee \<Rightarrow> employee service" where
  "save_profile en dto pl e =
     bind (new_hired en (ne_hired dto) (e_hired e)) (\<lambda>hired.
     bind (new_day en (ne_start dto) (e_contract_start e)) (\<lambda>start.
     bind (new_day en (ne_end dto) (e_contract_end e)) (\<lambda>finish.
     let saved = edited_employee dto pl hired start finish e in
     bind (employee_indexes (Some (e_id e)) saved) (\<lambda>_.
     bind (modify (\<lambda>w. w\<lparr>employees := update_rows (\<lambda>x. e_id x = e_id e) (\<lambda>_. saved) (employees w)\<rparr>)) (\<lambda>_.
     ret saved)))))"

section \<open>The update of the salary\<close>

definition has_salary_patch :: "employee_dto \<Rightarrow> placement \<Rightarrow> bool" where
  "has_salary_patch dto pl \<longleftrightarrow> ne_basic_salary dto \<noteq> None \<or> ne_daily_rate dto \<noteq> None \<or> ne_tax dto \<noteq> None
     \<or> ne_start dto \<noteq> None \<or> ne_end dto \<noteq> None \<or> pl_position pl \<noteq> None \<or> pl_category pl \<noteq> None"

definition non_zero :: "rat option \<Rightarrow> rat option" where
  "non_zero x = (if x = Some 0 then None else x)"

definition revised_pay :: "employee_dto \<Rightarrow> position_variant \<Rightarrow> frequency \<Rightarrow> pay_structure option \<Rightarrow> employee \<Rightarrow> rat \<times> rat" where
  "revised_pay dto v freq current e =
     (let monthly = value_or (or_else (ne_basic_salary dto)
            (or_else (non_zero (map_option s_basic_salary current)) (vr_basic_salary v))) 150000;
          daily = (if freq = MONTHLY then monthly_daily_rate monthly
            else value_or (or_else (ne_daily_rate dto)
              (or_else (non_zero (map_option s_daily_rate current)) (vr_daily_rate v))) 3000) in
      (if freq = MONTHLY then monthly
       else if freq = CUSTOM then custom_basic_salary daily (e_contract_start e) (e_contract_end e)
         (value_or (or_else (ne_basic_salary dto) (map_option s_basic_salary current)) 0)
       else 0, daily))"

definition revise_structure :: "frequency \<Rightarrow> rat \<times> rat \<Rightarrow> rat \<Rightarrow> rat \<Rightarrow> pay_structure \<Rightarrow> pay_structure" where
  "revise_structure freq pay overtime tax s = s\<lparr>s_frequency := freq, s_basic_salary := fst pay, s_daily_rate := snd pay,
     s_overtime := overtime, s_tax := tax\<rparr>"

definition replace_structure :: "env \<Rightarrow> nat \<Rightarrow> (nat \<Rightarrow> pay_structure) \<Rightarrow> unit service" where
  "replace_structure en eid row = modify (\<lambda>w. w\<lparr>structures := insert_row row (close_structures eid (now en) (structures w))\<rparr>)"

definition update_salary :: "env \<Rightarrow> employee_dto \<Rightarrow> placement \<Rightarrow> employee \<Rightarrow> employee \<Rightarrow> unit service" where
  "update_salary en dto pl e saved =
     (let pos = or_else (pl_position pl) (e_position e); cat = or_else (pl_category pl) (e_category e) in
      if \<not> (set_somewhere pos \<and> set_somewhere cat \<and> has_salary_patch dto pl) then ret ()
      else bind (variant_with_category (the pos) (the cat)) (\<lambda>(v, c).
        bind (reads (\<lambda>w. find_row (\<lambda>s. s_employee s = e_id e \<and> s_to s = None) (structures w))) (\<lambda>current.
        let freq = c_frequency c; pay = revised_pay dto v freq current saved;
            overtime = value_or (or_else (map_option s_overtime current) (vr_overtime_rate v)) 0;
            tax = value_or (or_else (ne_tax dto) (map_option s_tax current)) 0 in
        case current of
          Some s \<Rightarrow> if s_frequency s = freq
            then modify (\<lambda>w. w\<lparr>structures := update_rows (\<lambda>x. s_id x = s_id s) (revise_structure freq pay overtime tax) (structures w)\<rparr>)
            else replace_structure en (e_id e) (structure_row en (e_id e) freq (fst pay) (snd pay) overtime tax (now en))
        | None \<Rightarrow> replace_structure en (e_id e) (structure_row en (e_id e) freq (fst pay) (snd pay) overtime tax (now en)))))"

text \<open>The first allowance of the employee, active or not, is the one that is edited.\<close>

definition update_allowance :: "env \<Rightarrow> employee_dto \<Rightarrow> nat \<Rightarrow> unit service" where
  "update_allowance en dto eid =
     (if ne_allowance_title dto = None \<and> ne_allowance_amount dto = None then ret ()
      else bind (reads (\<lambda>w. find_row (\<lambda>a. al_employee a = eid) (allowances w))) (\<lambda>existing. case existing of
          Some a \<Rightarrow> modify (\<lambda>w. w\<lparr>allowances := update_rows (\<lambda>x. al_id x = al_id a)
            (\<lambda>x. x\<lparr>al_title := value_or (ne_allowance_title dto) (al_title a), al_amount := value_or (ne_allowance_amount dto) (al_amount a)\<rparr>)
            (allowances w)\<rparr>)
        | None \<Rightarrow> when_op (truthy (ne_allowance_title dto) \<and> ne_allowance_amount dto \<noteq> None)
            (modify (\<lambda>w. w\<lparr>allowances := insert_row (\<lambda>n. \<lparr>al_id = n, al_employee = eid, al_title = the (ne_allowance_title dto),
              al_amount = the (ne_allowance_amount dto), al_active = True, al_uuid = gen_uuid en ''allowances'' n, al_type = None,
              al_description = None, al_created_at = now en\<rparr>) (allowances w)\<rparr>))))"

section \<open>The unified update\<close>

definition profile_values :: "employee \<Rightarrow> (string \<times> json) list" where
  "profile_values e = (let key = jopt (\<lambda>n. JStr (show_nat n)); day = jopt (\<lambda>d. JStr (iso_instant (d * day_ms))); str = jopt JStr in
     [(''first_name'', JStr (e_first_name e)), (''last_name'', JStr (e_last_name e)), (''email'', str (e_email e)),
      (''phone_number'', str (e_phone e)), (''national_id'', str (e_national_id e)), (''gender'', str (e_gender e)),
      (''hire_date'', day (e_hired e)), (''contract_start_date'', day (e_contract_start e)),
      (''contract_end_date'', day (e_contract_end e)), (''department_id'', key (e_department e)),
      (''working_location_id'', key (e_loc e)), (''position_id'', key (e_position e))])"

definition audit_profile :: "current_user \<Rightarrow> employee \<Rightarrow> employee \<Rightarrow> unit service" where
  "audit_profile actor e saved = (case buildAuditDiff (profile_values e) (profile_values saved) (map fst (profile_values e)) of
     (old, new, changed) \<Rightarrow> audit (\<lambda>n. \<lparr>a_id = n, a_user = cu_id actor, a_employee = Some (e_id saved), a_table = ''employees'',
       a_entity = e_id saved, a_module = ''EMPLOYEES'', a_type = AT_UPDATE,
       a_description = ''Updated employee profile, salary, and benefits in a unified operation.'', a_action = AU_UPDATED,
       a_old = old, a_new = new, a_changed = changed\<rparr>))"

definition update_placement :: "employee_dto \<Rightarrow> employee \<Rightarrow> placement service" where
  "update_placement dto e =
     bind (optional_location (ne_location dto)) (\<lambda>loc.
     bind (optional_department (ne_department dto) (or_else loc (e_loc e))) (\<lambda>dep.
     bind (optional_id (ne_position dto) ''position_id'') (\<lambda>pos.
     bind (optional_id (ne_category dto) ''employment_category_id'') (\<lambda>cat.
     bind (ensure (\<not> (pos \<noteq> None \<and> pos \<noteq> e_position e \<and> cat = None))
       (BadRequest ''employment_category_id is required when changing an employee to a new position.'')) (\<lambda>_.
     bind (when_op (dep \<noteq> None \<and> e_department e \<noteq> dep) (ensureDepartmentCanReceiveEmployees (the dep))) (\<lambda>_.
     ret \<lparr>pl_loc = loc, pl_department = dep, pl_position = pos, pl_category = cat, pl_variant = None\<rparr>))))))"

definition updateEmployee :: "env \<Rightarrow> string \<Rightarrow> employee_dto \<Rightarrow> current_user \<Rightarrow> employee_view service" where
  "updateEmployee en uuid dto actor =
     bind (findEmployeeByUuidOrThrow uuid) (\<lambda>e.
     bind (ensureActorCanAccessEmployee actor e) (\<lambda>_.
     bind (contract_after en (ne_start dto) ''contract_start_date'' (e_contract_start e)) (\<lambda>start.
     bind (contract_after en (ne_end dto) ''contract_end_date'' (e_contract_end e)) (\<lambda>finish.
     bind (assertContractDatesValid start finish
       (if ne_start dto \<noteq> None then map_option (\<lambda>d. d * day_ms) (e_contract_end e) else None)) (\<lambda>_.
     bind (update_placement dto e) (\<lambda>pl.
     bind (atomically (
       bind (identities_free (Some (e_id e)) ''Another'' dto) (\<lambda>_.
       bind (save_profile en dto pl e) (\<lambda>saved.
       bind (update_salary en dto pl e saved) (\<lambda>_.
       bind (update_allowance en dto (e_id e)) (\<lambda>_.
       bind (audit_profile actor e saved) (\<lambda>_.
       reads (\<lambda>w. (saved, serializeEmployee w saved None))))))))) (\<lambda>(saved, view).
     bind (clearEmployeeCache en) (\<lambda>_.
     bind (if set_somewhere (e_department e) \<and> e_department e \<noteq> e_department saved
       then bind (archivePendingDepartmentIfEmpty en (the (e_department e)) (cu_id actor)) (\<lambda>_. ret ()) else ret ()) (\<lambda>_.
     bind (modify (broadcast (NamedEvent ''employees_updated''))) (\<lambda>_.
     ret view))))))))))"

end
