(* ===== verification/Personnel_Rules.thy ===== *)
theory Personnel_Rules
  imports Employee_Profile
begin

text \<open>
  What the administration of employees, positions and pay keeps: no two employees share an
  address, a phone number or a national id; an employee has at most one open pay structure
  and a monthly one carries the daily rate of its salary; the catalogues hold a name once,
  and a position offers a category or a deduction type once.
\<close>

section \<open>The registers\<close>

definition shared :: "string option \<Rightarrow> string option \<Rightarrow> bool" where
  "shared x y \<longleftrightarrow> x \<noteq> None \<and> x = y"

lemma shared_sym: "shared x y \<Longrightarrow> shared y x"
  by (cases y) (auto simp: shared_def)

definition identity_clash :: "employee \<Rightarrow> employee \<Rightarrow> bool" where
  "identity_clash e x \<longleftrightarrow> shared (e_email e) (e_email x) \<or> shared (e_phone e) (e_phone x)
     \<or> shared (e_national_id e) (e_national_id x)"

definition open_clash :: "pay_structure \<Rightarrow> pay_structure \<Rightarrow> bool" where
  "open_clash s x \<longleftrightarrow> s_employee s = s_employee x \<and> s_to s = None \<and> s_to x = None"

definition monthly_rate_ok :: "pay_structure \<Rightarrow> bool" where
  "monthly_rate_ok s \<longleftrightarrow> (s_frequency s = MONTHLY \<longrightarrow> s_daily_rate s = monthly_daily_rate (s_basic_salary s))"

definition same_type :: "deduction_type \<Rightarrow> deduction_type \<Rightarrow> bool" where
  "same_type t x \<longleftrightarrow> dt_name t = dt_name x"

definition same_allowance_type :: "allowance_type \<Rightarrow> allowance_type \<Rightarrow> bool" where
  "same_allowance_type t x \<longleftrightarrow> ty_name t = ty_name x"

definition same_position :: "position \<Rightarrow> position \<Rightarrow> bool" where
  "same_position p x \<longleftrightarrow> p_name p = p_name x"

definition same_variant :: "position_variant \<Rightarrow> position_variant \<Rightarrow> bool" where
  "same_variant v x \<longleftrightarrow> vr_position v = vr_position x \<and> vr_category v = vr_category x"

definition same_link :: "position_deduction \<Rightarrow> position_deduction \<Rightarrow> bool" where
  "same_link l x \<longleftrightarrow> lk_position l = lk_position x \<and> lk_type l = lk_type x"

interpretation persons: uniqueness_rule e_id identity_clash
  by unfold_locales (unfold identity_clash_def, blast intro: shared_sym)

interpretation open_structures: uniqueness_rule s_id open_clash
  by unfold_locales (auto simp: open_clash_def)

interpretation type_names: uniqueness_rule dt_id same_type
  by unfold_locales (auto simp: same_type_def)

interpretation allowance_names: uniqueness_rule ty_id same_allowance_type
  by unfold_locales (auto simp: same_allowance_type_def)

interpretation position_names: uniqueness_rule p_id same_position
  by unfold_locales (auto simp: same_position_def)

interpretation offers: uniqueness_rule vr_id same_variant
  by unfold_locales (auto simp: same_variant_def)

interpretation links: uniqueness_rule lk_id same_link
  by unfold_locales (auto simp: same_link_def)

definition structures_ok :: "world \<Rightarrow> bool" where
  "structures_ok w \<longleftrightarrow> apart s_id open_clash (structures w)
     \<and> (\<forall>s \<in> set (rows (structures w)). monthly_rate_ok s \<and> s_employee s < next_id (employees w))"

definition offers_ok :: "world \<Rightarrow> bool" where
  "offers_ok w \<longleftrightarrow> apart dt_id same_type (deduction_types w) \<and> apart ty_id same_allowance_type (allowance_types w)
     \<and> apart p_id same_position (positions w) \<and> apart vr_id same_variant (position_variants w)
     \<and> apart lk_id same_link (position_deductions w)"

definition personnel_ok :: "world \<Rightarrow> bool" where
  "personnel_ok w \<longleftrightarrow> apart e_id identity_clash (employees w) \<and> structures_ok w \<and> offers_ok w"

lemmas personnel_defs = personnel_ok_def structures_ok_def offers_ok_def

text \<open>Writes to other tables.\<close>

lemma personnel_only:
  assumes "personnel_ok w" and "employees v = employees w" "structures v = structures w" "deduction_types v = deduction_types w"
    "allowance_types v = allowance_types w" "positions v = positions w" "position_variants v = position_variants w"
    "position_deductions v = position_deductions w"
  shows "personnel_ok v"
  using assms by (simp add: personnel_defs)

lemma quiet_personnel: "quiet personnel_ok"
  by (simp add: quiet_def personnel_defs)

lemma keeps_elsewhere:
  assumes "\<And>w. employees (g w) = employees w \<and> structures (g w) = structures w \<and> deduction_types (g w) = deduction_types w
    \<and> allowance_types (g w) = allowance_types w \<and> positions (g w) = positions w \<and> position_variants (g w) = position_variants w
    \<and> position_deductions (g w) = position_deductions w"
  shows "keeps personnel_ok (modify g)"
  by (rule keeps_modify, rule personnel_only) (use assms in simp_all)

lemma keeps_elsewhere_ret:
  assumes "\<And>w. employees (snd (g w)) = employees w \<and> structures (snd (g w)) = structures w \<and> deduction_types (snd (g w)) = deduction_types w
    \<and> allowance_types (snd (g w)) = allowance_types w \<and> positions (snd (g w)) = positions w
    \<and> position_variants (snd (g w)) = position_variants w \<and> position_deductions (snd (g w)) = position_deductions w"
  shows "keeps personnel_ok (update_ret g)"
  by (rule keeps_update_ret, rule personnel_only) (use assms in simp_all)

lemma keeps_personnel_atomic: "keeps personnel_ok m \<Longrightarrow> keeps personnel_ok (atomically m)"
  by (rule keeps_atomically) (simp add: personnel_defs)

lemma keeps_side_writes:
  "keeps personnel_ok (audit mk)" "keeps personnel_ok (cache_put key)" "keeps personnel_ok (cache_del key)"
  "keeps personnel_ok (modify (broadcast p))" "keeps personnel_ok positions_changed" "keeps personnel_ok (clearEmployeeCache en)"
  "keeps personnel_ok (employees_changed en)" "keeps personnel_ok (update_request k g)" "keeps personnel_ok (save_allowance a)"
proof -
  have b: "keeps personnel_ok (modify (broadcast p))" for p by (rule keeps_elsewhere) (simp add: broadcast_def)
  have c: "keeps personnel_ok (clearEmployeeCache en)"
    unfolding clearEmployeeCache_def clear_cached_def cache_del_def by (intro keeps_rules keeps_elsewhere) simp_all
  show "keeps personnel_ok (modify (broadcast p))" "keeps personnel_ok positions_changed" "keeps personnel_ok (clearEmployeeCache en)"
    "keeps personnel_ok (employees_changed en)"
    unfolding positions_changed_def employees_changed_def by (rule b, rule b, rule c, intro keeps_rules b c)
qed (simp_all add: audit_def cache_put_def cache_del_def update_request_def save_allowance_def keeps_elsewhere)

lemma keeps_personnel_audits: "keeps personnel_ok (audit_pay actor e t k y d a)" "keeps personnel_ok (audit_position actor k y d a old new)"
  "keeps personnel_ok (audit_created by x d pl)" "keeps personnel_ok (audit_profile actor x saved)"
  unfolding audit_pay_def audit_position_def audit_created_def audit_profile_def
  by (intro keeps_side_writes keeps_pair)+

lemma readonly_pay_checks [fail_rules]:
  "readonly (ensurePayEmployee k)" "readonly (ensureActorCanManagePay actor e)" "readonly (ensureActorCanReadPay actor e)"
  "readonly (managed_employee actor k)" "readonly (readable_employee actor v)" "readonly (date_param en s)"
  "readonly (optional_date en ov)" "readonly (find_structure uuid)" "readonly (managed_deduction uuid actor)"
  "readonly (managed_allowance uuid actor)" "readonly (ensureEmployeeCanReceiveAllowance k)" "readonly (allowance_type_ref ov)"
  "readonly (position_by_uuid uuid)" "readonly (findPositionByUuid uuid)" "readonly (resolveEmploymentCategoryId v)"
  "readonly (resolveDeductionTypeId v)" "readonly (template_type ov)"
  unfolding ensurePayEmployee_def ensureActorCanManagePay_def ensureActorCanReadPay_def managed_employee_def
    readable_employee_def date_param_def optional_date_def find_structure_def managed_deduction_def managed_allowance_def
    ensureEmployeeCanReceiveAllowance_def allowance_type_ref_def position_by_uuid_def findPositionByUuid_def
    resolveEmploymentCategoryId_def resolveDeductionTypeId_def template_type_def toBigInt_def
  by (intro fail_rules)+

lemmas keeps_personnel = keeps_rules keeps_side_writes keeps_personnel_audits keeps_personnel_atomic
  readonly_pay_checks [THEN keeps_readonly] readonly_toBigInt [THEN keeps_readonly]
  direct.keeps_send [OF quiet_personnel] admins.keeps_send [OF quiet_personnel] branch.keeps_send [OF quiet_personnel]

lemma readonly_when [fail_rules]: "readonly m \<Longrightarrow> readonly (when_op c m)"
  by (simp add: when_op_def readonly_ret)

section \<open>A row replaced by a saved copy\<close>

context uniqueness_rule begin

lemma replace_apart:
  assumes ok: "apart key clash t" and r: "r \<in> set (rows t)" and same: "key r' = key r"
    and free: "\<And>x. x \<in> set (rows t) \<Longrightarrow> key x \<noteq> key r \<Longrightarrow> \<not> clash x r'"
  shows "apart key clash (update_rows (\<lambda>x. key x = key r) (\<lambda>_. r') t)"
proof -
  have "update_rows (\<lambda>x. key x = key r) (\<lambda>_. r') t = update_rows (\<lambda>x. key x = key r) (\<lambda>x. if key x = key r then r' else x) t"
    by (simp add: update_rows_def)
  then show ?thesis using same free by (simp only:) (rule update_one_apart [OF ok r], simp_all)
qed

lemma replace_same_apart:
  assumes ok: "apart key clash t" and r: "r \<in> set (rows t)" and same: "key r' = key r" and less: "\<And>x. clash x r' \<Longrightarrow> clash x r"
  shows "apart key clash (update_rows (\<lambda>x. key x = key r) (\<lambda>_. r') t)"
  by (rule replace_apart [OF ok r same]) (metis apartD [OF ok _ r] less)

end

section \<open>Pay structures\<close>

lemma s_id_edited [simp]: "s_id (edited_structure dto b t s) = s_id s" "s_employee (edited_structure dto b t s) = s_employee s"
  by (simp_all add: edited_structure_def Let_def)

lemma edited_closed: "s_to (edited_structure dto b t s) = None \<Longrightarrow> s_to s = None"
  by (auto simp: edited_structure_def Let_def split: option.splits)

lemma edited_rate: "monthly_rate_ok (edited_structure dto b t s)"
  by (simp add: monthly_rate_ok_def edited_structure_def Let_def value_or_def split: option.splits)

lemma monthly_closed [simp]: "monthly_rate_ok (s\<lparr>s_to := t\<rparr>) = monthly_rate_ok s"
  by (simp add: monthly_rate_ok_def)

text \<open>The open structures are closed before a new one is written.\<close>

lemma replaced_structure_ok:
  assumes ok: "structures_ok w" and eid: "eid < next_id (employees w)"
    and rate: "freq = MONTHLY \<Longrightarrow> daily = monthly_daily_rate basic"
  shows "structures_ok (w\<lparr>structures := insert_row (structure_row en eid freq basic daily ot tax from) (close_structures eid t (structures w))\<rparr>)"
proof -
  have closed: "apart s_id open_clash (close_structures eid t (structures w))"
    unfolding close_structures_def using ok
    by (intro open_structures.update_apart) (auto simp: structures_ok_def open_clash_def)
  have "\<forall>s \<in> set (rows (close_structures eid t (structures w))). \<not> open_clash s (structure_row en eid freq basic daily ot tax from n)" for n
    unfolding close_structures_def ball_update_rows by (simp add: open_clash_def structure_row_def)
  with closed have "apart s_id open_clash (insert_row (structure_row en eid freq basic daily ot tax from) (close_structures eid t (structures w)))"
    by (intro open_structures.insert_apart) (simp_all add: structure_row_def)
  moreover have "monthly_rate_ok (structure_row en eid freq basic daily ot tax from n) \<and> s_employee (structure_row en eid freq basic daily ot tax from n) = eid" for n
    using rate by (simp add: structure_row_def monthly_rate_ok_def)
  ultimately show ?thesis using ok eid by (auto simp: structures_ok_def close_structures_def)
qed

lemma edited_structure_ok:
  assumes ok: "structures_ok w" and s: "s \<in> set (rows (structures w))" and key: "s_id s' = s_id s" "s_employee s' = s_employee s"
    and to: "s_to s' = None \<Longrightarrow> s_to s = None" and rate: "monthly_rate_ok s'"
  shows "structures_ok (w\<lparr>structures := update_rows (\<lambda>x. s_id x = s_id s) (\<lambda>_. s') (structures w)\<rparr>)"
proof -
  have "apart s_id open_clash (update_rows (\<lambda>x. s_id x = s_id s) (\<lambda>_. s') (structures w))"
    using ok s key to by (intro open_structures.replace_same_apart) (auto simp: structures_ok_def open_clash_def)
  with ok s rate key show ?thesis by (auto simp: structures_ok_def)
qed

lemma structures_frame [simp]: "structures_ok (w\<lparr>audit_logs := a\<rparr>) = structures_ok w"
  by (simp add: structures_ok_def)

lemma personnel_structures: "personnel_ok w \<Longrightarrow> structures_ok (w\<lparr>structures := t\<rparr>) \<Longrightarrow> personnel_ok (w\<lparr>structures := t\<rparr>)"
  by (simp add: personnel_ok_def offers_ok_def)

lemma managed_employee_success: "managed_employee actor k w = (Inr u, v) \<Longrightarrow> v = w \<and>
    (\<exists>e \<in> set (rows (employees w)). e_id e = k \<and> \<not> e_deleted e
       \<and> (isSystemAdmin actor \<or> truthy (cu_location actor) \<and> map_option show_nat (e_loc e) = cu_location actor))"
  by (auto simp: managed_employee_def ensurePayEmployee_def ensureActorCanManagePay_def op_success dest!: find_row_Some)

lemma known_employee: "personnel_ok w \<Longrightarrow> managed_employee actor k w = (Inr u, v) \<Longrightarrow> k < next_id (employees w)"
  by (auto simp: personnel_ok_def apart_def table_ok_def dest!: managed_employee_success)

lemma leads_personnel_atomic:
  assumes ok: "personnel_ok w" and core: "leads personnel_ok m w"
  shows "leads personnel_ok (atomically m) w"
proof (cases "atomically m w")
  case (Pair r v)
  show ?thesis
  proof (cases r)
    case (Inl e)
    with Pair have "atomically m w = (Inl e, v)" by simp
    then obtain k c d where "v = w\<lparr>cache_keys := k, clients := c, delivered := d\<rparr>" using atomically_Inl by blast
    then have "personnel_ok v" using personnel_only [OF ok] by simp
    with Pair show ?thesis by (simp add: leads_def)
  next
    case (Inr a)
    with Pair have "m w = (Inr a, v)" by simp
    with Pair core show ?thesis by (simp add: leads_def)
  qed
qed

lemma leads_update_ret: "I (snd (g s)) \<Longrightarrow> (\<And>a. keeps I (f a)) \<Longrightarrow> leads I (bind (update_ret g) f) s"
  by (rule leads_then) (auto simp: update_ret_app)

lemma create_structure_keeps: "keeps personnel_ok (createStructure en dto actor)"
proof (rule keeps_leads)
  fix w :: world
  assume ok: "personnel_ok w"
  show "leads personnel_ok (createStructure en dto actor) w"
    unfolding createStructure_def Let_def
  proof ((rule leads_guard [where I = personnel_ok, OF _ ok], (intro fail_rules readonly_toBigInt)[1])+,
      rule leads_personnel_atomic [OF ok], goal_cases)
    case (1 eid _ day _ _ basic)
    have "structures_ok (w\<lparr>structures := insert_row (structure_row en eid (sd_frequency dto) basic
        (if sd_frequency dto = MONTHLY then monthly_daily_rate basic else sd_daily_rate dto) (value_or (sd_overtime_rate dto) 0)
        (sd_tax dto) day) (close_structures eid day (structures w))\<rparr>)"
      using ok known_employee [OF ok 1(2)] by (intro replaced_structure_ok) (simp_all add: personnel_ok_def)
    then show ?case by (intro leads_update_ret keeps_personnel) (unfold snd_conv, rule personnel_structures [OF ok])
  qed
qed

lemma update_structure_keeps: "keeps personnel_ok (updateStructure en uuid dto actor)"
proof (rule keeps_leads)
  fix w :: world
  assume ok: "personnel_ok w"
  show "leads personnel_ok (updateStructure en uuid dto actor) w"
    unfolding updateStructure_def Let_def
  proof ((rule leads_guard [where I = personnel_ok, OF _ ok], (intro fail_rules readonly_toBigInt)[1])+, goal_cases)
    case (1 s _ basic finish)
    then have s: "s \<in> set (rows (structures w))" by (auto simp: find_structure_def op_success dest!: find_row_Some)
    have "structures_ok (w\<lparr>structures := update_rows (\<lambda>x. s_id x = s_id s) (\<lambda>_. edited_structure dto basic finish s) (structures w)\<rparr>)"
      using ok by (intro edited_structure_ok s edited_rate) (auto simp: personnel_ok_def dest: edited_closed)
    then show ?case by (intro leads_modify personnel_structures [OF ok] keeps_ret)
  qed
qed

section \<open>Deduction types, deductions and allowances\<close>

lemma personnel_offers: "personnel_ok w \<Longrightarrow> employees v = employees w \<Longrightarrow> structures v = structures w \<Longrightarrow> offers_ok v \<Longrightarrow> personnel_ok v"
  by (simp add: personnel_ok_def structures_ok_def)

lemma keeps_assign_all: "keeps personnel_ok (applyMandatoryDeductionTypeFromNextMonth en type)"
  unfolding applyMandatoryDeductionTypeFromNextMonth_def assign_deduction_def
  by (intro keeps_personnel keeps_elsewhere) simp

lemma create_type_keeps: "keeps personnel_ok (createDeductionType en dto actor)"
proof (rule keeps_leads)
  fix w :: world
  assume ok: "personnel_ok w"
  show "leads personnel_ok (createDeductionType en dto actor) w"
    unfolding createDeductionType_def Let_def
  proof ((rule leads_guard [where I = personnel_ok, OF _ ok], (intro fail_rules)[1])+,
      rule leads_personnel_atomic [OF ok], rule leads_update_ret, goal_cases)
    case (1 found)
    then have "\<forall>t \<in> set (rows (deduction_types w)). dt_name t \<noteq> td_name dto" by (simp add: find_row_None)
    with ok show ?case
      by (intro personnel_offers [OF ok])
        (auto simp: personnel_ok_def offers_ok_def same_type_def intro!: type_names.insert_apart)
  qed (intro keeps_personnel keeps_assign_all)
qed

lemma update_type_keeps: "keeps personnel_ok (updateDeductionType en uuid dto actor)"
proof (rule keeps_leads)
  fix w :: world
  assume ok: "personnel_ok w"
  show "leads personnel_ok (updateDeductionType en uuid dto actor) w"
    unfolding updateDeductionType_def Let_def
  proof ((rule leads_guard [where I = personnel_ok, OF _ ok], (intro fail_rules)[1])+, rule leads_personnel_atomic [OF ok],
      (rule leads_guard [where I = personnel_ok, OF _ ok], (intro fail_rules)[1])+, rule leads_modify, goal_cases)
    case (1 found t clash)
    then have t: "t \<in> set (rows (deduction_types w))" by (auto dest: find_row_Some)
    have free: "\<forall>x \<in> set (rows (deduction_types w)). dt_id x \<noteq> dt_id t \<longrightarrow> dt_name x \<noteq> dt_name (edited_type dto t)"
      using 1 by (auto simp: find_row_None)
    have "apart dt_id same_type (update_rows (\<lambda>x. dt_id x = dt_id t) (\<lambda>_. edited_type dto t) (deduction_types w))"
      using ok t free by (intro type_names.replace_apart) (auto simp: personnel_ok_def offers_ok_def same_type_def edited_type_def)
    with ok show ?case by (intro personnel_offers [OF ok]) (simp_all add: personnel_ok_def offers_ok_def)
  qed (intro keeps_personnel keeps_assign_all)
qed

lemma deductions_keep: "keeps personnel_ok (createEmployeeDeduction en xdto actor)" "keeps personnel_ok (updateEmployeeDeduction en uuid udto actor)"
  "keeps personnel_ok (deleteEmployeeDeduction en uuid actor)"
  unfolding createEmployeeDeduction_def updateEmployeeDeduction_def deleteEmployeeDeduction_def Let_def
  by (intro keeps_personnel keeps_elsewhere keeps_elsewhere_ret; simp)+

lemma allowances_keep: "keeps personnel_ok (createAllowance en adto actor)" "keeps personnel_ok (deactivateAllowance uuid actor)"
  "keeps personnel_ok (updateAllowance uuid audto actor)"
  unfolding createAllowance_def deactivateAllowance_def updateAllowance_def Let_def
  by (intro keeps_personnel keeps_elsewhere_ret; simp)+

lemma create_allowance_type_keeps: "keeps personnel_ok (createAllowanceType en dto actor)"
proof (rule keeps_leads)
  fix w :: world
  assume ok: "personnel_ok w"
  show "leads personnel_ok (createAllowanceType en dto actor) w"
    unfolding createAllowanceType_def Let_def
  proof ((rule leads_guard [where I = personnel_ok, OF _ ok], (intro fail_rules)[1])+, rule leads_update_ret, goal_cases)
    case (1 found)
    then have "\<forall>t \<in> set (rows (allowance_types w)). ty_name t \<noteq> yd_name dto" by (simp add: find_row_None)
    with ok show ?case
      by (intro personnel_offers [OF ok])
        (auto simp: personnel_ok_def offers_ok_def same_allowance_type_def intro!: allowance_names.insert_apart)
  qed (intro keeps_personnel)
qed

lemma update_allowance_type_keeps: "keeps personnel_ok (updateAllowanceType uuid dto actor)"
proof (rule keeps_leads)
  fix w :: world
  assume ok: "personnel_ok w"
  show "leads personnel_ok (updateAllowanceType uuid dto actor) w"
    unfolding updateAllowanceType_def Let_def
  proof ((rule leads_guard [where I = personnel_ok, OF _ ok], (intro fail_rules)[1])+, rule leads_modify, goal_cases)
    case (1 found t clash)
    let ?saved = "t\<lparr>ty_name := value_or (yu_name dto) (ty_name t), ty_amount := value_or (yu_amount dto) (ty_amount t),
       ty_description := (case yu_description dto of None \<Rightarrow> ty_description t | Some d \<Rightarrow> Some d),
       ty_active := value_or (yu_active dto) (ty_active t)\<rparr>"
    have t: "t \<in> set (rows (allowance_types w))" using 1 by (auto dest: find_row_Some)
    have free: "\<forall>x \<in> set (rows (allowance_types w)). ty_id x \<noteq> ty_id t \<longrightarrow> ty_name x \<noteq> ty_name ?saved"
      using 1 by (auto simp: find_row_None)
    have "apart ty_id same_allowance_type (update_rows (\<lambda>x. ty_id x = ty_id t) (\<lambda>_. ?saved) (allowance_types w))"
      using ok t free by (intro allowance_names.replace_apart) (auto simp: personnel_ok_def offers_ok_def same_allowance_type_def)
    with ok show ?case by (intro personnel_offers [OF ok]) (simp_all add: personnel_ok_def offers_ok_def)
  qed (intro keeps_personnel)
qed

section \<open>Positions\<close>

lemma create_position_keeps: "keeps personnel_ok (createPosition en name description actor)"
proof (rule keeps_leads)
  fix w :: world
  assume ok: "personnel_ok w"
  show "leads personnel_ok (createPosition en name description actor) w"
    unfolding createPosition_def Let_def
  proof ((rule leads_guard [where I = personnel_ok, OF _ ok], (intro fail_rules)[1])+, rule leads_then, goal_cases)
    case (1 found _ r v)
    then have "\<forall>p \<in> set (rows (positions w)). p_name p \<noteq> name" by (simp add: position_named_def find_row_None)
    with ok have "leads personnel_ok (atomically (bind (update_ret (\<lambda>w. (\<lparr>p_id = next_id (positions w), p_uuid = gen_uuid en ''positions'' (next_id (positions w)),
        p_name = name, p_active = True, p_description = description\<rparr>, w\<lparr>positions := insert_row (\<lambda>n. \<lparr>p_id = n, p_uuid = gen_uuid en ''positions'' n,
        p_name = name, p_active = True, p_description = description\<rparr>) (positions w)\<rparr>))) (\<lambda>created.
       bind (audit_position actor (p_id created) AT_CREATE (''Created position '' @ single_quoted (p_name created) @ ''.'')
         AU_CREATED JNull (JObj [(''name'', JStr name)])) (\<lambda>_. ret created)))) w"
      by (intro leads_personnel_atomic leads_update_ret keeps_personnel personnel_offers [OF ok])
        (auto simp: personnel_ok_def offers_ok_def same_position_def intro!: position_names.insert_apart)
    with 1(3) show ?case by (simp add: leads_def)
  qed (intro keeps_personnel)
qed

lemma update_position_keeps: "keeps personnel_ok (updatePosition uuid dto actor)"
proof (rule keeps_leads)
  fix w :: world
  assume ok: "personnel_ok w"
  show "leads personnel_ok (updatePosition uuid dto actor) w"
    unfolding updatePosition_def Let_def
  proof ((rule leads_guard [where I = personnel_ok, OF _ ok], (intro fail_rules)[1])+, goal_cases)
    case (1 current _)
    let ?saved = "current\<lparr>p_name := value_or (po_name dto) (p_name current),
       p_description := (case po_description dto of None \<Rightarrow> p_description current | Some d \<Rightarrow> Some d)\<rparr>"
    have c: "current \<in> set (rows (positions w))" using 1(1) by (auto simp: position_by_uuid_def op_success dest!: find_row_Some)
    show ?case
    proof (rule leads_then, goal_cases)
      case (1 r v)
      have "leads personnel_ok (atomically (bind (reads (\<lambda>w. find_row (\<lambda>p. p_id p \<noteq> p_id current \<and> p_name p = p_name ?saved) (positions w))) (\<lambda>clash.
       bind (ensure (clash = None) (UniqueIndex ''Positions_name_key'')) (\<lambda>_.
       bind (modify (\<lambda>w. w\<lparr>positions := update_rows (\<lambda>p. p_id p = p_id current) (\<lambda>_. ?saved) (positions w)\<rparr>)) (\<lambda>_.
       audit_position actor (p_id ?saved) AT_UPDATE (''Updated position '' @ single_quoted (p_name ?saved) @ ''.'') AU_UPDATED JNull
         (JObj (given_field ''name'' (po_name dto) @ given_field ''description'' (po_description dto)))))))) w"
      proof (rule leads_personnel_atomic [OF ok], (rule leads_guard [where I = personnel_ok, OF _ ok], (intro fail_rules)[1])+,
          rule leads_modify, goal_cases)
        case (1 clash)
        have "\<forall>x \<in> set (rows (positions w)). p_id x \<noteq> p_id current \<longrightarrow> p_name x \<noteq> p_name ?saved"
          using 1 by (auto simp: find_row_None)
        then have "apart p_id same_position (update_rows (\<lambda>x. p_id x = p_id current) (\<lambda>_. ?saved) (positions w))"
          using ok c by (intro position_names.replace_apart) (auto simp: personnel_ok_def offers_ok_def same_position_def)
        with ok show ?case by (intro personnel_offers [OF ok]) (simp_all add: personnel_ok_def offers_ok_def)
      qed (intro keeps_personnel)
      with 1 show ?case by (simp add: leads_def)
    qed (intro keeps_personnel)
  qed
qed

lemma switch_position_keeps: "keeps personnel_ok (switch_position active uuid msg actor)"
proof -
  have "keeps personnel_ok (modify (\<lambda>w. w\<lparr>positions := update_rows p (\<lambda>x. x\<lparr>p_active := b\<rparr>) (positions w)\<rparr>))" for p b
    by (rule keeps_modify, rule personnel_offers, assumption)
      (auto simp: personnel_ok_def offers_ok_def same_position_def intro!: position_names.update_apart)
  then show ?thesis unfolding switch_position_def by (intro keeps_personnel)
qed

lemma attach_category_keeps: "keeps personnel_ok (attachEmploymentCategory en uuid dto actor)"
proof (rule keeps_leads)
  fix w :: world
  assume ok: "personnel_ok w"
  show "leads personnel_ok (attachEmploymentCategory en uuid dto actor) w"
    unfolding attachEmploymentCategory_def
  proof ((rule leads_guard [where I = personnel_ok, OF _ ok], (intro fail_rules)[1])+, rule leads_modify, goal_cases)
    case (1 p c existing)
    then have "\<forall>v \<in> set (rows (position_variants w)). \<not> (vr_position v = p_id p \<and> vr_category v = c)"
      by (simp add: variant_of_def find_row_None)
    with ok show ?case
      by (intro personnel_offers [OF ok]) (auto simp: personnel_ok_def offers_ok_def same_variant_def intro!: offers.insert_apart)
  qed (intro keeps_personnel)
qed

lemma attach_type_keeps: "keeps personnel_ok (attachDeductionType en uuid value actor)"
proof (rule keeps_leads)
  fix w :: world
  assume ok: "personnel_ok w"
  show "leads personnel_ok (attachDeductionType en uuid value actor) w"
    unfolding attachDeductionType_def
    apply (rule leads_guard [where I = personnel_ok, OF _ ok], (intro fail_rules)[1])
    apply (rule leads_guard [where I = personnel_ok, OF _ ok], (intro fail_rules)[1])
    apply (rule leads_guard [where I = personnel_ok, OF _ ok], (intro fail_rules)[1])
  proof (rule leads_then, goal_cases)
    case (1 p t existing r v)
    have "personnel_ok (w\<lparr>position_deductions := insert_row (\<lambda>n. \<lparr>lk_id = n, lk_uuid = gen_uuid en ''position_deduction_types'' n,
        lk_position = p_id p, lk_type = t\<rparr>) (position_deductions w)\<rparr>)" if "existing = None"
      using ok 1(3) that
      by (intro personnel_offers [OF ok])
        (auto simp: personnel_ok_def offers_ok_def same_link_def find_row_None intro!: links.insert_apart)
    with 1(4) ok show ?case by (auto simp: when_op_def ret_def split: if_splits)
  qed (intro keeps_personnel)
qed

lemma detach_keeps: "keeps personnel_ok (detachEmploymentCategory uuid vuuid actor)" "keeps personnel_ok (detachDeductionType uuid value actor)"
proof -
  have v: "keeps personnel_ok (modify (\<lambda>w. w\<lparr>position_variants := delete_rows p (position_variants w)\<rparr>))" for p
    by (rule keeps_modify, rule personnel_offers, assumption)
      (auto simp: personnel_ok_def offers_ok_def intro!: offers.delete_apart)
  have l: "keeps personnel_ok (modify (\<lambda>w. w\<lparr>position_deductions := delete_rows p (position_deductions w)\<rparr>))" for p
    by (rule keeps_modify, rule personnel_offers, assumption)
      (auto simp: personnel_ok_def offers_ok_def intro!: links.delete_apart)
  show "keeps personnel_ok (detachEmploymentCategory uuid vuuid actor)" "keeps personnel_ok (detachDeductionType uuid value actor)"
    unfolding detachEmploymentCategory_def detachDeductionType_def by (intro keeps_personnel v l)+
qed

lemma update_category_keeps: "keeps personnel_ok (updateEmploymentCategory uuid vuuid dto actor)"
proof -
  have "keeps personnel_ok (modify (\<lambda>w. w\<lparr>position_variants := update_rows p (edited_variant dto) (position_variants w)\<rparr>))" for p
    by (rule keeps_modify, rule personnel_offers, assumption)
      (auto simp: personnel_ok_def offers_ok_def same_variant_def edited_variant_def intro!: offers.update_apart)
  then show ?thesis unfolding updateEmploymentCategory_def by (intro keeps_personnel)
qed

lemma templates_keep: "keeps personnel_ok (addAllowanceTemplate en uuid dto actor)" "keeps personnel_ok (updateAllowanceTemplate uuid tuuid dto actor)"
  "keeps personnel_ok (removeAllowanceTemplate uuid tuuid actor)"
  unfolding addAllowanceTemplate_def updateAllowanceTemplate_def removeAllowanceTemplate_def
  by (intro keeps_personnel keeps_elsewhere; simp)+

section \<open>Employees\<close>

lemma readonly_places [fail_rules]: "readonly (resolveDepartmentId s l)" "readonly (ensureOrganization a b)"
  "readonly (ensureDepartmentCanReceiveEmployees d)" "readonly (ensurePosition p)"
  unfolding resolveDepartmentId_def ensureOrganization_def ensureDepartmentCanReceiveEmployees_def ensurePosition_def
  by (intro fail_rules)+

lemma readonly_employee_checks [fail_rules]:
  "readonly (parseContractDate en v f)" "readonly (assertContractDatesValid a b c)" "readonly (variant_with_category p k)"
  "readonly (resolvePositionEmploymentCategory ps cs)" "readonly (optional_id v f)" "readonly (optional_department v l)"
  "readonly (optional_location v)" "readonly (resolve_placement en dto actor2 act)" "readonly (identity_free self who what fld v)"
  "readonly (identities_free self who dto)" "readonly (employee_indexes self e)" "readonly (optional_day en v)"
  "readonly (contract_after en v f st)" "readonly (new_day en v st)" "readonly (new_hired en v st)" "readonly (update_placement dto e)"
  "readonly (ensureActorCanAccessEmployee actor e)" "readonly (ensureActorCanUseScope actor2 l d act)"
proof -
  have scope: "readonly (scope_check a l d act)" for a l d act unfolding scope_check_def by (intro fail_rules)
  show acc: "readonly (ensureActorCanAccessEmployee actor e)" and use: "readonly (ensureActorCanUseScope actor2 l d act)" for actor2 l d act
    unfolding ensureActorCanAccessEmployee_def ensureActorCanUseScope_def by (intro fail_rules scope)+
  show parse: "readonly (parseContractDate en v f)" for en v f
    unfolding parseContractDate_def Let_def by (intro fail_rules)
  show dates: "readonly (assertContractDatesValid a b c)" for a b c
    unfolding assertContractDatesValid_def prod.case by (intro fail_rules)
  show var: "readonly (variant_with_category p k)" for p k
    unfolding variant_with_category_def by (intro fail_rules)
  show pos: "readonly (resolvePositionEmploymentCategory ps cs)" for ps cs
    unfolding resolvePositionEmploymentCategory_def by (intro fail_rules var)
  show oid: "readonly (optional_id v f)" for v f unfolding optional_id_def by (intro fail_rules readonly_toBigInt)
  show odep: "readonly (optional_department v l)" for v l unfolding optional_department_def by (intro fail_rules)
  show oloc: "readonly (optional_location v)" for v unfolding optional_location_def by (intro fail_rules)
  show "readonly (resolve_placement en dto actor2 act)"
    unfolding resolve_placement_def by (intro fail_rules parse dates oloc odep oid pos use)
  show idf: "readonly (identity_free self who what fld v)" for self who what fld v unfolding identity_free_def by (intro fail_rules)
  show "readonly (identities_free self who dto)" unfolding identities_free_def by (intro fail_rules idf)
  show "readonly (employee_indexes self e)" unfolding employee_indexes_def by (intro fail_rules)
  show day: "readonly (optional_day en v)" for v unfolding optional_day_def by (intro fail_rules)
  show "readonly (contract_after en v f st)" "readonly (new_day en v st)" "readonly (new_hired en v st)"
    unfolding contract_after_def new_day_def new_hired_def by (intro fail_rules parse day)+
  show "readonly (update_placement dto e)"
    unfolding update_placement_def by (intro fail_rules oloc odep oid)
qed

lemmas keeps_employee = keeps_personnel readonly_employee_checks [THEN keeps_readonly]

lemma indexes_free:
  assumes "employee_indexes self e w = (Inr u, v)" and "x \<in> set (rows (employees w))" and "Some (e_id x) \<noteq> self"
  shows "\<not> identity_clash x e"
  using assms by (auto simp: employee_indexes_def op_success list_ex_iff identity_clash_def shared_def)

lemma personnel_employees:
  assumes "personnel_ok w" and "apart e_id identity_clash t" and "next_id (employees w) \<le> next_id t"
  shows "personnel_ok (w\<lparr>employees := t\<rparr>)"
  using assms by (fastforce simp: personnel_defs)

text \<open>Someone hired with no structure yet.\<close>

definition unpaid_yet :: "nat \<Rightarrow> world \<Rightarrow> bool" where
  "unpaid_yet eid w \<longleftrightarrow> eid < next_id (employees w) \<and> (\<forall>s \<in> set (rows (structures w)). s_employee s \<noteq> eid)"

lemma leads_update_ret_to: "leads I (f (fst (g s))) (snd (g s)) \<Longrightarrow> leads I (bind (update_ret g) f) s"
  by (simp add: leads_def bind_update_ret)

text \<open>A new employee: nobody has its address, phone number or national id, and no structure is its own yet.\<close>

lemma insert_employee_leads:
  assumes ok: "personnel_ok w"
    and rest: "\<And>e v. personnel_ok v \<Longrightarrow> unpaid_yet (e_id e) v \<Longrightarrow> leads personnel_ok (f e) v"
  shows "leads personnel_ok (bind (insert_employee en dto pl hire) f) w"
  unfolding insert_employee_def Let_def bind_assoc
proof ((rule leads_guard [where I = personnel_ok, OF _ ok], (intro fail_rules)[1])+, rule leads_update_ret_to, goal_cases)
  case (1 hired start finish e u)
  let ?t = "insert_row (employee_row en dto pl hired start finish) (employees w)"
  have "\<not> identity_clash x (employee_row en dto pl hired start finish (next_id (employees w)))" if "x \<in> set (rows (employees w))" for x
    using indexes_free [OF 1(5) that] 1(4) by simp
  with ok have "apart e_id identity_clash ?t"
    by (intro persons.insert_apart) (auto simp: personnel_ok_def employee_row_def)
  with ok have "personnel_ok (w\<lparr>employees := ?t\<rparr>)" by (intro personnel_employees) simp_all
  moreover have "unpaid_yet (next_id (employees w)) (w\<lparr>employees := ?t\<rparr>)"
    using ok by (auto simp: unpaid_yet_def personnel_ok_def structures_ok_def)
  ultimately show ?case by (unfold fst_conv snd_conv, intro rest) (simp_all add: employee_row_def)
qed

lemma starting_rate: "starting_pay dto v MONTHLY e = (basic, daily) \<Longrightarrow> daily = monthly_daily_rate basic"
  by (auto simp: starting_pay_def Let_def)

lemma first_structure_ok:
  assumes ok: "structures_ok w" and new: "unpaid_yet eid w" and rate: "freq = MONTHLY \<Longrightarrow> daily = monthly_daily_rate basic"
  shows "structures_ok (w\<lparr>structures := insert_row (structure_row en eid freq basic daily ot tax t0) (structures w)\<rparr>)"
proof -
  have "close_structures eid t (structures w) = structures w" for t
    unfolding close_structures_def using new by (intro update_rows_id) (auto simp: unpaid_yet_def)
  then show ?thesis
    using replaced_structure_ok [OF ok _ rate, of eid] new by (simp add: unpaid_yet_def)
qed

lemma create_salary_leads:
  assumes ok: "personnel_ok w" and new: "unpaid_yet (e_id e) w" and rest: "\<And>v. keeps personnel_ok (f v)"
  shows "leads personnel_ok (bind (create_salary en dto variant e) f) w"
proof (rule leads_then [OF _ rest])
  fix r t
  assume run: "create_salary en dto variant e w = (r, t)"
  show "personnel_ok t"
  proof (cases "t = w")
    case False
    with run obtain v cat where var: "variant = Some (v, cat)" and some: "\<not> (ne_basic_salary dto = None \<and> ne_daily_rate dto = None)"
      by (auto simp: create_salary_def split: option.splits if_splits)
    obtain basic daily where pay: "starting_pay dto v (c_frequency cat) e = (basic, daily)" by force
    have t: "t = w\<lparr>structures := insert_row (structure_row en (e_id e) (c_frequency cat) basic daily (value_or (vr_overtime_rate v) 0)
        (value_or (ne_tax dto) 0) (now en)) (structures w)\<rparr>"
      using run some unfolding create_salary_def var option.case prod.case pay insert_structure_def by (simp add: if_not_P)
    have "structures_ok t"
      unfolding t using ok new pay starting_rate [of dto v e] by (intro first_structure_ok) (auto simp: personnel_ok_def)
    then show ?thesis unfolding t by (rule personnel_structures [OF ok])
  qed (simp add: ok)
qed

lemma inherit_benefits_keeps: "keeps personnel_ok (inherit_benefits en pos e)"
  unfolding inherit_benefits_def by (intro keeps_personnel keeps_pair keeps_elsewhere) simp

lemma create_employee_keeps: "keeps personnel_ok (createEmployee en dto actor)"
proof (rule keeps_leads)
  fix w :: world
  assume ok: "personnel_ok w"
  show "leads personnel_ok (createEmployee en dto actor) w"
    unfolding createEmployee_def
  proof ((rule leads_guard [where I = personnel_ok, OF _ ok], (intro fail_rules)[1])+, rule leads_then, goal_cases)
    case (1 _ pl r t)
    have "leads personnel_ok (atomically (bind (identities_free None ''An'' dto) (\<lambda>_. bind (insert_employee en dto pl (ne_hired dto)) (\<lambda>e.
       bind (reads (\<lambda>w. serializeEmployee w e None)) (\<lambda>view. bind (create_salary en dto (pl_variant pl) e) (\<lambda>_.
       bind (inherit_benefits en (pl_position pl) e) (\<lambda>_. bind (case actor of None \<Rightarrow> ret ()
         | Some a \<Rightarrow> audit_created (cu_id a) e ''Created employee profile with salary and benefits.'' pl) (\<lambda>_. ret view)))))))) w"
    proof (rule leads_personnel_atomic [OF ok], rule leads_guard [where I = personnel_ok, OF _ ok], (intro fail_rules)[1],
        rule insert_employee_leads [OF ok], goal_cases)
      case (1 _ e v)
      then show ?case
        by (intro leads_guard [where I = personnel_ok] create_salary_leads fail_rules keeps_employee inherit_benefits_keeps)
    qed
    with 1(3) show ?case by (simp add: leads_def)
  qed (intro keeps_employee)
qed

lemma import_employee_keeps: "keeps personnel_ok (import_employee en actor dto)"
proof (rule keeps_leads)
  fix w :: world
  assume ok: "personnel_ok w"
  show "leads personnel_ok (import_employee en actor dto) w"
    unfolding import_employee_def
  proof ((rule leads_guard [where I = personnel_ok, OF _ ok], (intro fail_rules)[1])+, rule leads_personnel_atomic [OF ok],
      rule leads_guard [where I = personnel_ok, OF _ ok], (intro fail_rules)[1], rule insert_employee_leads [OF ok], goal_cases)
    case (1 _ pl _ e v)
    then show ?case
      by (intro leads_guard [where I = personnel_ok] create_salary_leads fail_rules keeps_employee)
  qed
qed

lemma import_rows_keeps: "keeps personnel_ok (import_rows en actor n xs)"
proof (induction xs arbitrary: n)
  case (Cons x xs)
  show ?case
  proof (rule keepsI)
    fix w r t
    assume ok: "personnel_ok w" and run: "import_rows en actor n (x # xs) w = (r, t)"
    obtain q v where step: "import_employee en actor x w = (q, v)" by force
    have v: "personnel_ok v" by (rule keepsD [OF import_employee_keeps ok step])
    have "keeps personnel_ok (bind (import_rows en actor (Suc n) xs) (\<lambda>(a, b). ret (g a b)))" for g :: "_ \<Rightarrow> _ \<Rightarrow> employee_view list \<times> (nat \<times> error) list"
      by (intro keeps_rules keeps_pair Cons.IH)
    from keepsD [OF this v] run show "personnel_ok t" by (cases q) (auto simp: step)
  qed
qed (simp add: keeps_rules)

lemma bulk_import_keeps: "keeps personnel_ok (bulkImport en xs actor)"
  unfolding bulkImport_def by (intro keeps_employee keeps_pair import_rows_keeps)

section \<open>The unified update\<close>

lemma keeps_archive: "keeps personnel_ok (archivePendingDepartmentIfEmpty en d by)"
  unfolding archivePendingDepartmentIfEmpty_def archiveDepartmentNow_def
  by (intro keeps_personnel keeps_elsewhere; simp)

lemma revised_rate: "snd (revised_pay dto v MONTHLY current e) = monthly_daily_rate (fst (revised_pay dto v MONTHLY current e))"
  by (simp add: revised_pay_def Let_def)

lemma revised_structures_ok:
  assumes ok: "structures_ok w" and rate: "freq = MONTHLY \<Longrightarrow> snd pay = monthly_daily_rate (fst pay)"
  shows "structures_ok (w\<lparr>structures := update_rows p (revise_structure freq pay ot tax) (structures w)\<rparr>)"
proof -
  have "apart s_id open_clash (update_rows p (revise_structure freq pay ot tax) (structures w))"
    using ok by (intro open_structures.update_apart) (auto simp: structures_ok_def open_clash_def revise_structure_def)
  with ok rate show ?thesis by (auto simp: structures_ok_def monthly_rate_ok_def revise_structure_def)
qed

lemma update_salary_leads:
  assumes ok: "personnel_ok w" and eid: "e_id e < next_id (employees w)"
  shows "leads personnel_ok (update_salary en dto pl e saved) w"
proof (cases "set_somewhere (or_else (pl_position pl) (e_position e)) \<and> set_somewhere (or_else (pl_category pl) (e_category e))
    \<and> has_salary_patch dto pl")
  case True
  have sok: "structures_ok w" using ok by (simp add: personnel_ok_def)
  show ?thesis
    unfolding update_salary_def Let_def if_not_P [of "\<not> (_ \<and> _ \<and> _)", unfolded not_not, OF True]
  proof (rule leads_guard [where I = personnel_ok, OF _ ok], (intro fail_rules)[1], goal_cases)
    case (1 vc)
    obtain v c where vc: "vc = (v, c)" by (cases vc)
    have pay: "c_frequency c = MONTHLY \<Longrightarrow> snd (revised_pay dto v (c_frequency c) cur saved) = monthly_daily_rate (fst (revised_pay dto v (c_frequency c) cur saved))" for cur
      using revised_rate by simp
    show ?case
      unfolding vc prod.case leads_def bind_reads replace_structure_def
      using personnel_structures [OF ok revised_structures_ok [OF sok pay]] personnel_structures [OF ok replaced_structure_ok [OF sok eid pay]]
      by (simp split: option.split)
  qed
next
  case False
  then show ?thesis using ok by (auto simp: update_salary_def Let_def leads_def)
qed

lemma update_allowance_keeps: "keeps personnel_ok (update_allowance en dto eid)"
  unfolding update_allowance_def by (intro keeps_personnel keeps_elsewhere) simp_all

lemma edited_id [simp]: "e_id (edited_employee dto pl h s f e) = e_id e"
  by (simp add: edited_employee_def)

lemma save_profile_leads:
  assumes ok: "personnel_ok w" and e: "e \<in> set (rows (employees w))"
    and rest: "\<And>saved v. personnel_ok v \<Longrightarrow> e_id e < next_id (employees v) \<Longrightarrow> leads personnel_ok (f saved) v"
  shows "leads personnel_ok (bind (save_profile en dto pl e) f) w"
  unfolding save_profile_def Let_def bind_assoc
proof ((rule leads_guard [where I = personnel_ok, OF _ ok], (intro fail_rules)[1])+, goal_cases)
  case (1 hired start finish u)
  let ?saved = "edited_employee dto pl hired start finish e"
  have eid: "e_id e < next_id (employees w)" using ok e by (auto simp: personnel_ok_def apart_def table_ok_def)
  have "apart e_id identity_clash (update_rows (\<lambda>x. e_id x = e_id e) (\<lambda>_. ?saved) (employees w))"
    using ok e indexes_free [OF 1(4)] by (intro persons.replace_apart) (auto simp: personnel_ok_def)
  with ok have "personnel_ok (w\<lparr>employees := update_rows (\<lambda>x. e_id x = e_id e) (\<lambda>_. ?saved) (employees w)\<rparr>)"
    by (intro personnel_employees) simp_all
  then have "leads personnel_ok (f ?saved) (w\<lparr>employees := update_rows (\<lambda>x. e_id x = e_id e) (\<lambda>_. ?saved) (employees w)\<rparr>)"
    using eid by (intro rest) simp_all
  then show ?case by (simp add: leads_def)
qed

lemma update_employee_keeps: "keeps personnel_ok (updateEmployee en uuid dto actor)"
proof (rule keeps_leads)
  fix w :: world
  assume ok: "personnel_ok w"
  show "leads personnel_ok (updateEmployee en uuid dto actor) w"
    unfolding updateEmployee_def
  proof ((rule leads_guard [where I = personnel_ok, OF _ ok], (intro fail_rules)[1])+, rule leads_then, goal_cases)
    case (1 e _ start finish _ pl r t)
    have e: "e \<in> set (rows (employees w))" using findEmployee_success [OF 1(1)] by simp
    have "leads personnel_ok (atomically (bind (identities_free (Some (e_id e)) ''Another'' dto) (\<lambda>_. bind (save_profile en dto pl e) (\<lambda>saved.
       bind (update_salary en dto pl e saved) (\<lambda>_. bind (update_allowance en dto (e_id e)) (\<lambda>_. bind (audit_profile actor e saved) (\<lambda>_.
       reads (\<lambda>w. (saved, serializeEmployee w saved None))))))))) w"
    proof (rule leads_personnel_atomic [OF ok], rule leads_guard [where I = personnel_ok, OF _ ok], (intro fail_rules)[1],
        rule save_profile_leads [OF ok e], goal_cases)
      case (1 _ saved v)
      then show ?case
        by (intro leads_then [where I = personnel_ok] keeps_employee update_allowance_keeps) (rule leadsD [OF update_salary_leads])
    qed
    with 1(7) show ?case by (simp add: leads_def)
  qed (intro keeps_employee keeps_pair keeps_archive)
qed

section \<open>Pauses, suspensions and transfers\<close>

lemma keeps_employee_rows:
  assumes "\<And>e. e_id (f e) = e_id e \<and> e_email (f e) = e_email e \<and> e_phone (f e) = e_phone e \<and> e_national_id (f e) = e_national_id e"
  shows "keeps personnel_ok (modify (\<lambda>w. w\<lparr>employees := update_rows p f (employees w)\<rparr>))"
proof (rule keeps_modify)
  fix w :: world
  assume ok: "personnel_ok w"
  then show "personnel_ok (w\<lparr>employees := update_rows p f (employees w)\<rparr>)"
    using assms by (intro personnel_employees persons.update_apart) (simp_all add: personnel_ok_def identity_clash_def)
qed

lemma people_keep: "keeps personnel_ok (autoPauseExpiredContracts en loc)" "keeps personnel_ok (changeStatus en uuid st act reason actor)"
  "keeps personnel_ok (transfer en uuid tdto actor)" "keeps personnel_ok (approveTransfer en uuid actor)"
  "keeps personnel_ok (rejectTransfer en uuid text actor)"
proof -
  have one: "keeps personnel_ok (pause_one e)" for e
    unfolding pause_one_def by (intro keeps_personnel keeps_employee_rows keeps_elsewhere) simp_all
  show "keeps personnel_ok (autoPauseExpiredContracts en loc)"
    unfolding autoPauseExpiredContracts_def by (intro keeps_personnel one)
  show "keeps personnel_ok (changeStatus en uuid st act reason actor)"
    unfolding changeStatus_def
    by (intro keeps_personnel keeps_employee_rows keeps_elsewhere readonly_findEmployee [THEN keeps_readonly]) simp_all
  show "keeps personnel_ok (transfer en uuid tdto actor)"
    unfolding transfer_def
    by (intro keeps_employee readonly_places [THEN keeps_readonly] keeps_elsewhere_ret readonly_findEmployee [THEN keeps_readonly]
        readonly_resolveWorkingLocationId [THEN keeps_readonly]) (simp_all add: Let_def)
  have top: "keeps personnel_ok (finalize_transfer en q e actor)" "keeps personnel_ok (after_transfer en q e actor)" for q e
    unfolding finalize_transfer_def after_transfer_def
    by (intro keeps_personnel keeps_employee_rows keeps_elsewhere keeps_archive; simp)+
  show "keeps personnel_ok (approveTransfer en uuid actor)"
    unfolding approveTransfer_def approve_at_branch_def approve_at_top_def Let_def
    by (intro keeps_personnel top readonly_findTransfer [THEN keeps_readonly])
  show "keeps personnel_ok (rejectTransfer en uuid text actor)"
    unfolding rejectTransfer_def by (intro keeps_personnel readonly_findTransfer [THEN keeps_readonly])
qed

section \<open>Sequences of requests\<close>

datatype personnel_request =
    CreateStructure structure_dto
  | UpdateStructure string structure_update
  | CreateDeductionType deduction_type_dto
  | UpdateDeductionType string deduction_type_update
  | CreateEmployeeDeduction employee_deduction_dto
  | UpdateEmployeeDeduction string deduction_update
  | DeleteEmployeeDeduction string
  | CreateAllowance allowance_dto
  | UpdateAllowance string allowance_update
  | DeactivateAllowance string
  | CreateAllowanceType allowance_type_dto
  | UpdateAllowanceType string allowance_type_update
  | CreatePosition string "string option"
  | UpdatePosition string position_dto
  | ArchivePosition string
  | ReactivatePosition string
  | AttachCategory string variant_dto
  | UpdateCategory string string variant_dto
  | DetachCategory string string
  | AttachDeductionType string string
  | DetachDeductionType string string
  | AddTemplate string template_dto
  | UpdateTemplate string string template_dto
  | RemoveTemplate string string
  | CreateEmployee employee_dto
  | UpdateEmployee string employee_dto
  | ImportEmployees "employee_dto list"
  | PauseExpired "nat option"
  | SuspendEmployee string "string option"
  | ReactivateEmployee string
  | TransferEmployee string transfer_dto
  | ApproveTransfer string
  | RejectTransfer string string

definition run_personnel :: "env \<Rightarrow> current_user \<Rightarrow> personnel_request \<Rightarrow> unit service" where
  "run_personnel en actor q = (case q of
       CreateStructure dto \<Rightarrow> bind (createStructure en dto actor) (\<lambda>_. ret ())
     | UpdateStructure u dto \<Rightarrow> bind (updateStructure en u dto actor) (\<lambda>_. ret ())
     | CreateDeductionType dto \<Rightarrow> bind (createDeductionType en dto actor) (\<lambda>_. ret ())
     | UpdateDeductionType u dto \<Rightarrow> bind (updateDeductionType en u dto actor) (\<lambda>_. ret ())
     | CreateEmployeeDeduction dto \<Rightarrow> bind (createEmployeeDeduction en dto actor) (\<lambda>_. ret ())
     | UpdateEmployeeDeduction u dto \<Rightarrow> bind (updateEmployeeDeduction en u dto actor) (\<lambda>_. ret ())
     | DeleteEmployeeDeduction u \<Rightarrow> bind (deleteEmployeeDeduction en u actor) (\<lambda>_. ret ())
     | CreateAllowance dto \<Rightarrow> bind (createAllowance en dto actor) (\<lambda>_. ret ())
     | UpdateAllowance u dto \<Rightarrow> bind (updateAllowance u dto actor) (\<lambda>_. ret ())
     | DeactivateAllowance u \<Rightarrow> bind (deactivateAllowance u actor) (\<lambda>_. ret ())
     | CreateAllowanceType dto \<Rightarrow> bind (createAllowanceType en dto actor) (\<lambda>_. ret ())
     | UpdateAllowanceType u dto \<Rightarrow> bind (updateAllowanceType u dto actor) (\<lambda>_. ret ())
     | CreatePosition n d \<Rightarrow> bind (createPosition en n d actor) (\<lambda>_. ret ())
     | UpdatePosition u dto \<Rightarrow> bind (updatePosition u dto actor) (\<lambda>_. ret ())
     | ArchivePosition u \<Rightarrow> bind (archivePosition u actor) (\<lambda>_. ret ())
     | ReactivatePosition u \<Rightarrow> bind (reactivatePosition u actor) (\<lambda>_. ret ())
     | AttachCategory u dto \<Rightarrow> bind (attachEmploymentCategory en u dto actor) (\<lambda>_. ret ())
     | UpdateCategory u v dto \<Rightarrow> bind (updateEmploymentCategory u v dto actor) (\<lambda>_. ret ())
     | DetachCategory u v \<Rightarrow> bind (detachEmploymentCategory u v actor) (\<lambda>_. ret ())
     | AttachDeductionType u t \<Rightarrow> bind (attachDeductionType en u t actor) (\<lambda>_. ret ())
     | DetachDeductionType u t \<Rightarrow> bind (detachDeductionType u t actor) (\<lambda>_. ret ())
     | AddTemplate u dto \<Rightarrow> bind (addAllowanceTemplate en u dto actor) (\<lambda>_. ret ())
     | UpdateTemplate u t dto \<Rightarrow> bind (updateAllowanceTemplate u t dto actor) (\<lambda>_. ret ())
     | RemoveTemplate u t \<Rightarrow> bind (removeAllowanceTemplate u t actor) (\<lambda>_. ret ())
     | CreateEmployee dto \<Rightarrow> bind (createEmployee en dto (Some actor)) (\<lambda>_. ret ())
     | UpdateEmployee u dto \<Rightarrow> bind (updateEmployee en u dto actor) (\<lambda>_. ret ())
     | ImportEmployees xs \<Rightarrow> bind (bulkImport en xs actor) (\<lambda>_. ret ())
     | PauseExpired loc \<Rightarrow> bind (autoPauseExpiredContracts en loc) (\<lambda>_. ret ())
     | SuspendEmployee u reason \<Rightarrow> bind (suspend en u reason actor) (\<lambda>_. ret ())
     | ReactivateEmployee u \<Rightarrow> bind (reactivate en u actor) (\<lambda>_. ret ())
     | TransferEmployee u dto \<Rightarrow> bind (transfer en u dto actor) (\<lambda>_. ret ())
     | ApproveTransfer u \<Rightarrow> approveTransfer en u actor
     | RejectTransfer u reason \<Rightarrow> rejectTransfer en u reason actor)"

lemma keeps_then_ret: "keeps I m \<Longrightarrow> keeps I (bind m (\<lambda>_. ret ()))"
  by (intro keeps_rules)

lemmas personnel_operations = create_structure_keeps update_structure_keeps create_type_keeps update_type_keeps deductions_keep
  allowances_keep create_allowance_type_keeps update_allowance_type_keeps create_position_keeps update_position_keeps
  switch_position_keeps attach_category_keeps attach_type_keeps detach_keeps update_category_keeps templates_keep
  create_employee_keeps bulk_import_keeps update_employee_keeps people_keep

lemma run_personnel_keeps: "keeps personnel_ok (run_personnel en actor q)"
  unfolding run_personnel_def archivePosition_def reactivatePosition_def suspend_def reactivate_def
  by (cases q; simp only: personnel_request.case; intro keeps_then_ret personnel_operations)

inductive personnel_reach :: "world \<Rightarrow> world \<Rightarrow> bool" where
  personnel_start: "personnel_reach w w"
| personnel_step: "personnel_reach w v \<Longrightarrow> run_personnel en actor q v = (r, u) \<Longrightarrow> personnel_reach w u"

lemma personnel_reach_ok: "personnel_reach w v \<Longrightarrow> personnel_ok w \<Longrightarrow> personnel_ok v"
  by (induction rule: personnel_reach.induct) (blast intro: keepsD [OF run_personnel_keeps])+

end
