(* ===== verification/Payroll_Amounts.thy ===== *)
theory Payroll_Amounts
  imports Payroll_Calculation
begin

text \<open>
  What the payroll calculation promises: the period it covers, the attendance it counts,
  and how gross, deductions and net are tied in each of the pay regimes.
\<close>

section \<open>The period\<close>

lemma next_month_first:
  assumes "1 \<le> m" and "m \<le> 12"
  shows "(case next_month (y, m) of (y', m') \<Rightarrow> month_first y' m') = month_first y m + month_len y m"
proof (cases "m = 12")
  case True
  have "month_first (y + 1) 1 = year_first y + sum_list (map (month_len y) [1..<13])"
    using year_first_diff by (simp add: month_first_def)
  also have "\<dots> = month_first y 12 + month_len y 12"
    using upt_Suc_append [of 1 12] by (simp add: month_first_def)
  finally show ?thesis using True by (simp add: next_month_def)
next
  case False
  with assms have "[1..<Suc m] = [1..<m] @ [m]" by simp
  then show ?thesis using assms False by (simp add: next_month_def month_first_def)
qed

lemma default_period_days:
  assumes "bd_start dto = None" and "bd_end dto = None" and "1 \<le> bd_month dto" and "bd_month dto \<le> 12"
  shows "kigali_day (period_start dto) = month_first (int (bd_year dto)) (bd_month dto)"
    and "kigali_day (period_end dto) = month_first (int (bd_year dto)) (bd_month dto) + month_len (int (bd_year dto)) (bd_month dto) - 1"
    and "period_calendar_days dto = month_len (int (bd_year dto)) (bd_month dto)"
  using assms next_month_first [of "bd_month dto" "int (bd_year dto)"]
  by (simp_all add: period_start_def period_end_def period_calendar_days_def split: prod.splits)

lemma month_first_day: "day_number y m d = month_first y m + d - 1"
  by (simp add: day_number_def)

lemma default_period_civil:
  assumes "bd_start dto = None" and "bd_end dto = None" and "1 \<le> bd_month dto" and "bd_month dto \<le> 12" and "1970 \<le> bd_year dto"
  defines "y \<equiv> int (bd_year dto)" and "m \<equiv> bd_month dto"
  shows "civil (kigali_day (period_start dto)) = (y, m, 1)
    \<and> civil (kigali_day (period_end dto)) = (y, m, month_len y m) \<and> period_calendar_days dto = month_len y m"
proof -
  have len: "1 \<le> month_len y m" by (simp add: month_len_def)
  have "kigali_day (period_start dto) = day_number y m 1"
    "kigali_day (period_end dto) = day_number y m (month_len y m)"
    using default_period_days [OF assms(1-4)] by (simp_all add: month_first_day y_def m_def)
  moreover have "1970 \<le> y" using assms(5) by (simp add: y_def)
  ultimately show ?thesis
    using default_period_days(3) [OF assms(1-4)] len assms(3,4) by (simp add: civil_day_number y_def m_def)
qed

text \<open>
  The client stores the date an instant has in UTC.  The period starts at midnight in
  Kigali, the evening before in UTC, so the last day of the month before is counted.
\<close>

lemma attendance_window:
  assumes "to_date en = utc_date" and "bd_start dto = None" and "bd_end dto = None" and "1 \<le> bd_month dto" and "bd_month dto \<le> 12"
  shows "period_attendance en w eid dto = select (\<lambda>r. r_employee r = eid
    \<and> month_first (int (bd_year dto)) (bd_month dto) - 1 \<le> r_date r
    \<and> r_date r < month_first (int (bd_year dto)) (bd_month dto) + month_len (int (bd_year dto)) (bd_month dto)) (time_records w)"
proof -
  have "to_date en (period_start dto) = month_first (int (bd_year dto)) (bd_month dto) - 1"
    using assms(1,2) by (simp add: period_start_def utc_date_kigali_start)
  moreover have "to_date en (period_end dto) = month_first (int (bd_year dto)) (bd_month dto) + month_len (int (bd_year dto)) (bd_month dto) - 1"
    using assms(1,3) next_month_first [OF assms(4,5), of "int (bd_year dto)"]
    by (simp add: period_end_def utc_date_kigali_end split: prod.splits)
  ultimately show ?thesis
    by (simp add: period_attendance_def)
qed

section \<open>The result\<close>

lemma calculation_result:
  "calculateEmployeePayroll en w dto e = Inr r \<longleftrightarrow> period_start dto \<le> period_end dto
    \<and> r = map_option (calculation_of en w e dto) (find_pay_structure en w (e_id e) dto)"
  by (auto simp: calculateEmployeePayroll_def split: option.splits)

lemma find_pay_structure_None:
  "find_pay_structure en w eid dto = None \<longleftrightarrow> (\<forall>s \<in> set (rows (structures w)). \<not> (s_employee s = eid
     \<and> s_from s \<le> to_date en (period_end dto) \<and> (case s_to s of None \<Rightarrow> True | Some t \<Rightarrow> t \<ge> period_start dto)))"
proof -
  have "(case sort_key f xs of [] \<Rightarrow> None | s # _ \<Rightarrow> Some s) = None \<longleftrightarrow> xs = []" for f :: "pay_structure \<Rightarrow> int" and xs
    by (metis (no_types, lifting) length_0_conv length_sort list.case_eq_if option.distinct(1))
  then show ?thesis by (simp add: find_pay_structure_def select_def filter_empty_conv)
qed

lemma find_pay_structure_latest:
  assumes "find_pay_structure en w eid dto = Some s"
  shows "s \<in> set (rows (structures w)) \<and> s_employee s = eid \<and> s_from s \<le> to_date en (period_end dto)
    \<and> (case s_to s of None \<Rightarrow> True | Some t \<Rightarrow> t \<ge> period_start dto)
    \<and> (\<forall>s' \<in> set (rows (structures w)). s_employee s' = eid \<and> s_from s' \<le> to_date en (period_end dto)
        \<and> (case s_to s' of None \<Rightarrow> True | Some t \<Rightarrow> t \<ge> period_start dto) \<longrightarrow> s_from s' \<le> s_from s)"
proof -
  let ?p = "\<lambda>s. s_employee s = eid \<and> s_from s \<le> to_date en (period_end dto)
          \<and> (case s_to s of None \<Rightarrow> True | Some t \<Rightarrow> t \<ge> period_start dto)"
  obtain rest where sorted: "sort_key (\<lambda>s. - s_from s) (select ?p (structures w)) = s # rest"
    using assms by (auto simp: find_pay_structure_def split: list.splits)
  have mem: "set (s # rest) = {x \<in> set (rows (structures w)). ?p x}"
    unfolding sorted [symmetric] by simp
  have "sorted (map (\<lambda>s. - s_from s) (s # rest))"
    unfolding sorted [symmetric] by simp
  then have "s_from x \<le> s_from s" if "x \<in> set (s # rest)" for x using that by auto
  then show ?thesis using mem by auto
qed

text \<open>The pay structures that cover the period of a request.\<close>

definition covering_structures :: "env \<Rightarrow> world \<Rightarrow> employee \<Rightarrow> create_batch_dto \<Rightarrow> pay_structure set" where
  "covering_structures en w e dto = {s \<in> set (rows (structures w)). s_employee s = e_id e
     \<and> s_from s \<le> to_date en (period_end dto) \<and> (case s_to s of None \<Rightarrow> True | Some t \<Rightarrow> t \<ge> period_start dto)}"

lemma structure_choice:
  "case find_pay_structure en w (e_id e) dto of None \<Rightarrow> covering_structures en w e dto = {}
   | Some s \<Rightarrow> s \<in> covering_structures en w e dto \<and> (\<forall>s' \<in> covering_structures en w e dto. s_from s' \<le> s_from s)"
  using find_pay_structure_None [of en w "e_id e" dto] find_pay_structure_latest [of en w "e_id e" dto]
  by (cases "find_pay_structure en w (e_id e) dto") (auto simp: covering_structures_def)

text \<open>Gross, deductions and net, whatever the regime.\<close>

lemma monthly_pay_net: "pa_net (monthly_pay bp n r ot als taxes lines)
    = max 0 (pa_gross (monthly_pay bp n r ot als taxes lines) - pa_deductions (monthly_pay bp n r ot als taxes lines))"
  by (simp add: monthly_pay_def Let_def algebra_simps)

lemma over21_pay_net: "pa_net (over21_pay b n r ot als lines)
    = max 0 (pa_gross (over21_pay b n r ot als lines) - pa_deductions (over21_pay b n r ot als lines))"
  by (simp add: over21_pay_def Let_def)

lemma short_pay_net: "pa_net (short_pay b ot) = max 0 (pa_gross (short_pay b ot) - pa_deductions (short_pay b ot))"
  by (simp add: short_pay_def Let_def)

lemma calculation_fields:
  "pc_gross (calculation_of en w e dto s) = pa_gross (pay_of en w e dto s)"
  "pc_net (calculation_of en w e dto s) = pa_net (pay_of en w e dto s)"
  "pc_base (calculation_of en w e dto s) = pa_base (pay_of en w e dto s)"
  "pc_allowance (calculation_of en w e dto s) = pa_allowance (pay_of en w e dto s)"
  "pc_tax (calculation_of en w e dto s) = pa_tax (pay_of en w e dto s)"
  "pc_deductions (calculation_of en w e dto s) = pa_deductions (pay_of en w e dto s)"
  "md_overtime_amount (pc_metadata (calculation_of en w e dto s)) = pa_overtime (pay_of en w e dto s)"
  "md_configured_deductions_amount (pc_metadata (calculation_of en w e dto s)) = sum_of dl_prorated (pa_lines (pay_of en w e dto s))"
  "md_absent_days_deduction (pc_metadata (calculation_of en w e dto s)) = bp_absent_deduction
     (compute_base_pay s (present_days (period_attendance en w (e_id e) dto))
       (expected_work_days (s_frequency s) (period_calendar_days dto) (bd_work_days dto) (contract_days e)))"
  by (simp_all add: calculation_of_def Let_def)

lemma pay_regimes:
  obtains (monthly) k r ot als taxes lines where "s_frequency s = MONTHLY"
    "pay_of en w e dto s = monthly_pay (compute_base_pay s (present_days (period_attendance en w (e_id e) dto))
       (expected_work_days (s_frequency s) (period_calendar_days dto) (bd_work_days dto) (contract_days e))) k r ot als taxes lines"
  | (long) b k r ot als lines where "s_frequency s \<noteq> MONTHLY" "present_days (period_attendance en w (e_id e) dto) > 21"
    "pay_of en w e dto s = over21_pay b k r ot als lines"
  | (short) b ot where "s_frequency s \<noteq> MONTHLY" "present_days (period_attendance en w (e_id e) dto) \<le> 21"
    "pay_of en w e dto s = short_pay b ot"
proof (cases "s_frequency s = MONTHLY")
  case True
  show ?thesis by (rule monthly [OF True], unfold pay_of_def Let_def if_P [OF True], rule refl)
next
  case False
  then show ?thesis
  proof (cases "present_days (period_attendance en w (e_id e) dto) > 21")
    case True
    show ?thesis by (rule long [OF False True], unfold pay_of_def Let_def if_not_P [OF False] if_P [OF True], rule refl)
  next
    case short: False
    then have few: "present_days (period_attendance en w (e_id e) dto) \<le> 21" by simp
    show ?thesis by (rule that(3) [OF False few], unfold pay_of_def Let_def if_not_P [OF False] if_not_P [OF short], rule refl)
  qed
qed

lemma calculation_net:
  "pc_net (calculation_of en w e dto s) = max 0 (pc_gross (calculation_of en w e dto s) - pc_deductions (calculation_of en w e dto s))"
  unfolding calculation_fields
  by (rule pay_regimes [of s en w e dto]) (simp_all only: monthly_pay_net over21_pay_net short_pay_net)

lemma regime_gross:
  "pa_gross (monthly_pay bp k r ot als taxes lines) = pa_base (monthly_pay bp k r ot als taxes lines)
     + pa_allowance (monthly_pay bp k r ot als taxes lines) + pa_overtime (monthly_pay bp k r ot als taxes lines)"
  "pa_gross (over21_pay b k r ot als lines) = pa_base (over21_pay b k r ot als lines)
     + pa_allowance (over21_pay b k r ot als lines) + pa_overtime (over21_pay b k r ot als lines)"
  "pa_gross (short_pay b ot) = pa_base (short_pay b ot) + pa_allowance (short_pay b ot) + pa_overtime (short_pay b ot)"
  by (simp_all add: monthly_pay_def over21_pay_def short_pay_def Let_def)

lemma regime_deductions:
  "pa_deductions (monthly_pay bp k r ot als taxes lines) = pa_tax (monthly_pay bp k r ot als taxes lines)
     + sum_of dl_prorated (pa_lines (monthly_pay bp k r ot als taxes lines)) + bp_absent_deduction bp"
  "pa_deductions (over21_pay b k r ot als lines) = pa_tax (over21_pay b k r ot als lines)
     + sum_of dl_prorated (pa_lines (over21_pay b k r ot als lines))"
  "pa_deductions (short_pay b ot) = pa_tax (short_pay b ot) + sum_of dl_prorated (pa_lines (short_pay b ot))"
  by (simp_all add: monthly_pay_def over21_pay_def short_pay_def Let_def)

lemma calculation_gross:
  "pc_gross (calculation_of en w e dto s) = pc_base (calculation_of en w e dto s) + pc_allowance (calculation_of en w e dto s)
     + md_overtime_amount (pc_metadata (calculation_of en w e dto s))"
  unfolding calculation_fields by (rule pay_regimes [of s en w e dto]) (simp_all only: regime_gross)

lemma calculation_deductions:
  "pc_deductions (calculation_of en w e dto s) = pc_tax (calculation_of en w e dto s)
     + md_configured_deductions_amount (pc_metadata (calculation_of en w e dto s))
     + (if s_frequency s = MONTHLY then md_absent_days_deduction (pc_metadata (calculation_of en w e dto s)) else 0)"
  unfolding calculation_fields
proof (rule pay_regimes [of s en w e dto])
  fix k r ot als taxes lines
  assume m: "s_frequency s = MONTHLY" and pay: "pay_of en w e dto s = monthly_pay (compute_base_pay s
       (present_days (period_attendance en w (e_id e) dto))
       (expected_work_days (s_frequency s) (period_calendar_days dto) (bd_work_days dto) (contract_days e))) k r ot als taxes lines"
  show "pa_deductions (pay_of en w e dto s) = pa_tax (pay_of en w e dto s) + sum_of dl_prorated (pa_lines (pay_of en w e dto s))
    + (if s_frequency s = MONTHLY then bp_absent_deduction (compute_base_pay s (present_days (period_attendance en w (e_id e) dto))
       (expected_work_days (s_frequency s) (period_calendar_days dto) (bd_work_days dto) (contract_days e))) else 0)"
    unfolding pay if_P [OF m] by (rule regime_deductions)
qed (simp_all only: regime_deductions if_False add_0_right)

text \<open>Daily and custom contracts up to the threshold of 21 days.\<close>

lemma short_contract:
  assumes "s_frequency s \<noteq> MONTHLY" and "present_days (period_attendance en w (e_id e) dto) \<le> 21"
  shows "pc_tax (calculation_of en w e dto s) = 0 \<and> pc_allowance (calculation_of en w e dto s) = 0
    \<and> pc_deductions (calculation_of en w e dto s) = 0"
  unfolding calculation_fields
  by (rule pay_regimes [of s en w e dto]) (use assms in \<open>simp_all add: short_pay_def Let_def\<close>)

text \<open>Base overrides reach the short regime only.\<close>

definition without_bases :: "create_batch_dto \<Rightarrow> create_batch_dto" where
  "without_bases dto = dto\<lparr>bd_overrides := map (\<lambda>ov. ov\<lparr>od_base := None\<rparr>) (bd_overrides dto)\<rparr>"

lemma without_bases_simps [simp]:
  "bd_start (without_bases dto) = bd_start dto" "bd_end (without_bases dto) = bd_end dto" "bd_month (without_bases dto) = bd_month dto"
  "bd_year (without_bases dto) = bd_year dto" "bd_work_days (without_bases dto) = bd_work_days dto"
  by (simp_all add: without_bases_def)

lemma period_without_bases [simp]:
  "period_start (without_bases dto) = period_start dto" "period_end (without_bases dto) = period_end dto"
  "period_calendar_days (without_bases dto) = period_calendar_days dto"
  unfolding period_calendar_days_def period_start_def period_end_def without_bases_simps by (rule refl)+

lemma attendance_without_bases [simp]: "period_attendance en w eid (without_bases dto) = period_attendance en w eid dto"
  "period_deduction_types en w eid (without_bases dto) = period_deduction_types en w eid dto"
  unfolding period_attendance_def period_deduction_types_def period_without_bases by (rule refl)+

lemma phone_without_bases: "overridden_phone (find_override (without_bases dto) eid) = overridden_phone (find_override dto eid)"
proof -
  have "List.find (\<lambda>ov. od_employee ov = n) (map (\<lambda>ov. ov\<lparr>od_base := None\<rparr>) xs)
      = map_option (\<lambda>ov. ov\<lparr>od_base := None\<rparr>) (List.find (\<lambda>ov. od_employee ov = n) xs)" for n and xs :: "pay_override list"
    by (induction xs) auto
  then show ?thesis
    by (simp add: find_override_def without_bases_def overridden_phone_def split: option.splits)
qed

lemma base_override_ignored:
  assumes "s_frequency s = MONTHLY \<or> present_days (period_attendance en w (e_id e) dto) > 21"
  shows "calculation_of en w e (without_bases dto) s = calculation_of en w e dto s"
proof -
  have "pay_of en w e (without_bases dto) s = pay_of en w e dto s"
    using assms by (auto simp: pay_of_def Let_def)
  then show ?thesis by (simp add: calculation_of_def Let_def phone_without_bases)
qed

section \<open>Bounds\<close>

lemma proration_bounds: "0 \<le> proration_ratio n k" "n \<le> k \<Longrightarrow> proration_ratio n k \<le> 1"
  by (auto simp: proration_ratio_def divide_le_eq_1)

lemma expected_work_days_pos: "1 \<le> expected_work_days f c wd cd"
proof -
  have "1 \<le> (if x < 1 then 1 else nat x)" for x :: int by (cases "x < 1") (simp_all add: le_nat_iff)
  then show ?thesis unfolding expected_work_days_def Let_def .
qed

lemma tax_sum: "sum_of tl_full (tax_lines b r ts) = sum_of (\<lambda>t. b * (tv_rate t / 100)) ts"
  by (simp add: tax_lines_def)

text \<open>The tax on a monthly salary lies between zero and the salary.\<close>

lemma monthly_tax_bounds:
  assumes "s_frequency s = MONTHLY" and rates: "taxes_ok w" and sal: "0 \<le> s_basic_salary s"
  shows "0 \<le> pc_tax (calculation_of en w e dto s) \<and> pc_tax (calculation_of en w e dto s) \<le> s_basic_salary s"
proof -
  define n where "n = present_days (period_attendance en w (e_id e) dto)"
  define k where "k = expected_work_days MONTHLY (period_calendar_days dto) (bd_work_days dto) (contract_days e)"
  define r where "r = proration_ratio (min n k) k"
  define full where "full = sum_of (\<lambda>t. s_basic_salary s * (tv_rate t / 100)) (findMonthlyTaxesAtDate en (period_end dto) w)"
  have "pc_tax (calculation_of en w e dto s) = full * r"
    using assms(1) by (simp add: calculation_of_def pay_of_def Let_def monthly_pay_def compute_base_pay_def
        tax_sum salary_present_days_def full_def r_def n_def k_def)
  moreover have "0 \<le> full \<and> full \<le> s_basic_salary s"
    unfolding full_def using taxes.total_tax_bounds [OF rates sal] by blast
  moreover have "0 \<le> r \<and> r \<le> 1" unfolding r_def using proration_bounds by simp
  ultimately show ?thesis using sal mult_mono [of full "s_basic_salary s" r 1] by simp
qed

section \<open>A change of the income tax\<close>

lemma sort_key_first:
  fixes f :: "'a \<Rightarrow> 'b :: linorder"
  assumes "\<forall>y \<in> set xs. f x < f y"
  shows "\<exists>ys. sort_key f (xs @ [x]) = x # ys"
proof (cases "sort_key f (xs @ [x])")
  case Nil
  then have "set (sort_key f (xs @ [x])) = {}" by simp
  then show ?thesis by simp
next
  case (Cons z zs)
  then have z: "z \<in> set (xs @ [x])" by (metis list.set_intros(1) set_sort)
  have "sorted (map f (z # zs))" using sorted_sort_key [of f "xs @ [x]"] Cons by simp
  then have "\<forall>u \<in> set (z # zs). f z \<le> f u" by auto
  moreover have "x \<in> set (z # zs)" using Cons by (metis in_set_conv_decomp set_sort)
  ultimately have "f z \<le> f x" by blast
  with z assms have "z = x" by fastforce
  with Cons show ?thesis by blast
qed

lemma tax_takes_effect:
  assumes client: "to_date en = utc_date" and today: "civil (kigali_day (now en)) = (y, m, d)" "d \<noteq> 1"
    and month: "int (bd_year dto) = y" "bd_month dto = m" "bd_end dto = None"
    and pit: "isPitTaxName (js_trim name)" and run: "updateMonthlyTax en (Some name) (Some rate) w = (Inr t, v)"
    and earlier: "\<forall>x \<in> set (rows (monthly_taxes w)). x_active x \<longrightarrow> x_from x < utc_date (period_end dto)"
  shows "map tv_rate (findMonthlyTaxesAtDate en (period_end dto) v) = [rate]"
proof -
  obtain y' m' where next_m: "next_month (y, m) = (y', m')" by (cases "next_month (y, m)")
  let ?f = "month_first y' m' - 1"
  have bounds: "to_date en (period_end dto) = ?f" "to_date en (tax_effective_from en) = ?f"
    using client today month next_m by (simp_all add: period_end_def utc_date_kigali_end tax_effective_from_def utc_date_kigali_start)
  have stored: "isPitTaxName PIT_DISPLAY_NAME" by code_simp
  let ?new = "\<lparr>x_id = next_id (monthly_taxes w), x_uuid = gen_uuid en ''monthly_taxes'' (next_id (monthly_taxes w)),
         x_name = PIT_DISPLAY_NAME, x_rate = rate, x_from = ?f, x_active = True, x_created_at = now en\<rparr>"
  have rows: "rows (monthly_taxes v) = rows (monthly_taxes w) @ [?new]"
    using run pit stored bounds by (auto simp: updateMonthlyTax_def Let_def bind_ensure bind_assoc atomically_def bind_def [of "atomically _"]
        bind_def [of "modify _"] split: if_splits)
  let ?old = "filter (\<lambda>x. x_active x \<and> x_from x \<le> ?f) (rows (monthly_taxes w))"
  have "taxes_at en (period_end dto) v = latest_first (?old @ [?new])"
    by (simp add: taxes_at_def select_def rows bounds)
  moreover have "\<forall>x \<in> set ?old. (- x_from ?new, - x_created_at ?new) < (- x_from x, - x_created_at x)"
    using earlier client bounds by auto
  from sort_key_first [of ?old "\<lambda>x. (- x_from x, - x_created_at x)" ?new, OF this]
  obtain ys where "latest_first (?old @ [?new]) = ?new # ys" unfolding latest_first_def by blast
  ultimately show ?thesis using stored by (simp add: findMonthlyTaxesAtDate_def)
qed

end
