(* ===== verification/Personnel_Facts.thy ===== *)
theory Personnel_Facts
  imports Personnel_Rules Payroll_Amounts
begin

text \<open>
  What the operations on employees and pay achieve: a new structure is the one the next
  payroll uses and leaves earlier payrolls alone, a mandatory deduction reaches every active
  employee once, a hired employee can be paid and has the benefits of the position, the bulk
  import writes exactly its good rows, and pay is written only where the actor may write.
\<close>

section \<open>The structure that pays\<close>

lemma created_structure:
  assumes "createStructure en dto actor w = (Inr s, v)"
  shows "\<exists>t. parse_date en (sd_from dto) = Some t \<and> s_from s = to_date en t \<and> s_to s = None
    \<and> rows (structures v) = rows (close_structures (s_employee s) t (structures w)) @ [s]"
proof -
  obtain eid t overlapping basic where t: "parse_date en (sd_from dto) = Some t"
    and s: "s = structure_row en eid (sd_frequency dto) basic (if sd_frequency dto = MONTHLY then monthly_daily_rate basic else sd_daily_rate dto)
      (value_or (sd_overtime_rate dto) 0) (sd_tax dto) t (next_id (structures w))"
    and v: "\<exists>l. v = w\<lparr>structures := insert_row (structure_row en eid (sd_frequency dto) basic
      (if sd_frequency dto = MONTHLY then monthly_daily_rate basic else sd_daily_rate dto) (value_or (sd_overtime_rate dto) 0) (sd_tax dto) t)
      (close_structures eid t (structures w)), audit_logs := l\<rparr>"
    using assms unfolding createStructure_def Let_def audit_pay_def
    by (auto simp: op_success date_param_def atomically_Inr readonly_toBigInt [THEN readonlyD] dest!: managed_employee_success)
  then show ?thesis by (auto simp: structure_row_def close_structures_def)
qed

lemma find_the_latest:
  assumes "s \<in> set (rows (structures w))" and "s_employee s = eid" and "s_from s \<le> to_date en (period_end per)" and "s_to s = None"
    and latest: "\<And>x. x \<in> set (rows (structures w)) \<Longrightarrow> s_employee x = eid \<Longrightarrow> x \<noteq> s \<Longrightarrow> s_from x < s_from s"
  shows "find_pay_structure en w eid per = Some s"
proof (cases "find_pay_structure en w eid per")
  case None
  with assms(1-4) show ?thesis by (auto simp: find_pay_structure_None)
next
  case (Some x)
  from find_pay_structure_latest [OF this] assms(1-4) have "x \<in> set (rows (structures w))" "s_employee x = eid" "s_from s \<le> s_from x"
    by auto
  with latest [of x] Some show ?thesis by (cases "x = s") auto
qed

text \<open>The columns that decide the amount.\<close>

definition pay_terms :: "pay_structure \<Rightarrow> nat \<times> frequency \<times> rat \<times> rat" where
  "pay_terms s = (s_id s, s_frequency s, s_basic_salary s, s_daily_rate s)"

lemma sort_key_map: "sort_key f (map g xs) = map g (sort_key (\<lambda>x. f (g x)) xs)"
proof (induction xs)
  case (Cons x xs)
  have "insort_key f (g x) (map g ys) = map g (insort_key (\<lambda>x. f (g x)) x ys)" for ys by (induction ys) auto
  with Cons show ?case by simp
qed simp

lemma closing_keeps_the_past:
  assumes rows: "rows (structures v) = rows (close_structures eid t (structures w)) @ [s]"
    and later: "to_date en (period_end per) < s_from s" and before: "period_start per \<le> t"
  shows "map_option pay_terms (find_pay_structure en v eid per) = map_option pay_terms (find_pay_structure en w eid per)"
proof -
  let ?p = "\<lambda>s. s_employee s = eid \<and> s_from s \<le> to_date en (period_end per)
          \<and> (case s_to s of None \<Rightarrow> True | Some t \<Rightarrow> t \<ge> period_start per)"
  let ?c = "\<lambda>s. if s_employee s = eid \<and> s_to s = None then s\<lparr>s_to := Some t\<rparr> else s"
  have "select ?p (structures v) = filter ?p (map ?c (rows (structures w)))"
    using later by (simp add: select_def rows close_structures_def)
  also have "\<dots> = map ?c (filter ?p (rows (structures w)))"
    unfolding filter_map using before by (intro arg_cong [where f = "map ?c"] filter_cong) (auto split: option.splits)
  finally have sel: "select ?p (structures v) = map ?c (select ?p (structures w))" by (simp add: select_def)
  have sorted: "sort_key (\<lambda>s. - s_from s) (map ?c xs) = map ?c (sort_key (\<lambda>s. - s_from s) xs)" for xs
    unfolding sort_key_map by (intro arg_cong [where f = "map ?c"] arg_cong2 [where f = sort_key]) auto
  show ?thesis
    unfolding find_pay_structure_def sel sorted
    by (cases "sort_key (\<lambda>s. - s_from s) (select ?p (structures w))") (simp_all add: pay_terms_def)
qed

section \<open>A mandatory deduction reaches everybody once\<close>

definition assigned_row :: "env \<Rightarrow> nat \<Rightarrow> employee \<Rightarrow> nat \<Rightarrow> employee_deduction" where
  "assigned_row en type e n = \<lparr>ed_id = n, ed_employee = e_id e, ed_type = type, ed_start = next_month_start en, ed_end = None,
     ed_active = True, ed_uuid = gen_uuid en ''employee_deductions'' n, ed_created_at = now en\<rparr>"

lemma assign_deduction_app: "assign_deduction en type e w =
    (Inr (), if \<exists>d \<in> set (rows (employee_deductions w)). ed_employee d = e_id e \<and> ed_type d = type \<and> ed_active d then w
     else w\<lparr>employee_deductions := insert_row (assigned_row en type e) (employee_deductions w)\<rparr>)"
proof (cases "find_row (\<lambda>d. ed_employee d = e_id e \<and> ed_type d = type \<and> ed_active d) (employee_deductions w)")
  case None
  then have "\<not> (\<exists>d \<in> set (rows (employee_deductions w)). ed_employee d = e_id e \<and> ed_type d = type \<and> ed_active d)"
    by (auto simp: find_row_None)
  with None show ?thesis unfolding assign_deduction_def assigned_row_def by (simp only: if_False bind_reads) simp
next
  case (Some d)
  then have "\<exists>d \<in> set (rows (employee_deductions w)). ed_employee d = e_id e \<and> ed_type d = type \<and> ed_active d"
    using find_row_Some [OF Some] by blast
  with Some show ?thesis by (simp add: assign_deduction_def)
qed

text \<open>What a loop over people without the deduction writes.\<close>

lemma assign_all:
  assumes "distinct (map e_id es)" and "\<forall>e \<in> set es. \<forall>d \<in> set (rows (employee_deductions w)). \<not> (ed_employee d = e_id e \<and> ed_type d = type)"
  shows "\<exists>v. for_each es (assign_deduction en type) w = (Inr (), v)
    \<and> v = w\<lparr>employee_deductions := employee_deductions v\<rparr>
    \<and> select (\<lambda>d. ed_type d \<noteq> type) (employee_deductions v) = select (\<lambda>d. ed_type d \<noteq> type) (employee_deductions w)
    \<and> map ed_employee (select (\<lambda>d. ed_type d = type) (employee_deductions v))
        = map ed_employee (select (\<lambda>d. ed_type d = type) (employee_deductions w)) @ map e_id es
    \<and> set (select (\<lambda>d. ed_type d = type) (employee_deductions v)) \<subseteq> set (select (\<lambda>d. ed_type d = type) (employee_deductions w))
        \<union> {d. ed_active d \<and> ed_start d = next_month_start en \<and> ed_end d = None}"
  using assms
proof (induction es arbitrary: w)
  case (Cons e es)
  let ?w = "w\<lparr>employee_deductions := insert_row (assigned_row en type e) (employee_deductions w)\<rparr>"
  have step: "assign_deduction en type e w = (Inr (), ?w)" using Cons.prems(2) by (auto simp: assign_deduction_app)
  have "distinct (map e_id es)" and "\<forall>x \<in> set es. \<forall>d \<in> set (rows (employee_deductions ?w)). \<not> (ed_employee d = e_id x \<and> ed_type d = type)"
    using Cons.prems by (auto simp: assigned_row_def)
  from Cons.IH [OF this] obtain v where v: "for_each es (assign_deduction en type) ?w = (Inr (), v)"
      "v = ?w\<lparr>employee_deductions := employee_deductions v\<rparr>"
    and rest: "select (\<lambda>d. ed_type d \<noteq> type) (employee_deductions v) = select (\<lambda>d. ed_type d \<noteq> type) (employee_deductions ?w)"
      "map ed_employee (select (\<lambda>d. ed_type d = type) (employee_deductions v))
        = map ed_employee (select (\<lambda>d. ed_type d = type) (employee_deductions ?w)) @ map e_id es"
      "set (select (\<lambda>d. ed_type d = type) (employee_deductions v)) \<subseteq> set (select (\<lambda>d. ed_type d = type) (employee_deductions ?w))
        \<union> {d. ed_active d \<and> ed_start d = next_month_start en \<and> ed_end d = None}"
    by blast
  show ?case
  proof (intro exI [of _ v] conjI)
    show "for_each (e # es) (assign_deduction en type) w = (Inr (), v)" by (simp add: bind_def step v(1))
    show "v = w\<lparr>employee_deductions := employee_deductions v\<rparr>" using v(2) by simp
    show "select (\<lambda>d. ed_type d \<noteq> type) (employee_deductions v) = select (\<lambda>d. ed_type d \<noteq> type) (employee_deductions w)"
      using rest(1) by (simp add: assigned_row_def)
    show "map ed_employee (select (\<lambda>d. ed_type d = type) (employee_deductions v))
        = map ed_employee (select (\<lambda>d. ed_type d = type) (employee_deductions w)) @ map e_id (e # es)"
      using rest(2) by (simp add: assigned_row_def)
    let ?D = "{d. ed_active d \<and> ed_start d = next_month_start en \<and> ed_end d = None}"
    have "set (select (\<lambda>d. ed_type d = type) (employee_deductions ?w)) \<subseteq> set (select (\<lambda>d. ed_type d = type) (employee_deductions w)) \<union> ?D"
      by (auto simp: assigned_row_def)
    with rest(3) show "set (select (\<lambda>d. ed_type d = type) (employee_deductions v))
        \<subseteq> set (select (\<lambda>d. ed_type d = type) (employee_deductions w)) \<union> ?D"
      by blast
  qed
qed (auto simp: ret_def)

lemma created_type:
  assumes run: "createDeductionType en dto actor w = (Inr t, v)" and mandatory: "td_mandatory dto = Some True"
    and keys: "table_ok e_id (employees w)" and known: "\<forall>d \<in> set (rows (employee_deductions w)). ed_type d < next_id (deduction_types w)"
  shows "map ed_employee (select (\<lambda>d. ed_type d = dt_id t) (employee_deductions v))
      = map e_id (select (\<lambda>e. e_status e = P_ACTIVE \<and> \<not> e_deleted e) (employees w))
    \<and> (\<forall>d \<in> set (select (\<lambda>d. ed_type d = dt_id t) (employee_deductions v)). ed_active d \<and> ed_start d = next_month_start en \<and> ed_end d = None)
    \<and> select (\<lambda>d. ed_type d \<noteq> dt_id t) (employee_deductions v) = rows (employee_deductions w)"
proof -
  let ?row = "\<lambda>n. \<lparr>dt_id = n, dt_name = td_name dto, dt_mode = td_mode dto, dt_amount = value_or (td_amount dto) 0,
         dt_percentage = value_or (td_percentage dto) 0, dt_mandatory = value_or (td_mandatory dto) False,
         dt_uuid = gen_uuid en ''deduction_types'' n, dt_created_at = now en\<rparr>"
  let ?n = "next_id (deduction_types w)" and ?w = "w\<lparr>deduction_types := insert_row ?row (deduction_types w)\<rparr>"
  let ?es = "select (\<lambda>e. e_status e = P_ACTIVE \<and> \<not> e_deleted e) (employees w)"
  have t: "dt_id t = ?n" and loop: "for_each ?es (assign_deduction en ?n) ?w = (Inr (), v)"
    using run mandatory unfolding createDeductionType_def Let_def applyMandatoryDeductionTypeFromNextMonth_def
    by (auto simp: op_success value_or_def when_op_def)
  have "distinct (map e_id ?es)" using keys by (simp add: table_ok_def select_def distinct_map_filter)
  moreover have "\<forall>e \<in> set ?es. \<forall>d \<in> set (rows (employee_deductions ?w)). \<not> (ed_employee d = e_id e \<and> ed_type d = ?n)"
    using known by auto
  ultimately have all: "select (\<lambda>d. ed_type d \<noteq> ?n) (employee_deductions v) = select (\<lambda>d. ed_type d \<noteq> ?n) (employee_deductions ?w)"
      "map ed_employee (select (\<lambda>d. ed_type d = ?n) (employee_deductions v))
        = map ed_employee (select (\<lambda>d. ed_type d = ?n) (employee_deductions ?w)) @ map e_id ?es"
      "set (select (\<lambda>d. ed_type d = ?n) (employee_deductions v)) \<subseteq> set (select (\<lambda>d. ed_type d = ?n) (employee_deductions ?w))
        \<union> {d. ed_active d \<and> ed_start d = next_month_start en \<and> ed_end d = None}"
    using assign_all [of ?es ?w ?n en] loop by auto
  have none: "select (\<lambda>d. ed_type d = ?n) (employee_deductions w) = []" using known by (auto simp: select_def filter_empty_conv)
  have others: "select (\<lambda>d. ed_type d \<noteq> ?n) (employee_deductions w) = rows (employee_deductions w)"
    using known by (auto simp: select_def filter_id_conv)
  from all none others show ?thesis unfolding t by auto
qed

section \<open>Hired, paid and insured\<close>

lemma employees_changed_app: "\<exists>ks d. employees_changed en w = (Inr (), w\<lparr>cache_keys := ks, delivered := d\<rparr>)"
proof -
  obtain ks where "clearEmployeeCache en w = (Inr (), w\<lparr>cache_keys := ks\<rparr>)"
    unfolding clearEmployeeCache_def using clear_cached_app by blast
  then show ?thesis by (simp add: employees_changed_def bind_def broadcast_def) blast
qed

lemma create_salary_app: "create_salary en dto variant e w = (Inr (), w\<lparr>structures := structures (snd (create_salary en dto variant e w))\<rparr>)"
  by (auto simp: create_salary_def insert_structure_def split: option.split prod.split)

lemma insert_employee_success:
  assumes "insert_employee en dto pl hire w = (Inr e, v)"
  shows "v = w\<lparr>employees := (employees w)\<lparr>rows := rows (employees w) @ [e], next_id := Suc (next_id (employees w))\<rparr>\<rparr>
    \<and> e_id e = next_id (employees w) \<and> e_status e = P_ACTIVE \<and> \<not> e_deleted e \<and> e_position e = pl_position pl \<and> e_category e = pl_category pl
    \<and> e_loc e = pl_loc pl \<and> e_department e = pl_department pl"
proof -
  obtain hired start finish where e: "e = employee_row en dto pl hired start finish (next_id (employees w))"
    and v: "v = w\<lparr>employees := insert_row (employee_row en dto pl hired start finish) (employees w)\<rparr>"
    using assms unfolding insert_employee_def Let_def
    by (auto simp: op_success dest!: readonly_employee_checks(12) [THEN readonlyD] readonly_employee_checks(11) [THEN readonlyD])
  then show ?thesis by (simp add: employee_row_def insert_row_def)
qed

lemma salary_cong: "structures u = structures w \<Longrightarrow>
    structures (snd (create_salary en dto variant e u)) = structures (snd (create_salary en dto variant e w))"
  by (auto simp: create_salary_def insert_structure_def split: option.split prod.split)

lemma benefits_app: "inherit_benefits en pos e w = (Inr (), w\<lparr>allowances := allowances (snd (inherit_benefits en pos e w)),
    employee_deductions := employee_deductions (snd (inherit_benefits en pos e w))\<rparr>)"
  by (simp add: inherit_benefits_def)

lemma benefits_cong:
  assumes "allowances u = allowances w" "employee_deductions u = employee_deductions w"
    "allowance_templates u = allowance_templates w" "position_deductions u = position_deductions w"
  shows "allowances (snd (inherit_benefits en pos e u)) = allowances (snd (inherit_benefits en pos e w))"
    "employee_deductions (snd (inherit_benefits en pos e u)) = employee_deductions (snd (inherit_benefits en pos e w))"
  using assms by (simp_all add: inherit_benefits_def)

lemma create_employee_success:
  assumes "createEmployee en dto actor w = (Inr view, v)"
  shows "\<exists>pl. resolve_placement en dto actor ''create employees'' w = (Inr pl, w) \<and> e_id (ev_employee view) = next_id (employees w)
    \<and> e_status (ev_employee view) = P_ACTIVE \<and> \<not> e_deleted (ev_employee view)
    \<and> e_position (ev_employee view) = pl_position pl \<and> e_category (ev_employee view) = pl_category pl
    \<and> rows (employees v) = rows (employees w) @ [ev_employee view]
    \<and> structures v = structures (snd (create_salary en dto (pl_variant pl) (ev_employee view) w))
    \<and> allowances v = allowances (snd (inherit_benefits en (pl_position pl) (ev_employee view) w))
    \<and> employee_deductions v = employee_deductions (snd (inherit_benefits en (pl_position pl) (ev_employee view) w))"
proof -
  let ?tx = "\<lambda>pl. bind (identities_free None ''An'' dto) (\<lambda>_. bind (insert_employee en dto pl (ne_hired dto)) (\<lambda>e.
       bind (reads (\<lambda>w. serializeEmployee w e None)) (\<lambda>view. bind (create_salary en dto (pl_variant pl) e) (\<lambda>_.
       bind (inherit_benefits en (pl_position pl) e) (\<lambda>_. bind (case actor of None \<Rightarrow> ret ()
         | Some a \<Rightarrow> audit_created (cu_id a) e ''Created employee profile with salary and benefits.'' pl) (\<lambda>_. ret view))))))"
  obtain pl w' where place: "resolve_placement en dto actor ''create employees'' w = (Inr pl, w')"
    and tail: "bind (atomically (?tx pl)) (\<lambda>view. bind (employees_changed en) (\<lambda>_. ret view)) w' = (Inr view, v)"
    using assms unfolding createEmployee_def bind_ensure
    by (cases "names_given dto"; simp only: bind_Inr [of "resolve_placement _ _ _ _"] if_True if_False) (blast, simp)
  have "w' = w" by (rule readonlyD [OF readonly_employee_checks(8) place])
  with place have pl: "resolve_placement en dto actor ''create employees'' w = (Inr pl, w)" by simp
  from tail obtain view' u where tx': "?tx pl w = (Inr view', u)" and end': "bind (employees_changed en) (\<lambda>_. ret view') u = (Inr view, v)"
    unfolding \<open>w' = w\<close> bind_Inr [of "atomically _"] atomically_Inr by blast
  have tx: "?tx pl w = (Inr view, u)" and last: "employees_changed en u = (Inr (), v)"
    using tx' end' employees_changed_app [of en u] by (auto simp: bind_Inr)
  from tx obtain x w0 where free: "identities_free None ''An'' dto w = (Inr x, w0)"
    and ins': "bind (insert_employee en dto pl (ne_hired dto)) (\<lambda>e.
       bind (reads (\<lambda>w. serializeEmployee w e None)) (\<lambda>view. bind (create_salary en dto (pl_variant pl) e) (\<lambda>_.
       bind (inherit_benefits en (pl_position pl) e) (\<lambda>_. bind (case actor of None \<Rightarrow> ret ()
         | Some a \<Rightarrow> audit_created (cu_id a) e ''Created employee profile with salary and benefits.'' pl) (\<lambda>_. ret view))))) w0 = (Inr view, u)"
    unfolding bind_Inr [of "identities_free _ _ _"] by blast
  have "w0 = w" by (rule readonlyD [OF readonly_employee_checks(10) free])
  from ins' obtain e w1 where e: "insert_employee en dto pl (ne_hired dto) w = (Inr e, w1)"
    and rest: "bind (reads (\<lambda>w. serializeEmployee w e None)) (\<lambda>view. bind (create_salary en dto (pl_variant pl) e) (\<lambda>_.
       bind (inherit_benefits en (pl_position pl) e) (\<lambda>_. bind (case actor of None \<Rightarrow> ret ()
         | Some a \<Rightarrow> audit_created (cu_id a) e ''Created employee profile with salary and benefits.'' pl) (\<lambda>_. ret view)))) w1 = (Inr view, u)"
    unfolding \<open>w0 = w\<close> bind_Inr [of "insert_employee _ _ _ _"] by blast
  note ins = insert_employee_success [OF e]
  define S where "S = structures (snd (create_salary en dto (pl_variant pl) e w1))"
  have salary: "create_salary en dto (pl_variant pl) e w1 = (Inr (), w1\<lparr>structures := S\<rparr>)"
    unfolding S_def by (rule create_salary_app)
  let ?w2 = "w1\<lparr>structures := S\<rparr>"
  define A where "A = allowances (snd (inherit_benefits en (pl_position pl) e ?w2))"
  define D where "D = employee_deductions (snd (inherit_benefits en (pl_position pl) e ?w2))"
  have benefits: "inherit_benefits en (pl_position pl) e ?w2 = (Inr (), ?w2\<lparr>allowances := A, employee_deductions := D\<rparr>)"
    unfolding A_def D_def by (rule benefits_app)
  let ?w3 = "?w2\<lparr>allowances := A, employee_deductions := D\<rparr>"
  have end3: "bind (case actor of None \<Rightarrow> ret () | Some a \<Rightarrow> audit_created (cu_id a) e ''Created employee profile with salary and benefits.'' pl)
       (\<lambda>_. ret (serializeEmployee w1 e None)) ?w3 = (Inr view, u)"
    using rest unfolding bind_reads bind_def [of "create_salary _ _ _ _"] bind_def [of "inherit_benefits _ _ _"]
      salary benefits prod.case sum.case .
  have view: "view = serializeEmployee w1 e None" and u: "\<exists>l. u = ?w3\<lparr>audit_logs := l\<rparr>"
  proof -
    show "view = serializeEmployee w1 e None" using end3 by (cases actor) (auto simp: audit_created_def op_success)
    show "\<exists>l. u = ?w3\<lparr>audit_logs := l\<rparr>"
    proof (cases actor)
      case None
      with end3 have "u = ?w3" by simp
      moreover have "?w3 = ?w3\<lparr>audit_logs := audit_logs w1\<rparr>" by simp
      ultimately show ?thesis by metis
    next
      case (Some a)
      with end3 show ?thesis by (auto simp: audit_created_def op_success)
    qed
  qed
  have same: "structures w1 = structures w" "allowances w1 = allowances w" "employee_deductions w1 = employee_deductions w"
    "allowance_templates w1 = allowance_templates w" "position_deductions w1 = position_deductions w" using ins by simp_all
  have "ev_employee view = e" unfolding view by (simp add: serializeEmployee_def Let_def split: prod.split)
  moreover obtain ks d where "v = u\<lparr>cache_keys := ks, delivered := d\<rparr>" using employees_changed_app [of en u] last by auto
  ultimately show ?thesis
    using pl ins u salary_cong [OF same(1)] benefits_cong [of ?w2 w] same unfolding S_def A_def D_def by (intro exI [of _ pl]) auto
qed

lemma guard_success:
  assumes "bind m f w = (Inr b, t)" and "readonly m" and "\<And>a. m w = (Inr a, w) \<Longrightarrow> f a w = (Inr b, t) \<Longrightarrow> P"
  shows P
proof -
  from assms(1) obtain a u where "m w = (Inr a, u)" "f a u = (Inr b, t)" unfolding bind_Inr by blast
  moreover from this(1) have "u = w" by (rule readonlyD [OF assms(2)])
  ultimately show P using assms(3) by simp
qed

lemma placement_success: "resolve_placement en dto actor act w = (Inr pl, v) \<Longrightarrow>
    v = w \<and> resolvePositionEmploymentCategory (pl_position pl) (pl_category pl) w = (Inr (pl_variant pl), w)
    \<and> ensureActorCanUseScope actor (pl_loc pl) (pl_department pl) act w = (Inr (), w)"
  unfolding resolve_placement_def
  by ((erule guard_success, (intro fail_rules)[1])+, auto)

lemma placement_variant:
  "resolve_placement en dto actor act w = (Inr pl, v) \<Longrightarrow>
   resolvePositionEmploymentCategory (pl_position pl) (pl_category pl) w = (Inr (pl_variant pl), w)"
  using placement_success by blast

lemma variant_success:
  assumes "resolvePositionEmploymentCategory pos cat w = (Inr variant, v)" and "set_somewhere cat"
  shows "set_somewhere pos \<and> (\<exists>x c. variant = Some (x, c) \<and> find_row (\<lambda>c. c_id c = the cat) (categories w) = Some c)"
proof -
  from assms obtain x c where "variant = Some (x, c)" "set_somewhere pos" "variant_of (the pos) (the cat) w = Some x"
    "find_row (\<lambda>k. c_id k = vr_category x) (categories w) = Some c"
    by (auto simp: resolvePositionEmploymentCategory_def variant_with_category_def op_success split: if_splits)
  moreover from this(3) have "vr_category x = the cat" unfolding variant_of_def using find_row_Some by fastforce
  ultimately show ?thesis by auto
qed

definition benefits_known :: "world \<Rightarrow> bool" where
  "benefits_known w \<longleftrightarrow> (\<forall>a \<in> set (rows (allowances w)). al_employee a < next_id (employees w))"

lemma inherited_allowances:
  assumes "\<forall>a \<in> set (rows t). al_employee a \<noteq> eid"
  shows "map (\<lambda>a. (al_title a, al_amount a)) (select (\<lambda>a. al_employee a = eid \<and> al_active a)
      (foldl (\<lambda>t x. insert_row (template_allowance en eid x) t) t xs)) = map (\<lambda>x. (tp_title x, tp_amount x)) xs"
proof -
  have "select (\<lambda>a. al_employee a = eid \<and> al_active a) t = []" using assms by (auto simp: select_def filter_empty_conv)
  moreover have "map (\<lambda>a. (al_title a, al_amount a)) (select (\<lambda>a. al_employee a = eid \<and> al_active a)
      (foldl (\<lambda>t x. insert_row (template_allowance en eid x) t) t xs))
    = map (\<lambda>a. (al_title a, al_amount a)) (select (\<lambda>a. al_employee a = eid \<and> al_active a) t) @ map (\<lambda>x. (tp_title x, tp_amount x)) xs" for t
    by (induction xs arbitrary: t) (simp_all add: template_allowance_def)
  ultimately show ?thesis by simp
qed

lemma hired_pay:
  assumes run: "createEmployee en dto actor w = (Inr view, v)" and ok: "personnel_ok w" and known: "benefits_known w"
    and salary: "ne_basic_salary dto = Some b" and cat: "e_category (ev_employee view) = Some k" "k \<noteq> 0"
    and monthly: "find_row (\<lambda>c. c_id c = k) (categories w) = Some c" "c_frequency c = MONTHLY"
    and covers: "to_date en (now en) \<le> to_date en (period_end per)"
  shows "\<exists>s. find_pay_structure en v (e_id (ev_employee view)) per = Some s \<and> s_frequency s = MONTHLY
      \<and> s_basic_salary s = b \<and> s_daily_rate s = monthly_daily_rate b
    \<and> map (\<lambda>a. (al_title a, al_amount a)) (active_allowances v (e_id (ev_employee view)))
      = map (\<lambda>t. (tp_title t, tp_amount t)) (select (\<lambda>t. tp_position t = the (e_position (ev_employee view))) (allowance_templates w))"
proof -
  obtain pl where pl: "resolve_placement en dto actor ''create employees'' w = (Inr pl, w)"
    and e: "e_id (ev_employee view) = next_id (employees w)" "e_position (ev_employee view) = pl_position pl"
      "e_category (ev_employee view) = pl_category pl"
    and st: "structures v = structures (snd (create_salary en dto (pl_variant pl) (ev_employee view) w))"
    and al: "allowances v = allowances (snd (inherit_benefits en (pl_position pl) (ev_employee view) w))"
    using create_employee_success [OF run] by blast
  have somewhere: "set_somewhere (pl_category pl)" using cat e by (auto simp: set_somewhere_def)
  obtain x where pos: "set_somewhere (pl_position pl)" and var: "pl_variant pl = Some (x, c)"
    using variant_success [OF placement_variant [OF pl] somewhere] cat e monthly by auto
  let ?s = "structure_row en (next_id (employees w)) MONTHLY b (monthly_daily_rate b) (value_or (vr_overtime_rate x) 0)
    (value_or (ne_tax dto) 0) (now en) (next_id (structures w))"
  have rows: "rows (structures v) = rows (structures w) @ [?s]"
    unfolding st var create_salary_def using salary monthly e
    by (simp add: starting_pay_def Let_def value_or_def or_else_def insert_structure_def)
  have fresh: "s_employee y \<noteq> next_id (employees w)" if "y \<in> set (rows (structures w))" for y
    using ok that by (auto simp: personnel_ok_def structures_ok_def)
  have "find_pay_structure en v (next_id (employees w)) per = Some ?s"
    by (rule find_the_latest) (use covers fresh in \<open>auto simp: rows structure_row_def\<close>)
  moreover have "allowances v = foldl (\<lambda>t x. insert_row (template_allowance en (next_id (employees w)) x) t) (allowances w)
      (select (\<lambda>t. tp_position t = the (pl_position pl)) (allowance_templates w))"
    using pos e unfolding al inherit_benefits_def by simp
  moreover have "\<forall>a \<in> set (rows (allowances w)). al_employee a \<noteq> next_id (employees w)"
    using known by (auto simp: benefits_known_def)
  ultimately show ?thesis
    using inherited_allowances [of "allowances w" "next_id (employees w)" en] e
    by (intro exI [of _ ?s]) (simp add: active_allowances_def structure_row_def)
qed

section \<open>The bulk import\<close>

lemma starting_pay_never: "never_fails (create_salary en dto variant e)"
  by (auto simp: create_salary_def insert_structure_def Let_def intro!: fail_rules split: option.split prod.split)

lemma insert_employee_clean: "clean_fail (insert_employee en dto pl hire)"
  unfolding insert_employee_def Let_def
  by (rule clean_fail_bind, rule readonly_employee_checks(12))+
    (rule clean_fail_bind [OF readonly_reads], rule clean_fail_bind [OF readonly_employee_checks(11)], rule clean_fail_never, intro fail_rules)

lemma clean_fail_atomically: "clean_fail m \<Longrightarrow> clean_fail (atomically m)"
proof -
  assume clean: "clean_fail m"
  have "v = w" if run: "atomically m w = (Inl e, v)" for w e v
  proof -
    obtain r t where m: "m w = (r, t)" by force
    show ?thesis
    proof (cases r)
      case (Inl e')
      with m clean_failD [OF clean] have "t = w" by blast
      with m run Inl show ?thesis by (simp add: atomically_def)
    qed (use m run in \<open>simp add: atomically_def\<close>)
  qed
  then show ?thesis unfolding clean_fail_def by blast
qed

lemma import_employee_clean: "clean_fail (import_employee en actor dto)"
proof -
  have rest: "never_fails (bind (reads (\<lambda>w. serializeEmployee w e None)) (\<lambda>view. bind (create_salary en dto (pl_variant pl) e) (\<lambda>_.
       bind (audit_created (cu_id actor) e ''Bulk imported employee profile.'' pl) (\<lambda>_. ret view))))" for e pl
    unfolding audit_created_def audit_def by (intro fail_rules starting_pay_never)
  have tx: "clean_fail (bind (identities_free None ''An'' dto) (\<lambda>_. bind (insert_employee en dto pl None) (\<lambda>e.
       bind (reads (\<lambda>w. serializeEmployee w e None)) (\<lambda>view. bind (create_salary en dto (pl_variant pl) e) (\<lambda>_.
       bind (audit_created (cu_id actor) e ''Bulk imported employee profile.'' pl) (\<lambda>_. ret view))))))" for pl
    by (rule clean_fail_bind [OF readonly_employee_checks(10)], rule clean_fail_then [OF insert_employee_clean rest])
  note tx = clean_fail_atomically [OF tx]
  show ?thesis
    unfolding import_employee_def
    by (rule clean_fail_bind [OF readonly_ensure], rule clean_fail_bind [OF readonly_employee_checks(8)], rule tx)
qed

definition unreported :: "nat \<Rightarrow> employee_dto list \<Rightarrow> (nat \<times> error) list \<Rightarrow> employee_dto list" where
  "unreported n xs errs = map snd (filter (\<lambda>(i, x). i \<notin> fst ` set errs) (enumerate n xs))"

lemma unreported_shift: "\<forall>i \<in> fst ` set errs. Suc n \<le> i \<Longrightarrow> unreported n (x # xs) errs = x # unreported (Suc n) xs errs"
  by (auto simp: unreported_def)

lemma unreported_drop: "unreported n (x # xs) ((n, e) # errs) = unreported (Suc n) xs errs"
proof -
  have "filter (\<lambda>(i, x). i \<notin> fst ` set ((n, e) # errs)) (enumerate (Suc n) xs)
      = filter (\<lambda>(i, x). i \<notin> fst ` set errs) (enumerate (Suc n) xs)"
    by (rule filter_cong) (auto simp: in_set_enumerate_eq)
  then show ?thesis by (simp add: unreported_def)
qed

lemma import_rows_good:
  "\<exists>shown errs v. import_rows en actor n xs w = (Inr (shown, errs), v) \<and> length shown + length errs = length xs
    \<and> sorted_wrt (<) (map fst errs) \<and> (\<forall>i \<in> fst ` set errs. n \<le> i \<and> i < n + length xs)
    \<and> (\<forall>m. import_rows en actor m (unreported n xs errs) w = (Inr (shown, []), v))"
proof (induction xs arbitrary: n w)
  case Nil
  show ?case by (simp add: unreported_def ret_def)
next
  case (Cons x xs)
  obtain r u where step: "import_employee en actor x w = (r, u)" by force
  from Cons.IH [of "Suc n" u] obtain shown errs v where IH: "import_rows en actor (Suc n) xs u = (Inr (shown, errs), v)"
    "length shown + length errs = length xs" "sorted_wrt (<) (map fst errs)" "\<forall>i \<in> fst ` set errs. Suc n \<le> i \<and> i < Suc n + length xs"
    "\<And>m. import_rows en actor m (unreported (Suc n) xs errs) u = (Inr (shown, []), v)" by blast
  show ?case
  proof (cases r)
    case (Inl e)
    with step clean_failD [OF import_employee_clean] have "u = w" by blast
    with IH step Inl show ?thesis
      by (intro exI [of _ shown] exI [of _ "(n, e) # errs"] exI [of _ v])
        (auto simp: bind_def ret_def unreported_drop)
  next
    case (Inr view)
    have "unreported n (x # xs) errs = x # unreported (Suc n) xs errs" by (rule unreported_shift) (use IH(4) in blast)
    with IH step Inr show ?thesis
      by (intro exI [of _ "view # shown"] exI [of _ errs] exI [of _ v]) (auto simp: bind_def ret_def)
  qed
qed

lemma bulk_import_result:
  assumes "xs \<noteq> []" and "length xs \<le> 500"
  shows "\<exists>r u. bulkImport en xs actor w = (Inr r, snd (employees_changed en u)) \<and> im_total r = length xs
    \<and> im_imported r = length (im_employees r) \<and> im_imported r + length (im_errors r) = length xs
    \<and> sorted_wrt (<) (map fst (im_errors r)) \<and> (\<forall>i \<in> fst ` set (im_errors r). 1 \<le> i \<and> i \<le> length xs)
    \<and> import_rows en actor 1 (unreported 1 xs (im_errors r)) w = (Inr (im_employees r, []), u)"
proof -
  obtain shown errs u where rows: "import_rows en actor 1 xs w = (Inr (shown, errs), u)" "length shown + length errs = length xs"
    "sorted_wrt (<) (map fst errs)" "\<forall>i \<in> fst ` set errs. 1 \<le> i \<and> i < 1 + length xs"
    "import_rows en actor 1 (unreported 1 xs errs) w = (Inr (shown, []), u)"
    using import_rows_good [of en actor 1 xs w] by blast
  obtain ks d where "employees_changed en u = (Inr (), u\<lparr>cache_keys := ks, delivered := d\<rparr>)"
    using employees_changed_app by blast
  with assms rows show ?thesis
    unfolding bulkImport_def
    by (intro exI [of _ "\<lparr>im_imported = length shown, im_total = length xs, im_employees = shown, im_errors = errs\<rparr>"] exI [of _ u])
      (auto simp: bind_ensure bind_def ret_def)
qed

section \<open>An update may move the employee\<close>

definition update_tx :: "env \<Rightarrow> employee_dto \<Rightarrow> current_user \<Rightarrow> placement \<Rightarrow> employee \<Rightarrow> (employee \<times> employee_view) service" where
  "update_tx en dto actor pl e = bind (identities_free (Some (e_id e)) ''Another'' dto) (\<lambda>_. bind (save_profile en dto pl e) (\<lambda>saved.
       bind (update_salary en dto pl e saved) (\<lambda>_. bind (update_allowance en dto (e_id e)) (\<lambda>_. bind (audit_profile actor e saved) (\<lambda>_.
       reads (\<lambda>w. (saved, serializeEmployee w saved None)))))))"

definition update_tail :: "env \<Rightarrow> current_user \<Rightarrow> employee \<Rightarrow> employee \<Rightarrow> employee_view \<Rightarrow> employee_view service" where
  "update_tail en actor e saved view = bind (clearEmployeeCache en) (\<lambda>_.
     bind (if set_somewhere (e_department e) \<and> e_department e \<noteq> e_department saved
       then bind (archivePendingDepartmentIfEmpty en (the (e_department e)) (cu_id actor)) (\<lambda>_. ret ()) else ret ()) (\<lambda>_.
     bind (modify (broadcast (NamedEvent ''employees_updated''))) (\<lambda>_. ret view)))"

lemma update_employee_success: "updateEmployee en uuid dto actor w = (Inr view, v) \<Longrightarrow>
    \<exists>e pl saved view' u. findEmployeeByUuidOrThrow uuid w = (Inr e, w) \<and> ensureActorCanAccessEmployee actor e w = (Inr (), w)
    \<and> update_placement dto e w = (Inr pl, w) \<and> update_tx en dto actor pl e w = (Inr (saved, view'), u)
    \<and> update_tail en actor e saved view' u = (Inr view, v)"
  unfolding updateEmployee_def update_tx_def [symmetric] update_tail_def [symmetric]
  by ((erule guard_success, (intro fail_rules)[1])+, auto simp: bind_Inr)

lemma update_tail_frame: "update_tail en actor e saved view u = (r, v) \<Longrightarrow>
    employees v = employees u \<and> transfer_requests v = transfer_requests u"
proof -
  let ?I = "\<lambda>v. employees v = employees u \<and> transfer_requests v = transfer_requests u"
  have "keeps ?I (update_tail en actor e saved view)"
    unfolding update_tail_def clearEmployeeCache_def clear_cached_def cache_del_def
    by (intro keeps_rules keeps_modify keeps_archivePending) (simp_all add: broadcast_def)
  then show "update_tail en actor e saved view u = (r, v) \<Longrightarrow> ?I v" by (auto dest: keepsD)
qed

lemma save_profile_success: "save_profile en dto pl e w = (Inr saved, v) \<Longrightarrow>
    e_loc saved = or_else (pl_loc pl) (e_loc e) \<and> e_id saved = e_id e \<and> transfer_requests v = transfer_requests w
    \<and> employees v = update_rows (\<lambda>x. e_id x = e_id e) (\<lambda>_. saved) (employees w)"
  unfolding save_profile_def Let_def
  by ((erule guard_success, (intro fail_rules)[1])+, auto simp: edited_employee_def)

lemma update_tx_success:
  assumes "update_tx en dto actor pl e w = (Inr (saved, view), u)"
  shows "e_loc saved = or_else (pl_loc pl) (e_loc e) \<and> e_id saved = e_id e \<and> transfer_requests u = transfer_requests w
    \<and> employees u = update_rows (\<lambda>x. e_id x = e_id e) (\<lambda>_. saved) (employees w) \<and> ev_employee view = saved"
proof -
  obtain saved' t where save: "save_profile en dto pl e w = (Inr saved', t)"
    and rest: "bind (update_salary en dto pl e saved') (\<lambda>_. bind (update_allowance en dto (e_id e)) (\<lambda>_. bind (audit_profile actor e saved') (\<lambda>_.
       reads (\<lambda>w. (saved', serializeEmployee w saved' None))))) t = (Inr (saved, view), u)"
    using assms unfolding update_tx_def by (elim guard_success [OF _ readonly_employee_checks(10)]) (auto simp: bind_Inr)
  let ?I = "\<lambda>v. employees v = employees t \<and> transfer_requests v = transfer_requests t"
  have "keeps ?I (update_salary en dto pl e saved')"
    unfolding update_salary_def replace_structure_def Let_def
    by (intro keeps_rules keeps_pair keeps_modify readonly_employee_checks(3) [THEN keeps_readonly]) simp_all
  moreover have "keeps ?I (update_allowance en dto (e_id e))" and "keeps ?I (audit_profile actor e saved')"
    unfolding update_allowance_def audit_profile_def audit_def by (intro keeps_rules keeps_pair keeps_modify; simp)+
  ultimately have "keeps ?I (bind (update_salary en dto pl e saved') (\<lambda>_. bind (update_allowance en dto (e_id e)) (\<lambda>_.
       bind (audit_profile actor e saved') (\<lambda>_. reads (\<lambda>w. (saved', serializeEmployee w saved' None))))))"
    by (intro keeps_bind keeps_reads)
  from keepsD [OF this _ rest] have "?I u" by simp
  moreover have "saved = saved' \<and> ev_employee view = saved'"
    using rest by (auto simp: bind_Inr serializeEmployee_def Let_def split: prod.split)
  ultimately show ?thesis using save_profile_success [OF save] by simp
qed

lemma update_placement_loc: "update_placement dto e w = (Inr pl, v) \<Longrightarrow>
    optional_location (ne_location dto) w = (Inr (pl_loc pl), w)"
  unfolding update_placement_def
  by ((erule guard_success, (intro fail_rules)[1])+, auto simp: ret_def)

lemma update_moves:
  assumes run: "updateEmployee en uuid dto actor w = (Inr view, v)" and target: "optional_location (ne_location dto) w = (Inr (Some loc), w)"
  shows "\<exists>e. find_row (\<lambda>e. e_uuid e = uuid) (employees w) = Some e \<and> e_id (ev_employee view) = e_id e
    \<and> e_loc (ev_employee view) = Some loc \<and> ev_employee view \<in> set (rows (employees v)) \<and> transfer_requests v = transfer_requests w"
proof -
  obtain e pl saved view' u where e: "findEmployeeByUuidOrThrow uuid w = (Inr e, w)" and pl: "update_placement dto e w = (Inr pl, w)"
    and tx: "update_tx en dto actor pl e w = (Inr (saved, view'), u)" and tail: "update_tail en actor e saved view' u = (Inr view, v)"
    using update_employee_success [OF run] by blast
  have "pl_loc pl = Some loc" using update_placement_loc [OF pl] target by simp
  moreover have "view = view'" using tail by (auto simp: update_tail_def bind_Inr)
  moreover note update_tx_success [OF tx] update_tail_frame [OF tail]
  moreover have "e \<in> set (rows (employees w))" using findEmployee_success [OF e] by simp
  moreover have "find_row (\<lambda>e. e_uuid e = uuid) (employees w) = Some e"
    using e by (auto simp: findEmployeeByUuidOrThrow_def op_success)
  ultimately show ?thesis by (intro exI [of _ e]) (auto simp: or_else_def)
qed

end
