(* ===== verification/Pay_Scope.thy ===== *)
theory Pay_Scope
  imports Personnel_Facts
begin

text \<open>
  Whose pay an actor may change: the operations on structures, allowances and deductions of an
  employee touch only the rows of an employee who stands, when the request arrives, at the
  actor's own location; a super administrator changes anybody's.
\<close>

definition pay_rows :: "world \<Rightarrow> nat \<Rightarrow> pay_structure list \<times> allowance list \<times> employee_deduction list" where
  "pay_rows w k = (select (\<lambda>s. s_employee s = k) (structures w), select (\<lambda>a. al_employee a = k) (allowances w),
     select (\<lambda>d. ed_employee d = k) (employee_deductions w))"

definition pays :: "current_user \<Rightarrow> world \<Rightarrow> nat \<Rightarrow> bool" where
  "pays actor w k \<longleftrightarrow> (\<exists>e \<in> set (rows (employees w)). e_id e = k \<and> \<not> e_deleted e
     \<and> (isSystemAdmin actor \<or> truthy (cu_location actor) \<and> map_option show_nat (e_loc e) = cu_location actor))"

definition others_kept :: "current_user \<Rightarrow> world \<Rightarrow> world \<Rightarrow> bool" where
  "others_kept actor w v \<longleftrightarrow> (\<forall>k. \<not> pays actor w k \<longrightarrow> pay_rows v k = pay_rows w k)"

text \<open>One row per key in the three tables.\<close>

definition pay_keys :: "world \<Rightarrow> bool" where
  "pay_keys w \<longleftrightarrow> table_ok s_id (structures w) \<and> table_ok al_id (allowances w) \<and> table_ok ed_id (employee_deductions w)"

lemma others_kept_refl [simp]: "others_kept actor w w"
  by (simp add: others_kept_def)

lemma others_kept_only: "others_kept actor w v \<Longrightarrow> structures u = structures v \<Longrightarrow> allowances u = allowances v
    \<Longrightarrow> employee_deductions u = employee_deductions v \<Longrightarrow> others_kept actor w u"
  by (simp add: others_kept_def pay_rows_def)

lemma keeps_audit_pay: "keeps (others_kept actor w) (audit_pay by k t n y d a)"
  unfolding audit_pay_def audit_def by (intro keeps_modify) (erule others_kept_only, simp_all)

text \<open>A write to the rows of one payable employee.\<close>

lemma select_untouched: "(\<And>r. r \<in> set (rows t) \<Longrightarrow> q r \<Longrightarrow> \<not> p r \<and> \<not> p (f r)) \<Longrightarrow> select p (update_rows q f t) = select p t"
proof -
  have "(\<And>r. r \<in> set xs \<Longrightarrow> q r \<Longrightarrow> \<not> p r \<and> \<not> p (f r)) \<Longrightarrow> filter p (map (\<lambda>r. if q r then f r else r) xs) = filter p xs" for xs
    by (induction xs) auto
  then show "(\<And>r. r \<in> set (rows t) \<Longrightarrow> q r \<Longrightarrow> \<not> p r \<and> \<not> p (f r)) \<Longrightarrow> select p (update_rows q f t) = select p t"
    by (simp add: select_def)
qed

lemma one_row_update:
  assumes "table_ok key t" and "x \<in> set (rows t)" and "owner x \<noteq> k" and "\<And>r. owner r \<noteq> k \<Longrightarrow> owner (f r) \<noteq> k"
  shows "select (\<lambda>r. owner r = k) (update_rows (\<lambda>r. key r = key x) f t) = select (\<lambda>r. owner r = k) t"
proof (rule select_untouched)
  fix r
  assume "r \<in> set (rows t)" "key r = key x"
  then have "r = x" using table_ok_unique [OF assms(1)] assms(2) by blast
  with assms(3,4) show "owner r \<noteq> k \<and> owner (f r) \<noteq> k" by simp
qed

lemma managed_pays: "managed_employee actor k w = (Inr u, v) \<Longrightarrow> pays actor w k"
  using managed_employee_success unfolding pays_def by blast

lemma managed_allowance_success: "managed_allowance uuid actor w = (Inr a, v) \<Longrightarrow> a \<in> set (rows (allowances w)) \<and> pays actor w (al_employee a)"
  unfolding managed_allowance_def by ((erule guard_success, (intro fail_rules)[1])+, auto simp: bind_ensure op_success dest!: managed_pays find_row_Some)

lemma managed_deduction_success:
  "managed_deduction uuid actor w = (Inr d, v) \<Longrightarrow> d \<in> set (rows (employee_deductions w)) \<and> pays actor w (ed_employee d)"
  unfolding managed_deduction_def by ((erule guard_success, (intro fail_rules)[1])+, auto simp: op_success dest!: managed_pays find_row_Some)

lemma structures_written:
  assumes "pays actor w eid" and "\<And>k. k \<noteq> eid \<Longrightarrow> select (\<lambda>s. s_employee s = k) T = select (\<lambda>s. s_employee s = k) (structures w)"
  shows "others_kept actor w (w\<lparr>structures := T\<rparr>)"
  using assms by (auto simp: others_kept_def pay_rows_def) metis

lemma allowances_written:
  assumes "pays actor w eid" and "\<And>k. k \<noteq> eid \<Longrightarrow> select (\<lambda>s. al_employee s = k) T = select (\<lambda>s. al_employee s = k) (allowances w)"
  shows "others_kept actor w (w\<lparr>allowances := T\<rparr>)"
  using assms by (auto simp: others_kept_def pay_rows_def) metis

lemma deductions_written:
  assumes "pays actor w eid" and "\<And>k. k \<noteq> eid \<Longrightarrow> select (\<lambda>s. ed_employee s = k) T = select (\<lambda>s. ed_employee s = k) (employee_deductions w)"
  shows "others_kept actor w (w\<lparr>employee_deductions := T\<rparr>)"
  using assms by (auto simp: others_kept_def pay_rows_def) metis

lemma leads_others_atomic: "leads (others_kept actor w) m w \<Longrightarrow> leads (others_kept actor w) (atomically m) w"
proof -
  assume m: "leads (others_kept actor w) m w"
  have "leads (others_kept actor w) (bind (atomically m) ret) w"
    by (rule leads_atomically) (use m in \<open>auto simp: others_kept_def pay_rows_def leads_def intro!: keeps_rules\<close>)
  moreover have "bind (atomically m) ret = atomically m"
    by (auto simp: bind_def ret_def fun_eq_iff split: prod.split sum.split)
  ultimately show ?thesis by simp
qed

section \<open>The operations\<close>

lemma create_structure_scope: "leads (others_kept actor w) (createStructure en dto actor) w"
  unfolding createStructure_def Let_def
proof ((rule leads_guard [where I = "others_kept actor w"], (intro fail_rules readonly_toBigInt)[1], rule others_kept_refl)+, rule leads_others_atomic, rule leads_update_ret, goal_cases)
  case (1 eid u t)
  have "pays actor w eid" by (rule managed_pays [OF 1(2)])
  then show ?case
    unfolding snd_conv
    by (rule structures_written) (auto simp: structure_row_def close_structures_def intro!: select_untouched)
qed (intro keeps_bind keeps_ret keeps_audit_pay)

lemma update_structure_scope:
  assumes "pay_keys w"
  shows "leads (others_kept actor w) (updateStructure en uuid dto actor) w"
  unfolding updateStructure_def Let_def
proof ((rule leads_guard [where I = "others_kept actor w"], (intro fail_rules readonly_toBigInt)[1], rule others_kept_refl)+, rule leads_modify, goal_cases)
  case (1 s u)
  have "pays actor w (s_employee s)" by (rule managed_pays [OF 1(2)])
  moreover have "s \<in> set (rows (structures w))" using 1(1) by (auto simp: find_structure_def op_success dest!: find_row_Some)
  ultimately show ?case
    using assms by (intro structures_written one_row_update) (auto simp: pay_keys_def edited_structure_def Let_def)
qed (intro keeps_ret)

lemma create_deduction_scope: "leads (others_kept actor w) (createEmployeeDeduction en dto actor) w"
  unfolding createEmployeeDeduction_def Let_def
proof ((rule leads_guard [where I = "others_kept actor w"], (intro fail_rules readonly_toBigInt)[1], rule others_kept_refl)+, goal_cases)
  case (1 eid type u)
  have "pays actor w eid" by (rule managed_pays [OF 1(3)])
  then show ?case unfolding leads_def update_ret_app snd_conv by (rule deductions_written) simp
qed

lemma update_deduction_scope:
  assumes "pay_keys w"
  shows "leads (others_kept actor w) (updateEmployeeDeduction en uuid dto actor) w"
  unfolding updateEmployeeDeduction_def Let_def
proof ((rule leads_guard [where I = "others_kept actor w"], (intro fail_rules readonly_toBigInt)[1], rule others_kept_refl)+, rule leads_modify, goal_cases)
  case (1 d)
  show ?case
    using managed_deduction_success [OF 1(1)] assms by (intro deductions_written one_row_update) (auto simp: pay_keys_def)
qed (intro keeps_bind keeps_ret keeps_audit_pay)

lemma delete_deduction_scope:
  assumes "pay_keys w"
  shows "leads (others_kept actor w) (deleteEmployeeDeduction en uuid actor) w"
  unfolding deleteEmployeeDeduction_def
proof (rule leads_guard [where I = "others_kept actor w"], (intro fail_rules)[1], rule others_kept_refl, rule leads_modify, goal_cases)
  case (1 d)
  show ?case
    using managed_deduction_success [OF 1(1)] assms by (intro deductions_written one_row_update) (auto simp: pay_keys_def)
qed (intro keeps_bind keeps_ret keeps_audit_pay)

lemma create_allowance_scope: "leads (others_kept actor w) (createAllowance en dto actor) w"
  unfolding createAllowance_def Let_def
proof ((rule leads_guard [where I = "others_kept actor w"], (intro fail_rules readonly_toBigInt)[1], rule others_kept_refl)+, rule leads_update_ret, goal_cases)
  case (1 eid u)
  have "pays actor w eid" by (rule managed_pays [OF 1(2)])
  then show ?case unfolding snd_conv by (rule allowances_written) simp
qed (intro keeps_bind keeps_ret keeps_audit_pay)

lemma save_allowance_scope:
  assumes "pay_keys w" and a: "managed_allowance uuid actor w = (Inr a, w)" and same: "al_id saved = al_id a" "al_employee saved = al_employee a"
  shows "others_kept actor w (w\<lparr>allowances := update_rows (\<lambda>x. al_id x = al_id saved) (\<lambda>_. saved) (allowances w)\<rparr>)"
  using managed_allowance_success [OF a] assms unfolding same(1)
  by (intro allowances_written one_row_update) (auto simp: pay_keys_def)

lemma update_allowance_scope:
  assumes "pay_keys w"
  shows "leads (others_kept actor w) (updateAllowance uuid dto actor) w"
  unfolding updateAllowance_def Let_def save_allowance_def
proof ((rule leads_guard [where I = "others_kept actor w"], (intro fail_rules readonly_toBigInt)[1], rule others_kept_refl)+, rule leads_modify, goal_cases)
  case (1 a type)
  show ?case by (rule save_allowance_scope [OF assms 1(1)]) simp_all
qed (intro keeps_bind keeps_ret keeps_audit_pay)

lemma deactivate_allowance_scope:
  assumes "pay_keys w"
  shows "leads (others_kept actor w) (deactivateAllowance uuid actor) w"
  unfolding deactivateAllowance_def Let_def save_allowance_def
proof (rule leads_guard [where I = "others_kept actor w"], (intro fail_rules)[1], rule others_kept_refl, rule leads_modify, goal_cases)
  case (1 a)
  show ?case by (rule save_allowance_scope [OF assms 1(1)]) simp_all
qed (intro keeps_bind keeps_ret keeps_audit_pay)

text \<open>The requests on the pay of one employee.\<close>

definition individual :: "personnel_request \<Rightarrow> bool" where
  "individual q \<longleftrightarrow> (case q of CreateStructure _ \<Rightarrow> True | UpdateStructure _ _ \<Rightarrow> True | CreateEmployeeDeduction _ \<Rightarrow> True
     | UpdateEmployeeDeduction _ _ \<Rightarrow> True | DeleteEmployeeDeduction _ \<Rightarrow> True | CreateAllowance _ \<Rightarrow> True | UpdateAllowance _ _ \<Rightarrow> True
     | DeactivateAllowance _ \<Rightarrow> True | _ \<Rightarrow> False)"

lemma leads_then_ret: "leads I m w \<Longrightarrow> leads I (bind m (\<lambda>_. ret ())) w"
  by (rule leads_then) (auto simp: leads_def keeps_ret)

lemma individual_scope:
  assumes "pay_keys w" and "individual q" and "run_personnel en actor q w = (r, v)"
  shows "others_kept actor w v"
proof -
  have "leads (others_kept actor w) (run_personnel en actor q) w"
  proof (cases q)
    case (CreateStructure dto)
    show ?thesis unfolding run_personnel_def CreateStructure personnel_request.case by (rule leads_then_ret, rule create_structure_scope)
  next
    case (UpdateStructure u dto)
    show ?thesis unfolding run_personnel_def UpdateStructure personnel_request.case by (rule leads_then_ret, rule update_structure_scope [OF assms(1)])
  next
    case (CreateEmployeeDeduction dto)
    show ?thesis unfolding run_personnel_def CreateEmployeeDeduction personnel_request.case by (rule leads_then_ret, rule create_deduction_scope)
  next
    case (UpdateEmployeeDeduction u dto)
    show ?thesis unfolding run_personnel_def UpdateEmployeeDeduction personnel_request.case by (rule leads_then_ret, rule update_deduction_scope [OF assms(1)])
  next
    case (DeleteEmployeeDeduction u)
    show ?thesis unfolding run_personnel_def DeleteEmployeeDeduction personnel_request.case by (rule leads_then_ret, rule delete_deduction_scope [OF assms(1)])
  next
    case (CreateAllowance dto)
    show ?thesis unfolding run_personnel_def CreateAllowance personnel_request.case by (rule leads_then_ret, rule create_allowance_scope)
  next
    case (UpdateAllowance u dto)
    show ?thesis unfolding run_personnel_def UpdateAllowance personnel_request.case by (rule leads_then_ret, rule update_allowance_scope [OF assms(1)])
  next
    case (DeactivateAllowance u)
    show ?thesis unfolding run_personnel_def DeactivateAllowance personnel_request.case by (rule leads_then_ret, rule deactivate_allowance_scope [OF assms(1)])
  qed (use assms(2) in \<open>simp_all add: individual_def\<close>)
  with assms(3) show ?thesis by (auto dest: leadsD)
qed

end
