(* ===== verification/Organization.thy ===== *)
theory Organization
  imports Department_Admin User_Accounts
begin

text \<open>
  Working locations and their managers (\<open>organization/organization.service.ts\<close>): creation
  with a derived code and a copy of the departments, listing through the cache, update,
  deletion, and the appointment of the manager of a branch.
\<close>

section \<open>Checks\<close>

definition ensureActorCanManageAllBranches :: "current_user \<Rightarrow> unit service" where
  "ensureActorCanManageAllBranches actor = ensure (canReadAllBranches (Some actor))
     (BadRequest ''You need all-branches access to manage working locations.'')"

definition other_locations :: "nat option \<Rightarrow> world \<Rightarrow> location list" where
  "other_locations self w = select (\<lambda>l. \<not> w_deleted l \<and> Some (w_id l) \<noteq> self) (locations w)"

definition no_namesake :: "nat option \<Rightarrow> string \<Rightarrow> unit service" where
  "no_namesake self name = bind (reads (\<lambda>w. List.find (\<lambda>l. normalizeEntityName (w_name l) = normalizeEntityName name)
       (other_locations self w))) (\<lambda>l. case l of
     None \<Rightarrow> ret ()
   | Some l \<Rightarrow> throw (BadRequest (''A working location named '' @ [CHR 0x27] @ w_name l @ [CHR 0x27] @ '' already exists.'')))"

definition no_headquarters :: "string \<Rightarrow> unit service" where
  "no_headquarters msg = bind (reads (\<lambda>w. find_row (\<lambda>l. w_type l = HQ \<and> \<not> w_deleted l) (locations w))) (\<lambda>l.
     ensure (l = None) (BadRequest msg))"

definition code_taken :: "string \<Rightarrow> error" where
  "code_taken code = BadRequest (''A working location with code '' @ [CHR 0x27] @ code @ [CHR 0x27] @ '' already exists.'')"

text \<open>The unique indexes cover every row, deleted ones too.\<close>

definition location_indexes :: "nat option \<Rightarrow> string \<Rightarrow> string \<Rightarrow> unit service" where
  "location_indexes self name code =
     bind (reads (\<lambda>w. select (\<lambda>l. Some (w_id l) \<noteq> self) (locations w))) (\<lambda>others.
     bind (ensure (name \<notin> w_name ` set others) (UniqueIndex ''Working_locations_name_key'')) (\<lambda>_.
     ensure (code \<notin> w_code ` set others) (UniqueIndex ''Working_locations_code_key'')))"

definition audit_organization :: "current_user \<Rightarrow> string \<Rightarrow> nat \<Rightarrow> activity_type \<Rightarrow> string \<Rightarrow> audit_action \<Rightarrow> json \<Rightarrow> json \<Rightarrow> unit service" where
  "audit_organization actor table entity type description action old new = audit (\<lambda>n. \<lparr>a_id = n, a_user = cu_id actor,
     a_employee = None, a_table = table, a_entity = entity, a_module = ''ORGANIZATION'', a_type = type,
     a_description = description, a_action = action, a_old = old, a_new = new, a_changed = []\<rparr>)"

definition location_type_name :: "location_type \<Rightarrow> string" where
  "location_type_name t = (case t of HQ \<Rightarrow> ''HQ'' | BRANCH \<Rightarrow> ''BRANCH'')"

definition location_values :: "location \<Rightarrow> json" where
  "location_values l = JObj [(''name'', JStr (w_name l)), (''type'', JStr (location_type_name (w_type l))),
     (''address'', JStr (w_address l))]"

section \<open>The code of a location\<close>

text \<open>The pieces between runs of white space.\<close>

fun words_from :: "string \<Rightarrow> string \<Rightarrow> string list" where
  "words_from acc [] = (if acc = [] then [] else [rev acc])"
| "words_from acc (c # cs) = (if is_space c then (if acc = [] then words_from [] cs else rev acc # words_from [] cs)
     else words_from (c # acc) cs)"

definition is_code_char :: "char \<Rightarrow> bool" where
  "is_code_char c \<longleftrightarrow> is_digit c \<or> (let n = (of_char c :: nat) in 65 \<le> n \<and> n \<le> 90)"

definition location_words :: "string \<Rightarrow> string list" where
  "location_words name = filter (\<lambda>v. v \<notin> {''THE'', ''OF'', ''BRANCH'', ''HQ''})
     (words_from [] (filter (\<lambda>c. is_code_char c \<or> is_space c) (to_upper name)))"

definition code_base :: "string \<Rightarrow> string" where
  "code_base name = (let ws = location_words name;
       base = (if length ws \<ge> 2 then map hd (take 3 ws)
         else take 3 (case ws of v # _ \<Rightarrow> v | [] \<Rightarrow> filter is_code_char (to_upper name))) in
     if base = [] then ''LOC'' else base)"

definition generateLocationCode :: "env \<Rightarrow> string \<Rightarrow> string set \<Rightarrow> string" where
  "generateLocationCode en name existing = (let base = code_base name in
     if base \<notin> existing then base
     else case List.find (\<lambda>c. c \<notin> existing) (map (\<lambda>k. base @ show_nat k) [2..<100]) of
         Some c \<Rightarrow> c
       | None \<Rightarrow> base @ (let s = show_int (now en) in drop (length s - 4) s))"

section \<open>Creation\<close>

record location_dto =
  ld_name :: string
  ld_code :: "string option"
  ld_type :: location_type
  ld_address :: string

definition location_row :: "env \<Rightarrow> location_dto \<Rightarrow> string \<Rightarrow> nat \<Rightarrow> location" where
  "location_row en dto code n = \<lparr>w_id = n, w_uuid = gen_uuid en ''working_locations'' n, w_name = ld_name dto, w_type = ld_type dto,
     w_deleted = False, w_code = code, w_address = ld_address dto\<rparr>"

text \<open>\<open>distinct: ['code']\<close> over the active departments.\<close>

fun one_per_code :: "department list \<Rightarrow> department list" where
  "one_per_code [] = []"
| "one_per_code (d # ds) = d # filter (\<lambda>x. d_code x \<noteq> d_code d) (one_per_code ds)"

definition copy_department :: "env \<Rightarrow> nat \<Rightarrow> department table \<Rightarrow> department \<Rightarrow> department table" where
  "copy_department en loc t d =
     create_at en \<lparr>cd_code = d_code d, cd_name = d_name d, cd_description = d_description d\<rparr> t loc"

definition copy_departments :: "env \<Rightarrow> nat \<Rightarrow> department table \<Rightarrow> department table" where
  "copy_departments en loc t = foldl (copy_department en loc) t (one_per_code (select d_active t))"

definition createWorkingLocation :: "env \<Rightarrow> location_dto \<Rightarrow> current_user \<Rightarrow> location service" where
  "createWorkingLocation en dto actor =
     bind (ensureActorCanManageAllBranches actor) (\<lambda>_.
     bind (ensure (ld_name dto \<noteq> [] \<and> ld_address dto \<noteq> [])
       (BadRequest ''Name, type, and address are required to create a working location.'')) (\<lambda>_.
     bind (no_namesake None (ld_name dto)) (\<lambda>_.
     bind (reads (\<lambda>w. w_code ` set (other_locations None w))) (\<lambda>existing.
     let code = (if truthy (ld_code dto) then to_upper (the (ld_code dto)) else generateLocationCode en (ld_name dto) existing) in
     bind (ensure (\<not> (truthy (ld_code dto) \<and> code \<in> existing)) (code_taken code)) (\<lambda>_.
     bind (when_op (ld_type dto = HQ) (no_headquarters ''Only one HQ can exist.'')) (\<lambda>_.
     bind (atomically (
       bind (location_indexes None (ld_name dto) code) (\<lambda>_.
       bind (update_ret (\<lambda>w. (location_row en dto code (next_id (locations w)),
         w\<lparr>locations := insert_row (location_row en dto code) (locations w)\<rparr>))) (\<lambda>created.
       bind (modify (\<lambda>w. w\<lparr>departments := copy_departments en (w_id created) (departments w)\<rparr>)) (\<lambda>_.
       bind (audit_organization actor ''working_locations'' (w_id created) AT_CREATE
         (''Created '' @ to_lower (location_type_name (ld_type dto)) @ '' working location.'') AU_CREATED JNull (location_values created)) (\<lambda>_.
       ret created)))))) (\<lambda>created.
     bind (cache_del ''working_locations'') (\<lambda>_.
     ret created))))))))"

section \<open>Listing\<close>

definition working_locations_key :: "current_user option \<Rightarrow> string option \<Rightarrow> string option \<Rightarrow> string" where
  "working_locations_key actor q scope = (case actor of
       Some a \<Rightarrow> ''working_locations_'' @ show_nat (cu_id a) @ ''_'' @ (if truthy q then the q @ ''_'' else []) @ value_or scope []
     | None \<Rightarrow> if truthy q then ''working_locations_'' @ the q else ''working_locations_public'')"

definition sees_all_locations :: "current_user option \<Rightarrow> string option \<Rightarrow> bool" where
  "sees_all_locations actor scope \<longleftrightarrow> canReadAllBranches actor
     \<or> scope = Some ''transfer'' \<and> (case actor of None \<Rightarrow> False
          | Some a \<Rightarrow> ''employees.transfer'' \<in> set (cu_permissions a) \<or> ''employees.transfer_approve'' \<in> set (cu_permissions a))"

definition listed_locations :: "current_user option \<Rightarrow> string option \<Rightarrow> string option \<Rightarrow> world \<Rightarrow> location list" where
  "listed_locations actor q scope w =
     (let own = (case actor of None \<Rightarrow> None
            | Some a \<Rightarrow> if \<not> sees_all_locations actor scope \<and> truthy (cu_location a) then Some (read_nat (the (cu_location a))) else None);
          contains = (\<lambda>s. str_includes (to_lower s) (to_lower (the q))) in
      sort_key (\<lambda>l. w_type l \<noteq> HQ) (sort_key (\<lambda>l. to_lower (w_name l)) (select (\<lambda>l. \<not> w_deleted l
        \<and> (own = None \<or> own = Some (w_id l)) \<and> (truthy q \<longrightarrow> contains (w_name l) \<or> contains (w_address l))) (locations w))))"

definition location_counts :: "world \<Rightarrow> location \<Rightarrow> nat \<times> nat \<times> nat" where
  "location_counts w l = (length (select (\<lambda>u. u_loc u = Some (w_id l)) (users w)),
     length (select (\<lambda>d. d_loc d = w_id l) (departments w)), length (select (\<lambda>e. e_loc e = Some (w_id l)) (employees w)))"

text \<open>\<open>None\<close> stands for a response served from the cache.\<close>

definition findWorkingLocations :: "current_user option \<Rightarrow> string option \<Rightarrow> string option \<Rightarrow> (location \<times> nat \<times> nat \<times> nat) list option service" where
  "findWorkingLocations actor qInput scope =
     (let q = normalizeSearch qInput; key = working_locations_key actor q scope in
      bind (reads (\<lambda>w. w)) (\<lambda>w.
      if key \<in> set (cache_keys w) then ret None
      else bind (cache_put key) (\<lambda>_.
        ret (Some (map (\<lambda>l. (l, location_counts w l)) (listed_locations actor q scope w))))))"

section \<open>Update and deletion\<close>

record location_update =
  lu_name :: "string option"
  lu_code :: "string option"
  lu_type :: "location_type option"
  lu_address :: "string option"

definition find_live_location :: "string \<Rightarrow> string \<Rightarrow> location service" where
  "find_live_location uuid msg = bind (reads (\<lambda>w. find_row (\<lambda>l. w_uuid l = uuid \<and> \<not> w_deleted l) (locations w))) (\<lambda>l.
     the_or (NotFound msg) l)"

definition edited_location :: "location_update \<Rightarrow> location \<Rightarrow> location" where
  "edited_location dto l = l\<lparr>w_name := value_or (lu_name dto) (w_name l), w_type := value_or (lu_type dto) (w_type l),
     w_address := value_or (lu_address dto) (w_address l),
     w_code := (if truthy (lu_code dto) then to_upper (the (lu_code dto)) else w_code l)\<rparr>"

definition updateWorkingLocation :: "string \<Rightarrow> location_update \<Rightarrow> current_user \<Rightarrow> location service" where
  "updateWorkingLocation uuid dto actor =
     bind (ensureActorCanManageAllBranches actor) (\<lambda>_.
     bind (find_live_location uuid ''Branch not found.'') (\<lambda>current.
     let saved = edited_location dto current in
     bind (no_namesake (Some (w_id current)) (w_name saved)) (\<lambda>_.
     bind (reads (\<lambda>w. w_code ` set (other_locations (Some (w_id current)) w))) (\<lambda>existing.
     bind (ensure (\<not> (w_code saved \<noteq> w_code current \<and> w_code saved \<in> existing)) (code_taken (w_code saved))) (\<lambda>_.
     bind (when_op (w_type saved = HQ \<and> w_type current \<noteq> HQ) (no_headquarters ''Only one headquarters branch can exist.'')) (\<lambda>_.
     bind (atomically (
       bind (location_indexes (Some (w_id current)) (w_name saved) (w_code saved)) (\<lambda>_.
       bind (modify (\<lambda>w. w\<lparr>locations := update_rows (\<lambda>l. w_id l = w_id current) (edited_location dto) (locations w)\<rparr>)) (\<lambda>_.
       audit_organization actor ''working_locations'' (w_id saved) AT_UPDATE ''Updated branch details.'' AU_UPDATED
         (location_values current) (location_values saved))))) (\<lambda>_.
     bind (cache_del ''working_locations'') (\<lambda>_.
     ret saved))))))))"

definition deleteWorkingLocation :: "env \<Rightarrow> string \<Rightarrow> current_user \<Rightarrow> location service" where
  "deleteWorkingLocation en uuid actor =
     bind (ensureActorCanManageAllBranches actor) (\<lambda>_.
     bind (find_live_location uuid ''Working location not found.'') (\<lambda>current.
     bind (atomically (
       bind (modify (\<lambda>w. w\<lparr>locations := update_rows (\<lambda>l. w_id l = w_id current) (\<lambda>l. l\<lparr>w_deleted := True\<rparr>) (locations w)\<rparr>)) (\<lambda>_.
       audit_organization actor ''working_locations'' (w_id current) AT_UPDATE ''Soft deleted working location.'' AU_UPDATED
         (JObj [(''deleted_at'', JNull)]) (JObj [(''deleted_at'', JStr (iso_instant (now en)))])))) (\<lambda>_.
     bind (cache_del ''working_locations'') (\<lambda>_.
     ret (current\<lparr>w_deleted := True\<rparr>)))))"

section \<open>The manager of a branch\<close>

definition resolveUserId :: "string \<Rightarrow> nat service" where
  "resolveUserId value =
     bind (requireUuidOrNumeric value ''user_id'') (\<lambda>_.
     bind (reads (\<lambda>w. find_row (\<lambda>u. (if isNumericId value then u_id u = read_nat value else u_uuid u = value)
       \<and> \<not> u_deleted u) (users w))) (\<lambda>u.
     bind (the_or (NotFound ''User not found.'') u) (\<lambda>u. ret (u_id u))))"

definition appoint_manager :: "nat \<Rightarrow> nat \<Rightarrow> branch_manager table \<Rightarrow> branch_manager table" where
  "appoint_manager loc uid t = insert_row (\<lambda>n. \<lparr>bm_id = n, bm_loc = loc, bm_user = uid, bm_active = True\<rparr>)
     (update_rows (\<lambda>b. bm_loc b = loc \<and> bm_active b) (\<lambda>b. b\<lparr>bm_active := False\<rparr>) t)"

definition manager_values :: "nat \<Rightarrow> nat option \<Rightarrow> json" where
  "manager_values loc uid = JObj [(''working_location_id'', JStr (show_nat loc)), (''user_id'', jopt (\<lambda>u. JStr (show_nat u)) uid)]"

definition assignBranchManager :: "string \<Rightarrow> string \<Rightarrow> current_user \<Rightarrow> branch_manager service" where
  "assignBranchManager locationUuid userInput actor =
     bind (ensureActorCanManageAllBranches actor) (\<lambda>_.
     bind (ensure (userInput \<noteq> []) (BadRequest ''User is required.'')) (\<lambda>_.
     bind (resolveUserId userInput) (\<lambda>uid.
     bind (find_live_location locationUuid ''Working location not found.'') (\<lambda>branch.
     bind (reads (\<lambda>w. find_row (\<lambda>u. u_id u = uid \<and> u_status u = P_ACTIVE \<and> u_loc u = Some (w_id branch) \<and> \<not> u_deleted u) (users w))) (\<lambda>u.
     bind (ensure (u \<noteq> None) (BadRequest ''Branch manager must be an active user in that branch or HQ.'')) (\<lambda>_.
     bind (reads (\<lambda>w. find_row (\<lambda>b. bm_loc b = w_id branch \<and> bm_active b) (branch_managers w))) (\<lambda>previous.
     atomically (
       bind (update_ret (\<lambda>w. (\<lparr>bm_id = next_id (branch_managers w), bm_loc = w_id branch, bm_user = uid, bm_active = True\<rparr>,
         w\<lparr>branch_managers := appoint_manager (w_id branch) uid (branch_managers w)\<rparr>))) (\<lambda>assigned.
       bind (audit_organization actor ''branch_managers'' (bm_id assigned) AT_UPDATE ''Assigned active branch manager.'' AU_UPDATED
         (manager_values (w_id branch) (map_option bm_user previous)) (manager_values (w_id branch) (Some uid))) (\<lambda>_.
       ret assigned))))))))))"

end
