(* ===== verification/Organization_Rules.thy ===== *)
theory Organization_Rules
  imports Organization User_Rules Department_Rules Personnel_Facts
begin

text \<open>
  What the administration of branches keeps: no two locations share a name or a code, live
  ones not even a name up to spelling; there is at most one live headquarters; a branch has
  at most one active manager; and at a location no two departments share a code or a name.
  Which departments a new branch starts with.
\<close>

section \<open>The registers\<close>

definition location_clash :: "location \<Rightarrow> location \<Rightarrow> bool" where
  "location_clash l l' \<longleftrightarrow> w_name l = w_name l' \<or> w_code l = w_code l'
     \<or> \<not> w_deleted l \<and> \<not> w_deleted l' \<and> (normalizeEntityName (w_name l) = normalizeEntityName (w_name l') \<or> w_type l = HQ \<and> w_type l' = HQ)"

definition label_clash :: "department \<Rightarrow> department \<Rightarrow> bool" where
  "label_clash d d' \<longleftrightarrow> d_loc d = d_loc d' \<and> (d_code d = d_code d' \<or> d_name d = d_name d')"

definition manager_twice :: "branch_manager \<Rightarrow> branch_manager \<Rightarrow> bool" where
  "manager_twice b b' \<longleftrightarrow> bm_loc b = bm_loc b' \<and> bm_active b \<and> bm_active b'"

interpretation branches: uniqueness_rule w_id location_clash
  by unfold_locales (auto simp: location_clash_def)

interpretation labels: uniqueness_rule d_id label_clash
  by unfold_locales (auto simp: label_clash_def)

interpretation appointments: uniqueness_rule bm_id manager_twice
  by unfold_locales (auto simp: manager_twice_def)

definition organization_ok :: "world \<Rightarrow> bool" where
  "organization_ok w \<longleftrightarrow> apart w_id location_clash (locations w) \<and> apart d_id label_clash (departments w)
     \<and> apart bm_id manager_twice (branch_managers w)"

lemma organization_only:
  assumes "organization_ok w" and "locations v = locations w" "departments v = departments w" "branch_managers v = branch_managers w"
  shows "organization_ok v"
  using assms by (simp add: organization_ok_def)

lemma keeps_organization_atomic: "keeps organization_ok m \<Longrightarrow> keeps organization_ok (atomically m)"
  by (rule keeps_atomically) (simp add: organization_ok_def)

lemma leads_organization_atomic: "organization_ok w \<Longrightarrow> leads organization_ok m w \<Longrightarrow> leads organization_ok (atomically m) w"
proof -
  assume ok: "organization_ok w" and m: "leads organization_ok m w"
  have "leads organization_ok (bind (atomically m) ret) w"
    by (rule leads_atomically) (use ok m in \<open>auto simp: organization_ok_def leads_def intro!: keeps_rules\<close>)
  moreover have "bind (atomically m) ret = atomically m"
    by (auto simp: bind_def ret_def fun_eq_iff split: prod.split sum.split)
  ultimately show ?thesis by simp
qed

lemma keeps_organization_writes:
  "keeps organization_ok (audit mk)" "keeps organization_ok (cache_put key)" "keeps organization_ok (cache_del key)"
  "keeps organization_ok (audit_organization actor t k y d a old new)"
proof -
  show a: "keeps organization_ok (audit mk)" for mk
    unfolding audit_def by (rule keeps_modify) (simp add: organization_ok_def)
  show "keeps organization_ok (audit_organization actor t k y d a old new)" unfolding audit_organization_def by (rule a)
qed (simp_all add: cache_put_def cache_del_def keeps_def organization_ok_def)

lemma readonly_organization [fail_rules]:
  "readonly (ensureActorCanManageAllBranches actor)" "readonly (no_namesake self name)" "readonly (no_headquarters msg)"
  "readonly (location_indexes self name code)" "readonly (find_live_location uuid msg)"
  unfolding ensureActorCanManageAllBranches_def no_namesake_def no_headquarters_def location_indexes_def find_live_location_def
  by (intro fail_rules)+

lemma keeps_organization_guards: "keeps organization_ok (ensureActorCanManageAllBranches actor)"
  "keeps organization_ok (find_live_location uuid msg)" "keeps organization_ok (resolveUserId value)"
  unfolding resolveUserId_def requireUuidOrNumeric_def by (rule keeps_readonly, intro fail_rules)+

lemmas keeps_organization = keeps_rules keeps_organization_writes keeps_organization_atomic keeps_organization_guards

text \<open>What the guards say once they are passed.\<close>

lemma no_namesake_Inr: "no_namesake self name w = (Inr u, v) \<Longrightarrow> \<forall>l \<in> set (rows (locations w)).
    \<not> w_deleted l \<and> Some (w_id l) \<noteq> self \<longrightarrow> normalizeEntityName (w_name l) \<noteq> normalizeEntityName name"
  by (auto simp: no_namesake_def other_locations_def find_None_iff split: option.splits)

lemma no_headquarters_Inr: "no_headquarters msg w = (Inr u, v) \<Longrightarrow> \<forall>l \<in> set (rows (locations w)). w_type l = HQ \<longrightarrow> w_deleted l"
  by (auto simp: no_headquarters_def bind_ensure find_row_None split: if_splits)

lemma location_indexes_Inr: "location_indexes self name code w = (Inr u, v) \<Longrightarrow>
    \<forall>l \<in> set (rows (locations w)). Some (w_id l) \<noteq> self \<longrightarrow> w_name l \<noteq> name \<and> w_code l \<noteq> code"
  by (auto simp: location_indexes_def bind_ensure split: if_splits)

lemma live_location: "find_live_location uuid msg w = (Inr l, v) \<Longrightarrow> l \<in> set (rows (locations w)) \<and> \<not> w_deleted l"
  by (auto simp: find_live_location_def op_success dest!: find_row_Some)

section \<open>The departments of a new branch\<close>

lemma copy_department_apart: "apart d_id label_clash t \<Longrightarrow> apart d_id label_clash (copy_department en loc t d)"
  by (auto simp: copy_department_def create_at_def taken_at_def list_ex_iff label_clash_def department_row_def intro!: labels.insert_apart)

lemma copy_departments_apart: "apart d_id label_clash t \<Longrightarrow> apart d_id label_clash (copy_departments en loc t)"
proof -
  have "apart d_id label_clash t \<Longrightarrow> apart d_id label_clash (foldl (copy_department en loc) t ds)" for t ds
    by (induction ds arbitrary: t) (auto intro: copy_department_apart)
  then show "apart d_id label_clash t \<Longrightarrow> apart d_id label_clash (copy_departments en loc t)" by (simp add: copy_departments_def)
qed

definition department_text :: "department \<Rightarrow> string \<times> string \<times> string option" where
  "department_text d = (d_code d, d_name d, d_description d)"

lemma copied_texts:
  assumes "distinct (map d_code ds)" "distinct (map d_name ds)"
    and "\<forall>x \<in> set (rows t). d_loc x = loc \<longrightarrow> d_code x \<notin> d_code ` set ds \<and> d_name x \<notin> d_name ` set ds"
  shows "select (\<lambda>d. d_loc d \<noteq> loc) (foldl (copy_department en loc) t ds) = select (\<lambda>d. d_loc d \<noteq> loc) t
    \<and> map department_text (select (\<lambda>d. d_loc d = loc) (foldl (copy_department en loc) t ds))
      = map department_text (select (\<lambda>d. d_loc d = loc) t) @ map department_text ds
    \<and> (\<forall>d \<in> set (select (\<lambda>d. d_loc d = loc) (foldl (copy_department en loc) t ds)). d_active d \<or> d \<in> set (rows t))"
  using assms
proof (induction ds arbitrary: t)
  case (Cons d ds)
  have new: "copy_department en loc t d = insert_row (department_row en loc (d_code d) (d_name d) (d_description d)) t"
    using Cons.prems(3) by (auto simp: copy_department_def create_at_def taken_at_def list_ex_iff)
  let ?t = "copy_department en loc t d"
  have "\<forall>x \<in> set (rows ?t). d_loc x = loc \<longrightarrow> d_code x \<notin> d_code ` set ds \<and> d_name x \<notin> d_name ` set ds"
    using Cons.prems unfolding new by (auto simp: department_row_def)
  note IH = Cons.IH [OF _ _ this]
  have "d_active x \<or> x \<in> set (rows t)" if "x \<in> set (rows (foldl (copy_department en loc) ?t ds))" "d_loc x = loc" for x
  proof -
    have "d_active x \<or> x \<in> set (rows ?t)" using IH Cons.prems(1,2) that by auto
    then show ?thesis by (auto simp: new department_row_def)
  qed
  with IH Cons.prems(1,2) show ?case by (auto simp: new department_row_def department_text_def)
qed simp

lemma one_per_code_codes: "distinct (map d_code (one_per_code ds))"
proof (induction ds)
  case (Cons d ds)
  then show ?case by (auto simp: distinct_map intro: inj_on_subset)
qed simp

section \<open>Every operation\<close>

lemma create_location_keeps: "keeps organization_ok (createWorkingLocation en dto actor)"
proof (rule keeps_leads)
  fix w :: world
  assume ok: "organization_ok w"
  show "leads organization_ok (createWorkingLocation en dto actor) w"
    unfolding createWorkingLocation_def Let_def
  proof ((rule leads_guard [where I = organization_ok, OF _ ok], (intro fail_rules)[1])+, rule leads_atomically, goal_cases)
    case (3 u1 u2 u3 existing u4 u5 a v)
    let ?code = "if truthy (ld_code dto) then to_upper (the (ld_code dto)) else generateLocationCode en (ld_name dto) existing"
    have "leads organization_ok (bind (location_indexes None (ld_name dto) ?code) (\<lambda>_.
       bind (update_ret (\<lambda>w. (location_row en dto ?code (next_id (locations w)),
         w\<lparr>locations := insert_row (location_row en dto ?code) (locations w)\<rparr>))) (\<lambda>created.
       bind (modify (\<lambda>w. w\<lparr>departments := copy_departments en (w_id created) (departments w)\<rparr>)) (\<lambda>_.
       bind (audit_organization actor ''working_locations'' (w_id created) AT_CREATE
         (''Created '' @ to_lower (location_type_name (ld_type dto)) @ '' working location.'') AU_CREATED JNull (location_values created)) (\<lambda>_.
       ret created))))) w"
    proof (rule leads_guard [where I = organization_ok, OF _ ok], (intro fail_rules)[1], rule leads_update_ret)
      fix u
      assume free: "location_indexes None (ld_name dto) ?code w = (Inr u, w)"
      have "w_type l = HQ \<longrightarrow> w_deleted l" if "ld_type dto = HQ" "l \<in> set (rows (locations w))" for l
        using 3(6) that no_headquarters_Inr by (auto simp: when_op_def)
      then have "apart w_id location_clash (insert_row (location_row en dto ?code) (locations w))"
        using ok location_indexes_Inr [OF free] no_namesake_Inr [OF 3(3)]
        by (intro branches.insert_apart) (auto simp: organization_ok_def location_row_def location_clash_def)
      then show "organization_ok (snd (location_row en dto ?code (next_id (locations w)),
          w\<lparr>locations := insert_row (location_row en dto ?code) (locations w)\<rparr>))"
        using ok by (simp add: organization_ok_def)
      show "keeps organization_ok (bind (modify (\<lambda>w. w\<lparr>departments := copy_departments en (w_id created) (departments w)\<rparr>)) (\<lambda>_.
         bind (audit_organization actor ''working_locations'' (w_id created) AT_CREATE
         (''Created '' @ to_lower (location_type_name (ld_type dto)) @ '' working location.'') AU_CREATED JNull (location_values created)) (\<lambda>_.
         ret created)))" for created
        by (intro keeps_organization keeps_modify) (auto simp: organization_ok_def copy_departments_apart)
    qed
    with 3(7) show ?case by (simp add: leads_def)
  qed (use ok in \<open>auto simp: organization_ok_def intro!: keeps_organization\<close>)
qed

lemma edited_location_simps [simp]: "w_id (edited_location dto l) = w_id l" "w_deleted (edited_location dto l) = w_deleted l"
  by (simp_all add: edited_location_def)

lemma update_location_keeps: "keeps organization_ok (updateWorkingLocation uuid dto actor)"
proof (rule keeps_leads)
  fix w :: world
  assume ok: "organization_ok w"
  show "leads organization_ok (updateWorkingLocation uuid dto actor) w"
    unfolding updateWorkingLocation_def Let_def
  proof ((rule leads_guard [where I = organization_ok, OF _ ok], (intro fail_rules)[1])+, rule leads_atomically, goal_cases)
    case (3 u1 current u2 existing u3 u4 a v)
    let ?saved = "edited_location dto current"
    note current = live_location [OF 3(2)]
    have "leads organization_ok (bind (location_indexes (Some (w_id current)) (w_name ?saved) (w_code ?saved)) (\<lambda>_.
       bind (modify (\<lambda>w. w\<lparr>locations := update_rows (\<lambda>l. w_id l = w_id current) (edited_location dto) (locations w)\<rparr>)) (\<lambda>_.
       audit_organization actor ''working_locations'' (w_id ?saved) AT_UPDATE ''Updated branch details.'' AU_UPDATED
         (location_values current) (location_values ?saved)))) w"
    proof (rule leads_guard [where I = organization_ok, OF _ ok], (intro fail_rules)[1], rule leads_modify)
      fix u
      assume free: "location_indexes (Some (w_id current)) (w_name ?saved) (w_code ?saved) w = (Inr u, w)"
      have hq: "w_type l \<noteq> HQ" if "w_type ?saved = HQ" "l \<in> set (rows (locations w))" "w_id l \<noteq> w_id current" "\<not> w_deleted l" for l
      proof (cases "w_type current = HQ")
        case True
        with ok current that show ?thesis by (auto simp: organization_ok_def apart_def location_clash_def)
      next
        case False
        with 3(6) that no_headquarters_Inr show ?thesis by (auto simp: when_op_def)
      qed
      have "apart w_id location_clash (update_rows (\<lambda>l. w_id l = w_id current) (edited_location dto) (locations w))"
        using ok current location_indexes_Inr [OF free] no_namesake_Inr [OF 3(3)] hq
        by (intro branches.update_one_apart) (auto simp: organization_ok_def location_clash_def)
      then show "organization_ok (w\<lparr>locations := update_rows (\<lambda>l. w_id l = w_id current) (edited_location dto) (locations w)\<rparr>)"
        using ok by (simp add: organization_ok_def)
    qed (intro keeps_organization)
    with 3(7) show ?case by (simp add: leads_def)
  qed (use ok in \<open>auto simp: organization_ok_def intro!: keeps_organization\<close>)
qed

lemma delete_location_keeps: "keeps organization_ok (deleteWorkingLocation en uuid actor)"
proof -
  have "keeps organization_ok (modify (\<lambda>w. w\<lparr>locations := update_rows (\<lambda>l. w_id l = k) (\<lambda>l. l\<lparr>w_deleted := True\<rparr>) (locations w)\<rparr>))" for k
    by (rule keeps_modify) (auto simp: organization_ok_def location_clash_def intro!: branches.update_apart)
  then show ?thesis unfolding deleteWorkingLocation_def by (intro keeps_organization)
qed

lemma appoint_manager_apart: "apart bm_id manager_twice t \<Longrightarrow> apart bm_id manager_twice (appoint_manager loc uid t)"
proof -
  assume t: "apart bm_id manager_twice t"
  have "apart bm_id manager_twice (update_rows (\<lambda>b. bm_loc b = loc \<and> bm_active b) (\<lambda>b. b\<lparr>bm_active := False\<rparr>) t)"
    by (rule appointments.update_apart [OF t]) (simp_all add: manager_twice_def)
  moreover have "\<forall>b \<in> set (rows (update_rows (\<lambda>b. bm_loc b = loc \<and> bm_active b) (\<lambda>b. b\<lparr>bm_active := False\<rparr>) t)).
      \<not> manager_twice b \<lparr>bm_id = n, bm_loc = loc, bm_user = uid, bm_active = True\<rparr>" for n
    unfolding ball_update_rows by (simp add: manager_twice_def)
  ultimately show ?thesis unfolding appoint_manager_def by (intro appointments.insert_apart) simp_all
qed

lemma assign_manager_keeps: "keeps organization_ok (assignBranchManager uuid user actor)"
proof -
  have "keeps organization_ok (update_ret (\<lambda>w. (f w, w\<lparr>branch_managers := appoint_manager loc uid (branch_managers w)\<rparr>)))" for f loc uid
    by (rule keeps_update_ret) (simp add: organization_ok_def appoint_manager_apart)
  then show ?thesis unfolding assignBranchManager_def by (intro keeps_organization)
qed

section \<open>Sequences of requests\<close>

datatype organization_request =
    CreateLocation location_dto
  | UpdateLocation string location_update
  | DeleteLocation string
  | AssignManager string string
  | ListLocations "string option" "string option"

definition run_organization :: "env \<Rightarrow> current_user \<Rightarrow> organization_request \<Rightarrow> unit service" where
  "run_organization en actor q = (case q of
       CreateLocation dto \<Rightarrow> bind (createWorkingLocation en dto actor) (\<lambda>_. ret ())
     | UpdateLocation u dto \<Rightarrow> bind (updateWorkingLocation u dto actor) (\<lambda>_. ret ())
     | DeleteLocation u \<Rightarrow> bind (deleteWorkingLocation en u actor) (\<lambda>_. ret ())
     | AssignManager u v \<Rightarrow> bind (assignBranchManager u v actor) (\<lambda>_. ret ())
     | ListLocations t scope \<Rightarrow> bind (findWorkingLocations (Some actor) t scope) (\<lambda>_. ret ()))"

lemma list_locations_keeps: "keeps organization_ok (findWorkingLocations actor t scope)"
  unfolding findWorkingLocations_def Let_def by (intro keeps_organization)

lemma run_organization_keeps: "keeps organization_ok (run_organization en actor q)"
  unfolding run_organization_def
  by (cases q; simp only: organization_request.case; intro keeps_bind keeps_ret create_location_keeps update_location_keeps
      delete_location_keeps assign_manager_keeps list_locations_keeps)

inductive organization_reach :: "world \<Rightarrow> world \<Rightarrow> bool" where
  organization_start: "organization_reach w w"
| organization_step: "organization_reach w v \<Longrightarrow> run_organization en actor q v = (r, u) \<Longrightarrow> organization_reach w u"

lemma organization_reach_ok: "organization_reach w v \<Longrightarrow> organization_ok w \<Longrightarrow> organization_ok v"
  by (induction rule: organization_reach.induct) (blast intro: keepsD [OF run_organization_keeps])+

section \<open>What a created branch contains\<close>

definition open_location :: "env \<Rightarrow> location_dto \<Rightarrow> current_user \<Rightarrow> string \<Rightarrow> location service" where
  "open_location en dto actor code = bind (location_indexes None (ld_name dto) code) (\<lambda>_.
       bind (update_ret (\<lambda>w. (location_row en dto code (next_id (locations w)),
         w\<lparr>locations := insert_row (location_row en dto code) (locations w)\<rparr>))) (\<lambda>created.
       bind (modify (\<lambda>w. w\<lparr>departments := copy_departments en (w_id created) (departments w)\<rparr>)) (\<lambda>_.
       bind (audit_organization actor ''working_locations'' (w_id created) AT_CREATE
         (''Created '' @ to_lower (location_type_name (ld_type dto)) @ '' working location.'') AU_CREATED JNull (location_values created)) (\<lambda>_.
       ret created))))"

lemma create_location_success: "createWorkingLocation en dto actor w = (Inr l, v) \<Longrightarrow>
    canReadAllBranches (Some actor) \<and> (\<exists>code u. open_location en dto actor code w = (Inr l, u) \<and> locations v = locations u \<and> departments v = departments u)"
  unfolding createWorkingLocation_def Let_def open_location_def [symmetric]
  by ((erule guard_success, (intro fail_rules)[1])+, auto simp: bind_Inr ensureActorCanManageAllBranches_def cache_del_def split: if_splits)
    (intro exI conjI, assumption, simp, simp)+

lemma open_location_success: "open_location en dto actor code w = (Inr l, v) \<Longrightarrow>
    l = location_row en dto code (next_id (locations w))
    \<and> locations v = insert_row (location_row en dto code) (locations w) \<and> departments v = copy_departments en (w_id l) (departments w)"
  unfolding open_location_def
  by (erule guard_success, (intro fail_rules)[1], auto simp: bind_update_ret audit_organization_def bind_Inr)

lemma created_location:
  assumes "createWorkingLocation en dto actor w = (Inr l, v)"
  shows "w_id l = next_id (locations w) \<and> departments v = copy_departments en (next_id (locations w)) (departments w)
    \<and> rows (locations v) = rows (locations w) @ [l] \<and> canReadAllBranches (Some actor)"
proof -
  obtain code u where "canReadAllBranches (Some actor)" "open_location en dto actor code w = (Inr l, u)"
    "locations v = locations u" "departments v = departments u"
    using create_location_success [OF assms] by blast
  then show ?thesis using open_location_success [of en dto actor code w l u] by (simp add: location_row_def)
qed

lemma new_branch_starts_with:
  assumes run: "createWorkingLocation en dto actor w = (Inr l, v)"
    and fresh: "\<forall>d \<in> set (rows (departments w)). d_loc d \<noteq> next_id (locations w)"
    and names: "distinct (map d_name (one_per_code (select d_active (departments w))))"
  shows "map department_text (select (\<lambda>d. d_loc d = w_id l) (departments v)) = map department_text (one_per_code (select d_active (departments w)))
    \<and> (\<forall>d \<in> set (select (\<lambda>d. d_loc d = w_id l) (departments v)). d_active d)
    \<and> select (\<lambda>d. d_loc d \<noteq> w_id l) (departments v) = rows (departments w)"
proof -
  let ?ds = "one_per_code (select d_active (departments w))" and ?n = "next_id (locations w)"
  have v: "w_id l = ?n" "departments v = foldl (copy_department en ?n) (departments w) ?ds"
    using created_location [OF run] by (simp_all add: copy_departments_def)
  have none: "select (\<lambda>d. d_loc d = ?n) (departments w) = []" and all: "select (\<lambda>d. d_loc d \<noteq> ?n) (departments w) = rows (departments w)"
    using fresh by (auto simp: select_def filter_empty_conv filter_id_conv)
  have "\<forall>x \<in> set (rows (departments w)). d_loc x = ?n \<longrightarrow> d_code x \<notin> d_code ` set ?ds \<and> d_name x \<notin> d_name ` set ?ds"
    using fresh by blast
  from copied_texts [OF one_per_code_codes names this, of en] show ?thesis unfolding v none all using fresh by auto
qed

end
