(* ===== verification/Samples.thy ===== *)
theory Samples
  imports Payroll_Watch Attendance_Ledger Department_Rules User_Rules Pay_Scope Organization_Rules
begin

text \<open>
  A small company on which the properties are exercised: headquarters and one branch, an
  HR user at headquarters, a branch manager, a super administrator, two monthly employees
  at the branch (one a member of the savings scheme), their pay structures and attendance.
\<close>

definition empty_world :: world where
  "empty_world = \<lparr>batches = empty_table, items = empty_table, transactions = empty_table, batch_actions = empty_table,
     employees = empty_table, categories = empty_table, structures = empty_table, time_records = empty_table,
     allowances = empty_table, deduction_types = empty_table, employee_deductions = empty_table,
     memberships = empty_table, contributions = empty_table, monthly_taxes = empty_table, configs = empty_table,
     locations = empty_table, departments = empty_table, positions = empty_table, position_variants = empty_table,
     position_deductions = empty_table, allowance_templates = empty_table, allowance_types = empty_table, branch_managers = empty_table,
     users = empty_table, roles = empty_table, user_roles = empty_table, user_permissions = empty_table,
     user_overrides = empty_table, sessions = empty_table, transfer_requests = empty_table, deactivation_requests = empty_table,
     histories = empty_table, audit_logs = empty_table, notifications = empty_table, dismissals = [],
     cache_keys = [], clients = [], delivered = []\<rparr>"

definition sample_user :: "nat \<Rightarrow> nat \<Rightarrow> nat option \<Rightarrow> user" where
  "sample_user n loc dep = \<lparr>u_id = n, u_uuid = ''user#'' @ show_nat n, u_loc = Some loc, u_department = dep, u_status = P_ACTIVE,
     u_deleted = False, u_first = ''Joe'', u_last = ''K'', u_email = show_nat n @ ''@reg'', u_phone = show_nat n, u_password = [],
     u_reset = None, u_verified = True, u_code = None, u_created_at = 0\<rparr>"

definition sample_role :: "nat \<Rightarrow> string \<Rightarrow> string list \<Rightarrow> role" where
  "sample_role n name keys = \<lparr>ro_id = n, ro_name = name, ro_keys = keys, ro_uuid = ''role#'' @ show_nat n, ro_loc = None,
     ro_description = None, ro_system = True, ro_level = None, ro_created_at = 0\<rparr>"

text \<open>\<open>new Date\<close> on the date-only form.\<close>

definition read_day :: "string \<Rightarrow> int option" where
  "read_day s = (if length s = 10 then Some (day_number (int (read_nat (take 4 s))) (read_nat (take 2 (drop 5 s)))
     (int (read_nat (drop 8 s))) * day_ms) else None)"

definition sample_env :: env where
  "sample_env = \<lparr>now = 1735689600000, gen_uuid = (\<lambda>s n. s @ ''#'' @ show_nat n), store_keys = False, to_date = utc_date,
     tz_offset = 0, parse_date = read_day, random_text = (\<lambda>s. s), hash_of = (\<lambda>f s. f @ ''('' @ s @ '')'')\<rparr>"

definition table_of :: "'r list \<Rightarrow> 'r table" where
  "table_of xs = \<lparr>rows = xs, next_id = Suc (length xs)\<rparr>"

definition actor_of :: "nat \<Rightarrow> string list \<Rightarrow> string list \<Rightarrow> string \<Rightarrow> current_user" where
  "actor_of n rs ps loc = \<lparr>cu_id = n, cu_status = ''ACTIVE'', cu_roles = rs, cu_permissions = ps, cu_overrides = [],
     cu_location = Some loc, cu_department = None\<rparr>"

definition super_admin :: current_user where
  "super_admin = actor_of 1 [''SUPER_ADMIN''] [] ''1''"

definition hq_hr :: current_user where
  "hq_hr = actor_of 2 [''HR''] [''payroll.approve_final''] ''1''"

definition manager :: current_user where
  "manager = actor_of 3 [''BRANCH_MANAGER''] [''payroll.approve_initial''] ''2''"

definition sample_employee :: "nat \<Rightarrow> employee" where
  "sample_employee n = \<lparr>e_id = n, e_uuid = ''employee#'' @ show_nat n, e_first_name = ''Ann'', e_last_name = ''M'',
     e_phone = None, e_contract_start = None, e_contract_end = None, e_department = None, e_loc = Some 2,
     e_position = None, e_category = Some 1, e_status = P_ACTIVE, e_pause_reason = None, e_deleted = False,
     e_email = None, e_national_id = None, e_gender = None, e_hired = None, e_created_at = 0\<rparr>"

definition sample_structure :: "nat \<Rightarrow> rat \<Rightarrow> pay_structure" where
  "sample_structure n salary = \<lparr>s_id = n, s_employee = n, s_frequency = MONTHLY, s_basic_salary = salary,
     s_daily_rate = 0, s_from = 0, s_to = None, s_uuid = ''pay#'' @ show_nat n, s_overtime = 0, s_tax = 0\<rparr>"

definition presence :: "nat \<Rightarrow> nat \<Rightarrow> int \<Rightarrow> time_record" where
  "presence n e d = \<lparr>r_id = n, r_uuid = ''record#'' @ show_nat n, r_employee = e, r_date = d, r_overtime = 0,
     r_status = PRESENT, r_approved_by = None, r_loc = Some 2, r_department = None\<rparr>"

definition company :: world where
  "company = empty_world\<lparr>
     locations := table_of [\<lparr>w_id = 1, w_uuid = ''loc#1'', w_name = ''HQ'', w_type = HQ, w_deleted = False,
         w_code = ''HQ'', w_address = ''Kigali''\<rparr>,
       \<lparr>w_id = 2, w_uuid = ''loc#2'', w_name = ''North'', w_type = BRANCH, w_deleted = False,
         w_code = ''NOR'', w_address = ''Musanze''\<rparr>],
     roles := table_of [sample_role 1 ''SUPER_ADMIN'' [], sample_role 2 ''HR'' [''payroll.approve_final''],
       sample_role 3 ''BRANCH_MANAGER'' [''payroll.approve_initial'']],
     users := table_of [sample_user 1 1 None, sample_user 2 1 None, sample_user 3 2 None],
     user_roles := table_of [\<lparr>ur_id = 1, ur_user = 1, ur_role = 1\<rparr>, \<lparr>ur_id = 2, ur_user = 2, ur_role = 2\<rparr>,
       \<lparr>ur_id = 3, ur_user = 3, ur_role = 3\<rparr>],
     categories := table_of [\<lparr>c_id = 1, c_name = ''Staff'', c_frequency = MONTHLY, c_uuid = ''cat#1'', c_active = True\<rparr>],
     employees := table_of [sample_employee 1, sample_employee 2],
     structures := table_of [sample_structure 1 220000, sample_structure 2 440000],
     time_records := table_of [presence 1 1 20090, presence 2 1 20091, presence 3 2 20090],
     memberships := table_of [\<lparr>m_id = 1, m_uuid = ''member#1'', m_employee = 1, m_amount = 1000, m_active = True,
       m_joined = 0, m_created_by = 1, m_loc = Some 2, m_department = None\<rparr>]\<rparr>"

definition january :: create_batch_dto where
  "january = \<lparr>bd_location = ''2'', bd_month = 1, bd_year = 2025, bd_payment_date = 20120, bd_method = BANK,
     bd_description = None, bd_start = None, bd_end = None, bd_work_days = None, bd_categories = [], bd_overrides = []\<rparr>"

section \<open>A batch under review, and an approved one\<close>

definition no_metadata :: calc_metadata where
  "no_metadata = \<lparr>md_frequency = MONTHLY, md_present_days = 22, md_expected_work_days = 22, md_contract_days = None,
     md_overtime_rate_per_hour = 2500, md_daily_net_rate = None, md_gross_before_proration = None,
     md_net_before_proration = None, md_proration_ratio = 1, md_overtime_days = 0, md_overtime_hours = 0,
     md_overtime_amount = 0, md_taxable_base_amount = 0, md_base_after_pit = 0, md_additions_amount = 0,
     md_configured_deductions_amount = 0, md_configured_deductions = [], md_full_base_salary = 0, md_absent_days = 0,
     md_absent_days_deduction = 0, md_allowance_eligible = True, md_tax_breakdown = [], md_is_over_21_days = True,
     md_period_calendar_days = 31, md_allowance_titles = []\<rparr>"

definition sample_slip :: "nat \<Rightarrow> rat \<Rightarrow> rat \<Rightarrow> tx_status \<Rightarrow> transaction" where
  "sample_slip n gross tax st = \<lparr>t_id = n, t_employee = n, t_structure = n, t_month = 1, t_year = 2025, t_gross = gross,
     t_base = gross, t_allowance = 0, t_tax = tax, t_attendance_days = 22, t_work_days = 22, t_start = 20088, t_end = 20119,
     t_metadata = no_metadata, t_deductions = tax, t_net = gross - tax, t_payment_date = 20120, t_method = BANK,
     t_status = st, t_approved_by = None, t_loc = 2, t_department = None\<rparr>"

definition sample_item :: "nat \<Rightarrow> batch_status \<Rightarrow> batch_item" where
  "sample_item n st = \<lparr>i_id = n, i_uuid = ''item#'' @ show_nat n, i_batch = 1, i_employee = n, i_transaction = n, i_status = st,
     i_rejection_reason = None, i_approved_by = None, i_approved_at = None, i_created_at = 0\<rparr>"

definition sample_batch :: "batch_status \<Rightarrow> nat \<Rightarrow> batch" where
  "sample_batch st step = \<lparr>b_id = 1, b_uuid = ''batch#1'', b_code = ''PAY-2025-01-0'', b_loc = 2, b_month = 1, b_year = 2025,
     b_total_employees = 2, b_total_amount = 510000, b_total_gross = 600000, b_total_allowances = 0,
     b_total_deductions = 90000, b_total_tax = 90000, b_status = st, b_step = step, b_rejected_reason = None,
     b_description = None, b_attachments = [], b_submitted_by = 3, b_approved_by = None, b_submitted_at = None,
     b_approved_at = None, b_created_at = 0\<rparr>"

text \<open>One item is still to be decided, the other one was refused.\<close>

definition under_review :: world where
  "under_review = company\<lparr>batches := table_of [sample_batch PENDING 1],
     items := table_of [sample_item 1 PENDING, sample_item 2 REJECTED],
     transactions := table_of [sample_slip 1 200000 30000 TX_PENDING, sample_slip 2 400000 60000 TX_REJECTED]\<rparr>"

definition all_paid :: world where
  "all_paid = company\<lparr>batches := table_of [sample_batch APPROVED 2],
     items := table_of [sample_item 1 APPROVED, sample_item 2 APPROVED],
     transactions := table_of [sample_slip 1 200000 30000 TX_PAID, sample_slip 2 400000 60000 TX_PAID]\<rparr>"

text \<open>The same batch after the branch manager's approval, every item accepted.\<close>

definition half_way :: world where
  "half_way = company\<lparr>batches := table_of [sample_batch MANAGER_APPROVED 2],
     items := table_of [sample_item 1 APPROVED, sample_item 2 APPROVED],
     transactions := table_of [sample_slip 1 200000 30000 TX_PENDING, sample_slip 2 400000 60000 TX_PENDING]\<rparr>"

lemmas sample_defs = half_way_def company_def empty_world_def table_of_def under_review_def all_paid_def
  sample_batch_def sample_item_def sample_slip_def sample_employee_def sample_user_def sample_role_def

lemma company_ok: "payroll_ok company"
  by (simp add: payroll_ok_def tables_ok_def core_ok_def links_ok_def people_ok_def totals_ok_def states_ok_def
      batch_items_def select_def ikimina_ok_def table_ok_def sample_defs empty_table_def)

lemma people_ok_iff: "people_ok I \<longleftrightarrow> (\<forall>k \<in> i_batch ` set (rows I). distinct (map i_employee (batch_items I k)))"
proof -
  have "batch_items I k = []" if "k \<notin> i_batch ` set (rows I)" for k
    using that by (auto simp: batch_items_def select_def filter_empty_conv)
  then show ?thesis unfolding people_ok_def by (metis distinct.simps(1) list.map(1))
qed

lemma under_review_ok: "payroll_ok under_review"
  by (simp add: payroll_ok_def tables_ok_def core_ok_def links_ok_def people_ok_iff totals_ok_def states_ok_def
      batch_items_def select_def ikimina_ok_def table_ok_def totals_of_batch_def totals_of_items_def item_amount_def
      find_row_def approved_in_def sample_defs empty_table_def)

lemma all_paid_ok: "payroll_ok all_paid"
  by (simp add: payroll_ok_def tables_ok_def core_ok_def links_ok_def people_ok_iff totals_ok_def states_ok_def
      batch_items_def select_def ikimina_ok_def table_ok_def totals_of_batch_def totals_of_items_def item_amount_def
      find_row_def approved_in_def sample_defs empty_table_def)

lemma half_way_ok: "payroll_ok half_way"
  by (simp add: payroll_ok_def tables_ok_def core_ok_def links_ok_def people_ok_iff totals_ok_def states_ok_def
      batch_items_def select_def ikimina_ok_def table_ok_def totals_of_batch_def totals_of_items_def item_amount_def
      find_row_def approved_in_def sample_defs empty_table_def)

section \<open>Other situations\<close>

text \<open>A daily worker whose contract ended, and a department that waits for its last employee to leave.\<close>

definition seasonal :: world where
  "seasonal = company\<lparr>categories := table_of [\<lparr>c_id = 1, c_name = ''Staff'', c_frequency = MONTHLY, c_uuid = ''cat#1'', c_active = True\<rparr>,
       \<lparr>c_id = 2, c_name = ''Season'', c_frequency = DAILY, c_uuid = ''cat#2'', c_active = True\<rparr>],
     employees := table_of [sample_employee 1, (sample_employee 2)\<lparr>e_category := Some 2, e_contract_end := Some 20000\<rparr>]\<rparr>"

definition emptied :: world where
  "emptied = company\<lparr>departments := table_of [\<lparr>d_id = 1, d_uuid = ''dep#1'', d_loc = 2, d_name = ''Sales'', d_active = True,
       d_code = ''S'', d_description = None, d_created_at = 0\<rparr>],
     deactivation_requests := table_of [\<lparr>dr_id = 1, dr_department = 1, dr_loc = 2, dr_status = DA_PENDING, dr_remaining = 1,
       dr_completed_by = None, dr_uuid = ''closing#1'', dr_requested_by = 3, dr_requested = 1, dr_created_at = 0\<rparr>]\<rparr>"

definition staffed :: world where
  "staffed = emptied\<lparr>employees := table_of [(sample_employee 1)\<lparr>e_department := Some 1\<rparr>, sample_employee 2],
     users := table_of [sample_user 1 2 (Some 1)],
     sessions := table_of [\<lparr>se_id = 1, se_user = 1, se_revoked = False\<rparr>]\<rparr>"

lemma emptied_registry: "administration_ok emptied"
  by (simp add: administration_ok_def registry_ok_def apart_def emptied_def company_def table_of_def table_ok_def)

definition moving :: "string \<Rightarrow> world" where
  "moving level = company\<lparr>transfer_requests := table_of [\<lparr>q_id = 1, q_uuid = ''move#1'', q_subject = SUBJECT_EMPLOYEE,
     q_employee = Some 1, q_old_loc = Some 2, q_new_loc = 1, q_old_department = None, q_new_department = Some 1,
     q_status = RQ_PENDING, q_level = level, q_reason = None, q_rejection_reason = None, q_history = [],
     q_requested_by = 3, q_approved_by = None, q_approved_at = None, q_user = None\<rparr>]\<rparr>"

text \<open>An import that corrects one day and adds another, and one with a row that is refused.\<close>

definition bulk_row :: "string \<Rightarrow> string \<Rightarrow> string \<Rightarrow> rat \<Rightarrow> bulk_record" where
  "bulk_row eid date status hours = \<lparr>br_employee = eid, br_date = date, br_overtime = Some hours, br_status = status\<rparr>"

definition import_of :: "bulk_record list \<Rightarrow> bulk_dto" where
  "import_of rs = \<lparr>bk_location = None, bk_department = None, bk_from = None, bk_to = None, bk_records = rs\<rparr>"

definition two_days :: bulk_dto where
  "two_days = import_of [bulk_row ''1'' ''2025-01-02'' ''ABSENT'' 0, bulk_row ''2'' ''2025-01-06'' ''PRESENT'' 2]"

lemma company_attendance: "attendance_ok (time_records company)"
  by (simp add: company_def attendance_ok_def table_ok_def table_of_def presence_def hours_ok_def)

end
