(* ===== verification/Personnel_Properties.thy ===== *)
theory Personnel_Properties
  imports Samples
begin

text \<open>
  The properties of the administration of employees, pay and branches: what every sequence of
  requests keeps, what a hired employee is paid and given, when a new pay structure takes
  effect, whom a mandatory deduction reaches, what an import leaves behind, and whose pay an
  actor can touch.
\<close>

section \<open>A branch that hires\<close>

text \<open>One position with a monthly pay basis and a transport allowance.\<close>

definition staffing :: world where
  "staffing = company\<lparr>
     positions := table_of [\<lparr>p_id = 1, p_uuid = ''pos#1'', p_name = ''Guard'', p_active = True, p_description = None\<rparr>],
     position_variants := table_of [\<lparr>vr_id = 1, vr_uuid = ''var#1'', vr_position = 1, vr_category = 1, vr_basic_salary = Some 150000,
       vr_daily_rate = None, vr_overtime_rate = Some 1000, vr_work_days = None\<rparr>],
     allowance_templates := table_of [\<lparr>tp_id = 1, tp_uuid = ''tpl#1'', tp_position = 1, tp_type = None, tp_title = ''Transport'',
       tp_amount = 20000, tp_description = None\<rparr>],
     structures := table_of [(sample_structure 1 220000)\<lparr>s_daily_rate := monthly_daily_rate 220000\<rparr>,
       (sample_structure 2 440000)\<lparr>s_daily_rate := monthly_daily_rate 440000\<rparr>]\<rparr>"

definition hire :: "string \<Rightarrow> rat \<Rightarrow> employee_dto" where
  "hire name salary = \<lparr>ne_first = Some name, ne_last = Some ''K'', ne_email = Some (name @ ''@reg''), ne_phone = None, ne_national_id = None,
     ne_gender = None, ne_hired = None, ne_start = None, ne_end = None, ne_department = None, ne_location = Some ''2'',
     ne_position = Some ''1'', ne_category = Some ''1'', ne_basic_salary = Some salary, ne_daily_rate = None, ne_tax = None,
     ne_allowance_title = None, ne_allowance_amount = None\<rparr>"

lemma staffing_ok: "personnel_ok staffing"
  by (simp add: staffing_def personnel_defs apart_def table_ok_def sample_defs sample_structure_def monthly_rate_ok_def empty_table_def
      identity_clash_def shared_def open_clash_def same_type_def same_allowance_type_def same_position_def same_variant_def same_link_def)



section \<open>What every request keeps\<close>

text \<open>C10.  Whatever requests on employees, positions and pay are served, refused ones included: no two
  employees share an address, a phone number or a national id, an employee has at most one open
  pay structure, a monthly structure carries the daily rate of its salary, and the catalogues of
  deduction types, allowance types and positions hold a name once.\<close>

theorem personnel_consistent:
  assumes "personnel_reach w v" and "personnel_ok w"
  shows "(\<forall>e \<in> set (rows (employees v)). \<forall>x \<in> set (rows (employees v)). e_email e \<noteq> None \<and> e_email e = e_email x
      \<or> e_phone e \<noteq> None \<and> e_phone e = e_phone x \<or> e_national_id e \<noteq> None \<and> e_national_id e = e_national_id x \<longrightarrow> e = x)
    \<and> (\<forall>s \<in> set (rows (structures v)). \<forall>x \<in> set (rows (structures v)). s_employee s = s_employee x \<and> s_to s = None \<and> s_to x = None \<longrightarrow> s = x)
    \<and> (\<forall>s \<in> set (rows (structures v)). s_frequency s = MONTHLY \<longrightarrow> s_daily_rate s = monthly_daily_rate (s_basic_salary s))
    \<and> inj_on dt_name (set (rows (deduction_types v))) \<and> inj_on ty_name (set (rows (allowance_types v)))
    \<and> inj_on p_name (set (rows (positions v)))"
proof -
  have ok: "personnel_ok v" by (rule personnel_reach_ok [OF assms])
  have rules: "apart e_id identity_clash (employees v)" "apart s_id open_clash (structures v)" "apart dt_id same_type (deduction_types v)"
      "apart ty_id same_allowance_type (allowance_types v)" "apart p_id same_position (positions v)"
    using ok by (simp_all add: personnel_defs)
  show ?thesis
  proof (intro conjI)
    show "\<forall>s \<in> set (rows (structures v)). s_frequency s = MONTHLY \<longrightarrow> s_daily_rate s = monthly_daily_rate (s_basic_salary s)"
      using ok by (auto simp: personnel_defs monthly_rate_ok_def)
    show "\<forall>e \<in> set (rows (employees v)). \<forall>x \<in> set (rows (employees v)). e_email e \<noteq> None \<and> e_email e = e_email x
      \<or> e_phone e \<noteq> None \<and> e_phone e = e_phone x \<or> e_national_id e \<noteq> None \<and> e_national_id e = e_national_id x \<longrightarrow> e = x"
      using apart_unique [OF rules(1)] by (simp add: identity_clash_def shared_def)
    show "\<forall>s \<in> set (rows (structures v)). \<forall>x \<in> set (rows (structures v)). s_employee s = s_employee x \<and> s_to s = None \<and> s_to x = None \<longrightarrow> s = x"
      using apart_unique [OF rules(2)] by (simp add: open_clash_def)
  qed (use apart_unique [OF rules(3)] apart_unique [OF rules(4)] apart_unique [OF rules(5)] in
      \<open>simp_all add: inj_on_def same_type_def same_allowance_type_def same_position_def\<close>)
qed

lemma hired_view: "(case fst (createEmployee sample_env (hire ''Eve'' 300000) (Some manager) staffing) of Inl _ \<Rightarrow> None
    | Inr view \<Rightarrow> Some (e_id (ev_employee view), e_category (ev_employee view), e_position (ev_employee view))) = Some (3, Some 1, Some 1)"
  by code_simp

lemma hired_row: "\<exists>view v. createEmployee sample_env (hire ''Eve'' 300000) (Some manager) staffing = (Inr view, v)
    \<and> e_id (ev_employee view) = 3 \<and> e_category (ev_employee view) = Some 1 \<and> e_position (ev_employee view) = Some 1"
  using hired_view by (cases "createEmployee sample_env (hire ''Eve'' 300000) (Some manager) staffing") (auto split: sum.splits)

theorem personnel_consistent_witness: "\<exists>v. personnel_reach staffing v \<and> length (rows (employees v)) = 3 \<and> inj_on p_name (set (rows (positions v)))"
proof -
  let ?q = "CreateEmployee (hire ''Eve'' 300000)"
  define v where "v = snd (run_personnel sample_env manager ?q staffing)"
  have reach: "personnel_reach staffing v"
    unfolding v_def by (rule personnel_step [OF personnel_start]) (rule prod.collapse [symmetric])
  obtain view u where run: "createEmployee sample_env (hire ''Eve'' 300000) (Some manager) staffing = (Inr view, u)" using hired_row by blast
  then have "v = u" by (simp add: v_def run_personnel_def bind_def)
  moreover have "length (rows (employees u)) = 3"
    using create_employee_success [OF run] by (auto simp: staffing_def company_def table_of_def)
  ultimately show ?thesis using personnel_consistent [OF reach staffing_ok] reach by blast
qed

text \<open>C31.  Whatever requests on branches are served, refused ones included: no two locations share a
  name or a code, live ones not even a name up to spelling, there is at most one live
  headquarters, and a branch has at most one active manager.\<close>

theorem organization_consistent:
  assumes "organization_reach w v" and "organization_ok w"
  shows "inj_on w_name (set (rows (locations v))) \<and> inj_on w_code (set (rows (locations v)))
    \<and> (\<forall>l \<in> set (rows (locations v)). \<forall>l' \<in> set (rows (locations v)). \<not> w_deleted l \<and> \<not> w_deleted l'
        \<and> (normalizeEntityName (w_name l) = normalizeEntityName (w_name l') \<or> w_type l = HQ \<and> w_type l' = HQ) \<longrightarrow> l = l')
    \<and> (\<forall>b \<in> set (rows (branch_managers v)). \<forall>b' \<in> set (rows (branch_managers v)). bm_active b \<and> bm_active b' \<and> bm_loc b = bm_loc b' \<longrightarrow> b = b')"
proof -
  have ok: "organization_ok v" by (rule organization_reach_ok [OF assms])
  then have rules: "apart w_id location_clash (locations v)" "apart bm_id manager_twice (branch_managers v)"
    by (simp_all add: organization_ok_def)
  show ?thesis
    using apart_unique [OF rules(1)] apart_unique [OF rules(2)] unfolding inj_on_def location_clash_def manager_twice_def by blast
qed

definition south :: location_dto where
  "south = \<lparr>ld_name = ''South'', ld_code = None, ld_type = BRANCH, ld_address = ''Huye''\<rparr>"

lemma south_opened: "map w_code (rows (locations (snd (createWorkingLocation sample_env south super_admin company)))) = [''HQ'', ''NOR'', ''SOU'']"
  by code_simp

lemma company_organization: "organization_ok company"
proof -
  have "normalizeEntityName ''HQ'' \<noteq> normalizeEntityName ''North''" by code_simp
  then show ?thesis
    by (auto simp: organization_ok_def apart_def table_ok_def location_clash_def company_def empty_world_def table_of_def empty_table_def)
qed

theorem organization_consistent_witness:
  "\<exists>v. organization_reach company v \<and> map w_code (rows (locations v)) = [''HQ'', ''NOR'', ''SOU''] \<and> inj_on w_code (set (rows (locations v)))"
proof -
  define v where "v = snd (run_organization sample_env super_admin (CreateLocation south) company)"
  have reach: "organization_reach company v"
    unfolding v_def by (rule organization_step [OF organization_start]) (rule prod.collapse [symmetric])
  have "v = snd (createWorkingLocation sample_env south super_admin company)"
    by (simp add: v_def run_organization_def bind_def split: prod.split sum.split)
  then have codes: "map w_code (rows (locations v)) = [''HQ'', ''NOR'', ''SOU'']" by (simp only: south_opened)
  have "inj_on w_code (set (rows (locations v)))" using organization_consistent [OF reach company_organization] by blast
  with reach codes show ?thesis by (intro exI [of _ v] conjI)
qed

section \<open>Hired and paid\<close>

text \<open>C23.  An employee hired with a monthly salary is paid it: every payroll whose period ends today or
  later finds a structure with that salary and its daily rate, and adds as allowances exactly
  the templates of the position.\<close>

theorem hired_is_paid:
  assumes "createEmployee en dto actor w = (Inr view, v)" and "personnel_ok w" and "benefits_known w"
    and "ne_basic_salary dto = Some b" and "e_category (ev_employee view) = Some k" and "k \<noteq> 0"
    and "find_row (\<lambda>c. c_id c = k) (categories w) = Some c" and "c_frequency c = MONTHLY"
    and "to_date en (now en) \<le> to_date en (period_end per)"
  shows "\<exists>s. find_pay_structure en v (e_id (ev_employee view)) per = Some s \<and> s_frequency s = MONTHLY
      \<and> s_basic_salary s = b \<and> s_daily_rate s = monthly_daily_rate b
    \<and> map (\<lambda>a. (al_title a, al_amount a)) (active_allowances v (e_id (ev_employee view)))
      = map (\<lambda>t. (tp_title t, tp_amount t)) (select (\<lambda>t. tp_position t = the (e_position (ev_employee view))) (allowance_templates w))"
  using assms by (rule hired_pay)

theorem hired_is_paid_witness:
  "\<exists>view v s. createEmployee sample_env (hire ''Eve'' 300000) (Some manager) staffing = (Inr view, v)
    \<and> find_pay_structure sample_env v 3 january = Some s \<and> s_basic_salary s = 300000
    \<and> map al_title (active_allowances v 3) = [''Transport'']"
proof -
  obtain view v where run: "createEmployee sample_env (hire ''Eve'' 300000) (Some manager) staffing = (Inr view, v)"
    and view: "e_id (ev_employee view) = 3" "e_category (ev_employee view) = Some 1" "e_position (ev_employee view) = Some 1"
    using hired_row by blast
  have known: "benefits_known staffing" and salary: "ne_basic_salary (hire ''Eve'' 300000) = Some 300000"
    by (simp_all add: benefits_known_def staffing_def company_def empty_world_def empty_table_def hire_def)
  have cat: "find_row (\<lambda>c. c_id c = 1) (categories staffing) = Some \<lparr>c_id = 1, c_name = ''Staff'', c_frequency = MONTHLY, c_uuid = ''cat#1'', c_active = True\<rparr>"
    by (simp add: staffing_def company_def table_of_def find_row_def)
  have "to_date sample_env (now sample_env) \<le> to_date sample_env (period_end january)" by code_simp
  from hired_is_paid [OF run staffing_ok known salary view(2) _ cat _ this]
  obtain s where "find_pay_structure sample_env v 3 january = Some s" "s_basic_salary s = 300000"
    "map (\<lambda>a. (al_title a, al_amount a)) (active_allowances v 3) = [(''Transport'', 20000)]"
    using view by (auto simp: staffing_def select_def table_of_def)
  then show ?thesis using run by (intro exI conjI) auto
qed









section \<open>Imports\<close>




section \<open>Reach\<close>

text \<open>C30.  An update that names a location moves the employee there at once, without a transfer request and
  without the approval a transfer needs; the actor only has to reach the employee where he is now.\<close>

theorem update_moves_without_approval:
  assumes "updateEmployee en uuid dto actor w = (Inr view, v)" and "optional_location (ne_location dto) w = (Inr (Some loc), w)"
  shows "\<exists>e. find_row (\<lambda>e. e_uuid e = uuid) (employees w) = Some e \<and> e_id (ev_employee view) = e_id e
    \<and> e_loc (ev_employee view) = Some loc \<and> ev_employee view \<in> set (rows (employees v)) \<and> transfer_requests v = transfer_requests w"
  using assms by (rule update_moves)

definition move :: employee_dto where
  "move = (hire ''Ann'' 1)\<lparr>ne_email := None, ne_location := Some ''1'', ne_position := None, ne_category := None, ne_basic_salary := None\<rparr>"

definition moved_to :: placement where
  "moved_to = \<lparr>pl_loc = Some 1, pl_department = None, pl_position = None, pl_category = None, pl_variant = None\<rparr>"

lemma move_steps:
  "findEmployeeByUuidOrThrow ''employee#1'' staffing = (Inr (sample_employee 1), staffing)"
  "ensureActorCanAccessEmployee manager (sample_employee 1) staffing = (Inr (), staffing)"
  "update_placement move (sample_employee 1) staffing = (Inr moved_to, staffing)"
  "identities_free (Some 1) ''Another'' move staffing = (Inr (), staffing)"
proof -
  have "(case findEmployeeByUuidOrThrow ''employee#1'' staffing of (Inr e, v) \<Rightarrow> e = sample_employee 1 | _ \<Rightarrow> False)" by code_simp
  then show "findEmployeeByUuidOrThrow ''employee#1'' staffing = (Inr (sample_employee 1), staffing)"
    by (auto split: prod.splits sum.splits dest!: findEmployee_success)
  have "(case ensureActorCanAccessEmployee manager (sample_employee 1) staffing of (Inr _, _) \<Rightarrow> True | _ \<Rightarrow> False)" by code_simp
  then show "ensureActorCanAccessEmployee manager (sample_employee 1) staffing = (Inr (), staffing)"
    by (auto split: prod.splits sum.splits dest: readonlyD [OF readonly_employee_checks(17)])
  have "fst (update_placement move (sample_employee 1) staffing) = Inr moved_to" by code_simp
  then show "update_placement move (sample_employee 1) staffing = (Inr moved_to, staffing)"
    using readonlyD [OF readonly_employee_checks(16), of move "sample_employee 1" staffing] by (cases "update_placement move (sample_employee 1) staffing") auto
  have "(case identities_free (Some 1) ''Another'' move staffing of (Inr _, _) \<Rightarrow> True | _ \<Rightarrow> False)" by code_simp
  then show "identities_free (Some 1) ''Another'' move staffing = (Inr (), staffing)"
    by (auto split: prod.splits sum.splits dest: readonlyD [OF readonly_employee_checks(10)])
qed

lemma move_saved: "\<exists>saved w. save_profile sample_env move moved_to (sample_employee 1) staffing = (Inr saved, w)"
proof -
  have "(case fst (save_profile sample_env move moved_to (sample_employee 1) staffing) of Inr x \<Rightarrow> True | _ \<Rightarrow> False)" by code_simp
  then show ?thesis by (cases "save_profile sample_env move moved_to (sample_employee 1) staffing") (auto split: sum.splits)
qed

lemma moved: "\<exists>view v. updateEmployee sample_env ''employee#1'' move manager staffing = (Inr view, v)"
proof -
  obtain saved w where save: "save_profile sample_env move moved_to (sample_employee 1) staffing = (Inr saved, w)" using move_saved by blast
  have tx: "\<exists>view u. update_tx sample_env move manager moved_to (sample_employee 1) staffing = (Inr (saved, view), u)"
    using move_steps(4) save
    by (auto simp: update_tx_def bind_def sample_employee_def update_salary_def has_salary_patch_def move_def hire_def moved_to_def
        update_allowance_def audit_profile_def or_else_def Let_def audit_def split: prod.split)
  have tail: "\<exists>v. update_tail sample_env manager (sample_employee 1) saved view u = (Inr view, v)" for view u
    by (auto simp: update_tail_def sample_employee_def set_somewhere_def clearEmployeeCache_def clear_cached_def sample_env_def cache_del_def)
  have none: "ne_start move = None" "ne_end move = None" "e_contract_start (sample_employee n) = None" "e_contract_end (sample_employee n) = None"
    and dates: "contract_after sample_env None fld None = ret None" for n fld
    by (simp_all add: move_def hire_def sample_employee_def contract_after_def)
  from tx obtain view u where "atomically (update_tx sample_env move manager moved_to (sample_employee 1)) staffing = (Inr (saved, view), u)"
    by (auto simp only: atomically_Inr)
  moreover obtain v where "update_tail sample_env manager (sample_employee 1) saved view u = (Inr view, v)" using tail by blast
  ultimately show ?thesis
    using move_steps(1-3)
    by (simp add: updateEmployee_def update_tx_def [symmetric] update_tail_def [symmetric] none dates bind_def [of "findEmployeeByUuidOrThrow _"]
      bind_def [of "ensureActorCanAccessEmployee _ _"] bind_def [of "update_placement _ _"] bind_def [of "atomically _"] assertContractDatesValid_def
      del: atomically_Inr)
qed

text \<open>The manager of the branch moves an employee to the headquarters.\<close>

theorem update_moves_without_approval_witness:
  "\<exists>view v. updateEmployee sample_env ''employee#1'' move manager staffing = (Inr view, v)
    \<and> cu_location manager = Some ''2'' \<and> e_loc (ev_employee view) = Some 1 \<and> transfer_requests v = transfer_requests staffing"
proof -
  obtain view v where run: "updateEmployee sample_env ''employee#1'' move manager staffing = (Inr view, v)" using moved by blast
  have "optional_location (ne_location move) staffing = (Inr (Some 1), staffing)"
    using update_placement_loc [OF move_steps(3)] by (simp add: moved_to_def)
  from update_moves_without_approval [OF run this] run show ?thesis by (auto simp: manager_def actor_of_def)
qed



end
