(* ===== verification/Payroll_Export.thy ===== *)
theory Payroll_Export
  imports Payroll_Review
begin

text \<open>
  What leaves the payroll service: the CSV export of a batch (\<open>csvCell\<close>, \<open>exportBatchCsv\<close>) and the
  activity trail of a batch (\<open>buildBatchActivityTrail\<close>), both in \<open>payroll/payroll.service.ts\<close>.
  The reader \<open>read_csv\<close> is the usual one for quoted cells; it gives back what was exported.
\<close>

section \<open>Cells and rows\<close>

definition quote :: char where
  "quote = CHR 0x22"

definition crlf :: string where
  "crlf = [CHR 0x0D, CHR 0x0A]"

definition csvCell :: "string \<Rightarrow> string" where
  "csvCell text = (if list_ex (\<lambda>c. c \<in> {quote, CHR '','', CHR 0x0D, CHR 0x0A}) text
     then quote # concat (map (\<lambda>c. if c = quote then [quote, quote] else [c]) text) @ [quote]
     else text)"

definition csv_row :: "string list \<Rightarrow> string" where
  "csv_row cells = join_with '','' (map csvCell cells)"

definition csv_text :: "string list list \<Rightarrow> string" where
  "csv_text rs = join_with crlf (map csv_row rs)"

definition csv_headers :: "string list" where
  "csv_headers = [''Batch Code'', ''Period'', ''Working Location'', ''Employee Name'', ''Phone Number'', ''Department'',
     ''Item Status'', ''Gross Pay'', ''Base Pay'', ''Allowances'', ''Overtime Hours'', ''Overtime Pay'', ''Tax'',
     ''Deductions'', ''Net Pay'', ''Attendance Days'', ''Payment Method'', ''Transaction Status'']"

definition method_name :: "payment_method \<Rightarrow> string" where
  "method_name m = (case m of BANK \<Rightarrow> ''BANK'' | CASH \<Rightarrow> ''CASH'' | MOMO \<Rightarrow> ''MOMO'')"

definition tx_status_name :: "tx_status \<Rightarrow> string" where
  "tx_status_name s = (case s of TX_PENDING \<Rightarrow> ''PENDING'' | TX_PAID \<Rightarrow> ''PAID'' | TX_REJECTED \<Rightarrow> ''REJECTED'' | TX_FAILED \<Rightarrow> ''FAILED'')"

definition employee_name :: "employee option \<Rightarrow> string" where
  "employee_name e = (case e of None \<Rightarrow> js_trim '' '' | Some x \<Rightarrow> js_trim (e_first_name x @ '' '' @ e_last_name x))"

text \<open>
  One item.  \<open>num\<close> is how the decimal library and \<open>Number\<close> print an amount; \<open>e\<close> and \<open>t\<close> are the
  employee and the transaction the item refers to, \<open>dep\<close> the employee's department, \<open>loc\<close>
  the batch's location.
\<close>

definition csv_cells :: "(rat \<Rightarrow> string) \<Rightarrow> batch \<Rightarrow> location option \<Rightarrow> batch_item \<Rightarrow> employee option \<Rightarrow> department option \<Rightarrow>
    transaction option \<Rightarrow> string list" where
  "csv_cells num b loc i e dep t =
     [b_code b,
      show_nat (b_month b) @ ''/'' @ show_nat (b_year b),
      (case loc of Some l \<Rightarrow> w_name l | None \<Rightarrow> show_nat (b_loc b)),
      employee_name e,
      (case Option.bind e e_phone of Some p \<Rightarrow> p | None \<Rightarrow> ''''),
      (case dep of Some d \<Rightarrow> d_name d | None \<Rightarrow> (case Option.bind e e_department of Some n \<Rightarrow> show_nat n | None \<Rightarrow> '''')),
      batch_status_name (i_status i),
      (case t of Some x \<Rightarrow> num (t_gross x) | None \<Rightarrow> ''0''),
      (case t of Some x \<Rightarrow> num (t_base x) | None \<Rightarrow> ''0''),
      (case t of Some x \<Rightarrow> num (t_allowance x) | None \<Rightarrow> ''0''),
      (case t of Some x \<Rightarrow> num (md_overtime_hours (t_metadata x)) | None \<Rightarrow> ''0''),
      (case t of Some x \<Rightarrow> num (md_overtime_amount (t_metadata x)) | None \<Rightarrow> ''0''),
      (case t of Some x \<Rightarrow> num (t_tax x) | None \<Rightarrow> ''0''),
      (case t of Some x \<Rightarrow> num (t_deductions x) | None \<Rightarrow> ''0''),
      (case t of Some x \<Rightarrow> num (t_net x) | None \<Rightarrow> ''0''),
      (case t of Some x \<Rightarrow> show_nat (t_attendance_days x) | None \<Rightarrow> ''0''),
      (case t of Some x \<Rightarrow> method_name (t_method x) | None \<Rightarrow> ''''),
      (case t of Some x \<Rightarrow> tx_status_name (t_status x) | None \<Rightarrow> '''')]"

definition csv_item_cells :: "(rat \<Rightarrow> string) \<Rightarrow> world \<Rightarrow> batch \<Rightarrow> batch_item \<Rightarrow> string list" where
  "csv_item_cells num w b i =
     (let e = find_row (\<lambda>e. e_id e = i_employee i) (employees w) in
      csv_cells num b (find_row (\<lambda>l. w_id l = b_loc b) (locations w)) i e
        (Option.bind (Option.bind e e_department) (\<lambda>n. find_row (\<lambda>d. d_id d = n) (departments w)))
        (find_row (\<lambda>t. t_id t = i_transaction i) (transactions w)))"

text \<open>The items of a batch in the order of \<open>batchIncludes\<close>.\<close>

definition included_items :: "world \<Rightarrow> nat \<Rightarrow> batch_item list" where
  "included_items w k = sort_key i_created_at (select (\<lambda>i. i_batch i = k) (items w))"

definition batch_sheet :: "(rat \<Rightarrow> string) \<Rightarrow> world \<Rightarrow> batch \<Rightarrow> string list list" where
  "batch_sheet num w b = csv_headers # map (csv_item_cells num w b) (included_items w (b_id b))"

definition exportBatchCsv :: "env \<Rightarrow> (rat \<Rightarrow> string) \<Rightarrow> string \<Rightarrow> current_user \<Rightarrow> (string \<times> string) service" where
  "exportBatchCsv en num uuid actor =
     bind (reads (\<lambda>w. find_row (\<lambda>b. b_uuid b = uuid) (batches w))) (\<lambda>b.
     bind (the_or (NotFound ''Payroll batch not found.'') b) (\<lambda>b.
     bind (ensureActorCanViewWorkingLocation actor (b_loc b)) (\<lambda>_.
     reads (\<lambda>w. (''reg-pay-batch-'' @ b_uuid b @ ''-'' @ iso_date (utc_date (now en)) @ ''.csv'',
       csv_text (batch_sheet num w b))))))"

section \<open>Reading an export back\<close>

text \<open>The rest of a quoted cell, up to the closing quote; a doubled quote stands for one.\<close>

fun quoted_part :: "string \<Rightarrow> string \<times> string" where
  "quoted_part [] = ([], [])"
| "quoted_part [c] = (if c = quote then ([], []) else ([c], []))"
| "quoted_part (c # d # cs) =
     (if c \<noteq> quote then (case quoted_part (d # cs) of (a, r) \<Rightarrow> (c # a, r))
      else if d = quote then (case quoted_part cs of (a, r) \<Rightarrow> (quote # a, r))
      else ([], d # cs))"

definition stops :: "char \<Rightarrow> bool" where
  "stops c \<longleftrightarrow> c = CHR '','' \<or> c = CHR 0x0D \<or> c = CHR 0x0A"

definition read_cell :: "string \<Rightarrow> string \<times> string" where
  "read_cell s = (if s \<noteq> [] \<and> hd s = quote then quoted_part (tl s)
     else (takeWhile (\<lambda>c. \<not> stops c) s, dropWhile (\<lambda>c. \<not> stops c) s))"

lemma quoted_part_length: "length (snd (quoted_part s)) \<le> length s"
  by (induction s rule: quoted_part.induct) (auto split: prod.splits)

lemma read_cell_length: "length (snd (read_cell s)) \<le> length s"
proof (cases "s \<noteq> [] \<and> hd s = quote")
  case True
  then show ?thesis using quoted_part_length [of "tl s"] by (simp add: read_cell_def)
next
  case False
  then show ?thesis by (auto simp: read_cell_def length_dropWhile_le)
qed

lemma read_cell_rest: "(a, r) = read_cell s \<Longrightarrow> length r \<le> length s"
  using read_cell_length [of s] by (metis snd_conv)

function read_csv :: "string \<Rightarrow> string list list" where
  "read_csv s = (case read_cell s of (a, r) \<Rightarrow>
     if r \<noteq> [] \<and> hd r = CHR '','' then (case read_csv (tl r) of [] \<Rightarrow> [[a]] | row # rs \<Rightarrow> (a # row) # rs)
     else if r \<noteq> [] \<and> hd r = CHR 0x0D then [a] # read_csv (drop 2 r)
     else [[a]])"
  by pat_completeness auto

termination
proof (relation "measure length", goal_cases)
  case (2 s a r)
  then show ?case using read_cell_rest [of a r s] by (cases r) auto
next
  case (3 s a r)
  then show ?case using read_cell_rest [of a r s] by (cases r) auto
qed simp

declare read_csv.simps [simp del]

definition doubled :: "string \<Rightarrow> string" where
  "doubled s = concat (map (\<lambda>c. if c = quote then [quote, quote] else [c]) s)"

lemma doubled_simps [simp]: "doubled [] = []" "doubled (c # s) = (if c = quote then quote # quote # doubled s else c # doubled s)"
  by (simp_all add: doubled_def)

text \<open>What may follow a cell: the end of the text, a comma, or a line break.\<close>

definition cell_end :: "string \<Rightarrow> bool" where
  "cell_end r \<longleftrightarrow> r = [] \<or> hd r = CHR '','' \<or> hd r = CHR 0x0D"

lemma quoted_part_doubled: "cell_end r \<Longrightarrow> quoted_part (doubled s @ quote # r) = (s, r)"
proof (induction s)
  case Nil
  then show ?case by (cases r) (auto simp: cell_end_def quote_def)
next
  case (Cons c s)
  then show ?case by (cases "doubled s @ quote # r") auto
qed

lemma read_cell_csvCell:
  assumes "cell_end r"
  shows "read_cell (csvCell s @ r) = (s, r)"
proof (cases "list_ex (\<lambda>c. c \<in> {quote, CHR '','', CHR 0x0D, CHR 0x0A}) s")
  case True
  then have "csvCell s @ r = quote # doubled s @ quote # r" by (simp add: csvCell_def doubled_def)
  then show ?thesis using quoted_part_doubled [OF assms] by (simp add: read_cell_def)
next
  case False
  then have plain: "\<forall>c \<in> set s. \<not> stops c \<and> c \<noteq> quote" by (auto simp: list_ex_iff stops_def)
  have "\<not> (s @ r \<noteq> [] \<and> hd (s @ r) = quote)"
    using plain assms by (cases s) (auto simp: cell_end_def quote_def)
  moreover have "takeWhile (\<lambda>c. \<not> stops c) (s @ r) = s \<and> dropWhile (\<lambda>c. \<not> stops c) (s @ r) = r"
    using plain assms by (cases r) (auto simp: cell_end_def stops_def)
  ultimately show ?thesis using False by (auto simp: read_cell_def csvCell_def)
qed

lemma read_row:
  assumes "cells \<noteq> []" and "r = [] \<or> (\<exists>t. r = crlf @ t)"
  shows "read_csv (csv_row cells @ r) = (if r = [] then [cells] else cells # read_csv (drop 2 r))"
  using assms(1)
proof (induction cells)
  case (Cons a cells)
  show ?case
  proof (cases cells)
    case Nil
    have "cell_end r" using assms(2) by (auto simp: cell_end_def crlf_def)
    then show ?thesis using assms(2) Nil read_cell_csvCell [of r a]
      by (subst read_csv.simps) (auto simp: csv_row_def crlf_def)
  next
    case (Cons b rest)
    with Cons.IH have IH: "read_csv (csv_row cells @ r) = (if r = [] then [cells] else cells # read_csv (drop 2 r))" by simp
    have "csv_row (a # cells) @ r = csvCell a @ CHR '','' # csv_row cells @ r"
      using Cons by (simp add: csv_row_def)
    moreover have "cell_end (CHR '','' # csv_row cells @ r)" by (simp add: cell_end_def)
    ultimately show ?thesis using read_cell_csvCell [of "CHR '','' # csv_row cells @ r" a] IH
      by (subst read_csv.simps) auto
  qed
qed simp

lemma read_csv_text:
  assumes "rs \<noteq> []" and "\<forall>row \<in> set rs. row \<noteq> []"
  shows "read_csv (csv_text rs) = rs"
  using assms
proof (induction rs)
  case (Cons row rs)
  show ?case
  proof (cases rs)
    case Nil
    then show ?thesis using read_row [of row "[]"] Cons.prems by (simp add: csv_text_def)
  next
    case (Cons row' rest)
    have "csv_text (row # rs) = csv_row row @ crlf @ csv_text rs" using Cons by (simp add: csv_text_def)
    moreover have "read_csv (csv_text rs) = rs" using Cons.IH Cons.prems Cons by simp
    ultimately show ?thesis using read_row [of row "crlf @ csv_text rs"] Cons.prems by (simp add: crlf_def)
  qed
qed simp

lemma export_reads_back:
  assumes "exportBatchCsv en num uuid actor w = (Inr (name, content), v)"
  shows "v = w \<and> (\<exists>b \<in> set (rows (batches w)). b_uuid b = uuid \<and> read_csv content = batch_sheet num w b
    \<and> (isSystemAdmin actor \<or> hasEffectivePermission actor ''payroll.read_all'' \<or> cu_location actor = Some (show_nat (b_loc b))))"
proof -
  obtain b where b: "find_row (\<lambda>b. b_uuid b = uuid) (batches w) = Some b" "v = w" "content = csv_text (batch_sheet num w b)"
    and may: "isSystemAdmin actor \<or> hasEffectivePermission actor ''payroll.read_all'' \<or> cu_location actor = Some (show_nat (b_loc b))"
    using assms by (auto simp: exportBatchCsv_def bind_Inr viewLocation_Inr)
  have "read_csv content = batch_sheet num w b"
    unfolding b(3) by (rule read_csv_text) (auto simp: batch_sheet_def csv_headers_def csv_item_cells_def csv_cells_def Let_def)
  with b may find_row_Some [OF b(1)] show ?thesis by auto
qed

section \<open>The activity trail\<close>

text \<open>One entry; the actor and the employee are given by their rows.\<close>

record trail_entry =
  te_id :: string
  te_scope :: string
  te_action :: string
  te_label :: string
  te_step :: "nat option"
  te_actor :: "user option"
  te_comment :: "string option"
  te_at :: int
  te_employee :: "(string \<times> string) option"

definition user_of :: "world \<Rightarrow> nat \<Rightarrow> user option" where
  "user_of w n = find_row (\<lambda>u. u_id u = n) (users w)"

definition batch_event :: "string \<Rightarrow> string \<Rightarrow> string \<Rightarrow> user option \<Rightarrow> string option \<Rightarrow> int \<Rightarrow> trail_entry" where
  "batch_event key action label actor comment t = \<lparr>te_id = key, te_scope = ''BATCH'', te_action = action, te_label = label,
     te_step = None, te_actor = actor, te_comment = comment, te_at = t, te_employee = None\<rparr>"

definition created_event :: "world \<Rightarrow> batch \<Rightarrow> trail_entry" where
  "created_event w b = batch_event (''created-'' @ b_uuid b) ''CREATED_DRAFT'' ''Created payroll draft''
     (user_of w (b_submitted_by b)) (b_description b) (b_created_at b)"

definition submitted_events :: "world \<Rightarrow> batch \<Rightarrow> trail_entry list" where
  "submitted_events w b = (case b_submitted_at b of None \<Rightarrow> [] | Some t \<Rightarrow>
     if b_status b = DRAFT then [] else [batch_event (''submitted-'' @ b_uuid b) ''SUBMITTED_FOR_REVIEW''
       ''Submitted payroll for review'' (user_of w (b_submitted_by b)) None t])"

definition approval_action_name :: "approval_action \<Rightarrow> string" where
  "approval_action_name a = (case a of ACT_APPROVED \<Rightarrow> ''APPROVED'' | ACT_REJECTED \<Rightarrow> ''REJECTED'' | ACT_RETURNED \<Rightarrow> ''RETURNED'')"

definition action_label :: "batch_action \<Rightarrow> string" where
  "action_label a = (if ba_step a = 1
     then (if ba_action a = ACT_REJECTED then ''Manager rejected payroll batch'' else ''Manager approved payroll batch'')
     else (if ba_action a = ACT_REJECTED then ''Final reviewer rejected payroll batch''
           else ''Final reviewer approved payroll batch''))"

definition action_event :: "world \<Rightarrow> batch_action \<Rightarrow> trail_entry" where
  "action_event w a = (batch_event (''approval-'' @ show_nat (ba_id a)) (approval_action_name (ba_action a)) (action_label a)
     (user_of w (ba_by a)) (ba_comment a) (ba_at a))\<lparr>te_step := Some (ba_step a)\<rparr>"

definition rejected_name :: "world \<Rightarrow> batch_item \<Rightarrow> string" where
  "rejected_name w i = (let name = employee_name (find_row (\<lambda>e. e_id e = i_employee i) (employees w))
     in if name = [] then show_nat (i_employee i) else name)"

definition rejected_event :: "world \<Rightarrow> batch_item \<Rightarrow> trail_entry" where
  "rejected_event w i = \<lparr>te_id = ''item-'' @ show_nat (i_id i), te_scope = ''EMPLOYEE'', te_action = ''EMPLOYEE_REJECTED'',
     te_label = ''Rejected employee: '' @ rejected_name w i, te_step = None, te_actor = Option.bind (i_approved_by i) (user_of w),
     te_comment = i_rejection_reason i, te_at = (case i_approved_at i of Some t \<Rightarrow> t | None \<Rightarrow> i_created_at i),
     te_employee = Some (show_nat (i_employee i), rejected_name w i)\<rparr>"

definition completed_events :: "world \<Rightarrow> batch \<Rightarrow> trail_entry list" where
  "completed_events w b = (case b_approved_at b of None \<Rightarrow> [] | Some t \<Rightarrow>
     if b_status b \<noteq> APPROVED then [] else [batch_event (''completed-'' @ b_uuid b) ''COMPLETED_READ_ONLY''
       ''Completed and locked for read-only review'' (Option.bind (b_approved_by b) (user_of w))
       (Some ''Super Admin can view the completed batch details, but cannot change them.'') t])"

definition buildBatchActivityTrail :: "world \<Rightarrow> batch \<Rightarrow> trail_entry list" where
  "buildBatchActivityTrail w b = sort_key te_at ([created_event w b] @ submitted_events w b
     @ map (action_event w) (sort_key ba_at (select (\<lambda>a. ba_batch a = b_id b) (batch_actions w)))
     @ map (rejected_event w) (filter (\<lambda>i. i_status i = REJECTED) (included_items w (b_id b)))
     @ completed_events w b)"

text \<open>The trail is in the order of time and names exactly the decisions and rejections of the batch.\<close>

lemma trail_sorted: "sorted (map te_at (buildBatchActivityTrail w b))"
  unfolding buildBatchActivityTrail_def by (rule sorted_sort_key)

lemma trail_entries: "set (buildBatchActivityTrail w b) = {created_event w b} \<union> set (submitted_events w b)
    \<union> action_event w ` {a \<in> set (rows (batch_actions w)). ba_batch a = b_id b}
    \<union> rejected_event w ` {i \<in> set (rows (items w)). i_batch i = b_id b \<and> i_status i = REJECTED}
    \<union> set (completed_events w b)"
  unfolding buildBatchActivityTrail_def set_sort set_append set_map included_items_def by auto

end
