(* ===== verification/Web.thy ===== *)
theory Web
  imports Lookup
begin

text \<open>
  Around the services: the request limiter (\<open>common/security/security.middleware.ts\<close>) and the
  answer to a failed request (\<open>common/utils/all-exceptions.filter.ts\<close>).
\<close>

section \<open>Request limiter\<close>

record bucket =
  bu_count :: nat
  bu_reset :: int

type_synonym buckets = "string \<Rightarrow> bucket option"

definition windowMs :: int where
  "windowMs = 60000"

definition maxRequests :: nat where
  "maxRequests = 240"

definition bucket_key :: "string option \<Rightarrow> string option \<Rightarrow> string \<Rightarrow> string" where
  "bucket_key ip remote path =
     (if truthy ip then the ip else if truthy remote then the remote else ''unknown'') @ '':''
     @ (if starts_with path ''/auth'' then ''auth'' else ''api'')"

text \<open>The bucket a request counts in: the live one of its key, or a fresh one.\<close>

definition current_bucket :: "int \<Rightarrow> bucket option \<Rightarrow> bucket" where
  "current_bucket t old = (case old of None \<Rightarrow> \<lparr>bu_count = 0, bu_reset = t + windowMs\<rparr>
     | Some b \<Rightarrow> if bu_reset b > t then b else \<lparr>bu_count = 0, bu_reset = t + windowMs\<rparr>)"

definition count_request :: "int \<Rightarrow> bucket option \<Rightarrow> bucket" where
  "count_request t old = (let b = current_bucket t old in b\<lparr>bu_count := bu_count b + 1\<rparr>)"

definition use_limiter :: "int \<Rightarrow> string \<Rightarrow> buckets \<Rightarrow> (error + unit) \<times> buckets" where
  "use_limiter t k bs = (let b = count_request t (bs k); bs' = bs(k := Some b) in
     if bu_count b > maxRequests then (Inl (TooManyRequests ''Too many requests. Please try again shortly.''), bs')
     else (Inr (), bs'))"

text \<open>A sequence of requests, each with its time and key; which of them pass.\<close>

fun passes :: "buckets \<Rightarrow> (int \<times> string) list \<Rightarrow> bool list" where
  "passes bs [] = []"
| "passes bs ((t, k) # rs) = (case use_limiter t k bs of (r, bs') \<Rightarrow> (\<not> isl r) # passes bs' rs)"

text \<open>The requests of one key alone, from the bucket of that key.\<close>

fun passes_of :: "bucket option \<Rightarrow> int list \<Rightarrow> bool list" where
  "passes_of old [] = []"
| "passes_of old (t # ts) = (let b = count_request t old in (bu_count b \<le> maxRequests) # passes_of (Some b) ts)"

definition passed :: "bool list \<Rightarrow> nat" where
  "passed xs = length (filter id xs)"

lemma passed_simps [simp]: "passed [] = 0" "passed (x # xs) = (if x then Suc (passed xs) else passed xs)"
  by (simp_all add: passed_def)

lemma passed_append [simp]: "passed (xs @ ys) = passed xs + passed ys"
  by (simp add: passed_def)

text \<open>Keys do not disturb each other.\<close>

definition answers_of :: "string \<Rightarrow> (int \<times> string) list \<Rightarrow> bool list \<Rightarrow> bool list" where
  "answers_of k rs as = map snd (filter (\<lambda>(r, a). snd r = k) (zip rs as))"

lemma passes_by_key: "answers_of k rs (passes bs rs) = passes_of (bs k) (map fst (filter (\<lambda>r. snd r = k) rs))"
proof (induction rs arbitrary: bs)
  case Nil
  then show ?case by (simp add: answers_of_def)
next
  case (Cons r rs)
  obtain t k' where r: "r = (t, k')" by (cases r)
  have "answers_of k rs (passes (bs(k' := Some (count_request t (bs k')))) rs)
      = passes_of ((bs(k' := Some (count_request t (bs k')))) k) (map fst (filter (\<lambda>r. snd r = k) rs))"
    by (rule Cons.IH)
  then show ?case unfolding r by (cases "k = k'") (auto simp: answers_of_def use_limiter_def Let_def not_less)
qed

text \<open>While a bucket is live it lets the rest of its quota through, in order.\<close>

lemma live_bucket:
  assumes "\<forall>t \<in> set ts. t < bu_reset b"
  shows "passes_of (Some b) ts = map (\<lambda>i. bu_count b + i < maxRequests) [0..<length ts]"
  using assms
proof (induction ts arbitrary: b)
  case (Cons t ts)
  then have "current_bucket t (Some b) = b" by (simp add: current_bucket_def)
  then have "count_request t (Some b) = b\<lparr>bu_count := bu_count b + 1\<rparr>" by (simp add: count_request_def)
  moreover have "passes_of (Some (b\<lparr>bu_count := bu_count b + 1\<rparr>)) ts = map (\<lambda>i. bu_count b + 1 + i < maxRequests) [0..<length ts]"
    using Cons.IH [of "b\<lparr>bu_count := bu_count b + 1\<rparr>"] Cons.prems by simp
  moreover have "[0..<length (t # ts)] = 0 # map Suc [0..<length ts]" by (simp add: upt_conv_Cons map_Suc_upt del: upt_Suc)
  ultimately show ?case by (simp add: o_def Suc_le_eq)
qed simp

lemma quota: "passed (map (\<lambda>i. c + i < m) [0..<n]) = min n (m - c)"
proof (induction n)
  case (Suc n)
  then show ?case by auto
qed simp

lemma fresh_bucket:
  assumes "\<forall>t \<in> set ts. t0 \<le> t \<and> t < t0 + windowMs"
  shows "passed (passes_of None (t0 # ts)) = min (Suc (length ts)) maxRequests"
proof -
  have first: "count_request t0 None = \<lparr>bu_count = 1, bu_reset = t0 + windowMs\<rparr>"
    by (simp add: count_request_def current_bucket_def)
  have "passes_of (Some \<lparr>bu_count = 1, bu_reset = t0 + windowMs\<rparr>) ts = map (\<lambda>i. 1 + i < maxRequests) [0..<length ts]"
    using live_bucket [of ts "\<lparr>bu_count = 1, bu_reset = t0 + windowMs\<rparr>"] assms by simp
  then show ?thesis using first quota [of 1 maxRequests "length ts"] by (simp add: maxRequests_def)
qed

lemma expired_bucket: "bu_reset b \<le> t \<Longrightarrow> passes_of (Some b) (t # ts) = passes_of None (t # ts)"
  by (simp add: count_request_def current_bucket_def)

lemma live_prefix:
  assumes "\<forall>t \<in> set xs. t < bu_reset b"
  shows "\<exists>c. passes_of (Some b) (xs @ ys) = passes_of (Some b) xs @ passes_of (Some (b\<lparr>bu_count := c\<rparr>)) ys"
  using assms
proof (induction xs arbitrary: b)
  case Nil
  have "b\<lparr>bu_count := bu_count b\<rparr> = b" by simp
  then show ?case by (metis append_Nil passes_of.simps(1))
next
  case (Cons t xs)
  then have step: "count_request t (Some b) = b\<lparr>bu_count := bu_count b + 1\<rparr>" by (simp add: count_request_def current_bucket_def)
  obtain c where "passes_of (Some (b\<lparr>bu_count := bu_count b + 1\<rparr>)) (xs @ ys)
      = passes_of (Some (b\<lparr>bu_count := bu_count b + 1\<rparr>)) xs @ passes_of (Some (b\<lparr>bu_count := bu_count b + 1, bu_count := c\<rparr>)) ys"
    using Cons.IH [of "b\<lparr>bu_count := bu_count b + 1\<rparr>"] Cons.prems by auto
  then show ?case using step by auto
qed

text \<open>In any minute at most two full quotas of a key pass: the end of one bucket and the next one.\<close>

lemma two_quotas:
  assumes "sorted ts" and "\<forall>t \<in> set ts. t0 \<le> t \<and> t < t0 + windowMs"
  shows "passed (passes_of old ts) \<le> 2 * maxRequests"
proof -
  have fresh: "passed (passes_of None us) \<le> maxRequests" if "sorted us" "set us \<subseteq> set ts" for us
  proof (cases us)
    case (Cons u us')
    have "\<forall>t \<in> set us. t0 \<le> t \<and> t < t0 + windowMs" using that(2) assms(2) by blast
    then have "\<forall>t \<in> set us'. u \<le> t \<and> t < u + windowMs" using that(1) Cons by auto
    from fresh_bucket [OF this] show ?thesis by (simp add: Cons)
  qed simp
  show ?thesis
  proof (cases old)
    case None
    with fresh [of ts] assms(1) show ?thesis by simp
  next
    case (Some b)
    define xs ys where "xs = takeWhile (\<lambda>t. t < bu_reset b) ts" and "ys = dropWhile (\<lambda>t. t < bu_reset b) ts"
    have parts: "ts = xs @ ys" "\<forall>t \<in> set xs. t < bu_reset b" by (auto simp: xs_def ys_def dest: set_takeWhileD)
    obtain c where split: "passes_of (Some b) ts = passes_of (Some b) xs @ passes_of (Some (b\<lparr>bu_count := c\<rparr>)) ys"
      using live_prefix [OF parts(2), of ys] parts(1) by auto
    have "passed (passes_of (Some b) xs) \<le> maxRequests" using live_bucket [OF parts(2)] quota by simp
    moreover have "passed (passes_of (Some (b\<lparr>bu_count := c\<rparr>)) ys) \<le> maxRequests"
    proof (cases ys)
      case (Cons y us)
      then have "\<not> y < bu_reset b" using hd_dropWhile [of "\<lambda>t. t < bu_reset b" ts] by (simp add: ys_def)
      then have "passes_of (Some (b\<lparr>bu_count := c\<rparr>)) ys = passes_of None ys"
        using Cons by (simp add: count_request_def current_bucket_def)
      moreover have "sorted ys" "set ys \<subseteq> set ts" using assms(1) parts(1) by (simp_all add: sorted_append)
      ultimately show ?thesis using fresh [of ys] by simp
    qed simp
    ultimately show ?thesis using split Some by simp
  qed
qed

section \<open>Answers to failed requests\<close>

text \<open>
  What reaches the filter: an HTTP exception with its status, its message or, for a rejected
  import, its list of errors; an error of the database client with its code and the index it
  names; anything else.
\<close>

datatype thrown = HttpException nat "string + row_error list" | PrismaError string string | Unexpected

definition thrown_of :: "error \<Rightarrow> thrown" where
  "thrown_of e = (case e of
     BadRequest m \<Rightarrow> HttpException 400 (Inl m)
   | NotFound m \<Rightarrow> HttpException 404 (Inl m)
   | Forbidden m \<Rightarrow> HttpException 403 (Inl m)
   | Conflict m \<Rightarrow> HttpException 409 (Inl m)
   | Unauthorized m \<Rightarrow> HttpException 401 (Inl m)
   | TooManyRequests m \<Rightarrow> HttpException 429 (Inl m)
   | BadRows es \<Rightarrow> HttpException 400 (Inr es)
   | UniqueIndex idx \<Rightarrow> PrismaError ''P2002'' idx
   | InvalidQuery \<Rightarrow> Unexpected)"

definition generic_message :: string where
  "generic_message = ''Something went wrong on the server. Please try again or contact support if the problem continues.''"

definition toPlainMessage :: "string \<Rightarrow> string" where
  "toPlainMessage text = (let normalized = js_trim (collapse_spaces text)
     in if normalized = [] then ''The request could not be completed.'' else normalized)"

definition duplicateMessage :: "string \<Rightarrow> string" where
  "duplicateMessage target = (if target = [] then ''A record with these details already exists.''
     else ''A record with this '' @ map (\<lambda>c. if c = CHR ''_'' then CHR '' '' else c) target @ '' already exists.'')"

definition resolveHttpMessage :: "thrown \<Rightarrow> string" where
  "resolveHttpMessage x = (case x of
     HttpException status (Inl m) \<Rightarrow> toPlainMessage m
   | HttpException status (Inr es) \<Rightarrow>
       if es \<noteq> [] then ''Some records could not be processed. Please review the listed issues and try again.''
       else toPlainMessage ''Bad Request Exception''
   | _ \<Rightarrow> generic_message)"

definition resolveSafeDetails :: "thrown \<Rightarrow> row_error list option" where
  "resolveSafeDetails x = (case x of
     HttpException status (Inr es) \<Rightarrow>
       if es = [] then None else Some (map (\<lambda>e. e\<lparr>re_message := toPlainMessage (re_message e)\<rparr>) es)
   | _ \<Rightarrow> None)"

definition catch_exception :: "thrown \<Rightarrow> nat \<times> string \<times> row_error list option" where
  "catch_exception x = (case x of
     HttpException status r \<Rightarrow>
       if status \<ge> 500 then (status, generic_message, None)
       else (status, resolveHttpMessage x, resolveSafeDetails x)
   | PrismaError code target \<Rightarrow>
       (if code = ''P2025'' then 404 else 400,
        if code = ''P2002'' then duplicateMessage target
        else if code = ''P2003'' then ''A related record is missing or cannot be changed because it is already in use.''
        else if code = ''P2025'' then ''Record not found.''
        else ''We could not save this change because of a database constraint. Please review the information and try again.'',
        None)
   | Unexpected \<Rightarrow> (500, generic_message, None))"

text \<open>Nothing of an unexpected error reaches the client.\<close>

lemma server_errors_are_opaque: "fst (catch_exception x) \<ge> 500 \<Longrightarrow> snd (catch_exception x) = (generic_message, None)"
  by (auto simp: catch_exception_def split: thrown.splits if_splits)

end
