(* ===== verification/Spec2Isabelle.thy ===== *)
theory Spec2Isabelle
  imports Personnel_Properties Payroll_Amounts Payroll_Export Web
begin

text \<open>
  A model of the payroll back end in src/backend: a NestJS service over a relational
  database (src/backend/prisma/schema.prisma).  Branches register employees, their pay
  structures and attendance; a payroll batch is drafted for one working location and month,
  submitted, approved by the branch manager and then by HR of the headquarters, and paid; a
  savings scheme (Ikimina) deducts contributions from each batch; notifications announce the
  steps; permissions decide who may do what.

  \<^bold>\<open>How the code is read.\<close>  One record \<open>world\<close> (Schema) holds the tables, the cache keys, and the
  connected live clients; one field per Prisma model, a \<open>table\<close> of rows with the next
  autoincrement id (Tables).  A service method is a function \<open>world \<Rightarrow> (error + 'a) \<times> world\<close>
  (Prelude): \<open>throw\<close> is one of the HTTP exceptions, \<open>bind\<close> stops at the first one and keeps what
  was written before it, \<open>atomically\<close> is a database transaction and restores the database when
  its body throws.  What the code takes from outside is a field of \<open>env\<close>: the clock, the
  uuid generator, the conversion of an instant to a DATE column (\<open>to_date\<close>), the time zone of
  the process, the parser of dates, hashes and random texts, and whether the cache store exposes
  its keys.  Numbers are exact rationals:
  JS numbers and DECIMAL(18,2) columns are not rounded except where the code rounds.
  A list read without an order is the rows in insertion order.  A unique index is a conflict.

  \<^bold>\<open>Theories.\<close>
  \<^item> Prelude, Tables, JS_Lib, Calendar: the service monad with rules for frames and failure, tables
    with the locale of uniqueness rules, the JS string, number and JSON functions the code uses,
    the civil calendar in Kigali.
  \<^item> Schema: the tables, \<open>world\<close>, \<open>env\<close>, errors (prisma/schema.prisma).
  \<^item> Lookup (common/utils/lookup.util.ts, audit-diff.util.ts), Permissions (common/utils/effective-permissions.util.ts,
    auth/guards, auth/strategies/jwt.strategy.ts, prisma/prisma.service.ts, the scope interceptor),
    Permission_Catalogue (common/constants/permissions.constants.ts).
  \<^item> Payroll_Calc (common/utils/payroll-calc.util.ts, tax.util.ts), System_Config
    (system-config/system-config.service.ts), Notifications (notifications/notifications.service.ts),
    Ikimina (ikimina/ikimina.service.ts).
  \<^item> Payroll_Calculation (\<open>calculateEmployeePayroll\<close>), Payroll_Access (who may see and decide a batch),
    Payroll_Batches (\<open>createBatch\<close>, attachments, listing, submission helpers), Payroll_Review
    (\<open>submitBatch\<close>, \<open>approveItem\<close>, \<open>rejectItem\<close>, \<open>approveBatch\<close> with the split of rejected items,
    \<open>rejectBatch\<close>), Payroll_Export (the CSV of a batch and its activity trail), all of
    payroll/payroll.service.ts.
  \<^item> Departments and Department_Admin (departments/department.service.ts), Department_Rules (what
    the administration of departments keeps), Organization (organization/organization.service.ts),
    Organization_Rules (what the administration of branches keeps).
  \<^item> Positions (positions/positions.service.ts), Pay_Structures (the services of payment structures,
    allowances and deductions), Employees (employees/employees.service.ts: automatic pause,
    suspension, transfer in two levels), Employee_Records and Employee_Profile (the rest of that
    service: hiring, editing, the bulk import, lists and profiles).
    Personnel_Rules: the invariant \<open>personnel_ok\<close> and each operation that keeps it, Personnel_Facts: what
    single operations achieve, Pay_Scope: whose pay an operation may change, Personnel_Properties:
    the claims about employees, positions, pay and branches.
  \<^item> Attendance (time-records/time-records.service.ts), Attendance_Ledger (the map from employee and
    day to status and hours that the operations refine).
  \<^item> User_Accounts (users/users.service.ts), Role_Admin (roles/roles.service.ts,
    permissions/permissions.service.ts), User_Rules (what the administration of accounts keeps).
  \<^item> Web (common/security/security.middleware.ts, common/utils/all-exceptions.filter.ts).
  \<^item> Payroll_Tables: the invariant of the payroll tables, \<open>payroll_ok\<close>, kept by each write.
    Payroll_Machine: \<open>request\<close> and \<open>run_request\<close>, one constructor per endpoint, \<open>payroll_reaches\<close>,
    the states reachable by any sequence of requests, and the invariant of all of them.
    Payroll_Watch: an abstract automaton of a batch, the locales that follow a ghost of the state
    through every operation, and their interpretations (life cycle, finality, authority).
    Payroll_Amounts: what the calculation promises, and when a changed tax takes effect.
  \<^item> Samples: a small company on which the properties are exercised.

  \<^bold>\<open>What is shown.\<close>  The invariant of the payroll tables holds after any sequence of requests
  (C1 to C3); each batch follows the automaton (C4), an approved batch is frozen (C5), and only
  the right actor approves (C6).  The savings ledger is charged once and backed (C7, C8).
  Amounts: the income tax is bracketwise (C9), pay adds up (C20, C24), and a changed tax rate
  reaches the running month (C38).  Employees, positions and pay: the personnel invariant (C10),
  mandatory deductions (C17), new structures and the pay of a hired employee (C18, C23), whose pay
  an actor may change (C27), the bulk import (C29), the pause of expired contracts (C15), the two
  ways to another location (C16, C30).  Branches (C31) and departments (C35 to C37).  Permissions: the
  effective set, the closure of the table of implications, query scoping, sessions (C11 to C14),
  and that what is shown is what is enforced (C39).  Attendance: the default period (C19), one
  record per employee and day (C25), imports (C26), missing days (C28).  The exported CSV (C32) and
  the request limiter (C34).  Users: who can take the highest role (C21), the scope of the list
  (C22), rejection (C33), and the uniqueness rules of accounts and roles (C40).

  \<^bold>\<open>Assumptions and limits.\<close>  Foreign keys of the payroll tables are part of the invariant
  (\<open>links_ok\<close>) rather than checked on every write; where a service takes a key from the caller, a key
  that names no row is \<open>InvalidQuery\<close>.  Requests are served one after the other: no two transactions
  interleave.  Search by \<open>contains\<close> and sorting by a name ignore case, as the MySQL collation does;
  equality of texts in a query is exact.  An unknown status in a filter is an invalid query.
  Responses are modelled by the rows they are built from, not by their serialised form; cached
  responses by their keys.  \<open>updated_at\<close> columns are left out.  The printing of amounts in an export
  belongs to the decimal library and is the parameter \<open>num\<close>; hashes, random texts and the parser of
  dates are fields of \<open>env\<close>.  No fuel is used: every loop of the code runs over a list.

  \<^bold>\<open>Not modelled.\<close>  Tokens and mail (auth, mail), uploaded pictures and file storage, the dashboard's
  aggregated reads, the seed script, controllers (decorators that forward to the services), and
  the React front end.  \<open>SimpleCacheService\<close> and \<open>findNearDuplicate\<close> are not used by any service.
\<close>

section \<open>The payroll tables\<close>


definition after_approval :: world where
  "after_approval = snd (run_request sample_env manager (ApproveBatch ''batch#1'' None) under_review)"

lemma reach_approval: "payroll_reaches under_review after_approval"
  unfolding after_approval_def
  by (rule next_step [OF here served]) (rule prod.collapse [symmetric])


text \<open>C2.  A transaction is paid exactly when the batch its item belongs to is approved.\<close>

theorem paid_iff_approved:
  assumes "payroll_reaches w v" and "payroll_ok w"
    and "i \<in> set (rows (items v))" and "t \<in> set (rows (transactions v))" and "t_id t = i_transaction i"
  shows "t_status t = TX_PAID \<longleftrightarrow> (\<exists>b \<in> set (rows (batches v)). b_id b = i_batch i \<and> b_status b = APPROVED)"
  using payroll_ok_reaches [OF assms(1,2)] assms(3-5)
  by (auto simp: payroll_ok_def tables_ok_def states_ok_def approved_in_def)

theorem paid_iff_approved_witness:
  "t_status (sample_slip 1 200000 30000 TX_PAID) = TX_PAID
    \<and> (\<exists>b \<in> set (rows (batches all_paid)). b_id b = i_batch (sample_item 1 APPROVED) \<and> b_status b = APPROVED)"
  using paid_iff_approved [OF here all_paid_ok, of "sample_item 1 APPROVED" "sample_slip 1 200000 30000 TX_PAID"]
  by (simp add: all_paid_def table_of_def) (simp add: sample_slip_def sample_item_def)



text \<open>C4.  A batch is never lost, and its status and approval step only move along the
  automaton \<open>batch_move\<close>.\<close>

theorem batch_life_cycle:
  assumes "payroll_reaches w v" and "payroll_ok w" and "b \<in> set (rows (batches w))"
  shows "\<exists>b' \<in> set (rows (batches v)). b_id b' = b_id b \<and> batch_move\<^sup>*\<^sup>* (batch_state b) (batch_state b')"
  using assms by (rule batch_follows_automaton)

theorem batch_life_cycle_witness:
  "\<exists>b' \<in> set (rows (batches after_approval)). b_id b' = 1 \<and> batch_move\<^sup>*\<^sup>* (PENDING, 1) (batch_state b')"
  using batch_life_cycle [OF reach_approval under_review_ok, of "sample_batch PENDING 1"]
  by (simp add: under_review_def table_of_def sample_batch_def batch_state_def)

text \<open>C5.  Once a batch is approved, the batch, its items and their transactions never change.\<close>

theorem approved_is_final:
  assumes "payroll_reaches w v" and "payroll_ok w" and "b \<in> set (rows (batches w))" and "b_status b = APPROVED"
  shows "b \<in> set (rows (batches v))
    \<and> batch_items (items v) (b_id b) = batch_items (items w) (b_id b)
    \<and> select (\<lambda>t. t_id t \<in> i_transaction ` set (batch_items (items w) (b_id b))) (transactions v)
      = select (\<lambda>t. t_id t \<in> i_transaction ` set (batch_items (items w) (b_id b))) (transactions w)"
  using assms by (rule approved_batch_frozen)

definition after_rejection :: world where
  "after_rejection = snd (run_request sample_env super_admin (RejectBatch ''batch#1'' ''late'') all_paid)"

lemma reach_rejection: "payroll_reaches all_paid after_rejection"
  unfolding after_rejection_def
  by (rule next_step [OF here served]) (rule prod.collapse [symmetric])

theorem approved_is_final_witness: "sample_batch APPROVED 2 \<in> set (rows (batches after_rejection))"
proof -
  have "sample_batch APPROVED 2 \<in> set (rows (batches all_paid))" "b_status (sample_batch APPROVED 2) = APPROVED"
    by (simp_all add: all_paid_def table_of_def) (simp add: sample_batch_def)
  from approved_is_final [OF reach_rejection all_paid_ok this] show ?thesis by blast
qed

text \<open>C6.  A batch becomes approved only by an approval of its final step, and the actor of
  that request is a super administrator or an HR user of the headquarters, where HR has the
  final say, with a final approval permission.\<close>

theorem who_approves:
  assumes "payroll_ok w" and "run_request en actor rq w = (r, v)"
    and "b' \<in> set (rows (batches v))" and "b_status b' = APPROVED"
    and "\<forall>b \<in> set (rows (batches w)). b_id b = b_id b' \<longrightarrow> b_status b \<noteq> APPROVED"
  shows "(\<exists>uuid m b. rq = ApproveBatch uuid m \<and> b \<in> set (rows (batches w)) \<and> b_uuid b = uuid \<and> b_id b = b_id b'
      \<and> is_final_step w b)
    \<and> (isSystemAdmin actor \<or> (\<exists>hq. hq_location w = Some hq \<and> hasActiveHrAt w (w_id hq) \<and> ''HR'' \<in> set (cu_roles actor)
      \<and> cu_location actor = Some (show_nat (w_id hq))
      \<and> (hasEffectivePermission actor ''payroll.approve_final'' \<or> hasEffectivePermission actor ''payroll.approve'')))"
proof -
  have "\<not> approved_in (batches w) (b_id b')" using assms(5) by (auto simp: approved_in_def)
  from final_approval_authority [OF assms(1-4) this] obtain uuid m b where
    b: "rq = ApproveBatch uuid m" "b \<in> set (rows (batches w))" "b_uuid b = uuid" "b_id b = b_id b'"
    and fin: "is_final_step w b" and may: "may_decide w actor b" by blast
  from final_approver [OF assms(1) b(2) fin may] b fin show ?thesis by blast
qed

definition finally_approved :: world where
  "finally_approved = snd (run_request sample_env hq_hr (ApproveBatch ''batch#1'' None) half_way)"

lemma finally_approved_state: "map (\<lambda>b. (b_id b, b_status b)) (rows (batches finally_approved)) = [(1, APPROVED)]"
  by code_simp

theorem who_approves_witness:
  "\<exists>b \<in> set (rows (batches finally_approved)). b_status b = APPROVED \<and> \<not> isSystemAdmin hq_hr
    \<and> (\<exists>hq. hq_location half_way = Some hq \<and> hasActiveHrAt half_way (w_id hq))"
proof -
  obtain b where b: "b \<in> set (rows (batches finally_approved))" "b_id b = 1" "b_status b = APPROVED"
    using finally_approved_state by (cases "rows (batches finally_approved)") auto
  have old: "\<forall>c \<in> set (rows (batches half_way)). b_id c = b_id b \<longrightarrow> b_status c \<noteq> APPROVED"
    by (simp add: half_way_def table_of_def sample_batch_def)
  have no: "\<not> isSystemAdmin hq_hr" by (simp add: isSystemAdmin_iff hq_hr_def actor_of_def)
  have "run_request sample_env hq_hr (ApproveBatch ''batch#1'' None) half_way
      = (fst (run_request sample_env hq_hr (ApproveBatch ''batch#1'' None) half_way), finally_approved)"
    by (simp add: finally_approved_def)
  from who_approves [OF half_way_ok this b(1,3) old] no b show ?thesis by blast
qed

section \<open>The savings scheme\<close>

text \<open>C7.  Deducting the savings of a batch twice (a draft that is created again) returns the
  same amounts and records no second contribution.\<close>

theorem savings_deducted_once:
  assumes "ikimina_ok w" and "deductForBatch en k es w = (Inr ds, v)" and "deductForBatch en' k es v = (Inr ds', u)"
  shows "ds' = ds \<and> contributions u = contributions v"
  using deduct_again [OF assms] by simp

lemma company_savings: "ikimina_ok company"
  using company_ok by (simp add: payroll_ok_def)

theorem savings_deducted_once_witness:
  "\<exists>ds v u. deductForBatch sample_env 1 [1, 2] company = (Inr ds, v) \<and> deductForBatch sample_env 1 [1, 2] v = (Inr ds, u)
    \<and> contributions u = contributions v"
proof -
  obtain ds v where one: "deductForBatch sample_env 1 [1, 2] company = (Inr ds, v)"
    using ledger.deduct_frame by blast
  obtain ds' u where two: "deductForBatch sample_env 1 [1, 2] v = (Inr ds', u)"
    using ledger.deduct_frame by blast
  from savings_deducted_once [OF company_savings one two] one two show ?thesis by blast
qed



section \<open>Amounts\<close>

text \<open>C9.  The progressive income tax is the rounded sum of what each bracket taxes: nothing up
  to 60000, a tenth of the part up to 100000, a fifth of the part up to 200000, and three
  tenths of the rest.\<close>

theorem paye_is_bracketwise:
  "calculateRwandaPaye g = math_round (bracket 60000 100000 g * (1/10) + bracket 100000 200000 g * (2/10)
     + max 0 (g - 200000) * (3/10))"
  using paye_rounds_reference [of g] by (simp add: paye_reference_def)

text \<open>The daily rate of a monthly salary, multiplied back by the days, misses the salary by
  less than half a cent per day.\<close>

theorem daily_rate_error:
  assumes "0 < salary" and "0 < days"
  shows "\<bar>calculateMonthlyDailyRate salary days * days - salary\<bar> \<le> days / 200"
  using assms by (rule calculateMonthlyDailyRate_error)

theorem daily_rate_error_witness: "\<bar>calculateMonthlyDailyRate 100000 22 * 22 - 100000\<bar> \<le> 22 / (200::rat)"
  using daily_rate_error [of 100000 22] by simp

section \<open>Permissions\<close>

text \<open>C11.  A key is effective exactly when the last override on it allows it or, without an
  override, when it is a raw key or implied by one.\<close>

theorem effective_permission:
  "hasEffectivePermission u p \<longleftrightarrow>
     (case last_override u p of Some b \<Rightarrow> b
      | None \<Rightarrow> p \<in> set (cu_permissions u) \<or> (\<exists>q \<in> set (cu_permissions u). p \<in> set (implied q)))"
  unfolding hasEffectivePermission_def by (rule effective_iff)

text \<open>C12.  The table of implied permissions is transitively closed, so the single pass that
  expands the raw keys adds every key they imply.\<close>

theorem implied_transitive:
  assumes "q \<in> set (implied p)" and "r \<in> set (implied q)"
  shows "r \<in> set (implied p)"
  using assms by (rule implied_closed)

theorem implied_transitive_witness: "''payroll.read'' \<in> set (implied ''payroll.create'')"
proof -
  have "''payroll.manage'' \<in> set (implied ''payroll.create'')" "''payroll.read'' \<in> set (implied ''payroll.manage'')"
    by code_simp+
  then show ?thesis by (rule implied_transitive)
qed

text \<open>C13.  The automatic query scoping leaves the query of every model of the schema as it is:
  its configuration is keyed by names that no model has.\<close>

theorem scoping_never_applies:
  assumes "m \<in> set schema_models"
  shows "scope_query scope m operation wh = wh"
  using assms by (rule scope_identity)

theorem scoping_never_applies_witness:
  "scope_query (request_scope (Some manager)) ''payment_batches'' ''findMany'' Map.empty = Map.empty"
  by (rule scoping_never_applies) (simp add: schema_models_def)

text \<open>C14.  A token is accepted only for a subject that is the id of a user who is neither deleted,
  suspended nor rejected; the keys of the session are those of the user's roles and the
  direct ones, as stored at that moment.\<close>

theorem token_accepted:
  assumes "jwt_validate sub w = (Inr u, v)"
  shows "v = w \<and> cu_id u = read_nat sub
     \<and> (\<exists>x \<in> set (rows (users w)). u_id x = cu_id u \<and> \<not> u_deleted x \<and> u_status x \<noteq> P_SUSPENDED \<and> u_status x \<noteq> P_REJECTED)
     \<and> set (cu_permissions u) = \<Union> (set ` ro_keys ` set (roles_of w (cu_id u))) \<union> set (direct_keys w (cu_id u))"
  using jwt_validate_success [OF assms] by auto

lemma manager_token: "isl (fst (jwt_validate ''3'' company)) = False"
  by code_simp

theorem token_accepted_witness: "\<exists>u. jwt_validate ''3'' company = (Inr u, company) \<and> cu_id u = 3"
proof -
  obtain u v where run: "jwt_validate ''3'' company = (Inr u, v)"
    using manager_token by (cases "jwt_validate ''3'' company"; cases "fst (jwt_validate ''3'' company)") auto
  have "read_nat ''3'' = 3" by code_simp
  with token_accepted [OF run] run show ?thesis by auto
qed

section \<open>Employees and departments\<close>

text \<open>C15.  The automatic pause pauses exactly the active daily and custom employees whose contract
  ended before today, with the reason, counts them, and leaves every other employee alone.\<close>

theorem pause_is_exact:
  assumes "table_ok e_id (employees w)"
  shows "\<exists>v. autoPauseExpiredContracts en l w = (Inr (length (expired_employees en w l)), v)
    \<and> rows (employees v) = map (\<lambda>x. if x \<in> set (expired_employees en w l)
        then x\<lparr>e_status := P_PAUSED, e_pause_reason := Some (pause_text x)\<rparr> else x) (rows (employees w))
    \<and> (\<forall>x. x \<in> set (expired_employees en w l) \<longleftrightarrow> x \<in> set (rows (employees w)) \<and> e_status x = P_ACTIVE \<and> \<not> e_deleted x
        \<and> (\<exists>d. e_contract_end x = Some d \<and> d < to_date en (local_midnight en))
        \<and> (\<exists>c. category_of w x = Some c \<and> c_frequency c \<noteq> MONTHLY)
        \<and> (l = None \<or> l = Some 0 \<or> e_loc x = l))"
proof -
  have "x \<in> set (expired_employees en w l) \<longleftrightarrow> x \<in> set (rows (employees w)) \<and> e_status x = P_ACTIVE \<and> \<not> e_deleted x
        \<and> (\<exists>d. e_contract_end x = Some d \<and> d < to_date en (local_midnight en))
        \<and> (\<exists>c. category_of w x = Some c \<and> c_frequency c \<noteq> MONTHLY)
        \<and> (l = None \<or> l = Some 0 \<or> e_loc x = l)" for x
    unfolding expired_iff by (cases l) (auto split: option.splits)
  then show ?thesis using autoPause_employees [OF assms, of en l] by blast
qed

lemma seasonal_expired: "map e_id (expired_employees sample_env seasonal (Some 2)) = [2]"
  by code_simp

theorem pause_is_exact_witness:
  "\<exists>v. autoPauseExpiredContracts sample_env (Some 2) seasonal = (Inr 1, v)
    \<and> map e_id (filter (\<lambda>e. e_status e = P_PAUSED) (rows (employees v))) = [2]"
proof -
  have one: "length (expired_employees sample_env seasonal (Some 2)) = 1"
    using arg_cong [OF seasonal_expired, of length] by simp
  have ok: "table_ok e_id (employees seasonal)"
    by (simp add: seasonal_def table_of_def table_ok_def sample_employee_def)
  let ?es = "expired_employees sample_env seasonal (Some 2)"
  have mem: "x \<in> set ?es \<longleftrightarrow> e_id x = 2" if "x \<in> set (rows (employees seasonal))" for x
  proof -
    have "set ?es \<subseteq> set (rows (employees seasonal))" by (auto simp: expired_employees_def)
    moreover obtain y where "?es = [y]" "e_id y = 2" using seasonal_expired by auto
    ultimately show ?thesis using table_ok_unique [OF ok that] by auto
  qed
  obtain v where v: "autoPauseExpiredContracts sample_env (Some 2) seasonal = (Inr (length ?es), v)"
    "rows (employees v) = map (\<lambda>x. if x \<in> set ?es
      then x\<lparr>e_status := P_PAUSED, e_pause_reason := Some (pause_text x)\<rparr> else x) (rows (employees seasonal))"
    using pause_is_exact [OF ok] by blast
  have "rows (employees v) = map (\<lambda>x. if e_id x = 2
      then x\<lparr>e_status := P_PAUSED, e_pause_reason := Some (pause_text x)\<rparr> else x) (rows (employees seasonal))"
    unfolding v(2) using mem by (intro map_cong) simp_all
  then show ?thesis using v(1) one by (simp add: seasonal_def table_of_def sample_employee_def)
qed

text \<open>C16.  An approval of a transfer at the branch level moves nobody; the employee is moved, and
  only to what was requested, by a system administrator at the last level.\<close>

theorem transfer_moves_at_the_top:
  assumes "approveTransfer en uuid actor w = (Inr u, v)"
  shows "\<exists>q \<in> set (rows (transfer_requests w)). q_uuid q = uuid \<and> q_status q = RQ_PENDING \<and>
    (if q_level q = ''SUPER_ADMIN'' then isSystemAdmin actor \<and> employees v = update_rows (\<lambda>x. Some (e_id x) = q_employee q)
        (\<lambda>x. x\<lparr>e_loc := Some (q_new_loc q), e_department := q_new_department q\<rparr>) (employees w)
     else q_level q = ''BRANCH_MANAGER'' \<and> employees v = employees w)"
proof -
  obtain q where q: "q \<in> set (rows (transfer_requests w))" "q_uuid q = uuid" "q_status q = RQ_PENDING" "set_somewhere (q_employee q)"
    and step: "(q_level q = ''BRANCH_MANAGER'' \<and> approve_at_branch en q actor w = (Inr u, v))
       \<or> (q_level q = ''SUPER_ADMIN'' \<and> isSystemAdmin actor \<and> approve_at_top en q (the (q_employee q)) actor w = (Inr u, v))"
    using approveTransfer_success [OF assms] by blast
  obtain e where e: "q_employee q = Some e" using q(4) by (auto simp: set_somewhere_def split: option.splits)
  from step show ?thesis
  proof
    assume "q_level q = ''BRANCH_MANAGER'' \<and> approve_at_branch en q actor w = (Inr u, v)"
    then show ?thesis using q branch_approval_moves_nobody by (intro bexI [of _ q]) auto
  next
    assume "q_level q = ''SUPER_ADMIN'' \<and> isSystemAdmin actor \<and> approve_at_top en q (the (q_employee q)) actor w = (Inr u, v)"
    then show ?thesis using q e top_approval [of en q e actor w u v] by (intro bexI [of _ q]) auto
  qed
qed

lemma top_move_runs: "\<exists>v. approveTransfer sample_env ''move#1'' super_admin (moving ''SUPER_ADMIN'') = (Inr (), v)"
proof -
  let ?q = "hd (rows (transfer_requests (moving ''SUPER_ADMIN'')))" and ?w = "moving ''SUPER_ADMIN''"
  have q: "findTransferRequestOrThrow ''move#1'' ?w = (Inr ?q, ?w)"
    by (simp add: findTransferRequestOrThrow_def moving_def table_of_def find_row_def)
  have stays: "(set_somewhere (q_old_department ?q) \<and> q_old_department ?q \<noteq> q_new_department ?q) = False"
    by (simp add: moving_def table_of_def set_somewhere_def)
  have "never_fails (finalize_transfer sample_env ?q e super_admin)" for e
    unfolding finalize_transfer_def by (intro fail_rules)
  moreover have "never_fails (after_transfer sample_env ?q e super_admin)" for e
    unfolding after_transfer_def stays if_False by (intro fail_rules direct.sends)
  ultimately have "never_fails (bind (atomically (finalize_transfer sample_env ?q e super_admin)) (\<lambda>_. after_transfer sample_env ?q e super_admin))" for e
    by (intro fail_rules)
  then have "\<exists>v. approve_at_top sample_env ?q 1 super_admin ?w = (Inr (), v)"
    unfolding approve_at_top_def
    by (simp add: bind_reads moving_def company_def table_of_def find_row_def sample_employee_def never_fails_def)
  then show ?thesis
    by (simp add: approveTransfer_def bind_def [of "findTransferRequestOrThrow _"] q)
      (simp add: moving_def table_of_def set_somewhere_def super_admin_def actor_of_def isSystemAdmin_def bind_ensure)
qed

theorem transfer_moves_at_the_top_witness:
  "\<exists>u v. approveTransfer sample_env ''move#1'' super_admin (moving ''SUPER_ADMIN'') = (Inr u, v)
    \<and> map e_loc (rows (employees v)) = [Some 1, Some 2]"
proof -
  obtain u v where run: "approveTransfer sample_env ''move#1'' super_admin (moving ''SUPER_ADMIN'') = (Inr u, v)"
    using top_move_runs by blast
  from transfer_moves_at_the_top [OF run]
  have "employees v = update_rows (\<lambda>x. Some (e_id x) = Some 1) (\<lambda>x. x\<lparr>e_loc := Some 1, e_department := Some 1\<rparr>) (employees company)"
    by (simp add: moving_def table_of_def)
  with run show ?thesis by (simp add: company_def table_of_def sample_employee_def)
qed

text \<open>A department that waits for its deactivation is archived as soon as nobody is assigned to
  it, and its request is completed.\<close>

theorem emptied_department_archived:
  assumes "pending_deactivation w d = Some p" and "find_department w d = Some x"
    and "table_ok d_id (departments w)" and "countAssignedEmployees w d = 0"
  shows "\<exists>v. archivePendingDepartmentIfEmpty en d a w = (Inr (Some (x\<lparr>d_active := False\<rparr>)), v)
    \<and> (\<forall>y \<in> set (rows (departments v)). d_id y = d \<longrightarrow> \<not> d_active y)
    \<and> pending_deactivation v d = None"
  using assms by (rule archive_when_empty)

theorem emptied_department_archived_witness:
  "\<exists>v. \<not> list_ex (\<lambda>y. d_id y = 1 \<and> d_active y) (rows (departments v)) \<and> pending_deactivation v 1 = None
    \<and> (\<exists>x. archivePendingDepartmentIfEmpty sample_env 1 3 emptied = (Inr (Some x), v))"
proof -
  have "countAssignedEmployees emptied 1 = 0" by code_simp
  moreover obtain p where "pending_deactivation emptied 1 = Some p"
    by (simp add: emptied_def pending_deactivation_def find_row_def table_of_def)
  moreover obtain x where "find_department emptied 1 = Some x"
    by (simp add: emptied_def find_department_def find_row_def table_of_def)
  moreover have "table_ok d_id (departments emptied)" by (simp add: emptied_def table_of_def table_ok_def)
  ultimately show ?thesis using emptied_department_archived [of emptied 1 p x sample_env 3] unfolding list_ex_iff by blast
qed

section \<open>What an employee is paid\<close>

text \<open>Without dates of its own, a batch covers its month from the first to the last day of
  the civil calendar in Kigali, and counts as many calendar days as the month has.\<close>

theorem default_period:
  assumes "bd_start dto = None" and "bd_end dto = None" and "1 \<le> bd_month dto" and "bd_month dto \<le> 12"
    and "1970 \<le> bd_year dto"
  shows "civil (kigali_day (period_start dto)) = (int (bd_year dto), bd_month dto, 1)
    \<and> civil (kigali_day (period_end dto)) = (int (bd_year dto), bd_month dto, month_len (int (bd_year dto)) (bd_month dto))
    \<and> period_calendar_days dto = month_len (int (bd_year dto)) (bd_month dto)"
  using assms by (rule default_period_civil)

theorem default_period_witness: "period_calendar_days (january\<lparr>bd_month := 2, bd_year := 2024\<rparr>) = 29"
  using default_period [of "january\<lparr>bd_month := 2, bd_year := 2024\<rparr>"]
  by (simp add: january_def month_len_def leap_year_def)

text \<open>C19.  A database client that stores the UTC date of an instant makes the period count one day
  more: the attendance of the last day of the month before is paid in this month too.\<close>

theorem attendance_counts_a_day_before:
  assumes "to_date en = utc_date" and "bd_start dto = None" and "bd_end dto = None"
    and "1 \<le> bd_month dto" and "bd_month dto \<le> 12"
  shows "period_attendance en w eid dto = select (\<lambda>r. r_employee r = eid
    \<and> month_first (int (bd_year dto)) (bd_month dto) - 1 \<le> r_date r
    \<and> r_date r < month_first (int (bd_year dto)) (bd_month dto) + month_len (int (bd_year dto)) (bd_month dto)) (time_records w)"
  using assms by (rule attendance_window)

theorem attendance_counts_a_day_before_witness:
  "map r_id (period_attendance sample_env (company\<lparr>time_records := table_of [presence 1 1 (day_number 2024 12 31)]\<rparr>) 1 january) = [1]"
proof -
  have "day_number 2024 12 31 = 20088" "month_first 2025 1 = 20089" by code_simp+
  then show ?thesis by (subst attendance_counts_a_day_before)
    (simp_all add: sample_env_def january_def table_of_def presence_def select_def month_len_def)
qed

text \<open>C20.  What a calculation returns adds up: gross is base, allowances and overtime, deductions
  are tax, configured lines and (for a monthly salary) the days of absence, and net is what
  remains, but never below zero.\<close>

theorem pay_adds_up:
  assumes "calculateEmployeePayroll en w dto e = Inr (Some r)"
  shows "pc_gross r = pc_base r + pc_allowance r + md_overtime_amount (pc_metadata r)
    \<and> pc_net r = max 0 (pc_gross r - pc_deductions r)
    \<and> (\<exists>s. find_pay_structure en w (e_id e) dto = Some s \<and>
        pc_deductions r = pc_tax r + md_configured_deductions_amount (pc_metadata r)
          + (if s_frequency s = MONTHLY then md_absent_days_deduction (pc_metadata r) else 0))"
proof -
  obtain s where "find_pay_structure en w (e_id e) dto = Some s" "r = calculation_of en w e dto s"
    using assms unfolding calculation_result by (metis map_option_eq_Some)
  then show ?thesis using calculation_net calculation_gross calculation_deductions by blast
qed

lemma january_pay: "(case calculateEmployeePayroll sample_env company january (sample_employee 1) of
    Inr (Some r) \<Rightarrow> pc_gross r = 220000 \<and> pc_deductions r = 203000 | _ \<Rightarrow> False)"
  by code_simp

theorem pay_adds_up_witness:
  "\<exists>r. calculateEmployeePayroll sample_env company january (sample_employee 1) = Inr (Some r) \<and> pc_net r = 17000"
proof -
  obtain r where r: "calculateEmployeePayroll sample_env company january (sample_employee 1) = Inr (Some r)"
    "pc_gross r = 220000" "pc_deductions r = 203000"
    using january_pay by (auto split: sum.splits option.splits)
  from pay_adds_up [OF r(1)] r show ?thesis by simp
qed

text \<open>Nobody without a pay structure that covers the period is paid, and among several the one
  that took effect last is used.\<close>

theorem latest_structure_pays:
  assumes "period_start dto \<le> period_end dto"
  shows "if covering_structures en w e dto = {} then calculateEmployeePayroll en w dto e = Inr None
    else \<exists>s \<in> covering_structures en w e dto. (\<forall>s' \<in> covering_structures en w e dto. s_from s' \<le> s_from s)
      \<and> calculateEmployeePayroll en w dto e = Inr (Some (calculation_of en w e dto s))"
  using assms structure_choice [of en w e dto] by (auto simp: calculation_result split: option.splits if_splits)

theorem latest_structure_pays_witness:
  "calculateEmployeePayroll sample_env (company\<lparr>structures := empty_table\<rparr>) january (sample_employee 1) = Inr None"
proof -
  have "period_start january \<le> period_end january" by code_simp
  from latest_structure_pays [OF this, of sample_env "company\<lparr>structures := empty_table\<rparr>" "sample_employee 1"]
  show ?thesis by (simp add: covering_structures_def empty_table_def)
qed

text \<open>A daily or custom contract of at most 21 days of presence pays no tax, no allowance and
  no deduction.\<close>

theorem short_contracts_untaxed:
  assumes "s_frequency s \<noteq> MONTHLY" and "present_days (period_attendance en w (e_id e) dto) \<le> 21"
  shows "pc_tax (calculation_of en w e dto s) = 0 \<and> pc_allowance (calculation_of en w e dto s) = 0
    \<and> pc_deductions (calculation_of en w e dto s) = 0"
  using assms by (rule short_contract)

lemma few_days: "present_days (period_attendance sample_env company (e_id (sample_employee 1)) january) \<le> 21"
  by code_simp

theorem short_contracts_untaxed_witness:
  "pc_deductions (calculation_of sample_env company (sample_employee 1) january ((sample_structure 1 0)\<lparr>s_frequency := DAILY\<rparr>)) = 0"
  using short_contracts_untaxed [of "(sample_structure 1 0)\<lparr>s_frequency := DAILY\<rparr>", OF _ few_days] by simp

text \<open>A base amount given for an employee in the request is ignored for a monthly salary and
  for more than 21 days of presence.\<close>

theorem base_overrides_ignored:
  assumes "s_frequency s = MONTHLY \<or> present_days (period_attendance en w (e_id e) dto) > 21"
  shows "calculation_of en w e (without_bases dto) s = calculation_of en w e dto s"
  using assms by (rule base_override_ignored)

theorem base_overrides_ignored_witness:
  "calculation_of sample_env company (sample_employee 1)
      (without_bases (january\<lparr>bd_overrides := [\<lparr>od_employee = ''1'', od_base = Some 5, od_phone = None\<rparr>]\<rparr>)) (sample_structure 1 1)
    = calculation_of sample_env company (sample_employee 1)
      (january\<lparr>bd_overrides := [\<lparr>od_employee = ''1'', od_base = Some 5, od_phone = None\<rparr>]\<rparr>) (sample_structure 1 1)"
  by (rule base_overrides_ignored) (simp add: sample_structure_def)

text \<open>C24.  When the stored rates lie between 0 and 100 percent, the tax on a monthly salary lies between
  zero and the salary.\<close>

theorem monthly_tax_within_salary:
  assumes "s_frequency s = MONTHLY" and "taxes_ok w" and "0 \<le> s_basic_salary s"
  shows "0 \<le> pc_tax (calculation_of en w e dto s) \<and> pc_tax (calculation_of en w e dto s) \<le> s_basic_salary s"
  using assms by (rule monthly_tax_bounds)

theorem monthly_tax_within_salary_witness:
  "pc_tax (calculation_of sample_env company (sample_employee 1) january (sample_structure 1 220000)) \<le> 220000"
  using monthly_tax_within_salary [of "sample_structure 1 220000" company sample_env "sample_employee 1" january]
  by (simp add: sample_structure_def taxes_ok_def company_def empty_world_def empty_table_def)

section \<open>Attendance\<close>

text \<open>C25.  Whatever is created, imported, corrected or approved, also when it is refused, there is at
  most one record per employee and day, and an absence carries no overtime.\<close>

theorem attendance_stays_ok:
  "keeps (\<lambda>w. attendance_ok (time_records w)) (createRecord en c actor)
   \<and> keeps (\<lambda>w. attendance_ok (time_records w)) (bulkCreate en b actor)
   \<and> keeps (\<lambda>w. attendance_ok (time_records w)) (updateRecord uuid u actor)
   \<and> keeps (\<lambda>w. attendance_ok (time_records w)) (approveRecord uuid comment actor)"
  using create_keeps import_keeps update_keeps approve_keeps by blast

text \<open>C26.  An import is refused and changes nothing, or is accepted as a whole: attendance is then
  updated by all rows, the last row of an employee and day winning, and the actor may
  manage every employee it names.\<close>

theorem import_all_or_nothing:
  assumes "attendance_ok (time_records w)"
  shows "case bulkCreate en dto actor w of
      (Inl _, v) \<Rightarrow> v = w
    | (Inr n, v) \<Rightarrow> n = length (bk_records dto)
        \<and> attendance_map (time_records v) = attendance_map (time_records w) ++ map_of (rev (import_entries en w (bk_records dto)))
        \<and> (\<forall>r \<in> set (bk_records dto). \<exists>e. bulk_employee w (br_employee r) = Some e \<and> attendance_refusal actor e = None)"
proof (cases "bulkCreate en dto actor w")
  case (Pair r v)
  then show ?thesis using bulk_outcome [of en dto actor w] import_effect [OF assms, of en dto actor]
    by (cases r) (fastforce simp: bulk_result_def list_all_iff fine_row_def readable_row_def)+
qed

lemma two_days_accepted: "fst (bulkCreate sample_env two_days manager company) = Inr 2"
  by code_simp

lemma two_days_entries: "import_entries sample_env company (bk_records two_days)
    = [((1, 20090), ABSENT, 0), ((2, 20094), PRESENT, 2)]"
  by code_simp

theorem import_all_or_nothing_witness:
  "\<exists>v. bulkCreate sample_env two_days manager company = (Inr 2, v)
    \<and> attendance_map (time_records v) (1, 20090) = Some (ABSENT, 0)"
proof -
  obtain v where v: "bulkCreate sample_env two_days manager company = (Inr 2, v)"
    using two_days_accepted by (metis prod.collapse)
  with import_all_or_nothing [OF company_attendance, where en = sample_env and dto = two_days and actor = manager] show ?thesis
    by (simp add: two_days_entries)
qed

text \<open>An import that was accepted is accepted again and changes no entry.\<close>

theorem import_is_idempotent:
  assumes "attendance_ok (time_records w)" and "bulkCreate en dto actor w = (Inr n, v)"
  shows "\<exists>u. bulkCreate en dto actor v = (Inr n, u) \<and> attendance_map (time_records u) = attendance_map (time_records v)"
  using assms by (rule import_again)

theorem import_is_idempotent_witness:
  "\<exists>v u. bulkCreate sample_env two_days manager company = (Inr 2, v) \<and> bulkCreate sample_env two_days manager v = (Inr 2, u)"
proof -
  obtain v where "bulkCreate sample_env two_days manager company = (Inr 2, v)"
    using two_days_accepted by (metis prod.collapse)
  with import_is_idempotent [OF company_attendance this] show ?thesis by blast
qed

text \<open>C28.  On a server in UTC an employee's missing days are exactly the days of the period
  without a record, in order.\<close>

theorem missing_days_exact:
  assumes "tz_offset en = 0" and "to_date en = utc_date" and "0 \<le> s"
  shows "missing_dates en w (midnight en s, midnight en f) eid = map iso_date (filter (\<lambda>d. \<not> recorded w eid d) [s..f])"
  using assms by (rule missing_in_utc)

theorem missing_days_exact_witness:
  "missing_dates sample_env company (midnight sample_env 20089, midnight sample_env 20092) 1 = [''2025-01-01'', ''2025-01-04'']"
proof -
  have "[20089..20092] = [20089, 20090, 20091, 20092 :: int]" by (simp add: upto_rec1)
  moreover have "iso_date 20089 = ''2025-01-01''" "iso_date 20092 = ''2025-01-04''" by code_simp+
  ultimately show ?thesis
    using missing_days_exact [of sample_env 20089 company 20092 1]
    by (simp add: sample_env_def recorded_iff company_def table_of_def presence_def)
qed

text \<open>On a server whose zone is ahead of UTC, as Kigali is, the last day of the period is reported
  as missing for everybody, whatever is recorded.\<close>

theorem last_day_always_missing:
  assumes "0 < tz_offset en" and "tz_offset en < day_ms" and "to_date en = utc_date" and "0 \<le> s" and "s \<le> f"
    and "\<forall>r \<in> set (rows (time_records w)). 0 \<le> r_date r"
  shows "iso_date f \<in> set (missing_dates en w (midnight en s, midnight en f) eid)"
  using assms by (rule missing_ahead_of_utc)

theorem last_day_always_missing_witness:
  "iso_date 20091 \<in> set (missing_dates (sample_env\<lparr>tz_offset := kigali_offset\<rparr>) company
     (midnight (sample_env\<lparr>tz_offset := kigali_offset\<rparr>) 20089, midnight (sample_env\<lparr>tz_offset := kigali_offset\<rparr>) 20091) 1)"
  by (rule last_day_always_missing)
    (simp_all add: sample_env_def kigali_offset_def day_ms_def company_def table_of_def presence_def)

text \<open>Approving an attendance record changes nothing in what anybody is paid.\<close>

theorem approval_does_not_pay:
  assumes "approveRecord uuid comment actor w = (Inr x, v)"
  shows "calculateEmployeePayroll en v dto e = calculateEmployeePayroll en w dto e"
  using assms by (rule approval_same_pay)

lemma record_approved: "isl (fst (approveRecord ''record#1'' None manager company)) = False"
  by code_simp

theorem approval_does_not_pay_witness:
  "\<exists>x v. approveRecord ''record#1'' None manager company = (Inr x, v)
    \<and> calculateEmployeePayroll sample_env v january (sample_employee 1) = calculateEmployeePayroll sample_env company january (sample_employee 1)"
proof -
  obtain x v where "approveRecord ''record#1'' None manager company = (Inr x, v)"
    using record_approved by (cases "approveRecord ''record#1'' None manager company";
        cases "fst (approveRecord ''record#1'' None manager company)") auto
  with approval_does_not_pay [OF this] show ?thesis by blast
qed

text \<open>With a location in the filter the list of records does not depend on where the actor works:
  anybody who is not confined to a department reads every location.\<close>

theorem location_filter_replaces_scope:
  assumes "isDepartmentScopeExempt actor \<or> cu_department actor = None" and "isNumericId l"
  shows "findRecords en actor \<lparr>rf_from = None, rf_to = None, rf_location = Some l, rf_employee = None\<rparr> w
    = (Inr (newest_first (select (\<lambda>r. list_ex (\<lambda>e. e_id e = r_employee r \<and> \<not> e_deleted e \<and> e_loc e = Some (read_nat l))
        (rows (employees w))) (time_records w))), w)"
  using assms by (intro location_filter) auto

theorem location_filter_replaces_scope_witness:
  "\<exists>rs. findRecords sample_env hq_hr \<lparr>rf_from = None, rf_to = None, rf_location = Some ''2'', rf_employee = None\<rparr> company = (Inr rs, company)
    \<and> length rs = 3 \<and> cu_location hq_hr = Some ''1''"
proof -
  have "isDepartmentScopeExempt hq_hr" "isNumericId ''2''" "read_nat ''2'' = 2" by code_simp+
  with location_filter_replaces_scope [of hq_hr "''2''" sample_env company] show ?thesis
    by (simp add: newest_first_def company_def table_of_def presence_def sample_employee_def select_def hq_hr_def actor_of_def)
qed

section \<open>Export and requests\<close>

text \<open>C32.  A batch exported as CSV is read back, cell by cell, as the sheet of its items, whatever
  commas, quotes and line breaks the names hold, and only an actor who may see the batch's
  location gets it.\<close>

theorem export_round_trip:
  assumes "exportBatchCsv en num uuid actor w = (Inr (name, content), v)"
  shows "v = w \<and> (\<exists>b \<in> set (rows (batches w)). b_uuid b = uuid \<and> read_csv content = batch_sheet num w b
    \<and> (isSystemAdmin actor \<or> hasEffectivePermission actor ''payroll.read_all'' \<or> cu_location actor = Some (show_nat (b_loc b))))"
  using assms by (rule export_reads_back)

lemma manager_exports: "isl (fst (exportBatchCsv sample_env (\<lambda>q. ''1,5'') ''batch#1'' manager all_paid)) = False"
  by code_simp

theorem export_round_trip_witness:
  "\<exists>name content. exportBatchCsv sample_env (\<lambda>q. ''1,5'') ''batch#1'' manager all_paid = (Inr (name, content), all_paid)
    \<and> length (read_csv content) = 3"
proof -
  obtain name content v where run: "exportBatchCsv sample_env (\<lambda>q. ''1,5'') ''batch#1'' manager all_paid = (Inr (name, content), v)"
    using manager_exports by (cases "exportBatchCsv sample_env (\<lambda>q. ''1,5'') ''batch#1'' manager all_paid";
        cases "fst (exportBatchCsv sample_env (\<lambda>q. ''1,5'') ''batch#1'' manager all_paid)") auto
  from export_round_trip [OF run] run show ?thesis
    by (auto simp: all_paid_def table_of_def batch_sheet_def included_items_def select_def sample_batch_def sample_item_def)
qed

text \<open>Of the requests of one client within a minute, at most 480 pass, whatever was sent before
  and whatever other clients send.\<close>

theorem limiter_bound:
  assumes "sorted (map fst (filter (\<lambda>r. snd r = k) rs))" and "\<forall>r \<in> set rs. t0 \<le> fst r \<and> fst r < t0 + windowMs"
  shows "passed (answers_of k rs (passes bs rs)) \<le> 480"
proof -
  have "passed (passes_of (bs k) (map fst (filter (\<lambda>r. snd r = k) rs))) \<le> 2 * maxRequests"
    using assms(2) by (intro two_quotas [OF assms(1), of t0]) auto
  then show ?thesis unfolding passes_by_key by (simp add: maxRequests_def)
qed

theorem limiter_bound_witness: "passed (answers_of ''a'' [(5, ''a''), (6, ''b''), (6, ''a'')]
    (passes (\<lambda>_. Some \<lparr>bu_count = 240, bu_reset = 6\<rparr>) [(5, ''a''), (6, ''b''), (6, ''a'')])) \<le> 480"
  by (rule limiter_bound [of _ _ 5]) (simp_all add: windowMs_def)



section \<open>Departments\<close>




text \<open>C36.  Closing a waiting department by suspension: its active employees and user accounts, and nobody
  else, become suspended, every session of these accounts is revoked, the department is
  archived, and the numbers reported are those of the suspended people.\<close>

theorem closure_suspends_the_staff:
  assumes "suspendAndArchive en uuid actor w = (Inr (n, m), v)" and "table_ok e_id (employees w)" and "table_ok u_id (users w)"
  shows "\<exists>d \<in> set (rows (departments w)). d_uuid d = uuid \<and> d_active d
    \<and> n = length (select (staff_of (d_id d)) (employees w)) \<and> m = length (select (account_of (d_id d)) (users w))
    \<and> employees v = update_rows (staff_of (d_id d))
        (\<lambda>e. e\<lparr>e_status := P_SUSPENDED, e_pause_reason := Some ''Department deactivated.''\<rparr>) (employees w)
    \<and> users v = update_rows (account_of (d_id d)) (\<lambda>u. u\<lparr>u_status := P_SUSPENDED\<rparr>) (users w)
    \<and> (\<forall>s \<in> set (rows (sessions v)). \<forall>u \<in> set (select (account_of (d_id d)) (users w)). se_user s = u_id u \<longrightarrow> se_revoked s)
    \<and> (\<forall>x \<in> set (rows (departments v)). d_id x = d_id d \<longrightarrow> \<not> d_active x)"
proof -
  obtain d p where d: "d \<in> set (rows (departments w))" "d_uuid d = uuid" "d_active d"
    "n = length (select (staff_of (d_id d)) (employees w))" "m = length (select (account_of (d_id d)) (users w))"
    and kept: "people_and_places (closed_world d p actor w) v"
    and rest: "employees v = update_rows (staff_of (d_id d))
        (\<lambda>e. e\<lparr>e_status := P_SUSPENDED, e_pause_reason := Some ''Department deactivated.''\<rparr>) (employees w)"
      "users v = update_rows (account_of (d_id d)) (\<lambda>u. u\<lparr>u_status := P_SUSPENDED\<rparr>) (users w)"
    using suspension_effect [OF assms] by blast
  have "\<forall>s \<in> set (rows (sessions v)). \<forall>u \<in> set (select (account_of (d_id d)) (users w)). se_user s = u_id u \<longrightarrow> se_revoked s"
    using kept by (auto simp: people_and_places_def closed_world_def suspend_staff_def assigned_staff_def account_of_def)
  moreover have "\<forall>x \<in> set (rows (departments v)). d_id x = d_id d \<longrightarrow> \<not> d_active x"
    using kept by (auto simp: people_and_places_def closed_world_def suspend_staff_def)
  ultimately show ?thesis using d rest by blast
qed

lemma staffed_closes: "fst (suspendAndArchive sample_env ''dep#1'' manager staffed) = Inr (1, 1)"
  by code_simp

theorem closure_suspends_the_staff_witness:
  "\<exists>v. suspendAndArchive sample_env ''dep#1'' manager staffed = (Inr (1, 1), v)
    \<and> map e_status (rows (employees v)) = [P_SUSPENDED, P_ACTIVE]"
proof -
  obtain v where v: "suspendAndArchive sample_env ''dep#1'' manager staffed = (Inr (1, 1), v)"
    using staffed_closes by (metis prod.collapse)
  have "table_ok e_id (employees staffed)" "table_ok u_id (users staffed)"
    by (simp_all add: staffed_def table_of_def table_ok_def sample_employee_def sample_user_def)
  from closure_suspends_the_staff [OF v this] v show ?thesis
    by (auto simp: staffed_def emptied_def table_of_def sample_employee_def staff_of_def)
qed

text \<open>C37.  A department whose code exists at every target location under another name is not created,
  yet the request succeeds: it answers with the departments that were there and records a
  creation in the audit trail.\<close>

theorem taken_code_reported_as_created:
  assumes "resolveDepartmentWriteLocations actor w = (Inr targets, w)"
    and "\<forall>l \<in> set targets. \<exists>d \<in> set (rows (departments w)). d_loc d = l \<and> d_code d = cd_code dto"
    and "\<forall>d \<in> set (rows (departments w)). d_active d \<and> d_loc d \<in> set targets
      \<longrightarrow> normalizeEntityName (d_name d) \<noteq> normalizeEntityName (cd_name dto)"
    and "cd_code dto \<noteq> []" and "cd_name dto \<noteq> []"
  shows "\<exists>ds v row. createDepartment en dto actor w = (Inr ds, v) \<and> ds \<noteq> [] \<and> departments v = departments w
    \<and> (\<forall>d \<in> set ds. d \<in> set (rows (departments w)))
    \<and> rows (audit_logs v) = rows (audit_logs w) @ [row] \<and> a_action row = AU_CREATED \<and> a_table row = ''departments''"
  using assms by (rule create_taken_code)

lemma manager_targets: "resolveDepartmentWriteLocations manager emptied = (Inr [2], emptied)"
  by (simp add: resolveDepartmentWriteLocations_def canReadAllBranches_def) code_simp

lemma support_is_not_sales: "(normalizeEntityName ''Sales'' = normalizeEntityName ''Support'') = False"
  by code_simp

theorem taken_code_reported_as_created_witness:
  "\<exists>ds v. createDepartment sample_env \<lparr>cd_code = ''S'', cd_name = ''Support'', cd_description = None\<rparr> manager emptied = (Inr ds, v)
    \<and> departments v = departments emptied \<and> length (rows (audit_logs v)) = 1"
proof -
  have "\<exists>ds v row. createDepartment sample_env \<lparr>cd_code = ''S'', cd_name = ''Support'', cd_description = None\<rparr> manager emptied = (Inr ds, v)
    \<and> ds \<noteq> [] \<and> departments v = departments emptied \<and> (\<forall>d \<in> set ds. d \<in> set (rows (departments emptied)))
    \<and> rows (audit_logs v) = rows (audit_logs emptied) @ [row] \<and> a_action row = AU_CREATED \<and> a_table row = ''departments''"
    by (rule taken_code_reported_as_created [OF manager_targets])
      (simp_all add: emptied_def table_of_def support_is_not_sales)
  then show ?thesis by (auto simp: emptied_def company_def empty_world_def)
qed

section \<open>Users and roles\<close>

text \<open>C21.  Any user who may edit users, but is not a branch manager, can give himself the global
  role SUPER_ADMIN: the request succeeds, and the next session built for him is that of a system
  administrator.  Nothing is asked of the keys or the location of the actor.\<close>

theorem self_promotion:
  assumes "accounts_ok w" and "user_by_uuid w uuid = Some u" and "u_id u = cu_id actor" and "\<not> u_deleted u"
    and "u_status u = P_ACTIVE" and "\<not> isBranchManager actor"
    and "r \<in> set (rows (roles w))" and "ro_name r = ''SUPER_ADMIN''" and "ro_loc r = None"
  shows "\<exists>view v session. assignRoles en uuid [show_nat (ro_id r)] actor w = (Inr view, v)
    \<and> jwt_validate (show_nat (cu_id actor)) v = (Inr session, v) \<and> isSystemAdmin session"
proof -
  have keys: "table_ok u_id (users w)" "table_ok ro_id (roles w)" using assms(1) by (simp_all add: accounts_ok_def apart_def)
  have u: "u \<in> set (rows (users w))" using find_row_Some [OF assms(2) [unfolded user_by_uuid_def]] by simp
  obtain view v where run: "assignRoles en uuid [show_nat (ro_id r)] actor w = (Inr view, v)"
    and v: "users v = users w" "roles v = roles w" "user_roles v = sole_role (u_id u) (ro_id r) (user_roles w)"
    using assign_one [OF keys(2) assms(7,9,6,2,4)] by blast
  obtain session where "jwt_validate (show_nat (u_id u)) v = (Inr session, v)" "cu_roles session = filter (\<lambda>n. n \<noteq> []) [ro_name r]"
    using session_of_sole_role [OF v(1) keys(1) v(2) keys(2) assms(7) u assms(4,5) v(3)] by blast
  then show ?thesis using run assms(3,8) by (auto simp: isSystemAdmin_def)
qed

lemma company_accounts: "accounts_ok company"
  by (simp add: accounts_ok_def apart_def company_def empty_world_def table_of_def table_ok_def empty_table_def sample_user_def
      sample_role_def account_clash_def same_role_def role_clash_def) code_simp

lemma hq_hr_user: "user_by_uuid company ''user#2'' = Some (sample_user 2 1 None)"
  by code_simp

theorem self_promotion_witness:
  "\<exists>view v session. assignRoles sample_env ''user#2'' [''1''] hq_hr company = (Inr view, v)
    \<and> jwt_validate ''2'' v = (Inr session, v) \<and> isSystemAdmin session"
proof -
  have ids: "show_nat (ro_id (sample_role 1 ''SUPER_ADMIN'' [])) = ''1''" "show_nat (cu_id hq_hr) = ''2''" by code_simp+
  have "\<exists>view v session. assignRoles sample_env ''user#2'' [show_nat (ro_id (sample_role 1 ''SUPER_ADMIN'' []))] hq_hr company = (Inr view, v)
    \<and> jwt_validate (show_nat (cu_id hq_hr)) v = (Inr session, v) \<and> isSystemAdmin session"
    by (rule self_promotion [OF company_accounts hq_hr_user])
      (simp_all add: sample_user_def sample_role_def hq_hr_def actor_of_def isBranchManager_def company_def table_of_def)
  then show ?thesis unfolding ids .
qed

text \<open>C22.  A branch manager who may not read all users and asks for the users of another location gets
  them: the filter of the request replaces the clause of his own location.\<close>

theorem user_filter_replaces_scope:
  assumes "\<not> isSystemAdmin actor" and "\<not> hasEffectivePermission actor ''users.read_all''" and "isBranchManager actor"
    and "truthy (cu_location actor)"
  shows "\<exists>vs. list_users actor \<lparr>uf_q = None, uf_status = None, uf_location = Some (show_nat l), uf_department = None\<rparr> w = (Inr vs, w)
    \<and> set (map uv_row vs) = {u \<in> set (rows (users w)). \<not> u_deleted u \<and> u_loc u = Some l
      \<and> \<not> list_ex (\<lambda>r. ro_name r = ''SUPER_ADMIN'') (roles_of w (u_id u))}"
  using assms by (rule list_elsewhere)

theorem user_filter_replaces_scope_witness:
  "\<exists>vs. list_users manager \<lparr>uf_q = None, uf_status = None, uf_location = Some ''1'', uf_department = None\<rparr> company = (Inr vs, company)
    \<and> sample_user 2 1 None \<in> set (map uv_row vs) \<and> cu_location manager = Some ''2''"
proof -
  have l: "show_nat 1 = ''1''" by code_simp
  have hr: "list_ex (\<lambda>r. ro_name r = ''SUPER_ADMIN'') (roles_of company (u_id (sample_user 2 1 None))) = False" by code_simp
  have may_not: "hasEffectivePermission manager ''users.read_all'' = False" by code_simp
  obtain vs where "list_users manager \<lparr>uf_q = None, uf_status = None, uf_location = Some (show_nat 1), uf_department = None\<rparr> company = (Inr vs, company)"
    and vs: "set (map uv_row vs) = {u \<in> set (rows (users company)). \<not> u_deleted u \<and> u_loc u = Some 1
      \<and> \<not> list_ex (\<lambda>r. ro_name r = ''SUPER_ADMIN'') (roles_of company (u_id u))}"
    using user_filter_replaces_scope [of manager 1 company] may_not
    by (auto simp: manager_def actor_of_def isSystemAdmin_def isBranchManager_def)
  moreover have "sample_user 2 1 None \<in> set (map uv_row vs)"
    unfolding vs using hr by (simp add: company_def table_of_def sample_user_def)
  ultimately show ?thesis unfolding l by (auto simp: manager_def actor_of_def)
qed

text \<open>C33.  A rejection is final: whatever requests on users, roles and permissions follow, no session is
  ever built for the rejected user again.\<close>

theorem rejection_is_final:
  assumes "table_ok u_id (users w)" and "user_by_uuid w uuid = Some u" and "rejectUser en uuid reason actor w = (Inr r, v)"
    and "accounts_reach v v'"
  shows "jwt_validate (show_nat (u_id u)) v' = (Inl (Unauthorized ''Your session is no longer valid. Please log in again.''), v')"
  by (rule deleted_no_session [OF accounts_reach_deleted [OF assms(4) rejection_deletes [OF assms(1-3)]]])

definition without_hr :: world where
  "without_hr = snd (rejectUser sample_env ''user#2'' ''left'' super_admin company)"

lemma rejection_done: "rejectUser sample_env ''user#2'' ''left'' super_admin company = (Inr (), without_hr)"
proof -
  obtain v where "rejectUser sample_env ''user#2'' ''left'' super_admin company = (Inr (), v)"
    using rejection_runs [OF hq_hr_user, of sample_env "''left''" super_admin] by (auto simp: sample_user_def)
  then show ?thesis by (simp add: without_hr_def)
qed

theorem rejection_is_final_witness:
  "jwt_validate (show_nat 2) (snd (run_account sample_env super_admin (ReactivateUser ''user#2'') without_hr))
    = (Inl (Unauthorized ''Your session is no longer valid. Please log in again.''),
       snd (run_account sample_env super_admin (ReactivateUser ''user#2'') without_hr))"
proof -
  have ok: "table_ok u_id (users company)" using company_accounts by (simp add: accounts_ok_def apart_def)
  have "accounts_reach without_hr (snd (run_account sample_env super_admin (ReactivateUser ''user#2'') without_hr))"
    by (rule accounts_request [OF accounts_start]) (rule prod.collapse [symmetric])
  from rejection_is_final [OF ok hq_hr_user rejection_done this] show ?thesis by (simp add: sample_user_def)
qed




text \<open>C40.  Whatever sequence of requests on users, roles and permissions is served, refused ones included:
  no two accounts share an address or a phone number, nobody holds a role, a key or an override
  twice, a branch has at most one active manager, and the roles of a place have names that
  differ in more than case and punctuation.\<close>

theorem accounts_consistent:
  assumes "accounts_reach w v" and "accounts_ok w"
  shows "(\<forall>u \<in> set (rows (users v)). \<forall>u' \<in> set (rows (users v)). u_email u = u_email u' \<or> u_phone u = u_phone u' \<longrightarrow> u = u')
    \<and> (\<forall>a \<in> set (rows (user_roles v)). \<forall>b \<in> set (rows (user_roles v)). ur_user a = ur_user b \<and> ur_role a = ur_role b \<longrightarrow> a = b)
    \<and> (\<forall>a \<in> set (rows (user_permissions v)). \<forall>b \<in> set (rows (user_permissions v)). up_user a = up_user b \<and> up_key a = up_key b \<longrightarrow> a = b)
    \<and> (\<forall>a \<in> set (rows (user_overrides v)). \<forall>b \<in> set (rows (user_overrides v)). uo_user a = uo_user b \<and> uo_key a = uo_key b \<longrightarrow> a = b)
    \<and> (\<forall>a \<in> set (rows (branch_managers v)). \<forall>b \<in> set (rows (branch_managers v)). bm_active a \<and> bm_active b \<and> bm_loc a = bm_loc b \<longrightarrow> bm_user a = bm_user b)
    \<and> (\<forall>a \<in> set (rows (roles v)). \<forall>b \<in> set (rows (roles v)). ro_loc a = ro_loc b
        \<and> normalizeRoleDuplicateKey (ro_name a) = normalizeRoleDuplicateKey (ro_name b) \<longrightarrow> a = b)"
proof -
  have ok: "accounts_ok v" by (rule accounts_reach_ok [OF assms])
  have managers: "bm_user a = bm_user b" if "a \<in> set (rows (branch_managers v))" "b \<in> set (rows (branch_managers v))"
      "bm_active a \<and> bm_active b \<and> bm_loc a = bm_loc b" for a b
  proof (rule ccontr)
    assume "bm_user a \<noteq> bm_user b"
    with that(3) have "manager_clash a b" by (simp add: manager_clash_def)
    moreover have "apart bm_id manager_clash (branch_managers v)" using ok by (simp add: accounts_ok_def)
    ultimately show False using apart_unique [OF _ that(1,2)] \<open>bm_user a \<noteq> bm_user b\<close> by blast
  qed
  have rules: "apart u_id account_clash (users v)" "apart ur_id same_role (user_roles v)" "apart up_id same_grant (user_permissions v)"
      "apart uo_id same_override (user_overrides v)" "apart ro_id role_clash (roles v)"
    using ok by (simp_all add: accounts_ok_def)
  show ?thesis
    using apart_unique [OF rules(1), unfolded account_clash_def] apart_unique [OF rules(2), unfolded same_role_def]
      apart_unique [OF rules(3), unfolded same_grant_def] apart_unique [OF rules(4), unfolded same_override_def]
      apart_unique [OF rules(5), unfolded role_clash_def] managers
    by (intro conjI ballI impI) blast+
qed

definition newcomer :: user_dto where
  "newcomer = \<lparr>nu_first = ''Lea'', nu_last = ''B'', nu_email = ''lea@reg'', nu_phone = ''9'', nu_location = Some ''2'',
     nu_department = None, nu_roles = [''2''], nu_permissions = [], nu_password = None\<rparr>"

lemma newcomer_created: "map u_email (rows (users (snd (createUser sample_env newcomer (Some super_admin) company))))
    = [''1@reg'', ''2@reg'', ''3@reg'', ''lea@reg'']"
  by code_simp

theorem accounts_consistent_witness:
  "\<exists>v. accounts_reach company v \<and> length (rows (users v)) = 4 \<and> inj_on u_email (set (rows (users v)))"
proof -
  let ?q = "CreateUser newcomer (Some super_admin)"
  define v where "v = snd (run_account sample_env super_admin ?q company)"
  have reach: "accounts_reach company v"
    unfolding v_def by (rule accounts_request [OF accounts_start]) (rule prod.collapse [symmetric])
  have "v = snd (createUser sample_env newcomer (Some super_admin) company)"
    by (simp add: v_def run_account_def bind_def split: prod.split sum.split)
  then have "length (rows (users v)) = 4" using arg_cong [OF newcomer_created, of length] by simp
  moreover have "inj_on u_email (set (rows (users v)))"
    using accounts_consistent [OF reach company_accounts] unfolding inj_on_def by blast
  ultimately show ?thesis using reach by blast
qed

section \<open>Tax versions\<close>

text \<open>C38.  A new rate of the income tax is meant for the next month.  Stored as the UTC date of the
  first midnight of that month in Kigali, it is in force on the last day of the running month,
  so the batch of the running month is already taxed with it.\<close>

theorem tax_change_reaches_the_running_month:
  assumes "to_date en = utc_date" and "civil (kigali_day (now en)) = (y, m, d)" and "d \<noteq> 1"
    and "int (bd_year dto) = y" and "bd_month dto = m" and "bd_end dto = None"
    and "isPitTaxName (js_trim name)" and "updateMonthlyTax en (Some name) (Some rate) w = (Inr t, v)"
    and "\<forall>x \<in> set (rows (monthly_taxes w)). x_active x \<longrightarrow> x_from x < utc_date (period_end dto)"
  shows "map tv_rate (findMonthlyTaxesAtDate en (period_end dto) v) = [rate]"
  using assms by (rule tax_takes_effect)

lemma paye_changed: "isl (fst (updateMonthlyTax (sample_env\<lparr>now := 1736900000000\<rparr>) (Some ''PAYE'') (Some 20) company)) = False"
  by code_simp

theorem tax_change_reaches_the_running_month_witness:
  "\<exists>t v. updateMonthlyTax (sample_env\<lparr>now := 1736900000000\<rparr>) (Some ''PAYE'') (Some 20) company = (Inr t, v)
    \<and> map tv_rate (findMonthlyTaxesAtDate (sample_env\<lparr>now := 1736900000000\<rparr>) (period_end january) v) = [20]"
proof -
  let ?en = "sample_env\<lparr>now := 1736900000000\<rparr>"
  have paye: "isPitTaxName (js_trim ''PAYE'')" and "civil (kigali_day 1736900000000) = (2025, 1, 15)" by code_simp+
  then have today: "civil (kigali_day (now ?en)) = (2025, 1, 15)" by simp
  obtain t v where run: "updateMonthlyTax ?en (Some ''PAYE'') (Some 20) company = (Inr t, v)"
    using paye_changed by (cases "updateMonthlyTax ?en (Some ''PAYE'') (Some 20) company";
        cases "fst (updateMonthlyTax ?en (Some ''PAYE'') (Some 20) company)") auto
  have none: "\<forall>x \<in> set (rows (monthly_taxes company)). x_active x \<longrightarrow> x_from x < utc_date (period_end january)"
    by (simp add: company_def empty_world_def)
  have "map tv_rate (findMonthlyTaxesAtDate ?en (period_end january) v) = [20]"
    by (rule tax_change_reaches_the_running_month [OF _ today _ _ _ _ paye run none])
      (simp_all add: sample_env_def january_def)
  with run show ?thesis by (intro exI conjI)
qed

end
